(* ===== verification/Firmware_Prelude.thy ===== *)
theory Firmware_Prelude
  imports Complex_Main "HOL-Library.Word" "HOL-Library.Log_Nat"
begin

text \<open>
  Shared vocabulary of the development: the C integer types at their width, the
  byte-buffer primitives every wire format of the firmware is built from, the
  arithmetic facts that move word computations to natural numbers, and the
  collection of constants the component theories extend.
\<close>

unbundle bit_operations_syntax

section \<open>C integer types\<close>

type_synonym u8 = "8 word"
type_synonym u16 = "16 word"
type_synonym u32 = "32 word"
type_synonym u64 = "64 word"
type_synonym bytes = "u8 list"

section \<open>Collections of rewrite rules\<close>

named_theorems fw_const \<open>values of the preprocessor constants of the firmware\<close>

section \<open>Words as natural numbers\<close>

text \<open>
  Range facts and the width conversions of C casts. The conditional rules say when a
  computation at a fixed width agrees with the one on natural numbers.
\<close>

lemma u8_lt: "unat (x :: u8) < 256"
  using unsigned_less [of x] by simp

lemma u16_lt: "unat (x :: u16) < 65536"
  using unsigned_less [of x] by simp

lemma u32_lt: "unat (x :: u32) < 4294967296"
  using unsigned_less [of x] by simp

lemma unat_ucast_up [simp]:
  "LENGTH('a::len) \<le> LENGTH('b::len) \<Longrightarrow> unat (ucast (x :: 'a word) :: 'b word) = unat x"
  by (metis is_up.rep_eq uint_up_ucast unat_eq_nat_uint)

lemma unat_ucast_down:
  "unat (x :: 'a::len word) < 2 ^ LENGTH('b::len) \<Longrightarrow> unat (ucast x :: 'b word) = unat x"
  by (simp add: unsigned_ucast_eq take_bit_nat_eq_self)

lemma unat_add_small:
  "unat x + unat y < 2 ^ LENGTH('a::len) \<Longrightarrow> unat (x + y :: 'a word) = unat x + unat y"
  by (simp add: unat_word_ariths)

lemma unat_mult_small:
  "unat x * unat y < 2 ^ LENGTH('a::len) \<Longrightarrow> unat (x * y :: 'a word) = unat x * unat y"
  by (simp add: unat_word_ariths)

lemma unat_push_small:
  "unat x * 2 ^ n < 2 ^ LENGTH('a::len) \<Longrightarrow> unat (push_bit n (x :: 'a word)) = unat x * 2 ^ n"
  by (simp only: unsigned_push_bit_eq push_bit_eq_mult [of n "unat x"] take_bit_nat_eq_self)

lemma unat_drop [simp]: "unat (drop_bit n (x :: 'a::len word)) = unat x div 2 ^ n"
  by (simp only: unat_drop_bit_eq drop_bit_eq_div [of n "unat x"])

lemma word_le_unat: "x \<le> y \<longleftrightarrow> unat x \<le> unat (y :: 'a::len word)"
  by (rule word_le_nat_alt)

lemma word_less_unat: "x < y \<longleftrightarrow> unat x < unat (y :: 'a::len word)"
  by (rule word_less_nat_alt)

lemma word_one_le: "1 \<le> x \<longleftrightarrow> x \<noteq> (0 :: 'a::len word)"
  using unat_gt_0 [of x] by (auto simp: word_le_unat Suc_le_eq)

lemma unat_pos: "x \<noteq> 0 \<Longrightarrow> 0 < unat (x :: 'a::len word)"
  by (simp add: unat_gt_0)

text \<open>Rounded division on natural numbers, as the fixed-point code writes it.\<close>

lemma div_round_bounds:
  fixes n b :: nat
  assumes "0 < b"
  shows "2 * n \<le> 2 * b * ((n + b div 2) div b) + b" and "2 * b * ((n + b div 2) div b) \<le> 2 * n + b"
proof -
  let ?q = "(n + b div 2) div b"
  have "b * ?q + (n + b div 2) mod b = n + b div 2"
    by (simp add: mult.commute)
  moreover have "(n + b div 2) mod b < b" using assms by simp
  ultimately show "2 * n \<le> 2 * b * ?q + b" and "2 * b * ?q \<le> 2 * n + b"
    by linarith+
qed

section \<open>Byte buffers\<close>

text \<open>
  The big- and little-endian accessors the wire formats share. A read beyond the buffer has
  no value in C; every caller in the firmware checks the length first, and so do the models.
\<close>

definition put_u16_be :: "u16 \<Rightarrow> bytes" where
  "put_u16_be v = [ucast (drop_bit 8 v), ucast v]"

definition get_u16_be :: "bytes \<Rightarrow> nat \<Rightarrow> u16" where
  "get_u16_be p i = push_bit 8 (ucast (p ! i)) OR ucast (p ! Suc i)"

definition get_u16_le :: "bytes \<Rightarrow> nat \<Rightarrow> u16" where
  "get_u16_le p i = push_bit 8 (ucast (p ! Suc i)) OR ucast (p ! i)"

definition put_u32_be :: "u32 \<Rightarrow> bytes" where
  "put_u32_be v = [ucast (drop_bit 24 v), ucast (drop_bit 16 v), ucast (drop_bit 8 v), ucast v]"

definition get_u32_be :: "bytes \<Rightarrow> nat \<Rightarrow> u32" where
  "get_u32_be p i = push_bit 24 (ucast (p ! i)) OR push_bit 16 (ucast (p ! (i + 1)))
     OR push_bit 8 (ucast (p ! (i + 2))) OR ucast (p ! (i + 3))"

text \<open>\<open>n\<close> bytes of a buffer from an offset, as \<open>memcpy\<close> and \<open>memcmp\<close> read them.\<close>

definition slice :: "nat \<Rightarrow> nat \<Rightarrow> bytes \<Rightarrow> bytes" where
  "slice i n p = take n (drop i p)"

text \<open>Writing a run of bytes over a buffer at an offset.\<close>

definition blit :: "bytes \<Rightarrow> nat \<Rightarrow> bytes \<Rightarrow> bytes" where
  "blit buf i xs = take i buf @ xs @ drop (i + length xs) buf"

lemma join_split_u16 [simp]:
  "push_bit 8 (ucast (ucast (drop_bit 8 v) :: u8)) OR ucast (ucast v :: u8) = (v :: u16)"
  by (rule bit_word_eqI) (auto simp: bit_simps)

lemma join_split_u32 [simp]:
  "push_bit 24 (ucast (ucast (drop_bit 24 v) :: u8)) OR push_bit 16 (ucast (ucast (drop_bit 16 v) :: u8))
   OR push_bit 8 (ucast (ucast (drop_bit 8 v) :: u8)) OR ucast (ucast v :: u8) = (v :: u32)" (is "?l = v")
proof (rule bit_word_eqI)
  fix n assume "n < LENGTH(32)"
  then consider "n < 8" | "8 \<le> n" "n < 16" | "16 \<le> n" "n < 24" | "24 \<le> n" "n < 32" by fastforce
  then show "bit ?l n = bit v n" by cases (auto simp: bit_simps)
qed

lemma mask_byte: "(0xff :: u16) = mask 8" "(0xff :: u32) = mask 8"
  by (simp_all add: mask_eq_exp_minus_1)

lemma ucast_low_byte [simp]:
  "(ucast (v AND 0xff :: u16) :: u8) = ucast v" "(ucast (w AND 0xff :: u32) :: u8) = ucast w"
  unfolding mask_byte by (rule bit_word_eqI, auto simp: bit_simps)+

lemma length_put [simp]: "length (put_u16_be v) = 2" "length (put_u32_be w) = 4"
  by (simp_all add: put_u16_be_def put_u32_be_def)

lemma length_slice: "i + n \<le> length p \<Longrightarrow> length (slice i n p) = n"
  by (simp add: slice_def)

lemma length_blit [simp]: "i + length xs \<le> length buf \<Longrightarrow> length (blit buf i xs) = length buf"
  by (simp add: blit_def)

lemma slice_blit: "i + length xs \<le> length buf \<Longrightarrow> slice i (length xs) (blit buf i xs) = xs"
  by (simp add: slice_def blit_def)

section \<open>Guarded corrections\<close>

text \<open>
  The idiom of the sanitisers: when a field fails its check it is corrected and the
  \<open>ok\<close> flag is cleared; otherwise value and flag pass through.
\<close>

definition clamp_if :: "('c \<Rightarrow> bool) \<Rightarrow> ('c \<Rightarrow> 'c) \<Rightarrow> 'c \<times> bool \<Rightarrow> 'c \<times> bool" where
  "clamp_if bad fix p = (if bad (fst p) then (fix (fst p), False) else p)"

text \<open>
  How one field \<open>g\<close> fares: a correction of another field leaves it alone, a correction that
  sets it to \<open>k\<close> does so when the check fails. Each component instantiates the two with its
  selectors, which keeps the evaluation of a long chain linear.
\<close>

lemma clamp_if_skip: "(\<And>c. g (fix c) = g c) \<Longrightarrow> g (fst (clamp_if bad fix p)) = g (fst p)"
  by (simp add: clamp_if_def)

lemma clamp_if_set:
  "(\<And>c. g (fix c) = k) \<Longrightarrow> g (fst (clamp_if bad fix p)) = (if bad (fst p) then k else g (fst p))"
  by (simp add: clamp_if_def)

lemma clamp_if_snd: "snd (clamp_if bad fix p) = (snd p \<and> \<not> bad (fst p))"
  by (simp add: clamp_if_def)

lemma less_if: "b < (if P then x else y) \<longleftrightarrow> (P \<and> b < x) \<or> (\<not> P \<and> b < y)"
  and if_less: "(if P then x else y) < b \<longleftrightarrow> (P \<and> x < b) \<or> (\<not> P \<and> y < b)"
  by simp_all

end
