(* ===== verification/Float32_Model.thy ===== *)
theory Float32_Model
  imports Firmware_Prelude
begin

text \<open>
  The C type \<open>float\<close> (IEEE 754 binary32, round to nearest even) as the source uses it:
  a float is the rational it denotes, and every arithmetic operation is the exact
  rational operation followed by \<open>f32_round\<close>. The values of this firmware stay far
  below the overflow threshold, so infinities do not occur; expressions are evaluated
  operation by operation, without contraction into fused multiply-add. The quantum of a
  value is a multiple of the smallest subnormal \<open>2^-149\<close>, which is why rounding scales
  by \<open>2^149\<close> first.
\<close>

definition round_half_even :: "rat \<Rightarrow> int" where
  "round_half_even y =
     (let f = \<lfloor>y\<rfloor>; d = y - of_int f
      in if d < 1/2 then f else if 1/2 < d then f + 1 else if even f then f else f + 1)"

definition f32_pos :: "rat \<Rightarrow> rat" where
  "f32_pos x =
     (let n = x * 2 ^ 149; u = 2 ^ (floorlog 2 (nat \<lfloor>n\<rfloor>) - 24)
      in of_int (round_half_even (n / u)) * u / 2 ^ 149)"

definition f32_round :: "rat \<Rightarrow> rat" where
  "f32_round x = (if x < 0 then - f32_pos (- x) else f32_pos x)"

definition f32_add :: "rat \<Rightarrow> rat \<Rightarrow> rat" where
  "f32_add a b = f32_round (a + b)"

definition f32_mul :: "rat \<Rightarrow> rat \<Rightarrow> rat" where
  "f32_mul a b = f32_round (a * b)"

definition f32_div :: "rat \<Rightarrow> rat \<Rightarrow> rat" where
  "f32_div a b = f32_round (a / b)"

section \<open>Error of one rounding\<close>

lemma round_half_even_error: "\<bar>of_int (round_half_even y) - y\<bar> \<le> 1/2"
proof -
  have "of_int \<lfloor>y\<rfloor> \<le> y" and "y < of_int \<lfloor>y\<rfloor> + 1"
    using floor_correct [of y] by auto
  then show ?thesis
    by (auto simp: round_half_even_def Let_def abs_le_iff)
qed

lemma round_half_even_nonneg: "0 \<le> y \<Longrightarrow> 0 \<le> round_half_even y"
  by (auto simp: round_half_even_def Let_def)

lemma f32_pos_nonneg: "0 \<le> x \<Longrightarrow> 0 \<le> f32_pos x"
  by (simp add: f32_pos_def Let_def round_half_even_nonneg)

lemma f32_round_nonneg: "0 \<le> x \<Longrightarrow> 0 \<le> f32_round x"
  by (simp add: f32_round_def f32_pos_nonneg)

text \<open>Below \<open>2^17\<close> one rounding moves a value by at most \<open>2^-8\<close>.\<close>

lemma f32_round_error:
  assumes "0 \<le> x" and "x < 2 ^ 17"
  shows "x - 1/256 \<le> f32_round x" and "f32_round x \<le> x + 1/256"
proof -
  let ?n = "x * 2 ^ 149"
  define e where "e = floorlog 2 (nat \<lfloor>?n\<rfloor>) - 24"
  define u :: rat where "u = 2 ^ e"
  have n_lt: "?n < 2 ^ 166"
  proof -
    have "?n < 2 ^ 17 * 2 ^ 149" using assms(2) by (simp add: mult_strict_right_mono)
    then show ?thesis by (simp add: power_add [symmetric])
  qed
  have "nat \<lfloor>?n\<rfloor> < 2 ^ 166"
  proof -
    have "\<lfloor>?n\<rfloor> < 2 ^ 166" using n_lt by (simp add: floor_less_iff)
    then show ?thesis by (simp add: nat_less_iff assms(1))
  qed
  then have "floorlog 2 (nat \<lfloor>?n\<rfloor>) \<le> 166"
    by (simp add: floorlog_le_iff)
  then have "e \<le> 142" by (simp add: e_def)
  then have u_le: "u \<le> 2 ^ 142"
    unfolding u_def by (rule power_increasing) auto
  have u_pos: "0 < u" by (simp add: u_def)
  let ?r = "of_int (round_half_even (?n / u)) :: rat"
  have scale: "r * u / k - x = (r - x * k / u) * u / k" if "0 < k" for r k :: rat
    using that u_pos by (simp add: field_simps)
  have "f32_round x = ?r * u / 2 ^ 149"
    unfolding f32_round_def f32_pos_def Let_def u_def e_def using assms(1) by simp
  then have diff: "f32_round x - x = (?r - ?n / u) * u / 2 ^ 149"
    using scale [of "2 ^ 149" ?r] by simp
  have scaled_abs: "\<bar>y * u / k\<bar> = \<bar>y\<bar> * u / k" if "0 < k" for y k :: rat
    using that u_pos by (simp add: abs_mult)
  have "\<bar>f32_round x - x\<bar> = \<bar>(?r - ?n / u) * u / 2 ^ 149\<bar>"
    by (simp only: diff)
  also have "\<dots> = \<bar>?r - ?n / u\<bar> * u / 2 ^ 149"
    by (rule scaled_abs) simp
  also have "\<dots> \<le> (1/2) * 2 ^ 142 / 2 ^ 149"
    using round_half_even_error [of "?n / u"] u_le u_pos
    by (intro divide_right_mono mult_mono) auto
  finally have "\<bar>f32_round x - x\<bar> \<le> 1 / 256" by simp
  then show "x - 1/256 \<le> f32_round x" and "f32_round x \<le> x + 1/256"
    by linarith+
qed

end
