(* ===== verification/HV9910_Curve.thy ===== *)
theory HV9910_Curve
  imports Float32_Model
begin

text \<open>
  The brightness-to-duty mapping of \<open>components/hv9910/hv9910_curve.c\<close>: fixed-point Q16
  values as 32-bit words, the three dimming modes, the minimum-on-time snap and the
  single-precision output-power linearization. \<open>powf\<close> is the C library's power
  function, whose rounding the C standard leaves to the implementation: it is an argument,
  and no property here restricts it.
\<close>

definition HV9910_Q_BITS :: nat where [fw_const]: "HV9910_Q_BITS = 16"
definition HV9910_Q_ONE :: u32 where "HV9910_Q_ONE = push_bit HV9910_Q_BITS 1"

lemma Q_ONE_eq [fw_const]: "HV9910_Q_ONE = 65536"
  by (simp add: HV9910_Q_ONE_def HV9910_Q_BITS_def)

lemma unat_Q_ONE [simp]: "unat HV9910_Q_ONE = 65536"
  by (simp add: fw_const)

text \<open>\<open>hv9910_dim_mode_t\<close>, stored in a \<open>uint8_t\<close> everywhere.\<close>

definition HV9910_DIM_PWM :: u8 where [fw_const]: "HV9910_DIM_PWM = 0"
definition HV9910_DIM_ANALOG :: u8 where [fw_const]: "HV9910_DIM_ANALOG = 1"
definition HV9910_DIM_HYBRID :: u8 where [fw_const]: "HV9910_DIM_HYBRID = 2"

record curve_out =
  ld_duty_q :: u32
  pwmd_duty_q :: u32
  want_lit :: bool

section \<open>Translation\<close>

definition q_div :: "u32 \<Rightarrow> u32 \<Rightarrow> u32" where
  "q_div a b =
     (if b = 0 then HV9910_Q_ONE
      else ucast ((push_bit HV9910_Q_BITS (ucast a) + ucast (drop_bit 1 b) :: u64) div ucast b))"

definition LIN_DCM_GAIN :: rat where "LIN_DCM_GAIN = f32_round (1046 / 1000)"
definition LIN_DCM_EXP :: rat where "LIN_DCM_EXP = f32_round (416 / 1000)"
definition LIN_CCM_BASE :: rat where "LIN_CCM_BASE = f32_round (767 / 1000)"
definition LIN_CCM_SLOPE :: rat where "LIN_CCM_SLOPE = f32_round (233 / 1000)"

definition linearize_ld :: "(rat \<Rightarrow> rat \<Rightarrow> rat) \<Rightarrow> u32 \<Rightarrow> u32" where
  "linearize_ld powf l =
     (if l = 0 \<or> HV9910_Q_ONE \<le> l then l
      else
        let p = f32_div (f32_round (of_nat (unat l))) (f32_round (of_nat (unat HV9910_Q_ONE)));
            dcm = f32_mul LIN_DCM_GAIN (powf p LIN_DCM_EXP);
            ccm = f32_add LIN_CCM_BASE (f32_mul LIN_CCM_SLOPE p);
            drive = (if dcm < ccm then dcm else ccm);
            drive = (if drive < 0 then 0 else drive);
            drive = (if 1 < drive then 1 else drive)
        in of_int \<lfloor>f32_add (f32_mul drive (f32_round (of_nat (unat HV9910_Q_ONE)))) (1/2)\<rfloor>)"

definition snap_pwmd :: "u32 \<Rightarrow> u32 \<Rightarrow> u32 \<times> bool" where
  "snap_pwmd d floor_q =
     (if floor_q = 0 then (d, 0 < d)
      else if floor_q \<le> d then (d, True)
      else if drop_bit 1 floor_q \<le> d then (floor_q, True)
      else (0, False))"

definition hv9910_curve_eval ::
  "(rat \<Rightarrow> rat \<Rightarrow> rat) \<Rightarrow> u8 \<Rightarrow> u32 \<Rightarrow> u32 \<Rightarrow> u32 \<Rightarrow> bool \<Rightarrow> curve_out" where
  "hv9910_curve_eval powf mode level_q0 crossover_q0 min_on_frac_q0 linearize =
     (let level_q = (if HV9910_Q_ONE < level_q0 then HV9910_Q_ONE else level_q0);
          min_on_frac_q = (if HV9910_Q_ONE < min_on_frac_q0 then HV9910_Q_ONE else min_on_frac_q0)
      in if level_q = 0 then \<lparr>ld_duty_q = 0, pwmd_duty_q = 0, want_lit = False\<rparr>
      else
        let out =
          (if mode = HV9910_DIM_ANALOG then
             \<lparr>ld_duty_q = level_q, pwmd_duty_q = HV9910_Q_ONE, want_lit = True\<rparr>
           else if mode = HV9910_DIM_PWM then
             (case snap_pwmd level_q min_on_frac_q of (duty, lit) \<Rightarrow>
                \<lparr>ld_duty_q = HV9910_Q_ONE, pwmd_duty_q = duty, want_lit = lit\<rparr>)
           else
             let crossover_q = (if crossover_q0 = 0 then 1 else crossover_q0);
                 crossover_q = (if HV9910_Q_ONE < crossover_q then HV9910_Q_ONE else crossover_q)
             in if crossover_q \<le> level_q then
                  \<lparr>ld_duty_q = level_q, pwmd_duty_q = HV9910_Q_ONE, want_lit = True\<rparr>
                else
                  (case snap_pwmd (q_div level_q crossover_q) min_on_frac_q of (duty, lit) \<Rightarrow>
                     \<lparr>ld_duty_q = crossover_q, pwmd_duty_q = duty, want_lit = lit\<rparr>))
        in if linearize then out\<lparr>ld_duty_q := linearize_ld powf (ld_duty_q out)\<rparr> else out)"

section \<open>Fixed-point division\<close>

lemma unat_q_div:
  assumes "b \<noteq> 0" and "a \<le> b"
  shows "unat (q_div a b) = (unat a * 65536 + unat b div 2) div unat b"
    and "q_div a b \<le> HV9910_Q_ONE"
proof -
  let ?n = "push_bit 16 (ucast a) + ucast (drop_bit 1 b) :: u64"
  have sh: "unat (push_bit 16 (ucast a) :: u64) = unat a * 65536"
    using u32_lt [of a] by (subst unat_push_small) auto
  have n: "unat ?n = unat a * 65536 + unat b div 2"
    using u32_lt [of a] u32_lt [of b] by (subst unat_add_small) (auto simp: sh)
  have b: "0 < unat b" using assms(1) by (rule unat_pos)
  have d: "unat (?n div ucast b) = (unat a * 65536 + unat b div 2) div unat b"
    by (simp only: unat_div n) simp
  have le: "(unat a * 65536 + unat b div 2) div unat b \<le> 65536"
  proof -
    have "unat a \<le> unat b" using assms(2) by (simp add: word_le_unat)
    then have "unat a * 65536 + unat b div 2 < 65537 * unat b" using b by linarith
    then show ?thesis by (simp add: div_less_iff_less_mult b less_Suc_eq_le [symmetric])
  qed
  show eq: "unat (q_div a b) = (unat a * 65536 + unat b div 2) div unat b"
    using assms(1) d le by (simp add: q_div_def HV9910_Q_BITS_def unat_ucast_down)
  show "q_div a b \<le> HV9910_Q_ONE"
    using eq le by (simp add: word_le_unat)
qed

text \<open>The rounded quotient is within half a divisor of the exact scaled value.\<close>

lemma q_div_error:
  assumes "b \<noteq> 0" and "a \<le> b"
  shows "2 * (unat a * 65536) \<le> 2 * unat b * unat (q_div a b) + unat b"
    and "2 * unat b * unat (q_div a b) \<le> 2 * (unat a * 65536) + unat b"
  using div_round_bounds [OF unat_pos [OF assms(1)], of "unat a * 65536"]
  by (simp_all add: unat_q_div(1) [OF assms])

lemma q_div_mono:
  assumes "b \<noteq> 0" and "a \<le> a'" and "a' \<le> b"
  shows "q_div a b \<le> q_div a' b"
proof -
  have "a \<le> b" using assms(2,3) by (rule order_trans)
  then show ?thesis using assms
    by (simp add: word_le_unat unat_q_div(1) div_le_mono)
qed

lemma q_div_self: "b \<noteq> 0 \<Longrightarrow> q_div b b = HV9910_Q_ONE"
proof -
  assume b: "b \<noteq> 0"
  then have "(unat b * 65536 + unat b div 2) div unat b = 65536"
    using unat_pos [OF b] by (simp add: div_add1_eq [of "unat b * 65536"])
  then have "unat (q_div b b) = unat HV9910_Q_ONE"
    using unat_q_div(1) [OF b order_refl] by simp
  then show ?thesis by (simp only: word_unat_eq_iff)
qed

section \<open>Snap and linearization\<close>

lemma snap_pwmd_cases:
  assumes "snap_pwmd d f = (duty, lit)"
  shows "(lit \<longleftrightarrow> 0 < duty) \<and> (duty = 0 \<or> f \<le> duty) \<and> (d \<le> HV9910_Q_ONE \<longrightarrow> f \<le> HV9910_Q_ONE \<longrightarrow> duty \<le> HV9910_Q_ONE)"
  using assms unat_pos [of f]
  by (auto simp: snap_pwmd_def word_less_unat word_le_unat split: if_splits)

lemma snap_pwmd_mono: "d \<le> d' \<Longrightarrow> fst (snap_pwmd d f) \<le> fst (snap_pwmd d' f)"
  by (auto simp: snap_pwmd_def word_less_unat word_le_unat)

lemma linearize_ld_le: "l \<le> HV9910_Q_ONE \<Longrightarrow> linearize_ld powf l \<le> HV9910_Q_ONE"
proof -
  assume l: "l \<le> HV9910_Q_ONE"
  have key: "of_int \<lfloor>f32_add (f32_mul drive (f32_round 65536)) (1/2)\<rfloor> \<le> HV9910_Q_ONE"
    if drive: "0 \<le> drive" "drive \<le> 1" for drive
  proof -
    have q1: "f32_round 65536 \<le> 65536 + 1/256" and q0: "0 \<le> f32_round 65536"
      using f32_round_error [of 65536] by (simp_all add: f32_round_nonneg)
    let ?t = "f32_mul drive (f32_round 65536)"
    have m: "drive * f32_round 65536 \<le> 65536 + 1/256"
      using mult_right_mono [OF drive(2) q0] q1 by simp
    have m0: "0 \<le> drive * f32_round 65536" using drive(1) q0 by simp
    have t: "0 \<le> ?t" "?t \<le> 65536 + 1/256 + 1/256"
      using f32_round_error [of "drive * f32_round 65536"] m m0
      by (simp_all add: f32_mul_def f32_round_nonneg)
    have s: "0 \<le> f32_add ?t (1/2)" "f32_add ?t (1/2) < 65537"
      using f32_round_error [of "?t + 1/2"] t
      by (simp_all add: f32_add_def f32_round_nonneg)
    let ?r = "\<lfloor>f32_add ?t (1/2)\<rfloor>"
    have r: "0 \<le> ?r" "?r < 65537" using s by (auto simp: floor_less_iff)
    have "unat (of_int ?r :: u32) = nat ?r"
      using r by (simp add: unsigned_of_int take_bit_int_eq_self)
    moreover have "nat ?r \<le> 65536" using r by linarith
    ultimately show ?thesis by (simp only: word_le_unat unat_Q_ONE)
  qed
  show ?thesis
    using l key by (auto simp: linearize_ld_def Let_def)
qed

section \<open>What the mapping guarantees\<close>

text \<open>
  The light output of a pair of duties, in units of \<open>1 / Q_ONE\<close> squared: the LD
  reference times the PWMD duty (\<open>Phi\<close> in the comment of \<open>hv9910_curve.h\<close>).
\<close>

definition light_output :: "curve_out \<Rightarrow> nat" where
  "light_output out = unat (ld_duty_q out) * unat (pwmd_duty_q out)"

text \<open>The knee and the burst floor after the clamps of \<open>hv9910_curve_eval\<close>.\<close>

definition knee :: "u32 \<Rightarrow> u32" where
  "knee c = (if c = 0 then 1 else if HV9910_Q_ONE < c then HV9910_Q_ONE else c)"

definition clamp_q :: "u32 \<Rightarrow> u32" where
  "clamp_q x = (if HV9910_Q_ONE < x then HV9910_Q_ONE else x)"

lemma clamp_q_le [simp]: "clamp_q x \<le> HV9910_Q_ONE"
  by (simp add: clamp_q_def not_less)

lemma clamp_q_id [simp]: "x \<le> HV9910_Q_ONE \<Longrightarrow> clamp_q x = x"
  by (simp add: clamp_q_def not_less [symmetric])

lemma knee_range: "knee c \<noteq> 0" "knee c \<le> HV9910_Q_ONE"
  by (auto simp: knee_def fw_const)

lemma knee_alt: "knee c = clamp_q (if c = 0 then 1 else c)"
  by (simp add: knee_def clamp_q_def fw_const)

lemma curve_eval_zero [simp]:
  "hv9910_curve_eval powf mode 0 c m lin = \<lparr>ld_duty_q = 0, pwmd_duty_q = 0, want_lit = False\<rparr>"
  by (simp add: hv9910_curve_eval_def fw_const)

text \<open>The three modes as equations, for a nonzero level.\<close>

definition raw_out :: "u8 \<Rightarrow> u32 \<Rightarrow> u32 \<Rightarrow> u32 \<Rightarrow> curve_out" where
  "raw_out mode l c m =
     (if mode = HV9910_DIM_ANALOG then
        \<lparr>ld_duty_q = l, pwmd_duty_q = HV9910_Q_ONE, want_lit = True\<rparr>
      else if mode = HV9910_DIM_PWM then
        \<lparr>ld_duty_q = HV9910_Q_ONE, pwmd_duty_q = fst (snap_pwmd l m), want_lit = snd (snap_pwmd l m)\<rparr>
      else if c \<le> l then
        \<lparr>ld_duty_q = l, pwmd_duty_q = HV9910_Q_ONE, want_lit = True\<rparr>
      else
        \<lparr>ld_duty_q = c, pwmd_duty_q = fst (snap_pwmd (q_div l c) m),
         want_lit = snd (snap_pwmd (q_div l c) m)\<rparr>)"

lemma curve_eval_raw:
  "clamp_q l \<noteq> 0 \<Longrightarrow> hv9910_curve_eval powf mode l c m lin =
     (let out = raw_out mode (clamp_q l) (knee c) (clamp_q m)
      in if lin then out\<lparr>ld_duty_q := linearize_ld powf (ld_duty_q out)\<rparr> else out)"
  unfolding hv9910_curve_eval_def raw_out_def knee_alt clamp_q_def [symmetric] Let_def
  by (auto split: prod.split simp: clamp_q_def)

lemma clamp_q_eq_0 [simp]: "clamp_q l = 0 \<longleftrightarrow> l = 0"
  by (auto simp: clamp_q_def fw_const)

lemma raw_out_bounds:
  assumes "l \<le> HV9910_Q_ONE" "c \<le> HV9910_Q_ONE" "c \<noteq> 0" "m \<le> HV9910_Q_ONE" "l \<noteq> 0"
  shows "ld_duty_q (raw_out mode l c m) \<le> HV9910_Q_ONE
       \<and> pwmd_duty_q (raw_out mode l c m) \<le> HV9910_Q_ONE
       \<and> (want_lit (raw_out mode l c m) \<longleftrightarrow> 0 < pwmd_duty_q (raw_out mode l c m))
       \<and> (pwmd_duty_q (raw_out mode l c m) = 0 \<or> m \<le> pwmd_duty_q (raw_out mode l c m))"
proof -
  have Q: "0 < HV9910_Q_ONE" by (simp add: fw_const)
  have sn: "(snd (snap_pwmd d m) \<longleftrightarrow> 0 < fst (snap_pwmd d m))
      \<and> (fst (snap_pwmd d m) = 0 \<or> m \<le> fst (snap_pwmd d m))
      \<and> (d \<le> HV9910_Q_ONE \<longrightarrow> fst (snap_pwmd d m) \<le> HV9910_Q_ONE)" for d
    using snap_pwmd_cases [of d m "fst (snap_pwmd d m)" "snd (snap_pwmd d m)"] assms(4) by simp
  have qd: "q_div l c \<le> HV9910_Q_ONE" if "\<not> c \<le> l"
    using unat_q_div(2) [OF assms(3)] that by simp
  show ?thesis
    using assms Q sn [of l] sn [of "q_div l c"] qd
    by (simp add: raw_out_def)
qed

lemma curve_eval_bounds:
  fixes powf mode level_q crossover_q min_on_frac_q lin
  defines "out \<equiv> hv9910_curve_eval powf mode level_q crossover_q min_on_frac_q lin"
  shows "ld_duty_q out \<le> HV9910_Q_ONE" "pwmd_duty_q out \<le> HV9910_Q_ONE"
    "want_lit out \<longleftrightarrow> 0 < pwmd_duty_q out"
    "pwmd_duty_q out = 0 \<or> clamp_q min_on_frac_q \<le> pwmd_duty_q out"
    "level_q = 0 \<Longrightarrow> \<not> want_lit out"
proof -
  have Q: "0 \<le> HV9910_Q_ONE" by simp
  have *: "ld_duty_q out \<le> HV9910_Q_ONE \<and> pwmd_duty_q out \<le> HV9910_Q_ONE
      \<and> (want_lit out \<longleftrightarrow> 0 < pwmd_duty_q out)
      \<and> (pwmd_duty_q out = 0 \<or> clamp_q min_on_frac_q \<le> pwmd_duty_q out)"
  proof (cases "level_q = 0")
    case True
    then show ?thesis by (simp add: out_def)
  next
    case False
    then show ?thesis
      using raw_out_bounds [of "clamp_q level_q" "knee crossover_q" "clamp_q min_on_frac_q" mode]
        knee_range [of crossover_q]
      by (simp add: out_def curve_eval_raw Let_def linearize_ld_le)
  qed
  then show "ld_duty_q out \<le> HV9910_Q_ONE" "pwmd_duty_q out \<le> HV9910_Q_ONE"
    "want_lit out \<longleftrightarrow> 0 < pwmd_duty_q out"
    "pwmd_duty_q out = 0 \<or> clamp_q min_on_frac_q \<le> pwmd_duty_q out"
    by auto
  show "\<not> want_lit out" if "level_q = 0"
    using that by (simp add: out_def)
qed

lemma light_output_raw_mono:
  assumes "l \<le> l'" "l' \<le> HV9910_Q_ONE" "c \<noteq> 0" "c \<le> HV9910_Q_ONE" "m \<le> HV9910_Q_ONE"
  shows "light_output (raw_out mode l c m) \<le> light_output (raw_out mode l' c m)"
proof -
  have le: "l \<le> HV9910_Q_ONE" using assms(1,2) by (rule order_trans)
  have s: "unat (fst (snap_pwmd l m)) \<le> unat (fst (snap_pwmd l' m))"
    using snap_pwmd_mono [OF assms(1)] by (simp add: word_le_unat)
  have ll: "unat l \<le> unat l'" using assms(1) by (simp add: word_le_unat)
  show ?thesis
  proof (cases "mode = HV9910_DIM_ANALOG \<or> mode = HV9910_DIM_PWM")
    case True
    then show ?thesis using s ll by (auto simp: raw_out_def light_output_def)
  next
    case False
    consider "c \<le> l" | "\<not> c \<le> l" "c \<le> l'" | "\<not> c \<le> l" "\<not> c \<le> l'" by blast
    then show ?thesis
    proof cases
      case 1
      with False ll assms(1) show ?thesis by (simp add: raw_out_def light_output_def order_trans [OF 1])
    next
      case 2
      have "fst (snap_pwmd (q_div l c) m) \<le> HV9910_Q_ONE"
        using snap_pwmd_cases [of "q_div l c" m] unat_q_div(2) [OF assms(3)] 2 assms(5)
        by (cases "snap_pwmd (q_div l c) m") auto
      then have "unat c * unat (fst (snap_pwmd (q_div l c) m)) \<le> unat l' * 65536"
        using 2(2) by (intro mult_mono) (auto simp: word_le_unat)
      with False 2 show ?thesis by (simp add: raw_out_def light_output_def)
    next
      case 3
      have "q_div l c \<le> q_div l' c" using q_div_mono [OF assms(3,1)] 3 by simp
      from snap_pwmd_mono [OF this, of m] False 3 show ?thesis
        by (simp add: raw_out_def light_output_def word_le_unat)
    qed
  qed
qed

lemma light_output_hybrid_exact:
  assumes "l \<le> HV9910_Q_ONE" "l \<noteq> 0" "c \<noteq> 0" "c \<le> HV9910_Q_ONE"
    and "mode \<noteq> HV9910_DIM_ANALOG" "mode \<noteq> HV9910_DIM_PWM"
    and "m \<le> q_div l c \<or> c \<le> l"
  shows "2 * (unat l * 65536) \<le> 2 * light_output (raw_out mode l c m) + unat c
       \<and> 2 * light_output (raw_out mode l c m) \<le> 2 * (unat l * 65536) + unat c"
proof (cases "c \<le> l")
  case True
  with assms(5,6) show ?thesis by (simp add: raw_out_def light_output_def)
next
  case False
  with assms(7) have "m \<le> q_div l c" by simp
  then have "fst (snap_pwmd (q_div l c) m) = q_div l c"
    by (simp add: snap_pwmd_def)
  moreover have "2 * (unat l * 65536) \<le> 2 * unat c * unat (q_div l c) + unat c"
      and "2 * unat c * unat (q_div l c) \<le> 2 * (unat l * 65536) + unat c"
    using q_div_error [OF assms(3), of l] False by auto
  ultimately show ?thesis using False assms(5,6)
    by (simp add: raw_out_def light_output_def)
qed

end
