(* ===== verification/Command_Queue.thy ===== *)
theory Command_Queue
  imports Firmware_Prelude
begin

text \<open>
  The FreeRTOS queue between the callers of the LED driver and the task that owns it. The
  queue is external code: the model uses its documented behaviour, a bounded sequence with
  insertion at the tail and at the head and removal from the head, all by copy and all
  atomic. A sender with a time-out is modelled at the moment its call returns: it either
  found room, or the time-out elapsed with the queue still full. The locale states the
  interface the driver relies on; it is interpreted on the sequence functions below.
\<close>

section \<open>Interface\<close>

locale bounded_queue =
  fixes send :: "'c \<Rightarrow> 'q \<Rightarrow> 'q option"
    and send_front :: "'c \<Rightarrow> 'q \<Rightarrow> 'q option"
    and receive :: "'q \<Rightarrow> ('c \<times> 'q) option"
    and items :: "'q \<Rightarrow> 'c list"
    and capacity :: nat
  assumes send_room: "length (items q) < capacity \<Longrightarrow> \<exists>q'. send c q = Some q' \<and> items q' = items q @ [c]"
    and send_full: "capacity \<le> length (items q) \<Longrightarrow> send c q = None"
    and front_room: "length (items q) < capacity \<Longrightarrow> \<exists>q'. send_front c q = Some q' \<and> items q' = c # items q"
    and front_full: "capacity \<le> length (items q) \<Longrightarrow> send_front c q = None"
    and receive_some: "items q = c # cs \<Longrightarrow> \<exists>q'. receive q = Some (c, q') \<and> items q' = cs"
    and receive_none: "items q = [] \<Longrightarrow> receive q = None"
    and capacity_pos: "0 < capacity"
begin

text \<open>
  The two posting protocols of a client: an ordinary post that drops the command when the
  queue stays full, and an urgent post that discards the head when there is no room.
\<close>

definition post :: "'c \<Rightarrow> 'q \<Rightarrow> 'q" where
  "post c q = (case send c q of Some q' \<Rightarrow> q' | None \<Rightarrow> q)"

definition post_urgent :: "'c \<Rightarrow> 'q \<Rightarrow> 'q" where
  "post_urgent c q =
     (case send_front c q of
        Some q' \<Rightarrow> q'
      | None \<Rightarrow>
          (let q1 = (case receive q of Some (_, q') \<Rightarrow> q' | None \<Rightarrow> q)
           in case send_front c q1 of Some q2 \<Rightarrow> q2 | None \<Rightarrow> q1))"

lemma items_post:
  "items (post c q) = (if length (items q) < capacity then items q @ [c] else items q)"
  using send_room [of q c] send_full [of q c] by (auto simp: post_def)

lemma items_post_urgent:
  assumes "length (items q) \<le> capacity"
  shows "items (post_urgent c q) = c # (if length (items q) < capacity then items q else tl (items q))"
proof (cases "length (items q) < capacity")
  case True
  then show ?thesis using front_room [of q c] by (auto simp: post_urgent_def)
next
  case False
  with capacity_pos obtain d ds where q: "items q = d # ds"
    by (cases "items q") auto
  then obtain q1 where q1: "receive q = Some (d, q1)" "items q1 = ds"
    using receive_some by blast
  have "length (items q1) < capacity" using assms q q1 by simp
  then obtain q2 where "send_front c q1 = Some q2" "items q2 = c # ds"
    using front_room [of q1 c] q1 by auto
  then show ?thesis
    using False q q1 front_full [of q c] by (simp add: post_urgent_def)
qed

lemma post_urgent_first:
  "length (items q) \<le> capacity \<Longrightarrow> \<exists>rest. items (post_urgent c q) = c # rest \<and> set rest \<subseteq> set (items q)"
  by (cases "items q") (auto simp: items_post_urgent)

lemma length_post: "length (items q) \<le> capacity \<Longrightarrow> length (items (post c q)) \<le> capacity"
  by (simp add: items_post)

lemma length_post_urgent: "length (items q) \<le> capacity \<Longrightarrow> length (items (post_urgent c q)) \<le> capacity"
  using capacity_pos by (cases "items q") (auto simp: items_post_urgent)

end

section \<open>FreeRTOS queue operations on their abstract contents\<close>

definition CMD_QUEUE_LEN :: nat where [fw_const]: "CMD_QUEUE_LEN = 8"

definition xQueueSend :: "'c \<Rightarrow> 'c list \<Rightarrow> 'c list option" where
  "xQueueSend c q = (if length q < CMD_QUEUE_LEN then Some (q @ [c]) else None)"

definition xQueueSendToFront :: "'c \<Rightarrow> 'c list \<Rightarrow> 'c list option" where
  "xQueueSendToFront c q = (if length q < CMD_QUEUE_LEN then Some (c # q) else None)"

definition xQueueReceive :: "'c list \<Rightarrow> ('c \<times> 'c list) option" where
  "xQueueReceive q = (case q of [] \<Rightarrow> None | c # cs \<Rightarrow> Some (c, cs))"

interpretation rtos: bounded_queue xQueueSend xQueueSendToFront xQueueReceive "\<lambda>q. q" CMD_QUEUE_LEN
  by unfold_locales
     (auto simp: xQueueSend_def xQueueSendToFront_def xQueueReceive_def fw_const)

end
