(* ===== verification/HV9910_Driver.thy ===== *)
theory HV9910_Driver
  imports HV9910_Curve Command_Queue
begin

text \<open>
  The LED driver of \<open>components/hv9910/hv9910.c\<close>: its static variables as one record,
  the command queue of \<open>hv9910_task\<close>, and every operation of the file as a function on
  that record. The two LEDC outputs are part of the record: the last duty written to each
  channel and the resolution of each timer. \<open>ESP_ERROR_CHECK\<close> aborts the firmware when
  a peripheral call fails, so its calls succeed in the model. Log output is not modelled.
\<close>

section \<open>State\<close>

record hv9910_config =
  pwmd_pin :: int
  ld_pin :: int
  pwmd_invert :: bool
  ld_invert :: bool

record hv9910_dimming =
  dm_mode :: u8
  dm_pwm_freq_hz :: u16
  dm_analog_freq_hz :: u32
  dm_min_on_time_us :: u16
  dm_crossover_pct :: u8
  dm_lin_enable :: u8

datatype hv_cmd =
    HV_CMD_ENABLE u8
  | HV_CMD_DISABLE
  | HV_CMD_SET_DIM u8
  | HV_CMD_IDENTIFY
  | HV_CMD_SET_PENDING bool u8
  | HV_CMD_EMERGENCY_OFF
  | HV_CMD_APPLY_DIMMING hv9910_dimming
  | HV_CMD_SET_SCALE u8

datatype pending_action = PENDING_NONE | PENDING_IDENTIFY_STEP

record hv_state =
  hv_config :: hv9910_config
  hv_dimming :: hv9910_dimming
  hv_crossover_q :: u32
  hv_min_on_frac_q :: u32
  hv_lin_enable :: bool
  hv_ld_full :: u32
  hv_pwmd_full :: u32
  hv_output_scale_q :: u32
  hv_enabled :: bool
  hv_dim_percent :: u8
  hv_level_q :: u32
  hv_last_nonzero_percent :: u8
  hv_desired_on :: bool
  hv_power_cut :: bool
  hv_ledc_started :: bool
  hv_cmd_queue :: "hv_cmd list"
  hv_task_ready :: bool
  hv_pending :: pending_action
  hv_pending_deadline :: u32
  hv_identify_steps_left :: int
  hv_identify_next_is_on :: bool
  hv_identify_saved_enabled :: bool
  hv_identify_saved_desired :: bool
  hv_identify_saved_level_q :: u32
  ledc_ld_bits :: nat           \<comment> \<open>duty resolution of the LD timer\<close>
  ledc_pwmd_bits :: nat         \<comment> \<open>duty resolution of the PWMD timer\<close>
  ledc_ld_duty :: u32           \<comment> \<open>duty last written to the LD channel\<close>
  ledc_pwmd_duty :: u32         \<comment> \<open>duty last written to the PWMD channel\<close>
  gpio_pwmd_level :: bool       \<comment> \<open>level driven before the LEDC owns the pin\<close>
  gpio_ld_level :: bool

text \<open>The static initialisers of the file, before \<open>hv9910_init\<close> runs.\<close>

definition hv9910_statics :: hv_state where
  "hv9910_statics =
     \<lparr>hv_config = \<lparr>pwmd_pin = 0, ld_pin = 0, pwmd_invert = False, ld_invert = False\<rparr>,
      hv_dimming = \<lparr>dm_mode = 0, dm_pwm_freq_hz = 0, dm_analog_freq_hz = 0,
        dm_min_on_time_us = 0, dm_crossover_pct = 0, dm_lin_enable = 0\<rparr>,
      hv_crossover_q = HV9910_Q_ONE div 5, hv_min_on_frac_q = 0, hv_lin_enable = True,
      hv_ld_full = push_bit 10 1, hv_pwmd_full = push_bit 10 1, hv_output_scale_q = HV9910_Q_ONE,
      hv_enabled = False, hv_dim_percent = 0, hv_level_q = 0, hv_last_nonzero_percent = 0,
      hv_desired_on = False, hv_power_cut = False, hv_ledc_started = False,
      hv_cmd_queue = [], hv_task_ready = False,
      hv_pending = PENDING_NONE, hv_pending_deadline = 0,
      hv_identify_steps_left = 0, hv_identify_next_is_on = False,
      hv_identify_saved_enabled = False, hv_identify_saved_desired = False,
      hv_identify_saved_level_q = 0,
      ledc_ld_bits = 0, ledc_pwmd_bits = 0, ledc_ld_duty = 0, ledc_pwmd_duty = 0,
      gpio_pwmd_level = False, gpio_ld_level = False\<rparr>"

definition DEFAULT_ON_PERCENT :: u8 where [fw_const]: "DEFAULT_ON_PERCENT = 100"
definition IDENTIFY_BLINK_CYCLES :: int where [fw_const]: "IDENTIFY_BLINK_CYCLES = 6"
definition IDENTIFY_BLINK_PERIOD_MS :: u32 where [fw_const]: "IDENTIFY_BLINK_PERIOD_MS = 400"

text \<open>\<open>pdMS_TO_TICKS\<close> at the tick rate of the build (an \<open>sdkconfig\<close> value, so an argument).\<close>

definition pdMS_TO_TICKS :: "u32 \<Rightarrow> u32 \<Rightarrow> u32" where
  "pdMS_TO_TICKS tick_hz ms = ucast ((ucast ms * ucast tick_hz :: u64) div 1000)"

section \<open>Fixed-point helpers and LEDC set-up\<close>

definition recompute_derived :: "hv_state \<Rightarrow> hv_state" where
  "recompute_derived s =
     (let d = hv_dimming s;
          frac = (ucast (dm_min_on_time_us d) * ucast (dm_pwm_freq_hz d) * ucast HV9910_Q_ONE :: u64) div 1000000
      in s\<lparr>hv_crossover_q := (ucast (dm_crossover_pct d) * HV9910_Q_ONE) div 100,
           hv_min_on_frac_q := (if ucast HV9910_Q_ONE < frac then HV9910_Q_ONE else ucast frac),
           hv_lin_enable := (dm_lin_enable d \<noteq> 0)\<rparr>)"

function duty_res_loop :: "u32 \<Rightarrow> nat \<Rightarrow> nat" where
  "duty_res_loop ratio bits =
     (if bits < 14 \<and> push_bit (bits + 1) 1 \<le> ratio then duty_res_loop ratio (bits + 1) else bits)"
  by pat_completeness auto
termination
  by (relation "measure (\<lambda>(ratio, bits). 14 - bits)") auto

declare duty_res_loop.simps [simp del]

definition pick_duty_res_bits :: "u32 \<Rightarrow> nat" where
  "pick_duty_res_bits freq_hz0 =
     (let freq_hz = (if freq_hz0 = 0 then 1 else freq_hz0);
          ratio = 80000000 div freq_hz
      in duty_res_loop ratio 4)"

definition scale_duty :: "u32 \<Rightarrow> u32 \<Rightarrow> u32" where
  "scale_duty q full =
     ucast (drop_bit HV9910_Q_BITS (ucast q * ucast full + ucast (drop_bit 1 HV9910_Q_ONE) :: u64))"

definition mul_q :: "u32 \<Rightarrow> u32 \<Rightarrow> u32" where
  "mul_q a b =
     ucast (drop_bit HV9910_Q_BITS (ucast a * ucast b + ucast (drop_bit 1 HV9910_Q_ONE) :: u64))"

definition reconfigure_ledc :: "hv_state \<Rightarrow> hv_state" where
  "reconfigure_ledc s =
     (let ld_bits = pick_duty_res_bits (dm_analog_freq_hz (hv_dimming s));
          pwmd_bits = pick_duty_res_bits (ucast (dm_pwm_freq_hz (hv_dimming s)))
      in s\<lparr>ledc_ld_bits := ld_bits, ledc_pwmd_bits := pwmd_bits,
           hv_ld_full := push_bit ld_bits 1, hv_pwmd_full := push_bit pwmd_bits 1\<rparr>)"

definition ledc_start_if_needed :: "hv_state \<Rightarrow> hv_state" where
  "ledc_start_if_needed s =
     (if hv_ledc_started s then s
      else (reconfigure_ledc s)\<lparr>ledc_ld_duty := 0, ledc_pwmd_duty := 0, hv_ledc_started := True\<rparr>)"

definition percent_of_q :: "u32 \<Rightarrow> u8" where
  "percent_of_q q = ucast ((q * 100 + HV9910_Q_ONE div 2) div HV9910_Q_ONE)"

definition apply_level :: "(rat \<Rightarrow> rat \<Rightarrow> rat) \<Rightarrow> u32 \<Rightarrow> hv_state \<Rightarrow> hv_state" where
  "apply_level powf level_q s0 =
     (let s = ledc_start_if_needed s0;
          eff_q = mul_q level_q (hv_output_scale_q s);
          out = hv9910_curve_eval powf (dm_mode (hv_dimming s)) eff_q (hv_crossover_q s)
                  (hv_min_on_frac_q s) (hv_lin_enable s);
          lit = (want_lit out \<and> \<not> hv_power_cut s);
          ld_duty = (if lit then scale_duty (ld_duty_q out) (hv_ld_full s) else 0);
          pwmd_duty = (if lit then scale_duty (pwmd_duty_q out) (hv_pwmd_full s) else 0)
      in s\<lparr>hv_level_q := level_q,
           hv_dim_percent := percent_of_q level_q,
           ledc_ld_duty := ld_duty,
           ledc_pwmd_duty := pwmd_duty,
           hv_enabled := (if lit \<and> \<not> hv_enabled s then True
                          else if \<not> lit \<and> hv_enabled s then False
                          else hv_enabled s)\<rparr>)"

definition pct_to_q :: "u8 \<Rightarrow> u32" where
  "pct_to_q percent0 =
     (let percent = (if 100 < percent0 then 100 else percent0)
      in (ucast percent * HV9910_Q_ONE) div 100)"

section \<open>Commands\<close>

definition hv_do_set_dim :: "(rat \<Rightarrow> rat \<Rightarrow> rat) \<Rightarrow> u8 \<Rightarrow> bool \<Rightarrow> hv_state \<Rightarrow> hv_state" where
  "hv_do_set_dim powf percent0 remember s =
     (let percent = (if 100 < percent0 then 100 else percent0);
          s = (if remember \<and> 0 < percent then s\<lparr>hv_last_nonzero_percent := percent\<rparr> else s)
      in apply_level powf (pct_to_q percent) s)"

definition hv_do_enable :: "(rat \<Rightarrow> rat \<Rightarrow> rat) \<Rightarrow> u8 \<Rightarrow> hv_state \<Rightarrow> hv_state" where
  "hv_do_enable powf percent s =
     hv_do_set_dim powf percent True (s\<lparr>hv_desired_on := True, hv_power_cut := False\<rparr>)"

definition hv_do_disable :: "(rat \<Rightarrow> rat \<Rightarrow> rat) \<Rightarrow> hv_state \<Rightarrow> hv_state" where
  "hv_do_disable powf s = apply_level powf 0 (s\<lparr>hv_desired_on := False\<rparr>)"

definition hv_do_apply_dimming :: "(rat \<Rightarrow> rat \<Rightarrow> rat) \<Rightarrow> hv9910_dimming \<Rightarrow> hv_state \<Rightarrow> hv_state" where
  "hv_do_apply_dimming powf p s =
     (let s = recompute_derived (s\<lparr>hv_dimming := p\<rparr>);
          s = ledc_start_if_needed s;
          s = reconfigure_ledc s
      in apply_level powf (hv_level_q s) s)"

definition hv_do_set_scale :: "(rat \<Rightarrow> rat \<Rightarrow> rat) \<Rightarrow> u8 \<Rightarrow> hv_state \<Rightarrow> hv_state" where
  "hv_do_set_scale powf percent0 s =
     (let percent = (if percent0 < 1 then 1 else percent0);
          percent = (if 100 < percent then 100 else percent);
          s = s\<lparr>hv_output_scale_q := (ucast percent * HV9910_Q_ONE) div 100\<rparr>
      in apply_level powf (hv_level_q s) s)"

definition do_identify_step :: "(rat \<Rightarrow> rat \<Rightarrow> rat) \<Rightarrow> u32 \<Rightarrow> u32 \<Rightarrow> hv_state \<Rightarrow> hv_state" where
  "do_identify_step powf tick_hz now s =
     (if hv_identify_steps_left s \<le> 0 then
        (apply_level powf (if hv_identify_saved_enabled s then hv_identify_saved_level_q s else 0) s)
          \<lparr>hv_desired_on := hv_identify_saved_desired s, hv_pending := PENDING_NONE\<rparr>
      else
        (let s1 = apply_level powf (if hv_identify_next_is_on s then HV9910_Q_ONE else 0) s
         in s1\<lparr>hv_identify_next_is_on := \<not> hv_identify_next_is_on s1,
               hv_identify_steps_left := hv_identify_steps_left s1 - 1,
               hv_pending := PENDING_IDENTIFY_STEP,
               hv_pending_deadline := now + pdMS_TO_TICKS tick_hz IDENTIFY_BLINK_PERIOD_MS\<rparr>))"

definition hv_do_identify :: "(rat \<Rightarrow> rat \<Rightarrow> rat) \<Rightarrow> u32 \<Rightarrow> u32 \<Rightarrow> hv_state \<Rightarrow> hv_state" where
  "hv_do_identify powf tick_hz now s =
     do_identify_step powf tick_hz now
       (s\<lparr>hv_identify_saved_enabled := hv_enabled s,
          hv_identify_saved_level_q := hv_level_q s,
          hv_identify_saved_desired := hv_desired_on s,
          hv_power_cut := False,
          hv_identify_steps_left := IDENTIFY_BLINK_CYCLES * 2,
          hv_identify_next_is_on := True\<rparr>)"

definition hv_do_emergency_off :: "hv_state \<Rightarrow> hv_state" where
  "hv_do_emergency_off s =
     (let s = s\<lparr>hv_power_cut := True, hv_pending := PENDING_NONE\<rparr>;
          s = (if hv_ledc_started s then s\<lparr>ledc_pwmd_duty := 0, ledc_ld_duty := 0\<rparr> else s)
      in s\<lparr>hv_enabled := False, hv_dim_percent := 0, hv_level_q := 0\<rparr>)"

fun dispatch_cmd :: "(rat \<Rightarrow> rat \<Rightarrow> rat) \<Rightarrow> u32 \<Rightarrow> u32 \<Rightarrow> hv_cmd \<Rightarrow> hv_state \<Rightarrow> hv_state" where
  "dispatch_cmd powf tick_hz now (HV_CMD_ENABLE percent) s = hv_do_enable powf percent s"
| "dispatch_cmd powf tick_hz now HV_CMD_DISABLE s = hv_do_disable powf s"
| "dispatch_cmd powf tick_hz now (HV_CMD_SET_DIM percent) s = hv_do_set_dim powf percent True s"
| "dispatch_cmd powf tick_hz now HV_CMD_IDENTIFY s = hv_do_identify powf tick_hz now s"
| "dispatch_cmd powf tick_hz now (HV_CMD_SET_PENDING on percent) s =
     (let s = s\<lparr>hv_desired_on := on\<rparr>
      in if 0 < percent then s\<lparr>hv_last_nonzero_percent := percent\<rparr> else s)"
| "dispatch_cmd powf tick_hz now HV_CMD_EMERGENCY_OFF s = hv_do_emergency_off s"
| "dispatch_cmd powf tick_hz now (HV_CMD_APPLY_DIMMING p) s = hv_do_apply_dimming powf p s"
| "dispatch_cmd powf tick_hz now (HV_CMD_SET_SCALE percent) s = hv_do_set_scale powf percent s"

definition fire_pending_action :: "(rat \<Rightarrow> rat \<Rightarrow> rat) \<Rightarrow> u32 \<Rightarrow> u32 \<Rightarrow> hv_state \<Rightarrow> hv_state" where
  "fire_pending_action powf tick_hz now s =
     (case hv_pending s of
        PENDING_IDENTIFY_STEP \<Rightarrow> do_identify_step powf tick_hz now s
      | PENDING_NONE \<Rightarrow> s)"

text \<open>
  One iteration of \<open>hv9910_task\<close> at tick \<open>now\<close>: a queued command is taken at once;
  with an empty queue the receive times out only when a deferred action is due (the
  signed difference to the deadline is not positive), otherwise the task stays blocked.
\<close>

definition hv9910_task_step :: "(rat \<Rightarrow> rat \<Rightarrow> rat) \<Rightarrow> u32 \<Rightarrow> u32 \<Rightarrow> hv_state \<Rightarrow> hv_state" where
  "hv9910_task_step powf tick_hz now s =
     (case xQueueReceive (hv_cmd_queue s) of
        Some (cmd, rest) \<Rightarrow>
          dispatch_cmd powf tick_hz now cmd (s\<lparr>hv_cmd_queue := rest, hv_pending := PENDING_NONE\<rparr>)
      | None \<Rightarrow>
          (if hv_pending s \<noteq> PENDING_NONE \<and> \<not> 0 < sint (hv_pending_deadline s - now)
           then fire_pending_action powf tick_hz now s
           else s))"

section \<open>Public interface: posting commands\<close>

definition post_cmd :: "hv_cmd \<Rightarrow> bool \<Rightarrow> hv_state \<Rightarrow> hv_state" where
  "post_cmd cmd to_front s =
     (if \<not> hv_task_ready s then s
      else if to_front then
        (case xQueueSendToFront cmd (hv_cmd_queue s) of
           Some q \<Rightarrow> s\<lparr>hv_cmd_queue := q\<rparr>
         | None \<Rightarrow>
             (let q = (case xQueueReceive (hv_cmd_queue s) of Some (_, q) \<Rightarrow> q | None \<Rightarrow> hv_cmd_queue s)
              in case xQueueSendToFront cmd q of
                   Some q' \<Rightarrow> s\<lparr>hv_cmd_queue := q'\<rparr>
                 | None \<Rightarrow> s\<lparr>hv_cmd_queue := q\<rparr>))
      else
        (case xQueueSend cmd (hv_cmd_queue s) of
           Some q \<Rightarrow> s\<lparr>hv_cmd_queue := q\<rparr>
         | None \<Rightarrow> s))"

text \<open>
  \<open>hv9910_init\<close>: \<open>queue_ok\<close> and \<open>task_ok\<close> are the outcomes of \<open>xQueueCreate\<close>
  and \<open>xTaskCreate\<close>. Variables the function does not assign keep their values.
\<close>

definition hv9910_init :: "bool \<Rightarrow> bool \<Rightarrow> hv9910_config \<Rightarrow> hv_state \<Rightarrow> hv_state" where
  "hv9910_init queue_ok task_ok config s0 =
     (let s = s0\<lparr>hv_config := config,
                  hv_dimming := \<lparr>dm_mode = HV9910_DIM_HYBRID, dm_pwm_freq_hz = 2000,
                    dm_analog_freq_hz = 60000, dm_min_on_time_us = 20,
                    dm_crossover_pct = 20, dm_lin_enable = 1\<rparr>\<rparr>;
          s = recompute_derived s;
          s = s\<lparr>hv_enabled := False, hv_dim_percent := 0, hv_level_q := 0,
                 hv_last_nonzero_percent := 0, hv_desired_on := False, hv_power_cut := False,
                 hv_ledc_started := False, hv_output_scale_q := HV9910_Q_ONE,
                 gpio_pwmd_level := pwmd_invert config, gpio_ld_level := ld_invert config\<rparr>
      in if \<not> queue_ok then s
         else let s = s\<lparr>hv_cmd_queue := []\<rparr>
              in if \<not> task_ok then s else s\<lparr>hv_task_ready := True\<rparr>)"

definition hv9910_set_dimming :: "hv9910_dimming option \<Rightarrow> hv_state \<Rightarrow> hv_state" where
  "hv9910_set_dimming p s =
     (case p of None \<Rightarrow> s | Some d \<Rightarrow> post_cmd (HV_CMD_APPLY_DIMMING d) False s)"

definition hv9910_set_output_scale :: "u8 \<Rightarrow> hv_state \<Rightarrow> hv_state" where
  "hv9910_set_output_scale percent s = post_cmd (HV_CMD_SET_SCALE percent) False s"

definition hv9910_get_output_scale_pct :: "hv_state \<Rightarrow> u8" where
  "hv9910_get_output_scale_pct s = percent_of_q (hv_output_scale_q s)"

definition hv9910_enable_at :: "u8 \<Rightarrow> hv_state \<Rightarrow> hv_state" where
  "hv9910_enable_at percent0 s =
     (let percent = (if 100 < percent0 then 100 else percent0)
      in post_cmd (HV_CMD_ENABLE percent) False s)"

definition hv9910_enable :: "hv_state \<Rightarrow> hv_state" where
  "hv9910_enable s =
     (let target = (if 0 < hv_last_nonzero_percent s then hv_last_nonzero_percent s else DEFAULT_ON_PERCENT)
      in hv9910_enable_at target s)"

definition hv9910_disable :: "hv_state \<Rightarrow> hv_state" where
  "hv9910_disable s = post_cmd HV_CMD_DISABLE False s"

definition hv9910_emergency_disable :: "hv_state \<Rightarrow> hv_state" where
  "hv9910_emergency_disable s = post_cmd HV_CMD_EMERGENCY_OFF True s"

definition hv9910_set_dim :: "u8 \<Rightarrow> hv_state \<Rightarrow> hv_state" where
  "hv9910_set_dim percent s = post_cmd (HV_CMD_SET_DIM percent) False s"

definition hv9910_identify :: "hv_state \<Rightarrow> hv_state" where
  "hv9910_identify s = post_cmd HV_CMD_IDENTIFY False s"

definition hv9910_set_pending :: "bool \<Rightarrow> u8 \<Rightarrow> hv_state \<Rightarrow> hv_state" where
  "hv9910_set_pending on remember_pct s = post_cmd (HV_CMD_SET_PENDING on remember_pct) False s"

definition hv9910_get_dim_percent :: "hv_state \<Rightarrow> u8" where
  "hv9910_get_dim_percent s = hv_dim_percent s"

definition hv9910_get_last_nonzero_percent :: "hv_state \<Rightarrow> u8" where
  "hv9910_get_last_nonzero_percent s = hv_last_nonzero_percent s"

definition hv9910_pending_on :: "hv_state \<Rightarrow> bool" where
  "hv9910_pending_on s = hv_desired_on s"

definition hv9910_is_enabled :: "hv_state \<Rightarrow> bool" where
  "hv9910_is_enabled s = hv_enabled s"

end
