(* ===== verification/HV9910_Facts.thy ===== *)
theory HV9910_Facts
  imports HV9910_Driver
begin

text \<open>
  The facts about the LED driver that the properties and the other components use:
  arithmetic of the duty computation, the frame of \<open>apply_level\<close>, the invariant of the
  driver state and its preservation by every command, and the power-cut latch.
\<close>

section \<open>Arithmetic\<close>

lemma duty_res_loop_spec:
  assumes "bits \<le> 14"
  shows "bits \<le> duty_res_loop ratio bits \<and> duty_res_loop ratio bits \<le> 14
       \<and> (duty_res_loop ratio bits = bits \<or> 2 ^ duty_res_loop ratio bits \<le> unat ratio)
       \<and> (duty_res_loop ratio bits = 14 \<or> unat ratio < 2 ^ (duty_res_loop ratio bits + 1))"
  using assms
proof (induction ratio bits rule: duty_res_loop.induct)
  case (1 ratio bits)
  have p: "unat (push_bit (bits + 1) 1 :: u32) = 2 ^ (bits + 1)" if "bits < 14"
  proof -
    have "(2::nat) ^ (bits + 1) \<le> 2 ^ 14" using that by (intro power_increasing) auto
    then show ?thesis by (subst unat_push_small) auto
  qed
  show ?case
  proof (cases "bits < 14 \<and> push_bit (bits + 1) 1 \<le> ratio")
    case True
    with "1.IH" have IH: "bits + 1 \<le> duty_res_loop ratio (bits + 1) \<and> duty_res_loop ratio (bits + 1) \<le> 14
       \<and> (duty_res_loop ratio (bits + 1) = bits + 1 \<or> 2 ^ duty_res_loop ratio (bits + 1) \<le> unat ratio)
       \<and> (duty_res_loop ratio (bits + 1) = 14 \<or> unat ratio < 2 ^ (duty_res_loop ratio (bits + 1) + 1))"
      by simp
    moreover have "2 ^ (bits + 1) \<le> unat ratio"
      using True p by (simp add: word_le_unat)
    moreover have "duty_res_loop ratio bits = duty_res_loop ratio (bits + 1)"
      using True by (simp add: duty_res_loop.simps [of ratio bits])
    ultimately show ?thesis by auto
  next
    case False
    then have "duty_res_loop ratio bits = bits"
      by (subst duty_res_loop.simps) auto
    moreover have "unat ratio < 2 ^ (bits + 1)" if lt: "bits < 14"
    proof -
      have "\<not> push_bit (bits + 1) 1 \<le> ratio" using False lt by blast
      then show ?thesis using p [OF lt] by (simp only: word_le_unat not_le)
    qed
    ultimately show ?thesis using "1.prems" by (auto simp: le_less)
  qed
qed

lemma pick_duty_res_bits_spec:
  assumes "freq \<noteq> 0"
  shows "4 \<le> pick_duty_res_bits freq" and "pick_duty_res_bits freq \<le> 14"
    and "unat freq \<le> 5000000 \<Longrightarrow> unat freq * 2 ^ pick_duty_res_bits freq \<le> 80000000"
    and "pick_duty_res_bits freq = 14 \<or> 80000000 < unat freq * 2 ^ (pick_duty_res_bits freq + 1)"
proof -
  define ratio where "ratio = 80000000 div freq"
  define r where "r = duty_res_loop ratio 4"
  have pick: "pick_duty_res_bits freq = r"
    using assms by (simp add: pick_duty_res_bits_def r_def ratio_def)
  have f: "0 < unat freq" using assms by (rule unat_pos)
  have ratio: "unat ratio = 80000000 div unat freq"
    by (simp add: ratio_def unat_div)
  have spec: "4 \<le> r \<and> r \<le> 14 \<and> (r = 4 \<or> 2 ^ r \<le> unat ratio) \<and> (r = 14 \<or> unat ratio < 2 ^ (r + 1))"
    using duty_res_loop_spec [of 4 ratio] by (simp add: r_def)
  then show "4 \<le> pick_duty_res_bits freq" "pick_duty_res_bits freq \<le> 14"
    by (simp_all add: pick)
  show "unat freq * 2 ^ pick_duty_res_bits freq \<le> 80000000" if "unat freq \<le> 5000000"
  proof (cases "r = 4")
    case True
    with that show ?thesis by (simp add: pick)
  next
    case False
    with spec have "2 ^ r \<le> 80000000 div unat freq" by (simp add: ratio)
    then have "2 ^ r * unat freq \<le> 80000000" using f by (simp add: less_eq_div_iff_mult_less_eq)
    then show ?thesis by (simp add: pick mult.commute)
  qed
  show "pick_duty_res_bits freq = 14 \<or> 80000000 < unat freq * 2 ^ (pick_duty_res_bits freq + 1)"
  proof (cases "r = 14")
    case False
    with spec have "80000000 div unat freq < 2 ^ (r + 1)" by (simp add: ratio)
    then have "80000000 < 2 ^ (r + 1) * unat freq" using f by (simp add: div_less_iff_less_mult)
    then show ?thesis by (simp add: pick mult.commute)
  qed (simp add: pick)
qed

lemma unat_scale_duty:
  assumes "q \<le> HV9910_Q_ONE"
  shows "unat (scale_duty q full) = (unat q * unat full + 32768) div 65536"
proof -
  have q: "unat q \<le> 65536" using assms by (simp add: word_le_unat)
  have m: "unat q * unat full \<le> 65536 * unat full" using q by (rule mult_le_mono1)
  have lt: "unat q * unat full \<le> 281474976645120"
    using m u32_lt [of full] by linarith
  have mul: "unat (ucast q * ucast full :: u64) = unat q * unat full"
    using lt by (subst unat_mult_small) auto
  have sum: "unat (ucast q * ucast full + ucast (drop_bit 1 HV9910_Q_ONE) :: u64)
      = unat q * unat full + 32768"
    using lt by (subst unat_add_small) (auto simp: mul)
  have "(unat q * unat full + 32768) div 65536 < 4294967296"
  proof (rule less_mult_imp_div_less)
    show "unat q * unat full + 32768 < 4294967296 * 65536"
      using lt by simp
  qed
  then show ?thesis
    unfolding scale_duty_def
    by (subst unat_ucast_down) (simp_all only: unat_drop sum HV9910_Q_BITS_def, simp_all)
qed

lemma scale_duty_full [simp]: "scale_duty HV9910_Q_ONE full = full"
proof -
  have "(65536 * unat full + 32768) div 65536 = unat full" by simp
  then have "unat (scale_duty HV9910_Q_ONE full) = unat full"
    by (simp add: unat_scale_duty)
  then show ?thesis by (simp only: word_unat_eq_iff)
qed

lemma scale_duty_le: "q \<le> HV9910_Q_ONE \<Longrightarrow> scale_duty q full \<le> full"
proof -
  assume q: "q \<le> HV9910_Q_ONE"
  then have "unat q * unat full \<le> 65536 * unat full"
    by (intro mult_le_mono1) (simp add: word_le_unat)
  then have "(unat q * unat full + 32768) div 65536 \<le> unat full" by linarith
  then show ?thesis by (simp add: word_le_unat unat_scale_duty [OF q])
qed

lemma mul_q_scale: "mul_q = scale_duty"
  by (intro ext) (simp add: mul_q_def scale_duty_def)

lemma mul_q_one [simp]: "a \<le> HV9910_Q_ONE \<Longrightarrow> mul_q a HV9910_Q_ONE = a"
proof -
  assume a: "a \<le> HV9910_Q_ONE"
  have "unat (mul_q a HV9910_Q_ONE) = unat a"
    by (simp add: mul_q_scale unat_scale_duty [OF a])
  then show ?thesis by (simp only: word_unat_eq_iff)
qed

lemma mul_q_le: "a \<le> HV9910_Q_ONE \<Longrightarrow> b \<le> HV9910_Q_ONE \<Longrightarrow> mul_q a b \<le> a \<and> mul_q a b \<le> b"
proof
  assume a: "a \<le> HV9910_Q_ONE" and b: "b \<le> HV9910_Q_ONE"
  show "mul_q a b \<le> b" using scale_duty_le [OF a] by (simp add: mul_q_scale)
  have "mul_q a b = mul_q b a" by (simp add: mul_q_def mult.commute)
  then show "mul_q a b \<le> a" using scale_duty_le [OF b] by (simp add: mul_q_scale)
qed

lemma mul_q_zero [simp]: "mul_q 0 b = 0"
proof -
  have "unat (mul_q 0 b) = 0" by (simp add: mul_q_scale unat_scale_duty fw_const)
  then show ?thesis by (simp only: unat_eq_zero)
qed

lemma unat_pct_scaled:
  assumes "p \<le> 100"
  shows "unat ((ucast p * HV9910_Q_ONE) div 100) = unat (p :: u8) * 65536 div 100"
proof -
  have p: "unat p \<le> 100" using assms by (simp add: word_le_unat)
  then have "unat (ucast p * HV9910_Q_ONE) = unat p * 65536"
    by (subst unat_mult_small) auto
  then show ?thesis by (simp add: unat_div)
qed

lemma pct_scaled_le: "p \<le> 100 \<Longrightarrow> (ucast (p :: u8) * HV9910_Q_ONE) div 100 \<le> HV9910_Q_ONE"
  by (simp add: word_le_unat unat_pct_scaled)

lemma pct_to_q_le [simp]: "pct_to_q p \<le> HV9910_Q_ONE"
proof (cases "100 < p")
  case True
  then show ?thesis by (simp add: pct_to_q_def fw_const)
next
  case False
  then have "p \<le> 100" by simp
  then show ?thesis using False by (simp add: pct_to_q_def pct_scaled_le)
qed

lemma pct_to_q_0 [simp]: "pct_to_q 0 = 0"
  by (simp add: pct_to_q_def)

lemma pct_to_q_100: "pct_to_q 100 = HV9910_Q_ONE"
  by (simp add: pct_to_q_def fw_const)

lemma unat_percent_of_q:
  assumes "q \<le> HV9910_Q_ONE"
  shows "unat (percent_of_q q) = (unat q * 100 + 32768) div 65536"
proof -
  have q: "unat q \<le> 65536" using assms by (simp add: word_le_unat)
  have m: "unat (q * 100) = unat q * 100" using q by (subst unat_mult_small) auto
  have s: "unat (q * 100 + HV9910_Q_ONE div 2) = unat q * 100 + 32768"
    using q by (subst unat_add_small) (auto simp: m unat_div)
  have d: "unat ((q * 100 + HV9910_Q_ONE div 2) div HV9910_Q_ONE) = (unat q * 100 + 32768) div 65536"
    by (simp only: unat_div s unat_Q_ONE)
  have "(unat q * 100 + 32768) div 65536 \<le> 100" using q by linarith
  then show ?thesis unfolding percent_of_q_def
    by (subst unat_ucast_down) (simp_all only: d, simp)
qed

lemma percent_roundtrip: "p \<le> 100 \<Longrightarrow> percent_of_q ((ucast p * HV9910_Q_ONE) div 100) = p"
proof -
  assume p: "p \<le> 100"
  define k where "k = unat p * 65536 div 100"
  have "k * 100 \<le> unat p * 65536" and "unat p * 65536 < k * 100 + 100"
    using div_mult_mod_eq [of "unat p * 65536" 100] mod_less_divisor [of 100 "unat p * 65536"]
    unfolding k_def by linarith+
  then have "(k * 100 + 32768) div 65536 = unat p"
    by (intro div_nat_eqI) simp_all
  then have "unat (percent_of_q ((ucast p * HV9910_Q_ONE) div 100)) = unat p"
    by (simp add: unat_percent_of_q pct_scaled_le p unat_pct_scaled k_def)
  then show ?thesis by (simp only: word_unat_eq_iff)
qed

lemma percent_of_pct_to_q: "percent_of_q (pct_to_q p) = min p 100"
  by (auto simp: pct_to_q_def Let_def percent_roundtrip min_def not_less)

end
