(* ===== verification/HV9910_Invariant.thy ===== *)
theory HV9910_Invariant
  imports HV9910_Facts
begin

text \<open>
  The invariant of the LED driver and its preservation by every operation of
  \<open>hv9910.c\<close>, the power-cut latch, and the course of the IDENTIFY blink.
\<close>

section \<open>Frame of the rendering step\<close>

lemma ledc_start_frame [simp]:
  "hv_config (ledc_start_if_needed s) = hv_config s"
  "hv_dimming (ledc_start_if_needed s) = hv_dimming s"
  "hv_crossover_q (ledc_start_if_needed s) = hv_crossover_q s"
  "hv_min_on_frac_q (ledc_start_if_needed s) = hv_min_on_frac_q s"
  "hv_lin_enable (ledc_start_if_needed s) = hv_lin_enable s"
  "hv_output_scale_q (ledc_start_if_needed s) = hv_output_scale_q s"
  "hv_enabled (ledc_start_if_needed s) = hv_enabled s"
  "hv_level_q (ledc_start_if_needed s) = hv_level_q s"
  "hv_last_nonzero_percent (ledc_start_if_needed s) = hv_last_nonzero_percent s"
  "hv_desired_on (ledc_start_if_needed s) = hv_desired_on s"
  "hv_power_cut (ledc_start_if_needed s) = hv_power_cut s"
  "hv_ledc_started (ledc_start_if_needed s)"
  "hv_cmd_queue (ledc_start_if_needed s) = hv_cmd_queue s"
  "hv_task_ready (ledc_start_if_needed s) = hv_task_ready s"
  "hv_pending (ledc_start_if_needed s) = hv_pending s"
  "hv_pending_deadline (ledc_start_if_needed s) = hv_pending_deadline s"
  "hv_identify_steps_left (ledc_start_if_needed s) = hv_identify_steps_left s"
  "hv_identify_next_is_on (ledc_start_if_needed s) = hv_identify_next_is_on s"
  "hv_identify_saved_enabled (ledc_start_if_needed s) = hv_identify_saved_enabled s"
  "hv_identify_saved_desired (ledc_start_if_needed s) = hv_identify_saved_desired s"
  "hv_identify_saved_level_q (ledc_start_if_needed s) = hv_identify_saved_level_q s"
  by (simp_all add: ledc_start_if_needed_def reconfigure_ledc_def Let_def)

lemma apply_level_frame [simp]:
  "hv_config (apply_level powf l s) = hv_config s"
  "hv_dimming (apply_level powf l s) = hv_dimming s"
  "hv_crossover_q (apply_level powf l s) = hv_crossover_q s"
  "hv_min_on_frac_q (apply_level powf l s) = hv_min_on_frac_q s"
  "hv_lin_enable (apply_level powf l s) = hv_lin_enable s"
  "hv_output_scale_q (apply_level powf l s) = hv_output_scale_q s"
  "hv_level_q (apply_level powf l s) = l"
  "hv_dim_percent (apply_level powf l s) = percent_of_q l"
  "hv_last_nonzero_percent (apply_level powf l s) = hv_last_nonzero_percent s"
  "hv_desired_on (apply_level powf l s) = hv_desired_on s"
  "hv_power_cut (apply_level powf l s) = hv_power_cut s"
  "hv_ledc_started (apply_level powf l s)"
  "hv_cmd_queue (apply_level powf l s) = hv_cmd_queue s"
  "hv_task_ready (apply_level powf l s) = hv_task_ready s"
  "hv_pending (apply_level powf l s) = hv_pending s"
  "hv_pending_deadline (apply_level powf l s) = hv_pending_deadline s"
  "hv_identify_steps_left (apply_level powf l s) = hv_identify_steps_left s"
  "hv_identify_next_is_on (apply_level powf l s) = hv_identify_next_is_on s"
  "hv_identify_saved_enabled (apply_level powf l s) = hv_identify_saved_enabled s"
  "hv_identify_saved_desired (apply_level powf l s) = hv_identify_saved_desired s"
  "hv_identify_saved_level_q (apply_level powf l s) = hv_identify_saved_level_q s"
  by (simp_all add: apply_level_def Let_def)

text \<open>What a level renders to: the curve output for the level under the current cap.\<close>

definition rendered :: "(rat \<Rightarrow> rat \<Rightarrow> rat) \<Rightarrow> u32 \<Rightarrow> hv_state \<Rightarrow> curve_out" where
  "rendered powf l s =
     hv9910_curve_eval powf (dm_mode (hv_dimming s)) (mul_q l (hv_output_scale_q s))
       (hv_crossover_q s) (hv_min_on_frac_q s) (hv_lin_enable s)"

lemma apply_level_output:
  "hv_enabled (apply_level powf l s) \<longleftrightarrow> want_lit (rendered powf l s) \<and> \<not> hv_power_cut s"
  "ledc_pwmd_duty (apply_level powf l s) =
     (if want_lit (rendered powf l s) \<and> \<not> hv_power_cut s
      then scale_duty (pwmd_duty_q (rendered powf l s)) (hv_pwmd_full (apply_level powf l s)) else 0)"
  "ledc_ld_duty (apply_level powf l s) =
     (if want_lit (rendered powf l s) \<and> \<not> hv_power_cut s
      then scale_duty (ld_duty_q (rendered powf l s)) (hv_ld_full (apply_level powf l s)) else 0)"
  by (auto simp: apply_level_def rendered_def Let_def)

lemma apply_level_timers [simp]:
  "hv_ld_full (apply_level powf l s) = hv_ld_full (ledc_start_if_needed s)"
  "hv_pwmd_full (apply_level powf l s) = hv_pwmd_full (ledc_start_if_needed s)"
  "ledc_ld_bits (apply_level powf l s) = ledc_ld_bits (ledc_start_if_needed s)"
  "ledc_pwmd_bits (apply_level powf l s) = ledc_pwmd_bits (ledc_start_if_needed s)"
  by (simp_all add: apply_level_def Let_def)

lemma rendered_zero [simp]: "\<not> want_lit (rendered powf 0 s)"
  by (simp add: rendered_def)

section \<open>The invariant\<close>

text \<open>The ranges \<open>driver_config\<close> enforces before it pushes a dimming configuration.\<close>

definition dim_ok :: "hv9910_dimming \<Rightarrow> bool" where
  "dim_ok d \<longleftrightarrow> dm_mode d \<le> 2 \<and> 1000 \<le> dm_pwm_freq_hz d \<and> dm_pwm_freq_hz d \<le> 5000
     \<and> 40000 \<le> dm_analog_freq_hz d \<and> dm_analog_freq_hz d \<le> 80000
     \<and> 2 \<le> dm_min_on_time_us d \<and> dm_min_on_time_us d \<le> 200
     \<and> 10 \<le> dm_crossover_pct d \<and> dm_crossover_pct d \<le> 60 \<and> dm_lin_enable d \<le> 1"

fun cmd_ok :: "hv_cmd \<Rightarrow> bool" where
  "cmd_ok (HV_CMD_APPLY_DIMMING d) = dim_ok d"
| "cmd_ok _ = True"

text \<open>
  The settings part: the derived values are those of the current dimming configuration,
  the timers are those of the current frequencies once started, and every stored fraction
  is at most \<open>Q_ONE\<close>.
\<close>

definition hv_settings :: "hv_state \<Rightarrow> bool" where
  "hv_settings s \<longleftrightarrow> dim_ok (hv_dimming s) \<and> recompute_derived s = s
     \<and> (hv_ledc_started s \<longrightarrow> reconfigure_ledc s = s)
     \<and> hv_output_scale_q s \<le> HV9910_Q_ONE
     \<and> hv_level_q s \<le> HV9910_Q_ONE \<and> hv_identify_saved_level_q s \<le> HV9910_Q_ONE"

text \<open>
  The output part: the driver reports itself enabled exactly when the PWMD duty is
  nonzero, never while the power-cut latch is set, and no duty exceeds its timer's range.
\<close>

definition hv_output :: "hv_state \<Rightarrow> bool" where
  "hv_output s \<longleftrightarrow> (hv_enabled s \<longleftrightarrow> ledc_pwmd_duty s \<noteq> 0)
     \<and> (hv_enabled s \<longrightarrow> hv_ledc_started s \<and> \<not> hv_power_cut s)
     \<and> (\<not> hv_enabled s \<longrightarrow> ledc_ld_duty s = 0)
     \<and> (hv_ledc_started s \<longrightarrow> ledc_ld_duty s \<le> hv_ld_full s \<and> ledc_pwmd_duty s \<le> hv_pwmd_full s)"

definition hv_inv :: "hv_state \<Rightarrow> bool" where
  "hv_inv s \<longleftrightarrow> hv_settings s \<and> hv_output s \<and> length (hv_cmd_queue s) \<le> CMD_QUEUE_LEN
     \<and> list_all cmd_ok (hv_cmd_queue s)"

lemma dim_ok_unat:
  assumes "dim_ok d"
  shows "1000 \<le> unat (dm_pwm_freq_hz d)" "unat (dm_pwm_freq_hz d) \<le> 5000"
    "40000 \<le> unat (dm_analog_freq_hz d)" "unat (dm_analog_freq_hz d) \<le> 80000"
    "2 \<le> unat (dm_min_on_time_us d)" "unat (dm_min_on_time_us d) \<le> 200"
    "10 \<le> unat (dm_crossover_pct d)" "unat (dm_crossover_pct d) \<le> 60"
  using assms by (simp_all add: dim_ok_def word_le_unat)

text \<open>A valid configuration has a burst floor of at least 131 / 65536 (2 us at 1 kHz).\<close>

lemma recompute_min_on:
  assumes "dim_ok (hv_dimming s)"
  shows "131 \<le> unat (hv_min_on_frac_q (recompute_derived s))"
    and "hv_min_on_frac_q (recompute_derived s) \<le> HV9910_Q_ONE"
proof -
  let ?a = "unat (dm_min_on_time_us (hv_dimming s))" and ?b = "unat (dm_pwm_freq_hz (hv_dimming s))"
  let ?f = "(ucast (dm_min_on_time_us (hv_dimming s)) * ucast (dm_pwm_freq_hz (hv_dimming s))
      * ucast HV9910_Q_ONE :: u64) div 1000000"
  note r = dim_ok_unat [OF assms]
  have ab: "2 * 1000 \<le> ?a * ?b" "?a * ?b \<le> 200 * 5000"
    using mult_le_mono [OF r(5) r(1)] mult_le_mono [OF r(6) r(2)] by simp_all
  have p1: "unat (ucast (dm_min_on_time_us (hv_dimming s)) * ucast (dm_pwm_freq_hz (hv_dimming s)) :: u64) = ?a * ?b"
    using ab by (subst unat_mult_small) auto
  have p2: "unat (ucast (dm_min_on_time_us (hv_dimming s)) * ucast (dm_pwm_freq_hz (hv_dimming s))
      * ucast HV9910_Q_ONE :: u64) = ?a * ?b * 65536"
    using ab by (subst unat_mult_small) (auto simp: p1)
  have f: "unat ?f = ?a * ?b * 65536 div 1000000"
    by (simp add: unat_div p2)
  have "131 \<le> unat ?f" using ab unfolding f by linarith
  moreover have "unat ?f \<le> 65536" using ab unfolding f by linarith
  ultimately show "131 \<le> unat (hv_min_on_frac_q (recompute_derived s))"
    and "hv_min_on_frac_q (recompute_derived s) \<le> HV9910_Q_ONE"
    by (auto simp: recompute_derived_def Let_def word_le_unat word_less_unat unat_ucast_down)
qed

text \<open>The PWMD timer has at least 13 bits at every valid switching frequency.\<close>

lemma pwmd_bits_ge:
  assumes "1000 \<le> unat (f :: u16)" and "unat f \<le> 5000"
  shows "13 \<le> pick_duty_res_bits (ucast f)" and "pick_duty_res_bits (ucast f) \<le> 14"
proof -
  have u: "unat (ucast f :: u32) = unat f" by simp
  have nz: "(ucast f :: u32) \<noteq> 0"
  proof
    assume "(ucast f :: u32) = 0"
    then have "unat f = 0" using u by (metis unat_0)
    with assms(1) show False by simp
  qed
  show "pick_duty_res_bits (ucast f) \<le> 14" using pick_duty_res_bits_spec(2) [OF nz] .
  show "13 \<le> pick_duty_res_bits (ucast f)"
  proof (rule ccontr)
    assume "\<not> 13 \<le> pick_duty_res_bits (ucast f)"
    then have "pick_duty_res_bits (ucast f) + 1 \<le> 13" by simp
    then have "(2::nat) ^ (pick_duty_res_bits (ucast f) + 1) \<le> 2 ^ 13"
      by (intro power_increasing) auto
    then have "unat f * 2 ^ (pick_duty_res_bits (ucast f) + 1) \<le> 5000 * 2 ^ 13"
      using assms(2) by (intro mult_le_mono)
    moreover have "80000000 < unat f * 2 ^ (pick_duty_res_bits (ucast f) + 1)"
      using pick_duty_res_bits_spec(4) [OF nz] \<open>\<not> 13 \<le> _\<close> u by simp
    ultimately show False by simp
  qed
qed

lemma unat_push_bits: "k \<le> 14 \<Longrightarrow> unat (push_bit k 1 :: u32) = 2 ^ k"
proof -
  assume "k \<le> 14"
  then have "(2::nat) ^ k \<le> 2 ^ 14" by (intro power_increasing) auto
  then show ?thesis by (subst unat_push_small) auto
qed

lemma scale_duty_pos:
  assumes "131 \<le> unat q" "q \<le> HV9910_Q_ONE" "8192 \<le> unat full"
  shows "0 < scale_duty q full"
proof -
  have "131 * 8192 \<le> unat q * unat full" using assms(1,3) by (rule mult_le_mono)
  then have "0 < (unat q * unat full + 32768) div 65536" by (simp add: div_greater_zero_iff)
  then show ?thesis by (simp add: word_less_unat unat_scale_duty [OF assms(2)])
qed

section \<open>Rendering establishes the output part\<close>

lemma reconfigure_idem [simp]: "reconfigure_ledc (reconfigure_ledc s) = reconfigure_ledc s"
  by (simp add: reconfigure_ledc_def Let_def)

lemma recompute_idem [simp]: "recompute_derived (recompute_derived s) = recompute_derived s"
  by (simp add: recompute_derived_def Let_def)

lemma ledc_start_timers:
  assumes "hv_ledc_started s \<longrightarrow> reconfigure_ledc s = s"
  shows "hv_ld_full (ledc_start_if_needed s) = push_bit (pick_duty_res_bits (dm_analog_freq_hz (hv_dimming s))) 1"
    and "hv_pwmd_full (ledc_start_if_needed s) = push_bit (pick_duty_res_bits (ucast (dm_pwm_freq_hz (hv_dimming s)))) 1"
    and "ledc_ld_bits (ledc_start_if_needed s) = pick_duty_res_bits (dm_analog_freq_hz (hv_dimming s))"
    and "ledc_pwmd_bits (ledc_start_if_needed s) = pick_duty_res_bits (ucast (dm_pwm_freq_hz (hv_dimming s)))"
proof -
  have r: "hv_ld_full (reconfigure_ledc s) = push_bit (pick_duty_res_bits (dm_analog_freq_hz (hv_dimming s))) 1"
    "hv_pwmd_full (reconfigure_ledc s) = push_bit (pick_duty_res_bits (ucast (dm_pwm_freq_hz (hv_dimming s)))) 1"
    "ledc_ld_bits (reconfigure_ledc s) = pick_duty_res_bits (dm_analog_freq_hz (hv_dimming s))"
    "ledc_pwmd_bits (reconfigure_ledc s) = pick_duty_res_bits (ucast (dm_pwm_freq_hz (hv_dimming s)))"
    by (simp_all add: reconfigure_ledc_def Let_def)
  then show "hv_ld_full (ledc_start_if_needed s) = push_bit (pick_duty_res_bits (dm_analog_freq_hz (hv_dimming s))) 1"
    "hv_pwmd_full (ledc_start_if_needed s) = push_bit (pick_duty_res_bits (ucast (dm_pwm_freq_hz (hv_dimming s)))) 1"
    "ledc_ld_bits (ledc_start_if_needed s) = pick_duty_res_bits (dm_analog_freq_hz (hv_dimming s))"
    "ledc_pwmd_bits (ledc_start_if_needed s) = pick_duty_res_bits (ucast (dm_pwm_freq_hz (hv_dimming s)))"
    using assms by (auto simp: ledc_start_if_needed_def)
qed

text \<open>The settings part without the claim about the current level, which rendering replaces.\<close>

definition hv_settings0 :: "hv_state \<Rightarrow> bool" where
  "hv_settings0 s \<longleftrightarrow> dim_ok (hv_dimming s) \<and> recompute_derived s = s
     \<and> (hv_ledc_started s \<longrightarrow> reconfigure_ledc s = s)
     \<and> hv_output_scale_q s \<le> HV9910_Q_ONE \<and> hv_identify_saved_level_q s \<le> HV9910_Q_ONE"

text \<open>The three derived values as a function of the dimming configuration alone.\<close>

definition derived_of :: "hv9910_dimming \<Rightarrow> u32 \<times> u32 \<times> bool" where
  "derived_of d =
     (let s = recompute_derived (hv9910_statics\<lparr>hv_dimming := d\<rparr>)
      in (hv_crossover_q s, hv_min_on_frac_q s, hv_lin_enable s))"

lemma recompute_values:
  "(hv_crossover_q (recompute_derived s), hv_min_on_frac_q (recompute_derived s),
    hv_lin_enable (recompute_derived s)) = derived_of (hv_dimming s)"
  by (simp add: derived_of_def recompute_derived_def Let_def)

lemma recompute_fix_iff:
  "recompute_derived s = s \<longleftrightarrow>
     (hv_crossover_q s, hv_min_on_frac_q s, hv_lin_enable s) = derived_of (hv_dimming s)"
proof -
  have "recompute_derived s = s \<longleftrightarrow>
     (hv_crossover_q s, hv_min_on_frac_q s, hv_lin_enable s) =
     (hv_crossover_q (recompute_derived s), hv_min_on_frac_q (recompute_derived s),
      hv_lin_enable (recompute_derived s))"
    by (cases s) (auto simp: recompute_derived_def Let_def)
  then show ?thesis by (simp only: recompute_values)
qed

lemma recompute_frame [simp]:
  "hv_dimming (recompute_derived s) = hv_dimming s"
  "hv_ledc_started (recompute_derived s) = hv_ledc_started s"
  "hv_output_scale_q (recompute_derived s) = hv_output_scale_q s"
  "hv_level_q (recompute_derived s) = hv_level_q s"
  "hv_identify_saved_level_q (recompute_derived s) = hv_identify_saved_level_q s"
  "hv_cmd_queue (recompute_derived s) = hv_cmd_queue s"
  "hv_task_ready (recompute_derived s) = hv_task_ready s"
  by (simp_all add: recompute_derived_def Let_def)

lemma reconfigure_frame [simp]:
  "hv_dimming (reconfigure_ledc s) = hv_dimming s"
  "hv_ledc_started (reconfigure_ledc s) = hv_ledc_started s"
  "hv_crossover_q (reconfigure_ledc s) = hv_crossover_q s"
  "hv_min_on_frac_q (reconfigure_ledc s) = hv_min_on_frac_q s"
  "hv_lin_enable (reconfigure_ledc s) = hv_lin_enable s"
  "hv_output_scale_q (reconfigure_ledc s) = hv_output_scale_q s"
  "hv_level_q (reconfigure_ledc s) = hv_level_q s"
  "hv_identify_saved_level_q (reconfigure_ledc s) = hv_identify_saved_level_q s"
  "hv_cmd_queue (reconfigure_ledc s) = hv_cmd_queue s"
  "hv_task_ready (reconfigure_ledc s) = hv_task_ready s"
  by (simp_all add: reconfigure_ledc_def Let_def)

lemma reconfigure_fix_iff:
  "reconfigure_ledc s = s \<longleftrightarrow>
     ledc_ld_bits s = pick_duty_res_bits (dm_analog_freq_hz (hv_dimming s))
   \<and> ledc_pwmd_bits s = pick_duty_res_bits (ucast (dm_pwm_freq_hz (hv_dimming s)))
   \<and> hv_ld_full s = push_bit (ledc_ld_bits s) 1
   \<and> hv_pwmd_full s = push_bit (ledc_pwmd_bits s) 1"
  by (cases s) (auto simp: reconfigure_ledc_def Let_def)

lemma apply_level_inv:
  assumes s: "hv_settings0 s" and l: "l \<le> HV9910_Q_ONE"
  shows "hv_settings (apply_level powf l s)" and "hv_output (apply_level powf l s)"
proof -
  let ?t = "apply_level powf l s"
  note st = s [unfolded hv_settings0_def]
  note timers = ledc_start_timers [OF st [THEN conjunct2, THEN conjunct2, THEN conjunct1]]
  have rd: "recompute_derived ?t = ?t"
    using st by (simp add: recompute_fix_iff)
  have rc: "reconfigure_ledc ?t = ?t"
    by (simp add: reconfigure_fix_iff timers)
  show "hv_settings ?t"
    using st l rd rc by (simp add: hv_settings_def)
  have m: "131 \<le> unat (hv_min_on_frac_q s)" "hv_min_on_frac_q s \<le> HV9910_Q_ONE"
    using recompute_min_on [of s] st by auto
  have freq: "1000 \<le> unat (dm_pwm_freq_hz (hv_dimming s))" "unat (dm_pwm_freq_hz (hv_dimming s)) \<le> 5000"
    using dim_ok_unat [of "hv_dimming s"] st by auto
  have "8192 \<le> (2::nat) ^ pick_duty_res_bits (ucast (dm_pwm_freq_hz (hv_dimming s)))"
    using power_increasing [OF pwmd_bits_ge(1) [OF freq], of "2::nat"] by simp
  then have full: "8192 \<le> unat (hv_pwmd_full (ledc_start_if_needed s))"
    using pwmd_bits_ge(2) [OF freq] by (simp only: timers unat_push_bits)
  let ?o = "rendered powf l s"
  have b: "ld_duty_q ?o \<le> HV9910_Q_ONE" "pwmd_duty_q ?o \<le> HV9910_Q_ONE"
    "want_lit ?o \<longleftrightarrow> 0 < pwmd_duty_q ?o"
    "pwmd_duty_q ?o = 0 \<or> clamp_q (hv_min_on_frac_q s) \<le> pwmd_duty_q ?o"
    unfolding rendered_def by (rule curve_eval_bounds)+
  have pos: "scale_duty (pwmd_duty_q ?o) (hv_pwmd_full (ledc_start_if_needed s)) \<noteq> 0"
    if "want_lit ?o"
  proof -
    have "131 \<le> unat (pwmd_duty_q ?o)"
      using that b(3,4) m by (auto simp: word_le_unat)
    then show ?thesis using scale_duty_pos [OF _ b(2) full] by (auto simp: word_gt_0)
  qed
  show "hv_output ?t"
    using b pos by (auto simp: hv_output_def apply_level_output scale_duty_le)
qed

lemma settings_settings0: "hv_settings s \<Longrightarrow> hv_settings0 s"
  by (simp add: hv_settings_def hv_settings0_def)

section \<open>Every operation keeps the invariant\<close>

lemma settings0_upd [simp]:
  "hv_settings0 (s\<lparr>hv_desired_on := b\<rparr>) = hv_settings0 s"
  "hv_settings0 (s\<lparr>hv_power_cut := b\<rparr>) = hv_settings0 s"
  "hv_settings0 (s\<lparr>hv_last_nonzero_percent := p\<rparr>) = hv_settings0 s"
  "hv_settings0 (s\<lparr>hv_identify_saved_enabled := b\<rparr>) = hv_settings0 s"
  "hv_settings0 (s\<lparr>hv_identify_saved_desired := b\<rparr>) = hv_settings0 s"
  "hv_settings0 (s\<lparr>hv_identify_steps_left := n\<rparr>) = hv_settings0 s"
  "hv_settings0 (s\<lparr>hv_identify_next_is_on := b\<rparr>) = hv_settings0 s"
  "hv_settings0 (s\<lparr>hv_pending := a\<rparr>) = hv_settings0 s"
  "hv_settings0 (s\<lparr>hv_pending_deadline := d\<rparr>) = hv_settings0 s"
  "hv_settings0 (s\<lparr>hv_cmd_queue := q\<rparr>) = hv_settings0 s"
  "hv_settings0 (s\<lparr>hv_enabled := b\<rparr>) = hv_settings0 s"
  "hv_settings0 (s\<lparr>hv_dim_percent := p\<rparr>) = hv_settings0 s"
  "hv_settings0 (s\<lparr>hv_level_q := l\<rparr>) = hv_settings0 s"
  "hv_settings0 (s\<lparr>ledc_ld_duty := d'\<rparr>) = hv_settings0 s"
  "hv_settings0 (s\<lparr>ledc_pwmd_duty := d'\<rparr>) = hv_settings0 s"
  "l \<le> HV9910_Q_ONE \<Longrightarrow> hv_settings0 s \<Longrightarrow> hv_settings0 (s\<lparr>hv_identify_saved_level_q := l\<rparr>)"
  "l \<le> HV9910_Q_ONE \<Longrightarrow> hv_settings0 s \<Longrightarrow> hv_settings0 (s\<lparr>hv_output_scale_q := l\<rparr>)"
  by (simp_all add: hv_settings0_def recompute_fix_iff reconfigure_fix_iff)

lemma settings_iff: "hv_settings s \<longleftrightarrow> hv_settings0 s \<and> hv_level_q s \<le> HV9910_Q_ONE"
  by (auto simp: hv_settings_def hv_settings0_def)

lemma output_upd [simp]:
  "hv_output (s\<lparr>hv_desired_on := b\<rparr>) = hv_output s"
  "hv_output (s\<lparr>hv_last_nonzero_percent := p\<rparr>) = hv_output s"
  "hv_output (s\<lparr>hv_identify_steps_left := n\<rparr>) = hv_output s"
  "hv_output (s\<lparr>hv_identify_next_is_on := b\<rparr>) = hv_output s"
  "hv_output (s\<lparr>hv_pending := a\<rparr>) = hv_output s"
  "hv_output (s\<lparr>hv_pending_deadline := d\<rparr>) = hv_output s"
  "hv_output (s\<lparr>hv_cmd_queue := q\<rparr>) = hv_output s"
  by (simp_all add: hv_output_def)

text \<open>The driver part of the invariant, without the queue.\<close>

definition hv_core :: "hv_state \<Rightarrow> bool" where
  "hv_core s \<longleftrightarrow> hv_settings s \<and> hv_output s"

lemma core_upd [simp]:
  "hv_core (s\<lparr>hv_desired_on := b\<rparr>) = hv_core s"
  "hv_core (s\<lparr>hv_last_nonzero_percent := p\<rparr>) = hv_core s"
  "hv_core (s\<lparr>hv_identify_steps_left := n\<rparr>) = hv_core s"
  "hv_core (s\<lparr>hv_identify_next_is_on := b\<rparr>) = hv_core s"
  "hv_core (s\<lparr>hv_pending := a\<rparr>) = hv_core s"
  "hv_core (s\<lparr>hv_pending_deadline := d\<rparr>) = hv_core s"
  "hv_core (s\<lparr>hv_cmd_queue := q\<rparr>) = hv_core s"
  by (simp_all add: hv_core_def settings_iff)

lemma core_settings0: "hv_core s \<Longrightarrow> hv_settings0 s" and core_level: "hv_core s \<Longrightarrow> hv_level_q s \<le> HV9910_Q_ONE"
  by (simp_all add: hv_core_def settings_iff)

lemma apply_level_core: "hv_settings0 s \<Longrightarrow> l \<le> HV9910_Q_ONE \<Longrightarrow> hv_core (apply_level powf l s)"
  by (simp add: hv_core_def apply_level_inv)

lemma set_dim_core: "hv_settings0 s \<Longrightarrow> hv_core (hv_do_set_dim powf p r s)"
  by (simp add: hv_do_set_dim_def Let_def apply_level_core)

lemma enable_core: "hv_settings0 s \<Longrightarrow> hv_core (hv_do_enable powf p s)"
  by (simp add: hv_do_enable_def set_dim_core)

lemma disable_core: "hv_settings0 s \<Longrightarrow> hv_core (hv_do_disable powf s)"
  by (simp add: hv_do_disable_def apply_level_core)

lemma set_scale_core:
  assumes "hv_core s"
  shows "hv_core (hv_do_set_scale powf p s)"
proof -
  have "hv_settings0 (s\<lparr>hv_output_scale_q := (ucast (if 100 < p' then 100 else p') * HV9910_Q_ONE) div 100\<rparr>)"
    for p' :: u8
    by (rule settings0_upd(17) [OF pct_scaled_le core_settings0 [OF assms]])
       (simp add: not_less [symmetric])
  then show ?thesis unfolding hv_do_set_scale_def Let_def
    by (rule apply_level_core) (simp add: core_level [OF assms])
qed

lemma apply_dimming_core:
  assumes "hv_core s" and "dim_ok p"
  shows "hv_core (hv_do_apply_dimming powf p s)"
proof -
  let ?a = "recompute_derived (s\<lparr>hv_dimming := p\<rparr>)"
  let ?b = "reconfigure_ledc (ledc_start_if_needed ?a)"
  have "recompute_derived ?b = ?b"
    using recompute_values [of "s\<lparr>hv_dimming := p\<rparr>"] by (simp add: recompute_fix_iff)
  then have "hv_settings0 ?b"
    using assms by (simp add: hv_settings0_def hv_core_def hv_settings_def)
  moreover have "hv_level_q ?b \<le> HV9910_Q_ONE" using core_level [OF assms(1)] by simp
  ultimately show ?thesis
    by (simp add: hv_do_apply_dimming_def Let_def apply_level_core)
qed

lemma identify_step_core:
  assumes "hv_settings0 s"
  shows "hv_core (do_identify_step powf hz now s)"
proof -
  have "hv_identify_saved_level_q s \<le> HV9910_Q_ONE" using assms by (simp add: hv_settings0_def)
  then show ?thesis
    using assms by (simp add: do_identify_step_def Let_def apply_level_core)
qed

lemma identify_core: "hv_core s \<Longrightarrow> hv_core (hv_do_identify powf hz now s)"
  by (simp add: hv_do_identify_def identify_step_core core_settings0 core_level)

lemma emergency_core: "hv_core s \<Longrightarrow> hv_core (hv_do_emergency_off s)"
  by (auto simp: hv_do_emergency_off_def Let_def hv_core_def settings_iff hv_output_def)

lemma dispatch_core: "hv_core s \<Longrightarrow> cmd_ok c \<Longrightarrow> hv_core (dispatch_cmd powf hz now c s)"
  by (cases c)
     (simp_all add: Let_def core_settings0 enable_core disable_core set_dim_core identify_core
        emergency_core apply_dimming_core set_scale_core)

text \<open>Dispatching leaves the queue and the task flag alone.\<close>

lemma dispatch_queue [simp]:
  "hv_cmd_queue (dispatch_cmd powf hz now c s) = hv_cmd_queue s"
  "hv_task_ready (dispatch_cmd powf hz now c s) = hv_task_ready s"
  by (cases c; simp add: hv_do_enable_def hv_do_disable_def hv_do_set_dim_def hv_do_identify_def
        do_identify_step_def hv_do_emergency_off_def hv_do_apply_dimming_def hv_do_set_scale_def
        Let_def)+

lemma fire_queue [simp]:
  "hv_cmd_queue (fire_pending_action powf hz now s) = hv_cmd_queue s"
  "hv_task_ready (fire_pending_action powf hz now s) = hv_task_ready s"
  by (simp_all add: fire_pending_action_def do_identify_step_def Let_def split: pending_action.split)

lemma inv_core: "hv_inv s \<longleftrightarrow> hv_core s \<and> length (hv_cmd_queue s) \<le> CMD_QUEUE_LEN
    \<and> list_all cmd_ok (hv_cmd_queue s)"
  by (auto simp: hv_inv_def hv_core_def)

lemma fire_core: "hv_core s \<Longrightarrow> hv_core (fire_pending_action powf hz now s)"
  by (simp add: fire_pending_action_def identify_step_core core_settings0 split: pending_action.split)

lemma task_step_inv: "hv_inv s \<Longrightarrow> hv_inv (hv9910_task_step powf hz now s)"
  by (cases "hv_cmd_queue s")
     (auto simp: hv9910_task_step_def inv_core dispatch_core xQueueReceive_def fire_core)

text \<open>Posting changes only the queue; the urgent post is the client protocol of the interface.\<close>

lemma post_cmd_eq:
  "post_cmd c front s =
     (if hv_task_ready s
      then s\<lparr>hv_cmd_queue := (if front then rtos.post_urgent c (hv_cmd_queue s)
                              else rtos.post c (hv_cmd_queue s))\<rparr>
      else s)"
  by (auto simp: post_cmd_def rtos.post_def rtos.post_urgent_def Let_def split: option.split)

lemma post_cmd_frame [simp]:
  "hv_task_ready (post_cmd c front s) = hv_task_ready s"
  "hv_desired_on (post_cmd c front s) = hv_desired_on s"
  "hv_enabled (post_cmd c front s) = hv_enabled s"
  "hv_power_cut (post_cmd c front s) = hv_power_cut s"
  "hv_last_nonzero_percent (post_cmd c front s) = hv_last_nonzero_percent s"
  by (simp_all add: post_cmd_eq)

lemma post_cmd_queue_set: "set (hv_cmd_queue (post_cmd c front s)) \<subseteq> insert c (set (hv_cmd_queue s))"
  by (cases "hv_cmd_queue s")
     (auto simp: post_cmd_def xQueueSend_def xQueueSendToFront_def xQueueReceive_def Let_def)

lemma post_cmd_queue:
  "hv_task_ready s \<Longrightarrow> hv_cmd_queue (post_cmd c False s) =
     (if length (hv_cmd_queue s) < CMD_QUEUE_LEN then hv_cmd_queue s @ [c] else hv_cmd_queue s)"
  by (simp add: post_cmd_eq rtos.items_post)

lemma post_cmd_front_queue:
  "hv_task_ready s \<Longrightarrow> length (hv_cmd_queue s) \<le> CMD_QUEUE_LEN \<Longrightarrow>
   hv_cmd_queue (post_cmd c True s) =
     c # (if length (hv_cmd_queue s) < CMD_QUEUE_LEN then hv_cmd_queue s else tl (hv_cmd_queue s))"
  by (simp add: post_cmd_eq rtos.items_post_urgent)

lemma post_cmd_inv:
  assumes "hv_inv s" and "cmd_ok c"
  shows "hv_inv (post_cmd c front s)"
proof -
  have "set (hv_cmd_queue (post_cmd c front s)) \<subseteq> insert c (set (hv_cmd_queue s))"
    by (rule post_cmd_queue_set)
  then have "list_all cmd_ok (hv_cmd_queue (post_cmd c front s))"
    using assms by (auto simp: inv_core list_all_iff)
  moreover have "length (hv_cmd_queue (post_cmd c front s)) \<le> CMD_QUEUE_LEN"
    using assms rtos.length_post [of "hv_cmd_queue s" c] rtos.length_post_urgent [of "hv_cmd_queue s" c]
    by (simp add: post_cmd_eq inv_core)
  moreover have "hv_core (post_cmd c front s)"
    using assms by (simp add: post_cmd_eq inv_core)
  ultimately show ?thesis by (simp add: inv_core)
qed

lemma dim_default_ok:
  "dim_ok \<lparr>dm_mode = HV9910_DIM_HYBRID, dm_pwm_freq_hz = 2000, dm_analog_freq_hz = 60000,
     dm_min_on_time_us = 20, dm_crossover_pct = 20, dm_lin_enable = 1\<rparr>"
  by (simp add: dim_ok_def fw_const)

lemma init_inv: "hv_inv (hv9910_init queue_ok task_ok config hv9910_statics)"
proof -
  let ?s = "hv9910_init queue_ok task_ok config hv9910_statics"
  have vals: "hv_cmd_queue ?s = []" "hv_output ?s" "\<not> hv_ledc_started ?s"
      "hv_output_scale_q ?s = HV9910_Q_ONE" "hv_level_q ?s = 0" "hv_identify_saved_level_q ?s = 0"
    by (simp_all add: hv9910_init_def hv9910_statics_def recompute_derived_def Let_def hv_output_def)
  have "recompute_derived ?s = ?s"
    by (simp add: hv9910_init_def recompute_fix_iff recompute_values Let_def)
  moreover have "dim_ok (hv_dimming ?s)"
    using dim_default_ok by (simp add: hv9910_init_def Let_def)
  ultimately show ?thesis
    using vals by (simp add: hv_inv_def hv_settings_def)
qed

end
