(* ===== verification/HV9910_Properties.thy ===== *)
theory HV9910_Properties
  imports HV9910_Invariant
begin

text \<open>
  The properties of the LED driver: the dimming curve, the LEDC timer set-up, the percent
  conversions, the invariant over every reachable state, the emergency-off latch and the
  IDENTIFY blink.
\<close>

section \<open>Reachable states\<close>

text \<open>
  The driver's life: a successful or failed \<open>hv9910_init\<close>, then any interleaving of calls of
  the public interface from other tasks with iterations of the driver's own task.
\<close>

inductive hv_step :: "(rat \<Rightarrow> rat \<Rightarrow> rat) \<Rightarrow> u32 \<Rightarrow> hv_state \<Rightarrow> hv_state \<Rightarrow> bool"
  for powf tick_hz where
  task: "hv_step powf tick_hz s (hv9910_task_step powf tick_hz now s)"
| enable_at: "hv_step powf tick_hz s (hv9910_enable_at p s)"
| enable: "hv_step powf tick_hz s (hv9910_enable s)"
| disable: "hv_step powf tick_hz s (hv9910_disable s)"
| emergency: "hv_step powf tick_hz s (hv9910_emergency_disable s)"
| set_dim: "hv_step powf tick_hz s (hv9910_set_dim p s)"
| identify: "hv_step powf tick_hz s (hv9910_identify s)"
| set_pending: "hv_step powf tick_hz s (hv9910_set_pending b p s)"
| set_scale: "hv_step powf tick_hz s (hv9910_set_output_scale p s)"
| set_dimming: "(\<And>d. p = Some d \<Longrightarrow> dim_ok d) \<Longrightarrow> hv_step powf tick_hz s (hv9910_set_dimming p s)"

inductive hv_reachable :: "(rat \<Rightarrow> rat \<Rightarrow> rat) \<Rightarrow> u32 \<Rightarrow> hv_state \<Rightarrow> bool"
  for powf tick_hz where
  init: "hv_reachable powf tick_hz (hv9910_init queue_ok task_ok config hv9910_statics)"
| step: "hv_reachable powf tick_hz s \<Longrightarrow> hv_step powf tick_hz s s' \<Longrightarrow> hv_reachable powf tick_hz s'"

lemmas hv_api_defs = hv9910_enable_at_def hv9910_enable_def hv9910_disable_def
  hv9910_emergency_disable_def hv9910_set_dim_def hv9910_identify_def hv9910_set_pending_def
  hv9910_set_output_scale_def hv9910_set_dimming_def

lemma hv_step_inv: "hv_step powf tick_hz s s' \<Longrightarrow> hv_inv s \<Longrightarrow> hv_inv s'"
  by (induction rule: hv_step.induct)
     (auto simp: hv_api_defs Let_def task_step_inv post_cmd_inv split: option.split)

lemma reachable_inv: "hv_reachable powf tick_hz s \<Longrightarrow> hv_inv s"
  by (induction rule: hv_reachable.induct) (auto intro: init_inv hv_step_inv)

section \<open>The outputs follow the level\<close>

text \<open>
  Once the LEDC outputs are started, the duties are those of the current level under the
  current cap and configuration, or zero while the latch is set.
\<close>

definition hv_follows :: "(rat \<Rightarrow> rat \<Rightarrow> rat) \<Rightarrow> hv_state \<Rightarrow> bool" where
  "hv_follows powf s \<longleftrightarrow> (hv_ledc_started s \<longrightarrow>
     (let out = rendered powf (hv_level_q s) s; lit = (want_lit out \<and> \<not> hv_power_cut s)
      in hv_enabled s = lit
         \<and> ledc_ld_duty s = (if lit then scale_duty (ld_duty_q out) (hv_ld_full s) else 0)
         \<and> ledc_pwmd_duty s = (if lit then scale_duty (pwmd_duty_q out) (hv_pwmd_full s) else 0)))"

lemma rendered_cong:
  "hv_dimming s = hv_dimming t \<Longrightarrow> hv_output_scale_q s = hv_output_scale_q t \<Longrightarrow>
   hv_crossover_q s = hv_crossover_q t \<Longrightarrow> hv_min_on_frac_q s = hv_min_on_frac_q t \<Longrightarrow>
   hv_lin_enable s = hv_lin_enable t \<Longrightarrow> rendered powf l s = rendered powf l t"
  by (simp add: rendered_def)

lemma rendered_apply [simp]: "rendered powf l (apply_level powf' l' s) = rendered powf l s"
  by (rule rendered_cong) simp_all

lemma follows_apply [simp]: "hv_follows powf (apply_level powf l s)"
  by (simp add: hv_follows_def Let_def apply_level_output)

lemma follows_upd [simp]:
  "hv_follows powf (s\<lparr>hv_desired_on := b\<rparr>) = hv_follows powf s"
  "hv_follows powf (s\<lparr>hv_last_nonzero_percent := p\<rparr>) = hv_follows powf s"
  "hv_follows powf (s\<lparr>hv_identify_steps_left := n\<rparr>) = hv_follows powf s"
  "hv_follows powf (s\<lparr>hv_identify_next_is_on := b\<rparr>) = hv_follows powf s"
  "hv_follows powf (s\<lparr>hv_pending := a\<rparr>) = hv_follows powf s"
  "hv_follows powf (s\<lparr>hv_pending_deadline := d\<rparr>) = hv_follows powf s"
  "hv_follows powf (s\<lparr>hv_cmd_queue := q\<rparr>) = hv_follows powf s"
  by (simp_all add: hv_follows_def Let_def rendered_def)

lemma identify_step_follows [simp]: "hv_follows powf (do_identify_step powf hz now s)"
  by (simp add: do_identify_step_def Let_def)

lemma emergency_follows [simp]: "hv_follows powf (hv_do_emergency_off s)"
  by (simp add: hv_do_emergency_off_def Let_def hv_follows_def)

lemma dispatch_follows: "hv_follows powf s \<Longrightarrow> hv_follows powf (dispatch_cmd powf hz now c s)"
  by (cases c)
     (simp_all add: Let_def hv_do_enable_def hv_do_set_dim_def hv_do_disable_def
        hv_do_identify_def hv_do_apply_dimming_def hv_do_set_scale_def)

lemma task_step_follows: "hv_follows powf s \<Longrightarrow> hv_follows powf (hv9910_task_step powf hz now s)"
  by (cases "hv_cmd_queue s")
     (auto simp: hv9910_task_step_def xQueueReceive_def dispatch_follows fire_pending_action_def
        split: pending_action.split)

lemma post_follows [simp]: "hv_follows powf (post_cmd c front s) = hv_follows powf s"
  by (simp add: post_cmd_eq)

lemma hv_step_follows: "hv_step powf tick_hz s s' \<Longrightarrow> hv_follows powf s \<Longrightarrow> hv_follows powf s'"
  by (induction rule: hv_step.induct)
     (auto simp: hv_api_defs Let_def task_step_follows split: option.split)

lemma init_follows: "hv_follows powf (hv9910_init queue_ok task_ok config s)"
  by (simp add: hv_follows_def hv9910_init_def Let_def recompute_derived_def)

lemma reachable_follows: "hv_reachable powf tick_hz s \<Longrightarrow> hv_follows powf s"
  by (induction rule: hv_reachable.induct) (auto intro: init_follows hv_step_follows)

section \<open>The power-cut latch\<close>

definition hv_dark :: "hv_state \<Rightarrow> bool" where
  "hv_dark s \<longleftrightarrow> ledc_pwmd_duty s = 0 \<and> ledc_ld_duty s = 0 \<and> \<not> hv_enabled s"

fun relights :: "hv_cmd \<Rightarrow> bool" where
  "relights (HV_CMD_ENABLE _) = True"
| "relights HV_CMD_IDENTIFY = True"
| "relights _ = False"

lemma inv_cut_dark: "hv_inv s \<Longrightarrow> hv_power_cut s \<Longrightarrow> hv_dark s"
  by (auto simp: hv_inv_def hv_output_def hv_dark_def)

lemma dispatch_keeps_cut: "\<not> relights c \<Longrightarrow> hv_power_cut s \<Longrightarrow> hv_power_cut (dispatch_cmd powf hz now c s)"
  by (cases c)
     (simp_all add: Let_def hv_do_disable_def hv_do_set_dim_def hv_do_emergency_off_def
        hv_do_apply_dimming_def hv_do_set_scale_def recompute_derived_def reconfigure_ledc_def)

lemma identify_step_cut [simp]: "hv_power_cut (do_identify_step powf hz now s) = hv_power_cut s"
  by (simp add: do_identify_step_def Let_def)

lemma task_step_queue: "hv_cmd_queue (hv9910_task_step powf hz now s) = tl (hv_cmd_queue s)"
  by (cases "hv_cmd_queue s") (simp_all add: hv9910_task_step_def xQueueReceive_def)

lemma task_step_keeps_cut:
  "\<not> list_ex relights (hv_cmd_queue s) \<Longrightarrow> hv_power_cut s \<Longrightarrow> hv_power_cut (hv9910_task_step powf hz now s)"
  by (cases "hv_cmd_queue s")
     (auto simp: hv9910_task_step_def xQueueReceive_def dispatch_keeps_cut fire_pending_action_def
        split: pending_action.split)

lemma task_run_keeps_cut:
  assumes "hv_inv s" "hv_power_cut s" "\<not> list_ex relights (hv_cmd_queue s)"
  shows "hv_inv (fold (hv9910_task_step powf hz) nows s)
       \<and> hv_power_cut (fold (hv9910_task_step powf hz) nows s)"
  using assms
proof (induction nows arbitrary: s)
  case (Cons now nows)
  have "\<not> list_ex relights (tl (hv_cmd_queue s))"
    using Cons.prems(3) by (cases "hv_cmd_queue s") auto
  then show ?case
    using Cons by (simp add: task_step_inv task_step_keeps_cut task_step_queue)
qed simp

lemma task_step_head:
  "hv_cmd_queue s = c # cs \<Longrightarrow> hv9910_task_step powf hz now s =
     dispatch_cmd powf hz now c (s\<lparr>hv_cmd_queue := cs, hv_pending := PENDING_NONE\<rparr>)"
  by (simp add: hv9910_task_step_def xQueueReceive_def)

lemma emergency_off_state:
  "hv_power_cut (hv_do_emergency_off s)" "\<not> hv_enabled (hv_do_emergency_off s)"
  "hv_level_q (hv_do_emergency_off s) = 0" "hv_pending (hv_do_emergency_off s) = PENDING_NONE"
  by (simp_all add: hv_do_emergency_off_def Let_def)

section \<open>The IDENTIFY blink\<close>

text \<open>The state after the command and \<open>k\<close> timer expiries, as long as no other command comes.\<close>

definition blink_state :: "(rat \<Rightarrow> rat \<Rightarrow> rat) \<Rightarrow> u32 \<Rightarrow> hv_state \<Rightarrow> nat \<Rightarrow> hv_state \<Rightarrow> bool" where
  "blink_state powf hz s k t \<longleftrightarrow>
     hv_level_q t = (if even k then HV9910_Q_ONE else 0) \<and> hv_identify_next_is_on t = odd k
     \<and> hv_identify_steps_left t = 11 - int k \<and> hv_pending t = PENDING_IDENTIFY_STEP
     \<and> \<not> hv_power_cut t \<and> hv_dimming t = hv_dimming s \<and> hv_output_scale_q t = hv_output_scale_q s
     \<and> hv_crossover_q t = hv_crossover_q s \<and> hv_min_on_frac_q t = hv_min_on_frac_q s
     \<and> hv_lin_enable t = hv_lin_enable s \<and> hv_ledc_started t
     \<and> hv_ld_full t = hv_ld_full (ledc_start_if_needed s)
     \<and> hv_pwmd_full t = hv_pwmd_full (ledc_start_if_needed s)
     \<and> hv_identify_saved_enabled t = hv_enabled s \<and> hv_identify_saved_level_q t = hv_level_q s
     \<and> hv_identify_saved_desired t = hv_desired_on s"

lemma blink_start: "blink_state powf hz s 0 (hv_do_identify powf hz now s)"
  by (simp add: blink_state_def hv_do_identify_def do_identify_step_def Let_def fw_const
        IDENTIFY_BLINK_CYCLES_def ledc_start_if_needed_def reconfigure_ledc_def)

lemma started_frame: "hv_ledc_started s \<Longrightarrow> ledc_start_if_needed s = s"
  by (simp add: ledc_start_if_needed_def)

lemma blink_next:
  "blink_state powf hz s k t \<Longrightarrow> k < 11 \<Longrightarrow> blink_state powf hz s (Suc k) (fire_pending_action powf hz now t)"
  by (auto simp: blink_state_def fire_pending_action_def do_identify_step_def Let_def started_frame)

lemma blink_run:
  "length ts \<le> 11 \<Longrightarrow> blink_state powf hz s (length ts) (fold (fire_pending_action powf hz) ts (hv_do_identify powf hz now s))"
proof (induction ts rule: rev_induct)
  case (snoc t ts)
  then show ?case using blink_next [of powf hz s "length ts"] by simp
qed (simp add: blink_start)

lemma blink_end:
  assumes "blink_state powf hz s 11 t"
  shows "fire_pending_action powf hz now t =
      (apply_level powf (if hv_enabled s then hv_level_q s else 0) t)
        \<lparr>hv_desired_on := hv_desired_on s, hv_pending := PENDING_NONE\<rparr>"
  using assms by (simp add: blink_state_def fire_pending_action_def do_identify_step_def)

lemma blink_restores:
  fixes powf hz now now' ts s
  assumes "length ts = 11" "hv_ledc_started s" "hv_follows powf s" "hv_enabled s"
  defines "t \<equiv> fire_pending_action powf hz now' (fold (fire_pending_action powf hz) ts (hv_do_identify powf hz now s))"
  shows "hv_level_q t = hv_level_q s" "hv_enabled t" "hv_desired_on t = hv_desired_on s"
    "hv_pending t = PENDING_NONE" "ledc_ld_duty t = ledc_ld_duty s" "ledc_pwmd_duty t = ledc_pwmd_duty s"
proof -
  let ?u = "fold (fire_pending_action powf hz) ts (hv_do_identify powf hz now s)"
  have b: "blink_state powf hz s 11 ?u" using blink_run [of ts] assms(1) by simp
  have t: "t = (apply_level powf (hv_level_q s) ?u)\<lparr>hv_desired_on := hv_desired_on s, hv_pending := PENDING_NONE\<rparr>"
    unfolding t_def using blink_end [OF b] assms(4) by simp
  have r: "rendered powf (hv_level_q s) ?u = rendered powf (hv_level_q s) s"
    using b by (intro rendered_cong) (simp_all add: blink_state_def)
  have full: "ledc_start_if_needed ?u = ?u" "hv_ld_full ?u = hv_ld_full s" "hv_pwmd_full ?u = hv_pwmd_full s"
    "\<not> hv_power_cut ?u"
    using b assms(2) by (simp_all add: blink_state_def started_frame)
  have f: "want_lit (rendered powf (hv_level_q s) s)" "\<not> hv_power_cut s"
      "ledc_ld_duty s = scale_duty (ld_duty_q (rendered powf (hv_level_q s) s)) (hv_ld_full s)"
      "ledc_pwmd_duty s = scale_duty (pwmd_duty_q (rendered powf (hv_level_q s) s)) (hv_pwmd_full s)"
    using assms(2,3,4) by (auto simp: hv_follows_def Let_def split: if_splits)
  show "hv_level_q t = hv_level_q s" "hv_enabled t" "hv_desired_on t = hv_desired_on s"
    "hv_pending t = PENDING_NONE" "ledc_ld_duty t = ledc_ld_duty s" "ledc_pwmd_duty t = ledc_pwmd_duty s"
    using f by (simp_all add: t apply_level_output r full)
qed


text \<open>A fixture that was not lit, whatever its level, ends dark and at level zero.\<close>

lemma blink_darkens:
  fixes powf hz now now' ts s
  assumes "length ts = 11" "\<not> hv_enabled s"
  defines "t \<equiv> fire_pending_action powf hz now' (fold (fire_pending_action powf hz) ts (hv_do_identify powf hz now s))"
  shows "hv_level_q t = 0" "hv_dark t" "hv_desired_on t = hv_desired_on s" "hv_pending t = PENDING_NONE"
proof -
  let ?u = "fold (fire_pending_action powf hz) ts (hv_do_identify powf hz now s)"
  have "t = (apply_level powf 0 ?u)\<lparr>hv_desired_on := hv_desired_on s, hv_pending := PENDING_NONE\<rparr>"
    unfolding t_def using blink_end [of powf hz s ?u] blink_run [of ts] assms(1,2) by simp
  then show "hv_level_q t = 0" "hv_dark t" "hv_desired_on t = hv_desired_on s" "hv_pending t = PENDING_NONE"
    by (simp_all add: apply_level_output hv_dark_def Let_def)
qed

section \<open>Properties\<close>

text \<open>
  For every mode, level, knee, minimum burst and linearisation setting, and whatever the
  library's \<open>powf\<close> returns, the curve keeps both duties within \<open>Q_ONE\<close>, asks for light
  exactly when the PWMD duty is positive, never asks for a burst shorter than the minimum,
  and is dark at level zero.
\<close>

theorem curve_duties_in_range:
  "ld_duty_q (hv9910_curve_eval powf mode l c m lin) \<le> HV9910_Q_ONE
   \<and> pwmd_duty_q (hv9910_curve_eval powf mode l c m lin) \<le> HV9910_Q_ONE
   \<and> (want_lit (hv9910_curve_eval powf mode l c m lin) \<longleftrightarrow> 0 < pwmd_duty_q (hv9910_curve_eval powf mode l c m lin))
   \<and> (pwmd_duty_q (hv9910_curve_eval powf mode l c m lin) = 0
      \<or> clamp_q m \<le> pwmd_duty_q (hv9910_curve_eval powf mode l c m lin))
   \<and> \<not> want_lit (hv9910_curve_eval powf mode 0 c m lin)"
  using curve_eval_bounds [where powf = powf and mode = mode and level_q = l and crossover_q = c
    and min_on_frac_q = m and lin = lin] by simp

text \<open>
  C29: what HYBRID dimming delivers, for every knee and every minimum burst. From the knee
  up the light, the product of the two duties, is exactly level times \<open>Q_ONE\<close>. Below the knee the
  level asks for a burst of \<open>d\<close>, the level over the knee rounded to the nearest; when \<open>d\<close> is no
  shorter than the minimum the light is within half the knee of level times \<open>Q_ONE\<close>, so the two regions
  meet without a step; down to half the minimum the burst is rounded up to it, and below that the LED
  is dark. Linearisation changes nothing but the LD duty, which it maps by its curve.
\<close>

theorem curve_hybrid_delivers_level:
  assumes "0 < l" and "l \<le> HV9910_Q_ONE" and "0 < c" and "c \<le> HV9910_Q_ONE" and "m \<le> HV9910_Q_ONE"
  shows "let plain = hv9910_curve_eval powf HV9910_DIM_HYBRID l c m False;
             d = (unat l * 65536 + unat c div 2) div unat c
     in (if c \<le> l then want_lit plain \<and> light_output plain = unat l * 65536
         else if unat m \<le> d
         then 2 * (unat l * 65536) \<le> 2 * light_output plain + unat c
            \<and> 2 * light_output plain \<le> 2 * (unat l * 65536) + unat c
         else if unat m div 2 \<le> d then want_lit plain \<and> light_output plain = unat c * unat m
         else \<not> want_lit plain \<and> light_output plain = 0)
      \<and> hv9910_curve_eval powf HV9910_DIM_HYBRID l c m True
          = plain\<lparr>ld_duty_q := linearize_ld powf (ld_duty_q plain)\<rparr>"
proof -
  have nz: "l \<noteq> 0" "c \<noteq> 0" using assms by (auto simp: word_less_unat)
  have k: "knee c = c" using assms(4) nz by (auto simp: knee_def not_less)
  have modes: "HV9910_DIM_HYBRID \<noteq> HV9910_DIM_ANALOG" "HV9910_DIM_HYBRID \<noteq> HV9910_DIM_PWM"
    by (simp_all add: fw_const)
  have eval: "hv9910_curve_eval powf HV9910_DIM_HYBRID l c m lin =
      (let out = raw_out HV9910_DIM_HYBRID l c m
       in if lin then out\<lparr>ld_duty_q := linearize_ld powf (ld_duty_q out)\<rparr> else out)" for lin
    using curve_eval_raw [of l powf HV9910_DIM_HYBRID c m lin] nz assms(2,5) k by simp
  have half: "unat (drop_bit 1 m) = unat m div 2" by (simp add: drop_bit_Suc unat_div)
  have d: "unat (q_div l c) = (unat l * 65536 + unat c div 2) div unat c" if "\<not> c \<le> l"
    using unat_q_div(1) [OF nz(2), of l] that by simp
  note near = light_output_hybrid_exact [OF assms(2) nz assms(4) modes, of m]
  show ?thesis
  proof (cases "c \<le> l \<or> \<not> m \<le> q_div l c")
    case True
    then show ?thesis
      unfolding Let_def eval using d half nz assms(5)
      by (auto simp: raw_out_def modes light_output_def snap_pwmd_def word_le_unat word_less_unat)
  next
    case False
    then show ?thesis unfolding Let_def eval using near d by (simp add: word_le_unat)
  qed
qed

text \<open>The knee at 20 percent and a burst of at least 4 percent: a level of 10 percent, one that is
  rounded up, and one too small for a burst.\<close>

theorem curve_hybrid_delivers_level_witness:
  "2 * (6554 * 65536) \<le> 2 * light_output (hv9910_curve_eval (\<lambda>p e. p) HV9910_DIM_HYBRID 6554 13107 2621 False) + (13107 :: nat)
   \<and> light_output (hv9910_curve_eval (\<lambda>p e. p) HV9910_DIM_HYBRID 400 13107 2621 False) = 13107 * 2621
   \<and> \<not> want_lit (hv9910_curve_eval (\<lambda>p e. p) HV9910_DIM_HYBRID 200 13107 2621 False)"
  using curve_hybrid_delivers_level [of 6554 13107 2621 "\<lambda>p e. p"] curve_hybrid_delivers_level [of 400 13107 2621 "\<lambda>p e. p"]
    curve_hybrid_delivers_level [of 200 13107 2621 "\<lambda>p e. p"]
  by (simp add: fw_const Let_def)

text \<open>
  C30: without linearisation the delivered light never decreases when the level rises, in
  every mode and across the minimum-burst snap and the HYBRID knee.
\<close>

theorem curve_light_monotone:
  assumes "l \<le> l'"
  shows "light_output (hv9910_curve_eval powf mode l c m False)
       \<le> light_output (hv9910_curve_eval powf mode l' c m False)"
proof (cases "l = 0")
  case False
  then have "0 < l" by (simp add: word_gt_0)
  then have "0 < l'" using assms by (rule less_le_trans)
  then have nz: "clamp_q l \<noteq> 0" "clamp_q l' \<noteq> 0" using False by auto
  have "clamp_q l \<le> clamp_q l'" using assms by (auto simp: clamp_q_def not_less)
  then show ?thesis
    using light_output_raw_mono [OF _ clamp_q_le knee_range clamp_q_le] nz by (simp add: curve_eval_raw)
qed (simp add: light_output_def)

theorem curve_light_monotone_witness:
  "light_output (hv9910_curve_eval (\<lambda>p e. p) HV9910_DIM_HYBRID 500 13107 2621 False)
   \<le> light_output (hv9910_curve_eval (\<lambda>p e. p) HV9910_DIM_HYBRID 20000 13107 2621 False)"
  using curve_light_monotone [of 500 20000] by simp

text \<open>
  The LEDC resolution chosen for a frequency up to 5 MHz keeps the counter clock within
  the 80 MHz source, lies between 4 and 14 bits, and is the largest that does.
\<close>

theorem ledc_resolution_maximal:
  assumes "0 < freq" and "unat freq \<le> 5000000"
  shows "4 \<le> pick_duty_res_bits freq \<and> pick_duty_res_bits freq \<le> 14
       \<and> unat freq * 2 ^ pick_duty_res_bits freq \<le> 80000000
       \<and> (\<forall>b. b \<in> {pick_duty_res_bits freq <.. 14} \<longrightarrow> 80000000 < unat freq * 2 ^ b)"
proof -
  have nz: "freq \<noteq> 0" using assms(1) by auto
  note spec = pick_duty_res_bits_spec [OF nz]
  have "80000000 < unat freq * 2 ^ b" if b: "pick_duty_res_bits freq < b" "b \<le> 14" for b
  proof -
    have "(2::nat) ^ (pick_duty_res_bits freq + 1) \<le> 2 ^ b"
      using b by (intro power_increasing) auto
    then have "unat freq * 2 ^ (pick_duty_res_bits freq + 1) \<le> unat freq * 2 ^ b" by simp
    moreover have "80000000 < unat freq * 2 ^ (pick_duty_res_bits freq + 1)"
      using spec(4) b by auto
    ultimately show ?thesis by (rule less_le_trans [rotated])
  qed
  then show ?thesis using spec(1,2) spec(3) [OF assms(2)] by auto
qed

theorem ledc_resolution_maximal_witness:
  "pick_duty_res_bits 60000 \<le> 14 \<and> 60000 * 2 ^ pick_duty_res_bits 60000 \<le> (80000000 :: nat)"
  using ledc_resolution_maximal [of 60000] by simp

text \<open>
  A percentage survives the way into the fixed-point level and back, values above 100
  being the full level, and the level of a percentage never exceeds \<open>Q_ONE\<close>.
\<close>

theorem percent_level_roundtrip:
  "percent_of_q (pct_to_q p) = min p 100 \<and> pct_to_q p \<le> HV9910_Q_ONE"
  by (simp add: percent_of_pct_to_q)

text \<open>
  In every reachable state of the driver, whatever the order of calls, expiries and
  configuration changes, the invariant holds: derived values and timers belong to the
  current configuration, fractions are in range, the driver reports enabled exactly when
  the PWMD duty is nonzero, never with the latch set, and the queue holds at most its length.
\<close>

theorem driver_invariant:
  assumes "hv_reachable powf tick_hz s"
  shows "hv_inv s"
  using assms by (rule reachable_inv)

definition lit_example :: hv_state where
  "lit_example = hv9910_task_step (\<lambda>p e. p) 100 7 (hv9910_enable_at 50
     (hv9910_init True True \<lparr>pwmd_pin = 4, ld_pin = 5, pwmd_invert = False, ld_invert = False\<rparr> hv9910_statics))"

lemma lit_example_reachable: "hv_reachable (\<lambda>p e. p) 100 lit_example"
  unfolding lit_example_def
  by (rule hv_reachable.step [OF hv_reachable.step [OF hv_reachable.init hv_step.enable_at] hv_step.task])

theorem driver_invariant_witness: "hv_inv lit_example"
  by (rule driver_invariant [OF lit_example_reachable])

text \<open>
  In every reachable state with the outputs started, the duty of both channels is the
  one the curve gives for the current level under the current cap, or zero while the
  power-cut latch is set.
\<close>

theorem driver_outputs_follow_level:
  assumes "hv_reachable powf tick_hz s" and "hv_ledc_started s"
  shows "let out = rendered powf (hv_level_q s) s; lit = (want_lit out \<and> \<not> hv_power_cut s)
      in hv_enabled s = lit
         \<and> ledc_ld_duty s = (if lit then scale_duty (ld_duty_q out) (hv_ld_full s) else 0)
         \<and> ledc_pwmd_duty s = (if lit then scale_duty (pwmd_duty_q out) (hv_pwmd_full s) else 0)"
  using reachable_follows [OF assms(1)] assms(2) by (simp add: hv_follows_def)

lemma lit_example_started: "hv_ledc_started lit_example"
  by (simp add: lit_example_def hv_api_defs post_cmd_def hv9910_init_def xQueueSend_def Let_def
        task_step_head fw_const hv_do_enable_def hv_do_set_dim_def)

theorem driver_outputs_follow_level_witness:
  "hv_enabled lit_example = (want_lit (rendered (\<lambda>p e. p) (hv_level_q lit_example) lit_example)
     \<and> \<not> hv_power_cut lit_example)"
  using driver_outputs_follow_level [OF lit_example_reachable lit_example_started]
  by (simp add: Let_def)

text \<open>
  Once the driver task runs, an emergency-off is the next command it takes, whatever is
  queued, even when the queue is full: after that one iteration both duties are zero, the
  level is zero, the latch is set and an IDENTIFY in progress is abandoned.
\<close>

theorem emergency_off_is_next:
  assumes "hv_reachable powf tick_hz s" and "hv_task_ready s"
  shows "let t = hv9910_task_step powf tick_hz now (hv9910_emergency_disable s)
     in hv_dark t \<and> hv_power_cut t \<and> hv_level_q t = 0 \<and> hv_pending t = PENDING_NONE"
proof -
  have inv: "hv_inv s" by (rule reachable_inv [OF assms(1)])
  then have "hv_inv (hv9910_task_step powf tick_hz now (hv9910_emergency_disable s))"
    by (simp add: hv9910_emergency_disable_def task_step_inv post_cmd_inv)
  moreover obtain cs where "hv_cmd_queue (hv9910_emergency_disable s) = HV_CMD_EMERGENCY_OFF # cs"
    using post_cmd_front_queue [OF assms(2)] inv by (auto simp: hv9910_emergency_disable_def inv_core)
  ultimately show ?thesis
    using inv_cut_dark by (simp add: task_step_head Let_def emergency_off_state)
qed

lemma task_step_ready [simp]: "hv_task_ready (hv9910_task_step powf hz now s) = hv_task_ready s"
  by (cases "hv_cmd_queue s")
     (simp_all add: hv9910_task_step_def xQueueReceive_def del: dispatch_cmd.simps)

lemma lit_example_ready: "hv_task_ready lit_example"
  by (simp add: lit_example_def hv_api_defs post_cmd_def hv9910_init_def xQueueSend_def Let_def fw_const)

theorem emergency_off_is_next_witness:
  "hv_dark (hv9910_task_step (\<lambda>p e. p) 100 9 (hv9910_emergency_disable lit_example))"
  using emergency_off_is_next [OF lit_example_reachable lit_example_ready] by (simp add: Let_def)

text \<open>
  While the power-cut latch is set and no ENABLE or IDENTIFY is queued, no number of
  iterations of the driver task at any times (level, cap and configuration changes and
  timer expiries included) lights the LED or clears the latch.
\<close>

theorem power_cut_latch:
  assumes "hv_reachable powf tick_hz s" and "hv_power_cut s"
    and "\<not> list_ex relights (hv_cmd_queue s)"
  shows "hv_power_cut (fold (hv9910_task_step powf tick_hz) nows s)
       \<and> hv_dark (fold (hv9910_task_step powf tick_hz) nows s)"
  using task_run_keeps_cut [OF reachable_inv [OF assms(1)] assms(2,3)] inv_cut_dark by blast

definition cut_example :: hv_state where
  "cut_example = hv9910_set_dim 80 (hv9910_task_step (\<lambda>p e. p) 100 9 (hv9910_emergency_disable lit_example))"

lemma cut_example_reachable: "hv_reachable (\<lambda>p e. p) 100 cut_example"
  unfolding cut_example_def
  by (rule hv_reachable.step [OF hv_reachable.step [OF hv_reachable.step
        [OF lit_example_reachable hv_step.emergency] hv_step.task] hv_step.set_dim])

lemma lit_example_queue: "hv_cmd_queue lit_example = []"
  by (simp add: lit_example_def hv_api_defs post_cmd_def hv9910_init_def xQueueSend_def Let_def
        task_step_queue fw_const)

lemma cut_example_values: "hv_power_cut cut_example" "hv_cmd_queue cut_example = [HV_CMD_SET_DIM 80]"
proof -
  let ?e = "hv9910_emergency_disable lit_example"
  have e: "hv_cmd_queue ?e = [HV_CMD_EMERGENCY_OFF]" "hv_task_ready ?e"
    by (simp_all add: hv9910_emergency_disable_def post_cmd_def xQueueSendToFront_def
          lit_example_queue lit_example_ready fw_const)
  then show "hv_cmd_queue cut_example = [HV_CMD_SET_DIM 80]"
    by (simp add: cut_example_def hv9910_set_dim_def post_cmd_queue task_step_queue fw_const)
  show "hv_power_cut cut_example"
    using e by (simp add: cut_example_def hv9910_set_dim_def task_step_head emergency_off_state)
qed

theorem power_cut_latch_witness: "hv_dark (fold (hv9910_task_step (\<lambda>p e. p) 100) [10, 11, 12] cut_example)"
  using power_cut_latch [OF cut_example_reachable, of "[10, 11, 12]"] cut_example_values by simp

text \<open>
  C31: an IDENTIFY that no other command interrupts blinks through its eleven further timer
  expiries, alternating full level and dark. The twelfth expiry restores a lit fixture exactly (level, both
  duties, the enabled flag); an unlit one it leaves dark, with both outputs off, but at level zero: a
  level that was set yet rendered no light, such as one below the burst floor, is lost. The
  intended state is the one from before in either case.
\<close>

theorem identify_restores:
  assumes "hv_reachable powf tick_hz s" and "length ts = 11"
  shows "let t = fire_pending_action powf tick_hz now'
              (fold (fire_pending_action powf tick_hz) ts (dispatch_cmd powf tick_hz now HV_CMD_IDENTIFY s))
     in (if hv_enabled s
         then hv_level_q t = hv_level_q s \<and> hv_enabled t
            \<and> ledc_ld_duty t = ledc_ld_duty s \<and> ledc_pwmd_duty t = ledc_pwmd_duty s
         else hv_level_q t = 0 \<and> hv_dark t)
        \<and> hv_desired_on t = hv_desired_on s \<and> hv_pending t = PENDING_NONE
        \<and> (\<forall>k \<le> 11. hv_level_q (fold (fire_pending_action powf tick_hz) (take k ts)
              (dispatch_cmd powf tick_hz now HV_CMD_IDENTIFY s)) = (if even k then HV9910_Q_ONE else 0))"
proof -
  have levels: "hv_level_q (fold (fire_pending_action powf tick_hz) (take k ts) (hv_do_identify powf tick_hz now s))
      = (if even k then HV9910_Q_ONE else 0)" if "k \<le> 11" for k
    using blink_run [of "take k ts" powf tick_hz s now] that assms(2) by (simp add: blink_state_def)
  show ?thesis
  proof (cases "hv_enabled s")
    case True
    then have "hv_ledc_started s" using reachable_inv [OF assms(1)] by (simp add: hv_inv_def hv_output_def)
    then show ?thesis
      using blink_restores [OF assms(2) _ reachable_follows [OF assms(1)] True] levels True by (simp add: Let_def)
  next
    case False
    then show ?thesis using blink_darkens [OF assms(2) False] levels by (simp add: Let_def)
  qed
qed

lemma lit_example_level: "hv_level_q lit_example = 32768" "\<not> hv_power_cut lit_example"
  by (simp_all add: lit_example_def hv_api_defs post_cmd_def hv9910_init_def xQueueSend_def Let_def
        task_step_head fw_const hv_do_enable_def hv_do_set_dim_def pct_to_q_def)

lemma lit_example_dimming:
  "hv_dimming lit_example = \<lparr>dm_mode = HV9910_DIM_HYBRID, dm_pwm_freq_hz = 2000,
     dm_analog_freq_hz = 60000, dm_min_on_time_us = 20, dm_crossover_pct = 20, dm_lin_enable = 1\<rparr>"
  "hv_crossover_q lit_example = 13107" "hv_output_scale_q lit_example = HV9910_Q_ONE"
  by (simp_all add: lit_example_def hv_api_defs post_cmd_def hv9910_init_def xQueueSend_def Let_def
        task_step_head fw_const hv_do_enable_def hv_do_set_dim_def recompute_derived_def)

lemma lit_example_enabled: "hv_enabled lit_example"
proof -
  have "want_lit (rendered (\<lambda>p e. p) 32768 lit_example)"
    using mul_q_one [of 32768]
    by (simp add: rendered_def lit_example_dimming curve_eval_raw raw_out_def knee_def clamp_q_def Let_def fw_const)
  then show ?thesis
    using reachable_follows [OF lit_example_reachable] lit_example_started lit_example_level
    by (simp add: hv_follows_def Let_def)
qed

text \<open>In PWM mode, at one percent: below half of the shortest burst, so the fixture is dark.\<close>

definition faint_example :: hv_state where
  "faint_example = hv9910_task_step (\<lambda>p e. p) 100 9 (hv9910_set_dim 1 (hv9910_task_step (\<lambda>p e. p) 100 8
     (hv9910_set_dimming (Some \<lparr>dm_mode = HV9910_DIM_PWM, dm_pwm_freq_hz = 2000, dm_analog_freq_hz = 60000,
        dm_min_on_time_us = 20, dm_crossover_pct = 20, dm_lin_enable = 0\<rparr>) lit_example)))"

lemma faint_example_reachable: "hv_reachable (\<lambda>p e. p) 100 faint_example"
  unfolding faint_example_def
  by (rule hv_reachable.step [OF hv_reachable.step [OF hv_reachable.step [OF hv_reachable.step
        [OF lit_example_reachable hv_step.set_dimming] hv_step.task] hv_step.set_dim] hv_step.task])
     (simp add: dim_ok_def fw_const)

lemma faint_example_level: "hv_level_q faint_example = 655" "\<not> hv_enabled faint_example"
proof -
  note steps = hv9910_set_dim_def hv9910_set_dimming_def post_cmd_eq rtos.post_def xQueueSend_def
    lit_example_ready lit_example_queue
  show level: "hv_level_q faint_example = 655"
    by (simp add: faint_example_def steps task_step_head hv_do_set_dim_def hv_do_apply_dimming_def pct_to_q_def Let_def fw_const)
  have "hv_ledc_started faint_example" "hv_dimming faint_example =
      \<lparr>dm_mode = HV9910_DIM_PWM, dm_pwm_freq_hz = 2000, dm_analog_freq_hz = 60000,
        dm_min_on_time_us = 20, dm_crossover_pct = 20, dm_lin_enable = 0\<rparr>"
    "hv_output_scale_q faint_example = HV9910_Q_ONE" "hv_min_on_frac_q faint_example = 2621"
    by (simp_all add: faint_example_def steps task_step_head hv_do_set_dim_def hv_do_apply_dimming_def Let_def
          lit_example_dimming recompute_derived_def fw_const)
  then show "\<not> hv_enabled faint_example"
    using reachable_follows [OF faint_example_reachable] level mul_q_one [of 655]
    by (simp add: hv_follows_def Let_def rendered_def curve_eval_raw raw_out_def snap_pwmd_def fw_const)
qed

text \<open>A lit fixture at half level is restored; the faint one loses its level.\<close>

theorem identify_restores_witness:
  "hv_level_q (fire_pending_action (\<lambda>p e. p) 100 500
     (fold (fire_pending_action (\<lambda>p e. p) 100) [48, 88, 128, 168, 208, 248, 288, 328, 368, 408, 448]
        (dispatch_cmd (\<lambda>p e. p) 100 8 HV_CMD_IDENTIFY lit_example))) = 32768
   \<and> hv_level_q faint_example = 655
   \<and> hv_level_q (fire_pending_action (\<lambda>p e. p) 100 500
     (fold (fire_pending_action (\<lambda>p e. p) 100) [48, 88, 128, 168, 208, 248, 288, 328, 368, 408, 448]
        (dispatch_cmd (\<lambda>p e. p) 100 8 HV_CMD_IDENTIFY faint_example))) = 0"
  using identify_restores [OF lit_example_reachable,
      of "[48, 88, 128, 168, 208, 248, 288, 328, 368, 408, 448]" 500 8] lit_example_level lit_example_enabled
    identify_restores [OF faint_example_reachable,
      of "[48, 88, 128, 168, 208, 248, 288, 328, 368, 408, 448]" 500 8] faint_example_level
  by (simp add: Let_def del: fold.simps dispatch_cmd.simps)

text \<open>
  A command that arrives during the blink abandons it for good: after an IDENTIFY
  followed by a change of the power cap, the level stays at the blink's full level, however
  often the task runs afterwards; the saved level is not restored.
\<close>

theorem identify_interrupted_not_restored:
  assumes "hv_cmd_queue s = [HV_CMD_IDENTIFY, HV_CMD_SET_SCALE p]"
  shows "let t = fold (hv9910_task_step powf tick_hz) (now1 # now2 # nows) s
     in hv_level_q t = HV9910_Q_ONE \<and> hv_pending t = PENDING_NONE"
proof -
  let ?u = "hv9910_task_step powf tick_hz now2 (hv9910_task_step powf tick_hz now1 s)"
  have u: "hv_level_q ?u = HV9910_Q_ONE" "hv_pending ?u = PENDING_NONE" "hv_cmd_queue ?u = []"
    by (simp_all add: task_step_head assms hv_do_identify_def do_identify_step_def
          hv_do_set_scale_def Let_def fw_const)
  have "fold (hv9910_task_step powf tick_hz) nows ?u = ?u"
    using u(2,3) by (induction nows) (simp_all add: hv9910_task_step_def xQueueReceive_def)
  with u show ?thesis by (simp add: Let_def)
qed

theorem identify_interrupted_not_restored_witness:
  "hv_level_q (fold (hv9910_task_step (\<lambda>p e. p) 100) [10, 11, 12, 13]
     (lit_example\<lparr>hv_cmd_queue := [HV_CMD_IDENTIFY, HV_CMD_SET_SCALE 51]\<rparr>)) = HV9910_Q_ONE
   \<and> hv_level_q lit_example \<noteq> HV9910_Q_ONE"
  using identify_interrupted_not_restored [of "lit_example\<lparr>hv_cmd_queue := [HV_CMD_IDENTIFY, HV_CMD_SET_SCALE 51]\<rparr>" 51
      "\<lambda>p e. p" 100 10 11 "[12, 13]"]
  by (simp add: Let_def lit_example_level fw_const)

end
