(* ===== verification/Config_Store.thy ===== *)
theory Config_Store
  imports Firmware_Prelude
begin

text \<open>
  The persistence shared by \<open>driver_config.c\<close> and \<open>dmx_input.c\<close>: one blob under one key of
  the non-volatile storage. The storage is external; its documented behaviour is a blob that
  reads back as last committed, the outcome of each call being an argument, and so is what a
  write that reports a failure leaves behind. The locale
  states what a configuration format owes its module (the round trip through the wire
  format, a sanitiser onto the valid configurations) and proves what loading then gives.
\<close>

section \<open>The storage calls\<close>

datatype nvs_status = NVS_OK | NVS_NO_FREE_PAGES | NVS_NEW_VERSION_FOUND | NVS_FAILED

text \<open>
  Outcomes of one sequence of calls; \<open>nv_reinit\<close> is the second \<open>nvs_flash_init\<close>, \<open>nv_lands\<close>
  tells whether a write that reports a failure nevertheless reached the storage.
\<close>

record nvs_outcome =
  nv_init :: nvs_status
  nv_reinit :: nvs_status
  nv_open :: bool
  nv_set :: bool
  nv_commit :: bool
  nv_lands :: bool

definition nvs_good :: nvs_outcome where
  "nvs_good = \<lparr>nv_init = NVS_OK, nv_reinit = NVS_OK, nv_open = True, nv_set = True, nv_commit = True,
     nv_lands = False\<rparr>"

text \<open>\<open>nvs_get_blob\<close> with a buffer of \<open>n\<close> bytes: a longer blob is an error, not truncated.\<close>

definition nvs_get_blob :: "nat \<Rightarrow> bytes option \<Rightarrow> bytes option" where
  "nvs_get_blob n blob =
     (case blob of None \<Rightarrow> None | Some b \<Rightarrow> if length b \<le> n then Some b else None)"

text \<open>The same call with its two kinds of failure told apart.\<close>

datatype blob_read = BLOB_NOT_FOUND | BLOB_ERROR | BLOB_OK bytes

definition nvs_read_blob :: "nat \<Rightarrow> bytes option \<Rightarrow> blob_read" where
  "nvs_read_blob n blob =
     (case blob of None \<Rightarrow> BLOB_NOT_FOUND | Some b \<Rightarrow> if length b \<le> n then BLOB_OK b else BLOB_ERROR)"

text \<open>
  \<open>nvs_set_blob\<close> followed by \<open>nvs_commit\<close> when it succeeded. After a failure of either call the
  storage holds the old blob or the new one.
\<close>

definition nvs_write :: "nvs_outcome \<Rightarrow> bytes \<Rightarrow> bytes option \<Rightarrow> bytes option" where
  "nvs_write o' data blob = (if nv_set o' \<and> nv_commit o' \<or> nv_lands o' then Some data else blob)"

text \<open>
  The opening sequence: a partition that is full or of another version is erased and
  initialised again. The result is whether the namespace is open and the blob after it.
\<close>

definition nvs_open_sequence :: "nvs_outcome \<Rightarrow> bytes option \<Rightarrow> bool \<times> bytes option" where
  "nvs_open_sequence o' blob =
     (let erase = (nv_init o' = NVS_NO_FREE_PAGES \<or> nv_init o' = NVS_NEW_VERSION_FOUND);
          err = (if erase then nv_reinit o' else nv_init o');
          blob = (if erase then None else blob)
      in if err \<noteq> NVS_OK then (False, blob)
         else if \<not> nv_open o' then (False, blob)
         else (True, blob))"

section \<open>What a configuration format promises\<close>

locale config_format =
  fixes pack :: "'c \<Rightarrow> bytes"
    and unpack :: "bytes \<Rightarrow> 'c option"
    and sanitize :: "'c \<Rightarrow> 'c \<times> bool"
    and normal :: "'c \<Rightarrow> bool"
    and valid :: "'c \<Rightarrow> bool"
    and defaults :: 'c
    and wire_size :: nat
  assumes pack_length: "length (pack c) = wire_size"
    and unpack_pack: "normal c \<Longrightarrow> unpack (pack c) = Some c"
    and unpack_normal: "unpack b = Some c \<Longrightarrow> normal c"
    and sanitize_normal: "normal c \<Longrightarrow> normal (fst (sanitize c))"
    and sanitize_valid: "valid (fst (sanitize c))"
    and sanitize_id: "valid c \<Longrightarrow> fst (sanitize c) = c"
    and sanitize_flag: "snd (sanitize c) \<longleftrightarrow> valid c"
    and defaults_valid: "valid defaults" and defaults_normal: "normal defaults"
begin

text \<open>The configuration a stored blob loads as; \<open>None\<close> asks for the defaults to be written.\<close>

definition load :: "bytes option \<Rightarrow> 'c option" where
  "load blob =
     (case nvs_get_blob wire_size blob of
        None \<Rightarrow> None
      | Some b \<Rightarrow> (case unpack b of None \<Rightarrow> None | Some c \<Rightarrow> Some (fst (sanitize c))))"

lemma sanitize_idem: "fst (sanitize (fst (sanitize c))) = fst (sanitize c)"
  by (simp add: sanitize_id sanitize_valid)

lemma sanitize_reports: "snd (sanitize c) \<longleftrightarrow> fst (sanitize c) = c"
  by (metis sanitize_flag sanitize_id sanitize_valid)

lemma load_valid: "load blob = Some c \<Longrightarrow> valid c \<and> normal c"
  by (auto simp: load_def sanitize_valid sanitize_normal unpack_normal split: option.splits)

lemma load_saved: "valid c \<Longrightarrow> normal c \<Longrightarrow> load (Some (pack c)) = Some c"
  by (simp add: load_def nvs_get_blob_def pack_length unpack_pack sanitize_id)

lemma load_sanitized: "normal c \<Longrightarrow> load (Some (pack (fst (sanitize c)))) = Some (fst (sanitize c))"
  by (simp add: load_saved sanitize_valid sanitize_normal)

lemma pack_inject: "normal c \<Longrightarrow> normal c' \<Longrightarrow> pack c = pack c' \<Longrightarrow> c = c'"
  by (metis option.inject unpack_pack)

end

end
