(* ===== verification/DMX_Config.thy ===== *)
theory DMX_Config
  imports Config_Store
begin

text \<open>
  The configuration part of \<open>components/dmx_input/dmx_input.c\<close>: the persisted DMX patch, its
  wire format, its sanitiser, and the module's copy in RAM. The mutex makes each access one
  atomic step.
\<close>

section \<open>Data\<close>

definition DMX_PROTO_ARTNET :: u8 where [fw_const]: "DMX_PROTO_ARTNET = 0x01"
definition DMX_PROTO_SACN :: u8 where [fw_const]: "DMX_PROTO_SACN = 0x02"
definition DMX_CFG_WIRE_SIZE :: nat where [fw_const]: "DMX_CFG_WIRE_SIZE = 18"
definition DMX_CFG_LAYOUT_VERSION :: u8 where [fw_const]: "DMX_CFG_LAYOUT_VERSION = 1"

definition DMX_PERSONALITY_1CH_8BIT :: u8 where [fw_const]: "DMX_PERSONALITY_1CH_8BIT = 0"
definition DMX_PERSONALITY_2CH_16BIT :: u8 where [fw_const]: "DMX_PERSONALITY_2CH_16BIT = 1"
definition DMX_LOSS_HOLD :: u8 where [fw_const]: "DMX_LOSS_HOLD = 0"
definition DMX_LOSS_TO_BLACK :: u8 where [fw_const]: "DMX_LOSS_TO_BLACK = 1"
definition DMX_LOSS_TO_LEVEL :: u8 where [fw_const]: "DMX_LOSS_TO_LEVEL = 2"
definition DMX_MERGE_HTP :: u8 where [fw_const]: "DMX_MERGE_HTP = 0"
definition DMX_MERGE_LTP :: u8 where [fw_const]: "DMX_MERGE_LTP = 1"

record dmx_input_config =
  xc_layer_enabled :: u8
  xc_proto_mask :: u8
  xc_artnet_port_address :: u16
  xc_sacn_universe :: u16
  xc_dmx_address :: u16
  xc_personality :: u8
  xc_merge_mode :: u8
  xc_loss_behavior :: u8
  xc_loss_level :: u8
  xc_loss_timeout_ms :: u16
  xc_smoothing_ms :: u16
  xc_allow_artaddress :: u8

definition dmx_config_defaults :: dmx_input_config where
  "dmx_config_defaults =
     \<lparr>xc_layer_enabled = 0, xc_proto_mask = DMX_PROTO_ARTNET OR DMX_PROTO_SACN,
      xc_artnet_port_address = 0, xc_sacn_universe = 1, xc_dmx_address = 1,
      xc_personality = DMX_PERSONALITY_1CH_8BIT, xc_merge_mode = DMX_MERGE_HTP,
      xc_loss_behavior = DMX_LOSS_HOLD, xc_loss_level = 0, xc_loss_timeout_ms = 3000,
      xc_smoothing_ms = 25, xc_allow_artaddress = 1\<rparr>"

definition dmx_config_pack :: "dmx_input_config \<Rightarrow> bytes" where
  "dmx_config_pack c =
     [DMX_CFG_LAYOUT_VERSION, (if xc_layer_enabled c \<noteq> 0 then 1 else 0), xc_proto_mask c]
     @ put_u16_be (xc_artnet_port_address c)
     @ put_u16_be (xc_sacn_universe c)
     @ put_u16_be (xc_dmx_address c)
     @ [xc_personality c, xc_merge_mode c, xc_loss_behavior c, xc_loss_level c]
     @ put_u16_be (xc_loss_timeout_ms c)
     @ put_u16_be (xc_smoothing_ms c)
     @ [if xc_allow_artaddress c \<noteq> 0 then 1 else 0]"

definition dmx_config_unpack :: "bytes \<Rightarrow> dmx_input_config option" where
  "dmx_config_unpack inp =
     (if length inp \<noteq> DMX_CFG_WIRE_SIZE \<or> inp ! 0 \<noteq> DMX_CFG_LAYOUT_VERSION then None
      else Some
        \<lparr>xc_layer_enabled = (if inp ! 1 \<noteq> 0 then 1 else 0),
         xc_proto_mask = inp ! 2,
         xc_artnet_port_address = get_u16_be inp 3,
         xc_sacn_universe = get_u16_be inp 5,
         xc_dmx_address = get_u16_be inp 7,
         xc_personality = inp ! 9,
         xc_merge_mode = inp ! 10,
         xc_loss_behavior = inp ! 11,
         xc_loss_level = inp ! 12,
         xc_loss_timeout_ms = get_u16_be inp 13,
         xc_smoothing_ms = get_u16_be inp 15,
         xc_allow_artaddress = (if inp ! 17 \<noteq> 0 then 1 else 0)\<rparr>)"

text \<open>The channels of the personality as given; an unknown one counts as a single channel.\<close>

definition dmx_config_sanitize :: "dmx_input_config \<Rightarrow> dmx_input_config \<times> bool" where
  "dmx_config_sanitize c =
     (let channels = (if xc_personality c = DMX_PERSONALITY_2CH_16BIT then 2 else 1 :: u16)
      in fold (\<lambda>(bad, fix). clamp_if bad fix)
     [(\<lambda>c. xc_proto_mask c = 0 \<or> xc_proto_mask c AND NOT (DMX_PROTO_ARTNET OR DMX_PROTO_SACN) \<noteq> 0,
         xc_proto_mask_update (\<lambda>_. DMX_PROTO_ARTNET OR DMX_PROTO_SACN)),
      (\<lambda>c. 0x7fff < xc_artnet_port_address c, xc_artnet_port_address_update (\<lambda>a. a AND 0x7fff)),
      (\<lambda>c. xc_sacn_universe c < 1 \<or> 63999 < xc_sacn_universe c, xc_sacn_universe_update (\<lambda>_. 1)),
      (\<lambda>c. DMX_PERSONALITY_2CH_16BIT < xc_personality c,
         xc_personality_update (\<lambda>_. DMX_PERSONALITY_1CH_8BIT)),
      (\<lambda>c. xc_dmx_address c < 1 \<or> 513 - channels < xc_dmx_address c, xc_dmx_address_update (\<lambda>_. 1)),
      (\<lambda>c. DMX_MERGE_LTP < xc_merge_mode c, xc_merge_mode_update (\<lambda>_. DMX_MERGE_HTP)),
      (\<lambda>c. DMX_LOSS_TO_LEVEL < xc_loss_behavior c, xc_loss_behavior_update (\<lambda>_. DMX_LOSS_HOLD)),
      (\<lambda>c. 100 < xc_loss_level c, xc_loss_level_update (\<lambda>_. 100)),
      (\<lambda>c. xc_loss_timeout_ms c < 500, xc_loss_timeout_ms_update (\<lambda>_. 500)),
      (\<lambda>c. 60000 < xc_loss_timeout_ms c, xc_loss_timeout_ms_update (\<lambda>_. 60000)),
      (\<lambda>c. 5000 < xc_smoothing_ms c, xc_smoothing_ms_update (\<lambda>_. 5000))]
     (c, True))"

section \<open>The configuration in RAM and its storage\<close>

record dmx_cfg_state =
  xs_cfg :: dmx_input_config
  xs_cfg_changed :: bool
  xs_started :: bool
  xs_nvs_ok :: bool
  xs_blob :: "bytes option"

definition dmx_config_save :: "nvs_outcome \<Rightarrow> dmx_cfg_state \<Rightarrow> dmx_cfg_state" where
  "dmx_config_save o' s =
     (if \<not> xs_nvs_ok s then s
      else s\<lparr>xs_blob := nvs_write o' (dmx_config_pack (xs_cfg s)) (xs_blob s)\<rparr>)"

definition dmx_config_load :: "nvs_outcome \<Rightarrow> dmx_cfg_state \<Rightarrow> dmx_cfg_state" where
  "dmx_config_load o' s0 =
     (let s = s0\<lparr>xs_cfg := dmx_config_defaults\<rparr>;
          (ok, blob) = nvs_open_sequence o' (xs_blob s);
          s = s\<lparr>xs_blob := blob\<rparr>
      in if \<not> ok then s
         else
           let s = s\<lparr>xs_nvs_ok := True\<rparr>
           in case nvs_get_blob DMX_CFG_WIRE_SIZE (xs_blob s) of
                Some buf \<Rightarrow>
                  (case dmx_config_unpack buf of
                     Some c \<Rightarrow> s\<lparr>xs_cfg := fst (dmx_config_sanitize c)\<rparr>
                   | None \<Rightarrow> dmx_config_save o' s)
              | None \<Rightarrow> dmx_config_save o' s)"

definition dmx_cfg_snapshot :: "dmx_cfg_state \<Rightarrow> dmx_input_config" where
  "dmx_cfg_snapshot s = xs_cfg s"

definition dmx_input_get_config :: "dmx_cfg_state \<Rightarrow> dmx_input_config option" where
  "dmx_input_get_config s = (if xs_started s then Some (dmx_cfg_snapshot s) else None)"

definition dmx_input_set_config ::
  "nvs_outcome \<Rightarrow> dmx_input_config \<Rightarrow> dmx_cfg_state \<Rightarrow> bool \<times> dmx_cfg_state" where
  "dmx_input_set_config o' cfg s =
     (if \<not> xs_started s then (False, s)
      else
        let next_cfg = fst (dmx_config_sanitize cfg);
            s = dmx_config_save o' (s\<lparr>xs_cfg := next_cfg\<rparr>)
        in (True, s\<lparr>xs_cfg_changed := True\<rparr>))"

section \<open>The format and the sanitiser\<close>

definition dmx_channels :: "dmx_input_config \<Rightarrow> nat" where
  "dmx_channels c = (if xc_personality c = DMX_PERSONALITY_2CH_16BIT then 2 else 1)"

text \<open>The documented ranges; the patch always fits into one universe of 512 slots.\<close>

definition dmx_config_valid :: "dmx_input_config \<Rightarrow> bool" where
  "dmx_config_valid c \<longleftrightarrow>
     (xc_proto_mask c \<noteq> 0 \<and> xc_proto_mask c AND NOT (DMX_PROTO_ARTNET OR DMX_PROTO_SACN) = 0)
   \<and> xc_artnet_port_address c \<le> 0x7fff
   \<and> (1 \<le> xc_sacn_universe c \<and> xc_sacn_universe c \<le> 63999)
   \<and> xc_personality c \<le> 1
   \<and> (1 \<le> unat (xc_dmx_address c) \<and> unat (xc_dmx_address c) + dmx_channels c \<le> 513)
   \<and> xc_merge_mode c \<le> 1 \<and> xc_loss_behavior c \<le> 2 \<and> xc_loss_level c \<le> 100
   \<and> (500 \<le> xc_loss_timeout_ms c \<and> xc_loss_timeout_ms c \<le> 60000)
   \<and> xc_smoothing_ms c \<le> 5000"

definition dmx_config_normal :: "dmx_input_config \<Rightarrow> bool" where
  "dmx_config_normal c \<longleftrightarrow> xc_layer_enabled c \<le> 1 \<and> xc_allow_artaddress c \<le> 1"

lemma u8_le_1: "(x :: u8) \<le> 1 \<longleftrightarrow> x = 0 \<or> x = 1"
  by (metis linorder_not_le order.order_iff_strict word_gt_0 word_less_1 zero_le_one)

lemma dmx_unpack_pack: "dmx_config_normal c \<Longrightarrow> dmx_config_unpack (dmx_config_pack c) = Some c"
  by (cases c)
     (auto simp: dmx_config_unpack_def dmx_config_pack_def dmx_config_normal_def u8_le_1 fw_const
        put_u16_be_def get_u16_be_def)

lemma dmx_pack_length: "length (dmx_config_pack c) = DMX_CFG_WIRE_SIZE"
  by (simp add: dmx_config_pack_def fw_const)

lemma dmx_unpack_normal: "dmx_config_unpack b = Some c \<Longrightarrow> dmx_config_normal c"
  by (auto simp: dmx_config_unpack_def dmx_config_normal_def split: if_splits)

lemmas dmx_clamp_skip =
  clamp_if_skip [of xc_layer_enabled] clamp_if_skip [of xc_proto_mask]
  clamp_if_skip [of xc_artnet_port_address] clamp_if_skip [of xc_sacn_universe]
  clamp_if_skip [of xc_dmx_address] clamp_if_skip [of xc_personality]
  clamp_if_skip [of xc_merge_mode] clamp_if_skip [of xc_loss_behavior]
  clamp_if_skip [of xc_loss_level] clamp_if_skip [of xc_loss_timeout_ms]
  clamp_if_skip [of xc_smoothing_ms] clamp_if_skip [of xc_allow_artaddress]

lemmas dmx_clamp_set =
  clamp_if_set [of xc_proto_mask] clamp_if_set [of xc_sacn_universe]
  clamp_if_set [of xc_dmx_address] clamp_if_set [of xc_personality]
  clamp_if_set [of xc_merge_mode] clamp_if_set [of xc_loss_behavior]
  clamp_if_set [of xc_loss_level] clamp_if_set [of xc_loss_timeout_ms]
  clamp_if_set [of xc_smoothing_ms]

lemma dmx_clamp_port:
  "xc_artnet_port_address (fst (clamp_if bad (xc_artnet_port_address_update f) p)) =
     (if bad (fst p) then f (xc_artnet_port_address (fst p)) else xc_artnet_port_address (fst p))"
  by (simp add: clamp_if_def)

lemma dmx_sanitize_fields:
  "xc_layer_enabled (fst (dmx_config_sanitize c)) = xc_layer_enabled c"
  "xc_allow_artaddress (fst (dmx_config_sanitize c)) = xc_allow_artaddress c"
  "xc_proto_mask (fst (dmx_config_sanitize c)) =
     (if xc_proto_mask c = 0 \<or> xc_proto_mask c AND NOT (DMX_PROTO_ARTNET OR DMX_PROTO_SACN) \<noteq> 0
      then 3 else xc_proto_mask c)"
  "xc_artnet_port_address (fst (dmx_config_sanitize c)) =
     (if 0x7fff < xc_artnet_port_address c then xc_artnet_port_address c AND 0x7fff else xc_artnet_port_address c)"
  "xc_sacn_universe (fst (dmx_config_sanitize c)) =
     (if xc_sacn_universe c < 1 \<or> 63999 < xc_sacn_universe c then 1 else xc_sacn_universe c)"
  "xc_personality (fst (dmx_config_sanitize c)) = (if 1 < xc_personality c then 0 else xc_personality c)"
  "xc_dmx_address (fst (dmx_config_sanitize c)) =
     (if xc_dmx_address c < 1 \<or> 513 - (if xc_personality c = 1 then 2 else 1) < xc_dmx_address c then 1
      else xc_dmx_address c)"
  "xc_merge_mode (fst (dmx_config_sanitize c)) = (if 1 < xc_merge_mode c then 0 else xc_merge_mode c)"
  "xc_loss_behavior (fst (dmx_config_sanitize c)) = (if 2 < xc_loss_behavior c then 0 else xc_loss_behavior c)"
  "xc_loss_level (fst (dmx_config_sanitize c)) = (if 100 < xc_loss_level c then 100 else xc_loss_level c)"
  "xc_loss_timeout_ms (fst (dmx_config_sanitize c)) =
     (if 60000 < (if xc_loss_timeout_ms c < 500 then 500 else xc_loss_timeout_ms c) then 60000
      else if xc_loss_timeout_ms c < 500 then 500 else xc_loss_timeout_ms c)"
  "xc_smoothing_ms (fst (dmx_config_sanitize c)) = (if 5000 < xc_smoothing_ms c then 5000 else xc_smoothing_ms c)"
  by (simp_all add: dmx_config_sanitize_def Let_def dmx_clamp_skip dmx_clamp_set dmx_clamp_port fw_const
        cong: if_cong split del: if_split)

lemma dmx_address_range:
  "\<not> (a < 1 \<or> 513 - (if p = 1 then 2 else 1) < a) \<longleftrightarrow>
     1 \<le> unat (a :: u16) \<and> unat a + (if (p :: u8) = 1 then 2 else 1) \<le> 513"
  by (auto simp: word_less_unat)

lemma dmx_sanitize_flag: "snd (dmx_config_sanitize c) \<longleftrightarrow> dmx_config_valid c"
proof -
  have "snd (dmx_config_sanitize c) \<longleftrightarrow>
     \<not> (xc_proto_mask c = 0 \<or> xc_proto_mask c AND NOT (DMX_PROTO_ARTNET OR DMX_PROTO_SACN) \<noteq> 0)
   \<and> \<not> 0x7fff < xc_artnet_port_address c
   \<and> \<not> (xc_sacn_universe c < 1 \<or> 63999 < xc_sacn_universe c)
   \<and> \<not> 1 < xc_personality c
   \<and> \<not> (xc_dmx_address c < 1 \<or> 513 - (if xc_personality c = 1 then 2 else 1) < xc_dmx_address c)
   \<and> \<not> 1 < xc_merge_mode c \<and> \<not> 2 < xc_loss_behavior c \<and> \<not> 100 < xc_loss_level c
   \<and> (\<not> xc_loss_timeout_ms c < 500 \<and> \<not> 60000 < xc_loss_timeout_ms c) \<and> \<not> 5000 < xc_smoothing_ms c"
    by (simp add: dmx_config_sanitize_def Let_def clamp_if_snd dmx_clamp_skip dmx_clamp_set dmx_clamp_port
          fw_const less_if cong: conj_cong if_cong split del: if_split)
  then show ?thesis
    unfolding dmx_address_range
    by (auto simp: dmx_config_valid_def not_less fw_const dmx_channels_def word_one_le)
qed

lemma and_7fff_le: "(a :: u16) AND 0x7fff \<le> 0x7fff"
  by (rule word_and_le1)

lemma dmx_sanitize_valid: "dmx_config_valid (fst (dmx_config_sanitize c))"
proof -
  have "1 \<le> unat (xc_dmx_address (fst (dmx_config_sanitize c))) \<and>
     unat (xc_dmx_address (fst (dmx_config_sanitize c))) + dmx_channels (fst (dmx_config_sanitize c)) \<le> 513"
    by (auto simp: dmx_sanitize_fields dmx_channels_def word_less_unat fw_const)
  then show ?thesis
    unfolding dmx_config_valid_def
    by (intro conjI; simp add: dmx_sanitize_fields and_7fff_le not_less word_one_le fw_const)
qed

lemma dmx_sanitize_id: "dmx_config_valid c \<Longrightarrow> fst (dmx_config_sanitize c) = c"
  by (rule dmx_input_config.equality)
     (auto simp: dmx_sanitize_fields dmx_config_valid_def fw_const dmx_channels_def word_less_unat word_le_unat
        split: if_splits)

lemma dmx_defaults_ok: "dmx_config_valid dmx_config_defaults" "dmx_config_normal dmx_config_defaults"
  by (simp_all add: dmx_config_valid_def dmx_config_normal_def dmx_config_defaults_def fw_const dmx_channels_def)

lemma dmx_sanitize_normal: "dmx_config_normal c \<Longrightarrow> dmx_config_normal (fst (dmx_config_sanitize c))"
  by (simp add: dmx_config_normal_def dmx_sanitize_fields)

interpretation dmxfmt: config_format dmx_config_pack dmx_config_unpack dmx_config_sanitize
  dmx_config_normal dmx_config_valid dmx_config_defaults DMX_CFG_WIRE_SIZE
  by unfold_locales
     (simp_all add: dmx_pack_length dmx_unpack_pack dmx_unpack_normal dmx_sanitize_normal dmx_sanitize_valid
        dmx_sanitize_id dmx_sanitize_flag dmx_defaults_ok)

section \<open>The module\<close>

lemma dmx_save_frame [simp]:
  "xs_cfg (dmx_config_save o' s) = xs_cfg s" "xs_started (dmx_config_save o' s) = xs_started s"
  by (simp_all add: dmx_config_save_def)

lemma dmx_load_cfg:
  "xs_cfg (dmx_config_load o' s) =
     (case nvs_open_sequence o' (xs_blob s) of (ok, blob) \<Rightarrow>
        if ok then (case dmxfmt.load blob of Some c \<Rightarrow> c | None \<Rightarrow> dmx_config_defaults)
        else dmx_config_defaults)"
  by (auto simp: dmx_config_load_def dmxfmt.load_def Let_def split: option.split prod.split)

lemma dmx_load_ok:
  "dmx_config_valid (xs_cfg (dmx_config_load o' s))" "dmx_config_normal (xs_cfg (dmx_config_load o' s))"
  by (auto simp: dmx_load_cfg dmx_defaults_ok dest: dmxfmt.load_valid split: option.split prod.split)

lemma dmx_set_config_valid:
  "dmx_config_valid (xs_cfg s) \<Longrightarrow> dmx_config_valid (xs_cfg (snd (dmx_input_set_config o' cfg s)))"
  by (simp add: dmx_input_set_config_def dmx_sanitize_valid Let_def)

section \<open>Properties\<close>

text \<open>
  The DMX configuration survives its wire format for every configuration whose two flags
  are 0 or 1, everything the parser accepts is such a configuration, and sanitising gives a
  patch that fits the universe, changes only invalid fields and reports whether it did.
\<close>

theorem dmx_config_format_correct:
  "(dmx_config_normal c \<longrightarrow> dmx_config_unpack (dmx_config_pack c) = Some c)
   \<and> (\<forall>b d. dmx_config_unpack b = Some d \<longrightarrow> dmx_config_normal d \<and> length b = DMX_CFG_WIRE_SIZE)
   \<and> dmx_config_valid (fst (dmx_config_sanitize c))
   \<and> (snd (dmx_config_sanitize c) \<longleftrightarrow> fst (dmx_config_sanitize c) = c)"
proof -
  have "length b = DMX_CFG_WIRE_SIZE" if "dmx_config_unpack b = Some d" for b d
    using that by (simp add: dmx_config_unpack_def split: if_splits)
  then show ?thesis
    using dmxfmt.unpack_pack [of c] dmxfmt.unpack_normal dmxfmt.sanitize_valid [of c]
      dmxfmt.sanitize_reports [of c] by blast
qed

theorem dmx_config_format_correct_witness:
  "dmx_config_unpack (dmx_config_pack (dmx_config_defaults\<lparr>xc_dmx_address := 511\<rparr>))
     = Some (dmx_config_defaults\<lparr>xc_dmx_address := 511\<rparr>)"
  using dmx_config_format_correct [of "dmx_config_defaults\<lparr>xc_dmx_address := 511\<rparr>"]
  by (simp add: dmx_config_normal_def dmx_config_defaults_def)

text \<open>
  A DMX configuration set through the admin channel is live at once in sanitised form
  and survives a reboot with working storage.
\<close>

theorem dmx_config_persists:
  assumes "xs_started s" and "xs_nvs_ok s" and "nv_set o'" and "nv_commit o'" and "dmx_config_normal cfg"
  shows "let s' = snd (dmx_input_set_config o' cfg s);
             boot = dmx_config_load nvs_good \<lparr>xs_cfg = c0, xs_cfg_changed = False, xs_started = False,
               xs_nvs_ok = False, xs_blob = xs_blob s'\<rparr>
     in dmx_input_get_config s' = Some (fst (dmx_config_sanitize cfg)) \<and> xs_cfg_changed s'
        \<and> xs_cfg boot = fst (dmx_config_sanitize cfg)"
  using assms
  by (simp add: dmx_input_set_config_def dmx_input_get_config_def dmx_cfg_snapshot_def dmx_config_save_def
        nvs_write_def dmx_load_cfg nvs_open_sequence_def nvs_good_def Let_def dmxfmt.load_sanitized)

theorem dmx_config_persists_witness:
  "dmx_input_get_config (snd (dmx_input_set_config nvs_good dmx_config_defaults
     \<lparr>xs_cfg = dmx_config_defaults\<lparr>xc_dmx_address := 7\<rparr>, xs_cfg_changed = False, xs_started = True,
      xs_nvs_ok = True, xs_blob = None\<rparr>)) = Some (fst (dmx_config_sanitize dmx_config_defaults))"
  using dmx_config_persists [of "\<lparr>xs_cfg = dmx_config_defaults\<lparr>xc_dmx_address := 7\<rparr>, xs_cfg_changed = False,
      xs_started = True, xs_nvs_ok = True, xs_blob = None\<rparr>" nvs_good dmx_config_defaults] dmx_defaults_ok
  by (simp add: nvs_good_def Let_def)

end
