(* ===== verification/Voltage_Sense.thy ===== *)
theory Voltage_Sense
  imports Float32_Model "HOL-Library.Signed_Division"
begin

text \<open>
  \<open>components/voltage_sense/voltage_sense.c\<close>: raw ADC samples to bus and LED voltage. The ADC
  driver is external: a sample is an argument, \<open>None\<close> when the read fails, and the
  calibration curve of the chip is a function argument.
\<close>

definition FALLBACK_FULL_SCALE_MV :: int where [fw_const]: "FALLBACK_FULL_SCALE_MV = 2450"

record voltage_reading =
  vr_vbus_mv :: int
  vr_led_voltage_mv :: int

record voltage_sense_config =
  vled_p_channel :: int
  vled_n_channel :: int
  divider_ratio :: rat

record voltage_sense_state =
  vs_config :: voltage_sense_config
  vs_calibrated :: bool

text \<open>\<open>cali_ok\<close> is the outcome of creating the line-fitting scheme.\<close>

definition voltage_sense_init :: "bool \<Rightarrow> voltage_sense_config \<Rightarrow> voltage_sense_state" where
  "voltage_sense_init cali_ok config = \<lparr>vs_config = config, vs_calibrated = cali_ok\<rparr>"

definition raw_to_mv :: "(int \<Rightarrow> int) \<Rightarrow> voltage_sense_state \<Rightarrow> int \<Rightarrow> int" where
  "raw_to_mv cali s raw =
     (if vs_calibrated s then cali raw else (raw * FALLBACK_FULL_SCALE_MV) sdiv 4095)"

text \<open>The C conversion of a float to \<open>int\<close> truncates towards zero.\<close>

definition f32_to_int :: "rat \<Rightarrow> int" where
  "f32_to_int x = (if x < 0 then \<lceil>x\<rceil> else \<lfloor>x\<rfloor>)"

definition voltage_sense_read ::
  "(int \<Rightarrow> int) \<Rightarrow> voltage_sense_state \<Rightarrow> int option \<Rightarrow> int option \<Rightarrow> voltage_reading option" where
  "voltage_sense_read cali s raw_p raw_n =
     (case raw_p of None \<Rightarrow> None | Some raw_p \<Rightarrow>
     (case raw_n of None \<Rightarrow> None | Some raw_n \<Rightarrow>
        let pin_p_mv = raw_to_mv cali s raw_p;
            pin_n_mv = raw_to_mv cali s raw_n;
            vbus_mv = f32_to_int (f32_mul (f32_round (of_int pin_p_mv)) (divider_ratio (vs_config s)));
            vled_n_mv = f32_to_int (f32_mul (f32_round (of_int pin_n_mv)) (divider_ratio (vs_config s)))
        in Some \<lparr>vr_vbus_mv = vbus_mv, vr_led_voltage_mv = vbus_mv - vled_n_mv\<rparr>))"

section \<open>Accuracy of the conversion\<close>

lemma f32_to_int_bounds: "0 \<le> x \<Longrightarrow> of_int (f32_to_int x) \<le> x \<and> x < of_int (f32_to_int x) + 1"
  using floor_correct [of x] by (simp add: f32_to_int_def)

lemma scaled_mv_error:
  fixes pin :: int and ratio :: rat
  assumes "0 \<le> pin" "pin \<le> 4000" "0 < ratio" "ratio \<le> 30"
  shows "of_int pin * ratio - 5/4 \<le> of_int (f32_to_int (f32_mul (f32_round (of_int pin)) ratio))"
    and "of_int (f32_to_int (f32_mul (f32_round (of_int pin)) ratio)) \<le> of_int pin * ratio + 1/4"
proof -
  let ?p = "f32_round (of_int pin)"
  have p: "of_int pin - 1/256 \<le> ?p" "?p \<le> of_int pin + 1/256" "0 \<le> ?p"
    using f32_round_error [of "of_int pin"] assms f32_round_nonneg [of "of_int pin"] by simp_all
  have lo: "(of_int pin - 1/256) * ratio \<le> ?p * ratio" and hi: "?p * ratio \<le> (of_int pin + 1/256) * ratio"
    using p assms by (auto intro: mult_right_mono)
  have small: "?p * ratio < 2 ^ 17"
  proof -
    have "?p * ratio \<le> 4001 * 30" using p assms by (intro mult_mono) auto
    then show ?thesis by simp
  qed
  have nn: "0 \<le> ?p * ratio" using p assms by simp
  note m = f32_round_error [OF nn small]
  have f: "of_int (f32_to_int (f32_round (?p * ratio))) \<le> f32_round (?p * ratio)"
    "f32_round (?p * ratio) < of_int (f32_to_int (f32_round (?p * ratio))) + 1"
    using f32_to_int_bounds [OF f32_round_nonneg [OF nn]] by auto
  have r: "ratio / 256 \<le> 30/256" using assms by simp
  show "of_int pin * ratio - 5/4 \<le> of_int (f32_to_int (f32_mul ?p ratio))"
    using m f lo r unfolding f32_mul_def by (simp add: algebra_simps)
  show "of_int (f32_to_int (f32_mul ?p ratio)) \<le> of_int pin * ratio + 1/4"
    using m f hi r unfolding f32_mul_def by (simp add: algebra_simps)
qed

lemma within_pair:
  fixes a b x y :: rat
  assumes "a - 5/4 \<le> x" "x \<le> a + 1/4" "b - 5/4 \<le> y" "y \<le> b + 1/4"
  shows "\<bar>x - a\<bar> \<le> 5/4 \<and> \<bar>(x - y) - (a - b)\<bar> \<le> 3/2"
  using assms unfolding abs_le_iff by linarith

section \<open>Property\<close>

text \<open>
  For pin voltages in the ADC's range and a divider ratio up to 30, a successful read
  reports the bus voltage within 1.25 mV of pin voltage times ratio, and the LED voltage
  within 1.5 mV of the scaled difference; it fails exactly when one of the two ADC reads does.
\<close>

theorem voltage_reading_accuracy:
  assumes "0 \<le> raw_to_mv cali s p" "raw_to_mv cali s p \<le> 4000"
    and "0 \<le> raw_to_mv cali s n" "raw_to_mv cali s n \<le> 4000"
    and "0 < divider_ratio (vs_config s)" "divider_ratio (vs_config s) \<le> 30"
  shows "\<exists>v. voltage_sense_read cali s (Some p) (Some n) = Some v
       \<and> \<bar>of_int (vr_vbus_mv v) - of_int (raw_to_mv cali s p) * divider_ratio (vs_config s)\<bar> \<le> 5/4
       \<and> \<bar>of_int (vr_led_voltage_mv v) - of_int (raw_to_mv cali s p - raw_to_mv cali s n)
            * divider_ratio (vs_config s)\<bar> \<le> 3/2
       \<and> voltage_sense_read cali s None rn = None \<and> voltage_sense_read cali s rp None = None"
proof -
  let ?r = "divider_ratio (vs_config s)"
  let ?x = "f32_to_int (f32_mul (f32_round (of_int (raw_to_mv cali s p))) ?r)"
  let ?y = "f32_to_int (f32_mul (f32_round (of_int (raw_to_mv cali s n))) ?r)"
  have "voltage_sense_read cali s (Some p) (Some n) = Some \<lparr>vr_vbus_mv = ?x, vr_led_voltage_mv = ?x - ?y\<rparr>"
    by (simp add: voltage_sense_read_def Let_def)
  moreover have "voltage_sense_read cali s None rn = None" "voltage_sense_read cali s rp None = None"
    by (simp_all add: voltage_sense_read_def split: option.split)
  ultimately show ?thesis
    using within_pair [OF scaled_mv_error [OF assms(1,2,5,6)] scaled_mv_error [OF assms(3,4,5,6)]]
    by (simp add: left_diff_distrib)
qed

theorem voltage_reading_accuracy_witness:
  "\<exists>v. voltage_sense_read (\<lambda>x. x) \<lparr>vs_config = \<lparr>vled_p_channel = 6, vled_n_channel = 7, divider_ratio = 26\<rparr>,
       vs_calibrated = False\<rparr> (Some 3000) (Some 100) = Some v \<and> \<bar>of_int (vr_vbus_mv v) - (46644 :: rat)\<bar> \<le> 5/4"
proof -
  let ?s = "\<lparr>vs_config = \<lparr>vled_p_channel = 6, vled_n_channel = 7, divider_ratio = 26\<rparr>, vs_calibrated = False\<rparr>"
  have "raw_to_mv (\<lambda>x. x) ?s 3000 = 1794" "raw_to_mv (\<lambda>x. x) ?s 100 = 59"
    by (simp_all add: raw_to_mv_def fw_const signed_divide_int_def)
  then show ?thesis
    using voltage_reading_accuracy [of "\<lambda>x. x" ?s 3000 100] by auto
qed

end
