(* ===== verification/TPS2378_Monitor.thy ===== *)
theory TPS2378_Monitor
  imports Voltage_Sense
begin

text \<open>
  \<open>components/tps2378/tps2378.c\<close>: debouncing, VBUS hysteresis, and the monitor task that
  decides readiness and the power class. One iteration of the task reads the two GPIO
  levels and three ADC samples, all arguments here, updates the published state, and emits
  the callbacks of the configuration in the order the code calls them. Log output and the
  tick counter that only paces it are left out.
\<close>

section \<open>Data\<close>

datatype tps2378_source =
  TPS2378_SOURCE_NONE | TPS2378_SOURCE_TYPE1 | TPS2378_SOURCE_TYPE2 | TPS2378_SOURCE_AUX

text \<open>The enumerators carry the values 0 to 3 of the C enum, which order them.\<close>

fun source_value :: "tps2378_source \<Rightarrow> nat" where
  "source_value TPS2378_SOURCE_NONE = 0"
| "source_value TPS2378_SOURCE_TYPE1 = 1"
| "source_value TPS2378_SOURCE_TYPE2 = 2"
| "source_value TPS2378_SOURCE_AUX = 3"

lemma source_value_inject: "source_value a = source_value b \<Longrightarrow> a = b"
  by (cases a; cases b) auto

instantiation tps2378_source :: linorder
begin

definition less_eq_tps2378_source :: "tps2378_source \<Rightarrow> tps2378_source \<Rightarrow> bool" where
  "less_eq_tps2378_source a b \<longleftrightarrow> source_value a \<le> source_value b"

definition less_tps2378_source :: "tps2378_source \<Rightarrow> tps2378_source \<Rightarrow> bool" where
  "less_tps2378_source a b \<longleftrightarrow> source_value a < source_value b"

instance
  by standard (auto simp: less_eq_tps2378_source_def less_tps2378_source_def intro: source_value_inject)

end

record tps2378_config =
  tc_vbus_min_mv :: int
  tc_vbus_hysteresis_mv :: int

definition DEBOUNCE_SAMPLES :: nat where [fw_const]: "DEBOUNCE_SAMPLES = 5"

record debounce =
  last_sample :: bool
  confirmed :: bool
  stable_count :: nat

definition debounce_update :: "debounce \<Rightarrow> bool \<Rightarrow> debounce" where
  "debounce_update d sample =
     (let d = (if sample = last_sample d
               then (if stable_count d < DEBOUNCE_SAMPLES
                     then d\<lparr>stable_count := stable_count d + 1\<rparr> else d)
               else d\<lparr>stable_count := 0, last_sample := sample\<rparr>)
      in if DEBOUNCE_SAMPLES \<le> stable_count d then d\<lparr>confirmed := sample\<rparr> else d)"

text \<open>The two inputs at their GPIO level: CDB is active high, T2P active low.\<close>

definition read_cdb_inrush_done :: "int \<Rightarrow> bool" where
  "read_cdb_inrush_done level \<longleftrightarrow> level \<noteq> 0"

definition read_t2p_type2_or_aux :: "int \<Rightarrow> bool" where
  "read_t2p_type2_or_aux level \<longleftrightarrow> level = 0"

definition median3 :: "int \<Rightarrow> int \<Rightarrow> int \<Rightarrow> int" where
  "median3 a b c =
     (let (a, b) = (if b < a then (b, a) else (a, b));
          (b, c) = (if c < b then (c, b) else (b, c));
          (a, b) = (if b < a then (b, a) else (a, b))
      in b)"

text \<open>One attempt to read the sensor, a failed read counting as zero.\<close>

definition vbus_sample ::
  "(int \<Rightarrow> int) \<Rightarrow> voltage_sense_state \<Rightarrow> int option \<times> int option \<Rightarrow> int" where
  "vbus_sample cali vs adc =
     (case voltage_sense_read cali vs (fst adc) (snd adc) of Some v \<Rightarrow> vr_vbus_mv v | None \<Rightarrow> 0)"

record adc_triple =
  adc0 :: "int option \<times> int option"
  adc1 :: "int option \<times> int option"
  adc2 :: "int option \<times> int option"

definition read_vbus_mv :: "(int \<Rightarrow> int) \<Rightarrow> voltage_sense_state \<Rightarrow> adc_triple \<Rightarrow> int" where
  "read_vbus_mv cali vs adc =
     median3 (vbus_sample cali vs (adc0 adc)) (vbus_sample cali vs (adc1 adc)) (vbus_sample cali vs (adc2 adc))"

definition vbus_threshold_sample :: "tps2378_config \<Rightarrow> int \<Rightarrow> bool \<Rightarrow> bool" where
  "vbus_threshold_sample cfg vbus_mv currently_ok =
     (let threshold = (if currently_ok then tc_vbus_min_mv cfg - tc_vbus_hysteresis_mv cfg
                       else tc_vbus_min_mv cfg)
      in threshold \<le> vbus_mv)"

section \<open>The monitor task\<close>

text \<open>The statics of the file, followed by the locals of the task.\<close>

record tps_state =
  ts_config :: tps2378_config
  ts_ready_bit :: bool
  ts_is_ready :: bool
  ts_source :: tps2378_source
  ts_cdb_confirmed :: bool
  ts_t2p_confirmed :: bool
  ts_vbus_confirmed :: bool
  ts_vbus_mv :: int
  cdb_deb :: debounce
  t2p_deb :: debounce
  vbus_deb :: debounce
  prev_source :: tps2378_source

datatype tps_event =
  ON_POWER_READY tps2378_source | ON_POWER_LOST | ON_SOURCE_CHANGED tps2378_source

text \<open>The start of the task: the first samples seed the debounce filters, nothing is confirmed.\<close>

definition poe_monitor_start :: "tps2378_config \<Rightarrow> int \<Rightarrow> int \<Rightarrow> int \<Rightarrow> tps_state" where
  "poe_monitor_start cfg cdb t2p vbus_mv =
     \<lparr>ts_config = cfg, ts_ready_bit = False, ts_is_ready = False, ts_source = TPS2378_SOURCE_NONE,
      ts_cdb_confirmed = False, ts_t2p_confirmed = False, ts_vbus_confirmed = False, ts_vbus_mv = 0,
      cdb_deb = \<lparr>last_sample = read_cdb_inrush_done cdb, confirmed = False, stable_count = 0\<rparr>,
      t2p_deb = \<lparr>last_sample = read_t2p_type2_or_aux t2p, confirmed = False, stable_count = 0\<rparr>,
      vbus_deb = \<lparr>last_sample = (tc_vbus_min_mv cfg \<le> vbus_mv), confirmed = False, stable_count = 0\<rparr>,
      prev_source = TPS2378_SOURCE_NONE\<rparr>"

definition poe_monitor_step :: "int \<Rightarrow> int \<Rightarrow> int \<Rightarrow> tps_state \<Rightarrow> tps_state \<times> tps_event list" where
  "poe_monitor_step cdb t2p vbus_mv s0 =
     (let s = s0\<lparr>cdb_deb := debounce_update (cdb_deb s0) (read_cdb_inrush_done cdb),
                 t2p_deb := debounce_update (t2p_deb s0) (read_t2p_type2_or_aux t2p),
                 ts_vbus_mv := vbus_mv,
                 vbus_deb := debounce_update (vbus_deb s0)
                   (vbus_threshold_sample (ts_config s0) vbus_mv (confirmed (vbus_deb s0)))\<rparr>;
          cdb_inrush_done = confirmed (cdb_deb s);
          t2p_class = confirmed (t2p_deb s);
          vbus_ok = confirmed (vbus_deb s);
          s = s\<lparr>ts_cdb_confirmed := cdb_inrush_done, ts_t2p_confirmed := t2p_class,
                ts_vbus_confirmed := vbus_ok\<rparr>;
          source = (if vbus_ok then (if t2p_class then TPS2378_SOURCE_TYPE2 else TPS2378_SOURCE_TYPE1)
                    else TPS2378_SOURCE_NONE);
          s = s\<lparr>ts_source := source\<rparr>;
          new_ready = vbus_ok;
          (s, ev1) = (if new_ready \<noteq> ts_is_ready s
             then (s\<lparr>ts_is_ready := new_ready, ts_ready_bit := new_ready\<rparr>,
                   [if new_ready then ON_POWER_READY source else ON_POWER_LOST])
             else (s, []));
          (s, ev2) = (if source \<noteq> prev_source s
             then (s\<lparr>prev_source := source\<rparr>, [ON_SOURCE_CHANGED source])
             else (s, []))
      in (s, ev1 @ ev2))"

section \<open>Queries\<close>

definition tps2378_wait_ready :: "tps_state \<Rightarrow> bool" where
  "tps2378_wait_ready s = ts_ready_bit s"

definition tps2378_is_ready :: "tps_state \<Rightarrow> bool" where
  "tps2378_is_ready s = ts_is_ready s"

definition tps2378_get_source :: "tps_state \<Rightarrow> tps2378_source" where
  "tps2378_get_source s = ts_source s"

definition tps2378_cdb_confirmed :: "tps_state \<Rightarrow> bool" where
  "tps2378_cdb_confirmed s = ts_cdb_confirmed s"

definition tps2378_t2p_confirmed :: "tps_state \<Rightarrow> bool" where
  "tps2378_t2p_confirmed s = ts_t2p_confirmed s"

definition tps2378_vbus_confirmed :: "tps_state \<Rightarrow> bool" where
  "tps2378_vbus_confirmed s = ts_vbus_confirmed s"

definition tps2378_cdb_raw :: "int \<Rightarrow> bool" where
  "tps2378_cdb_raw level = read_cdb_inrush_done level"

definition tps2378_t2p_raw :: "int \<Rightarrow> bool" where
  "tps2378_t2p_raw level = read_t2p_type2_or_aux level"

definition tps2378_vbus_raw :: "int \<Rightarrow> tps_state \<Rightarrow> bool" where
  "tps2378_vbus_raw vbus_mv s \<longleftrightarrow> tc_vbus_min_mv (ts_config s) \<le> vbus_mv"

definition tps2378_get_vbus_mv :: "tps_state \<Rightarrow> int" where
  "tps2378_get_vbus_mv s = ts_vbus_mv s"

definition tps2378_source_name :: "tps2378_source \<Rightarrow> string" where
  "tps2378_source_name source = (case source of
     TPS2378_SOURCE_TYPE1 \<Rightarrow> ''PoE Type-1/802.3af (12.95 W)''
   | TPS2378_SOURCE_TYPE2 \<Rightarrow> ''PoE Type-2/802.3at or AUX (25.5 W)''
   | TPS2378_SOURCE_AUX \<Rightarrow> ''AUX supply (25.5 W)''
   | _ \<Rightarrow> ''none'')"

definition tps2378_source_short_name :: "tps2378_source \<Rightarrow> string" where
  "tps2378_source_short_name source = (case source of
     TPS2378_SOURCE_TYPE1 \<Rightarrow> ''type1''
   | TPS2378_SOURCE_TYPE2 \<Rightarrow> ''type2''
   | TPS2378_SOURCE_AUX \<Rightarrow> ''aux''
   | _ \<Rightarrow> ''none'')"

definition POE_TYPE1_POWER_W :: rat where "POE_TYPE1_POWER_W = f32_round (1295 / 100)"
definition POE_TYPE2_POWER_W :: rat where "POE_TYPE2_POWER_W = f32_round (255 / 10)"

definition tps2378_get_available_power_w :: "tps_state \<Rightarrow> rat" where
  "tps2378_get_available_power_w s = (case ts_source s of
     TPS2378_SOURCE_TYPE1 \<Rightarrow> POE_TYPE1_POWER_W
   | TPS2378_SOURCE_TYPE2 \<Rightarrow> POE_TYPE2_POWER_W
   | TPS2378_SOURCE_AUX \<Rightarrow> POE_TYPE2_POWER_W
   | _ \<Rightarrow> 0)"

section \<open>The median filter\<close>

text \<open>The median lies between the other two: one wild sample of three cannot move it out of their range.\<close>

lemma median3_between:
  "min a b \<le> median3 a b c \<and> median3 a b c \<le> max a b"
  "median3 a b c = median3 b a c" "median3 a b c = median3 a c b"
  by (auto simp: median3_def Let_def)

section \<open>The debounce filter\<close>

text \<open>
  \<open>hist\<close> is the list of samples seen, newest first, the seed included: the counter counts
  the equal samples before the newest one, up to the limit.
\<close>

definition deb_tracks :: "bool list \<Rightarrow> debounce \<Rightarrow> bool" where
  "deb_tracks hist d \<longleftrightarrow>
     stable_count d \<le> 5 \<and> stable_count d < length hist
     \<and> (\<forall>i \<le> stable_count d. hist ! i = last_sample d)
     \<and> (stable_count d < 5 \<longrightarrow> stable_count d + 1 = length hist
          \<or> hist ! (stable_count d + 1) \<noteq> last_sample d)
     \<and> (stable_count d = 5 \<longrightarrow> confirmed d = last_sample d)"

lemma deb_tracks_start: "deb_tracks [b] \<lparr>last_sample = b, confirmed = False, stable_count = 0\<rparr>"
  by (simp add: deb_tracks_def)

lemma deb_tracks_step:
  assumes "deb_tracks hist d"
  shows "deb_tracks (b # hist) (debounce_update d b)"
proof (cases "b = last_sample d")
  case True
  have "(b # hist) ! i = b" if "i \<le> stable_count d + 1" for i
    using assms True that by (cases i) (auto simp: deb_tracks_def)
  then show ?thesis
    using assms True by (auto simp: deb_tracks_def debounce_update_def Let_def fw_const)
next
  case False
  then show ?thesis
    using assms by (auto simp: deb_tracks_def debounce_update_def Let_def fw_const)
qed

lemma debounce_flip:
  assumes "deb_tracks hist d" and "confirmed (debounce_update d b) \<noteq> confirmed d"
  shows "confirmed (debounce_update d b) = b \<and> 6 \<le> length (b # hist) \<and> (\<forall>x \<in> set (take 6 (b # hist)). x = b)"
proof -
  have t: "deb_tracks (b # hist) (debounce_update d b)" by (rule deb_tracks_step [OF assms(1)])
  have c: "stable_count (debounce_update d b) = 5" "last_sample (debounce_update d b) = b"
      "confirmed (debounce_update d b) = b"
    using assms by (auto simp: debounce_update_def deb_tracks_def Let_def fw_const split: if_splits)
  have len: "6 \<le> length (b # hist)" using t c by (simp add: deb_tracks_def)
  have nth: "(b # hist) ! i = b" if "i < 6" for i using t c that by (simp add: deb_tracks_def)
  have "x = b" if "x \<in> set (take 6 (b # hist))" for x
    using that nth by (metis in_set_conv_nth length_take min_less_iff_conj nth_take)
  then show ?thesis using c(3) len by blast
qed

lemma debounce_settles:
  assumes "deb_tracks hist d" and "6 \<le> length hist" and "\<forall>x \<in> set (take 6 hist). x = b"
  shows "confirmed d = b"
proof -
  have all: "hist ! i = b" if "i < 6" for i
    using assms(2,3) that nth_mem [of i "take 6 hist"] by simp
  have "stable_count d = 5"
  proof (rule ccontr)
    assume "stable_count d \<noteq> 5"
    then have "stable_count d < 5" using assms(1) by (simp add: deb_tracks_def)
    moreover from this have "hist ! (stable_count d + 1) \<noteq> last_sample d"
      using assms(1,2) by (auto simp: deb_tracks_def)
    moreover have "last_sample d = hist ! 0" using assms(1) by (auto simp: deb_tracks_def)
    ultimately show False using all [of 0] all [of "stable_count d + 1"] by simp
  qed
  then show ?thesis using assms(1) all [of 0] by (auto simp: deb_tracks_def)
qed

section \<open>Readiness follows VBUS with hysteresis\<close>

text \<open>
  Relating a monitor state to the VBUS readings it has seen (newest first, the seed
  included): the published flags are the debounced ones, and while the confirmed state and
  the newest sample disagree, every reading the counter spans lies on the far side of the
  threshold that applies in the confirmed state.
\<close>

definition tps_coherent :: "tps_state \<Rightarrow> bool" where
  "tps_coherent s \<longleftrightarrow> ts_vbus_confirmed s = confirmed (vbus_deb s) \<and> ts_is_ready s = confirmed (vbus_deb s)
     \<and> ts_ready_bit s = ts_is_ready s \<and> prev_source s = ts_source s
     \<and> (ts_source s = TPS2378_SOURCE_NONE \<longleftrightarrow> \<not> ts_is_ready s)
     \<and> ts_source s \<noteq> TPS2378_SOURCE_AUX
     \<and> (ts_is_ready s \<longrightarrow> (ts_source s = TPS2378_SOURCE_TYPE2 \<longleftrightarrow> ts_t2p_confirmed s))"

definition vbus_history :: "int list \<Rightarrow> tps_state \<Rightarrow> bool" where
  "vbus_history rs s \<longleftrightarrow>
     stable_count (vbus_deb s) < length rs \<and> stable_count (vbus_deb s) \<le> 5
     \<and> (stable_count (vbus_deb s) = 5 \<longrightarrow> confirmed (vbus_deb s) = last_sample (vbus_deb s))
     \<and> (confirmed (vbus_deb s) \<and> \<not> last_sample (vbus_deb s) \<longrightarrow>
          (\<forall>i \<le> stable_count (vbus_deb s). rs ! i < tc_vbus_min_mv (ts_config s) - tc_vbus_hysteresis_mv (ts_config s)))
     \<and> (\<not> confirmed (vbus_deb s) \<and> last_sample (vbus_deb s) \<longrightarrow>
          (\<forall>i \<le> stable_count (vbus_deb s). tc_vbus_min_mv (ts_config s) \<le> rs ! i))"

lemma monitor_step_vbus:
  "ts_config (fst (poe_monitor_step cdb t2p mv s)) = ts_config s"
  "vbus_deb (fst (poe_monitor_step cdb t2p mv s)) =
     debounce_update (vbus_deb s) (vbus_threshold_sample (ts_config s) mv (confirmed (vbus_deb s)))"
  "ts_vbus_mv (fst (poe_monitor_step cdb t2p mv s)) = mv"
  by (simp_all add: poe_monitor_step_def Let_def split: prod.split)

lemma monitor_step_coherent: "tps_coherent s \<Longrightarrow> tps_coherent (fst (poe_monitor_step cdb t2p mv s))"
  by (auto simp: poe_monitor_step_def tps_coherent_def Let_def split: prod.split)

lemma monitor_start_coherent: "tps_coherent (poe_monitor_start cfg cdb t2p mv)"
  by (simp add: poe_monitor_start_def tps_coherent_def)

lemma monitor_start_history: "vbus_history [mv] (poe_monitor_start cfg cdb t2p mv)"
  by (simp add: poe_monitor_start_def vbus_history_def)

lemma all_le_Suc: "(\<forall>i \<le> Suc n. P ((x # xs) ! i)) \<longleftrightarrow> P x \<and> (\<forall>i \<le> n. P (xs ! i))"
proof
  assume "\<forall>i \<le> Suc n. P ((x # xs) ! i)"
  then show "P x \<and> (\<forall>i \<le> n. P (xs ! i))" by (metis Suc_le_mono nth_Cons_0 nth_Cons_Suc zero_le)
next
  assume "P x \<and> (\<forall>i \<le> n. P (xs ! i))"
  then show "\<forall>i \<le> Suc n. P ((x # xs) ! i)" by (auto simp: nth_Cons split: nat.split)
qed

lemma monitor_step_history:
  assumes "vbus_history rs s"
  shows "vbus_history (mv # rs) (fst (poe_monitor_step cdb t2p mv s))"
proof -
  let ?d = "vbus_deb s" and ?lo = "tc_vbus_min_mv (ts_config s) - tc_vbus_hysteresis_mv (ts_config s)"
    and ?hi = "tc_vbus_min_mv (ts_config s)"
  define b where "b = vbus_threshold_sample (ts_config s) mv (confirmed ?d)"
  have b: "confirmed ?d \<Longrightarrow> \<not> b \<Longrightarrow> mv < ?lo" "\<not> confirmed ?d \<Longrightarrow> b \<Longrightarrow> ?hi \<le> mv"
    by (auto simp: b_def vbus_threshold_sample_def)
  show ?thesis
  proof (cases "b = last_sample ?d")
    case True
    have lo: "(\<forall>i \<le> Suc (stable_count ?d). (mv # rs) ! i < ?lo)" if "confirmed ?d" "\<not> b"
      using assms True that b by (simp add: vbus_history_def all_le_Suc [where P = "\<lambda>x. x < ?lo"])
    have hi: "(\<forall>i \<le> Suc (stable_count ?d). ?hi \<le> (mv # rs) ! i)" if "\<not> confirmed ?d" "b"
      using assms True that b by (simp add: vbus_history_def all_le_Suc [where P = "\<lambda>x. ?hi \<le> x"])
    show ?thesis
      using assms True lo hi unfolding vbus_history_def monitor_step_vbus b_def [symmetric]
      by (auto simp: debounce_update_def Let_def fw_const)
  next
    case False
    then show ?thesis
      using assms b unfolding vbus_history_def monitor_step_vbus b_def [symmetric]
      by (auto simp: debounce_update_def Let_def fw_const)
  qed
qed

lemma vbus_flip_down:
  assumes "vbus_history rs s" and "confirmed (vbus_deb s)"
    and "\<not> confirmed (vbus_deb (fst (poe_monitor_step cdb t2p mv s)))"
  shows "6 \<le> length (mv # rs)
       \<and> (\<forall>i < 6. (mv # rs) ! i < tc_vbus_min_mv (ts_config s) - tc_vbus_hysteresis_mv (ts_config s))"
proof -
  let ?d = "vbus_deb s" and ?lo = "tc_vbus_min_mv (ts_config s) - tc_vbus_hysteresis_mv (ts_config s)"
  define b where "b = vbus_threshold_sample (ts_config s) mv (confirmed ?d)"
  have upd: "\<not> confirmed (debounce_update ?d b)" using assms(3) by (simp add: monitor_step_vbus b_def)
  then have c: "\<not> b" "stable_count ?d = 4" "\<not> last_sample ?d"
    using assms(1,2) by (auto simp: debounce_update_def vbus_history_def Let_def fw_const split: if_splits)
  have mv: "mv < ?lo" using c(1) assms(2) by (simp add: b_def vbus_threshold_sample_def)
  have "\<forall>i \<le> Suc 4. (mv # rs) ! i < ?lo"
    using assms(1,2) c mv by (subst all_le_Suc [where P = "\<lambda>x. x < ?lo"]) (simp add: vbus_history_def)
  then show ?thesis using assms(1) c(2) by (auto simp: vbus_history_def less_Suc_eq_le)
qed

lemma vbus_flip_up:
  assumes "vbus_history rs s" and "\<not> confirmed (vbus_deb s)"
    and "confirmed (vbus_deb (fst (poe_monitor_step cdb t2p mv s)))"
  shows "6 \<le> length (mv # rs) \<and> (\<forall>i < 6. tc_vbus_min_mv (ts_config s) \<le> (mv # rs) ! i)"
proof -
  let ?d = "vbus_deb s" and ?hi = "tc_vbus_min_mv (ts_config s)"
  define b where "b = vbus_threshold_sample (ts_config s) mv (confirmed ?d)"
  have upd: "confirmed (debounce_update ?d b)" using assms(3) by (simp add: monitor_step_vbus b_def)
  then have c: "b" "stable_count ?d = 4" "last_sample ?d"
    using assms(1,2) by (auto simp: debounce_update_def vbus_history_def Let_def fw_const split: if_splits)
  have mv: "?hi \<le> mv" using c(1) assms(2) by (simp add: b_def vbus_threshold_sample_def)
  have "\<forall>i \<le> Suc 4. ?hi \<le> (mv # rs) ! i"
    using assms(1,2) c mv by (subst all_le_Suc [where P = "\<lambda>x. ?hi \<le> x"]) (simp add: vbus_history_def)
  then show ?thesis using assms(1) c(2) by (auto simp: vbus_history_def less_Suc_eq_le)
qed

section \<open>Runs of the monitor\<close>

text \<open>A run from power-up over the successive inputs (CDB level, T2P level, VBUS reading).\<close>

fun poe_monitor_run :: "(int \<times> int \<times> int) list \<Rightarrow> tps_state \<Rightarrow> tps_state" where
  "poe_monitor_run [] s = s"
| "poe_monitor_run ((cdb, t2p, mv) # ins) s = poe_monitor_run ins (fst (poe_monitor_step cdb t2p mv s))"

lemma monitor_run_inv:
  "tps_coherent s \<Longrightarrow> vbus_history rs s \<Longrightarrow>
   tps_coherent (poe_monitor_run ins s) \<and> vbus_history (rev (map (snd \<circ> snd) ins) @ rs) (poe_monitor_run ins s)
   \<and> ts_config (poe_monitor_run ins s) = ts_config s"
proof (induction ins arbitrary: s rs)
  case (Cons i ins)
  then show ?case
    using Cons.IH [OF monitor_step_coherent monitor_step_history]
    by (cases i) (simp add: monitor_step_vbus)
qed simp

text \<open>The callbacks of one iteration.\<close>

lemma monitor_step_events:
  fixes s cdb t2p mv
  assumes "tps_coherent s"
  defines "t \<equiv> fst (poe_monitor_step cdb t2p mv s)"
  shows "snd (poe_monitor_step cdb t2p mv s) =
    (if ts_is_ready t \<and> \<not> ts_is_ready s then [ON_POWER_READY (ts_source t), ON_SOURCE_CHANGED (ts_source t)]
     else if \<not> ts_is_ready t \<and> ts_is_ready s then [ON_POWER_LOST, ON_SOURCE_CHANGED TPS2378_SOURCE_NONE]
     else if ts_source t \<noteq> ts_source s then [ON_SOURCE_CHANGED (ts_source t)]
     else [])"
  using assms(1) unfolding t_def
  by (auto simp: poe_monitor_step_def tps_coherent_def Let_def split: prod.split)

section \<open>Properties\<close>

lemma debounce_run_tracks:
  "deb_tracks (rev ss @ [b0]) (foldl debounce_update \<lparr>last_sample = b0, confirmed = False, stable_count = 0\<rparr> ss)"
  by (induction ss rule: rev_induct) (simp_all add: deb_tracks_start deb_tracks_step)

text \<open>
  The debounce filter, from any seed and over any sequence of samples: the confirmed
  value changes only to the newest sample and only when the six newest samples agree, and
  six agreeing samples always make it that value.
\<close>

theorem debounce_needs_six_samples:
  "let d = foldl debounce_update \<lparr>last_sample = b0, confirmed = False, stable_count = 0\<rparr> ss;
       hist = rev ss @ [b0]
   in (confirmed (debounce_update d b) \<noteq> confirmed d \<longrightarrow>
         confirmed (debounce_update d b) = b \<and> 6 \<le> length (b # hist) \<and> (\<forall>x \<in> set (take 6 (b # hist)). x = b))
    \<and> (6 \<le> length hist \<and> (\<forall>x \<in> set (take 6 hist). x = b) \<longrightarrow> confirmed d = b)"
proof -
  note f = debounce_flip [OF debounce_run_tracks [of ss b0], of b]
    and g = debounce_settles [OF debounce_run_tracks [of ss b0], of b]
  show ?thesis unfolding Let_def
  proof (intro conjI impI, goal_cases)
    case 1 then show ?case by (rule f [THEN conjunct1])
  next
    case 2 then show ?case by (rule f [THEN conjunct2, THEN conjunct1])
  next
    case 3 then show ?case by (rule f [THEN conjunct2, THEN conjunct2])
  next
    case 4 then show ?case using g by blast
  qed
qed

theorem debounce_needs_six_samples_witness:
  "confirmed (foldl debounce_update \<lparr>last_sample = False, confirmed = False, stable_count = 0\<rparr>
     [True, False, True, True, True, True, True, True])"
  using debounce_needs_six_samples [of False "[True, False, True, True, True, True, True, True]" True]
  unfolding Let_def by simp

definition reading_history :: "int \<Rightarrow> (int \<times> int \<times> int) list \<Rightarrow> int list" where
  "reading_history mv0 ins = rev (map (snd \<circ> snd) ins) @ [mv0]"

lemma monitor_run_start:
  "tps_coherent (poe_monitor_run ins (poe_monitor_start cfg cdb t2p mv0))
   \<and> vbus_history (reading_history mv0 ins) (poe_monitor_run ins (poe_monitor_start cfg cdb t2p mv0))
   \<and> ts_config (poe_monitor_run ins (poe_monitor_start cfg cdb t2p mv0)) = cfg"
  using monitor_run_inv [OF monitor_start_coherent monitor_start_history, of ins cfg cdb t2p mv0]
  by (simp add: reading_history_def) (simp add: poe_monitor_start_def)

lemma ready_confirmed: "tps_coherent s \<Longrightarrow> ts_is_ready s = confirmed (vbus_deb s)"
  by (simp add: tps_coherent_def)

text \<open>
  C32: over any run of the monitor from power-up, readiness is gained only after six
  consecutive VBUS readings at or above the minimum, and lost only after six consecutive
  readings below the minimum less the hysteresis; shorter dips and spikes change nothing.
\<close>

theorem ready_edges_need_six_readings:
  assumes "s = poe_monitor_run ins (poe_monitor_start cfg cdb0 t2p0 mv0)"
    and "ts_is_ready (fst (poe_monitor_step cdb t2p mv s)) \<noteq> ts_is_ready s"
  shows "6 \<le> length (mv # reading_history mv0 ins)
     \<and> (\<forall>r \<in> set (take 6 (mv # reading_history mv0 ins)).
          if ts_is_ready s then r < tc_vbus_min_mv cfg - tc_vbus_hysteresis_mv cfg else tc_vbus_min_mv cfg \<le> r)"
proof -
  have inv: "tps_coherent s" "vbus_history (reading_history mv0 ins) s" "ts_config s = cfg"
    using monitor_run_start [of ins cfg cdb0 t2p0 mv0] assms(1) by auto
  let ?h = "mv # reading_history mv0 ins"
  have flip: "6 \<le> length ?h \<and> (\<forall>i < 6. if ts_is_ready s
      then ?h ! i < tc_vbus_min_mv cfg - tc_vbus_hysteresis_mv cfg else tc_vbus_min_mv cfg \<le> ?h ! i)"
    using vbus_flip_down [OF inv(2)] vbus_flip_up [OF inv(2)] assms(2) ready_confirmed [OF inv(1)]
      ready_confirmed [OF monitor_step_coherent [OF inv(1)]] unfolding inv(3) by auto
  have "if ts_is_ready s then r < tc_vbus_min_mv cfg - tc_vbus_hysteresis_mv cfg else tc_vbus_min_mv cfg \<le> r"
    if "r \<in> set (take 6 ?h)" for r
    using that flip by (metis in_set_conv_nth length_take min_less_iff_conj nth_take)
  with flip show ?thesis by blast
qed

definition rising_inputs :: "(int \<times> int \<times> int) list" where
  "rising_inputs = [(1, 1, 48000), (1, 1, 47000), (1, 1, 40000), (1, 1, 41500), (1, 1, 42000)]"

theorem ready_edges_need_six_readings_witness:
  "ts_is_ready (fst (poe_monitor_step 1 1 41000 (poe_monitor_run rising_inputs
     (poe_monitor_start \<lparr>tc_vbus_min_mv = 40000, tc_vbus_hysteresis_mv = 2000\<rparr> 0 1 0))))
   \<and> list_all (\<lambda>r. 40000 \<le> r) (take 6 (41000 # reading_history 0 rising_inputs))"
proof -
  let ?cfg = "\<lparr>tc_vbus_min_mv = 40000, tc_vbus_hysteresis_mv = 2000\<rparr>"
  let ?ins = rising_inputs
  have up: "ts_is_ready (fst (poe_monitor_step 1 1 41000 (poe_monitor_run ?ins (poe_monitor_start ?cfg 0 1 0))))"
    "\<not> ts_is_ready (poe_monitor_run ?ins (poe_monitor_start ?cfg 0 1 0))"
    by code_simp+
  then show ?thesis
    using ready_edges_need_six_readings [of _ ?ins ?cfg 0 1 0 1 1 41000, OF refl] by (simp add: list_all_iff)
qed

text \<open>
  In every state the monitor reaches, the event bit, the ready flag and the confirmed
  VBUS agree, the class is NONE exactly when not ready, a ready Type-2 is exactly a
  confirmed T2P, and the advertised power is positive exactly when ready.
\<close>

theorem monitor_state_coherent:
  "let s = poe_monitor_run ins (poe_monitor_start cfg cdb0 t2p0 mv0)
   in tps2378_is_ready s = tps2378_vbus_confirmed s \<and> tps2378_wait_ready s = tps2378_is_ready s
    \<and> tps2378_get_source s = (if \<not> tps2378_is_ready s then TPS2378_SOURCE_NONE
        else if tps2378_t2p_confirmed s then TPS2378_SOURCE_TYPE2 else TPS2378_SOURCE_TYPE1)
    \<and> (0 < tps2378_get_available_power_w s \<longleftrightarrow> tps2378_is_ready s)"
proof -
  let ?s = "poe_monitor_run ins (poe_monitor_start cfg cdb0 t2p0 mv0)"
  have inv: "tps_coherent ?s" using monitor_run_start by blast
  have p: "0 < POE_TYPE1_POWER_W" "0 < POE_TYPE2_POWER_W"
    using f32_round_error [of "1295 / 100"] f32_round_error [of "255 / 10"]
    by (simp_all add: POE_TYPE1_POWER_W_def POE_TYPE2_POWER_W_def)
  show ?thesis using inv p unfolding Let_def
    by (cases "ts_source ?s")
       (auto simp: tps_coherent_def tps2378_is_ready_def tps2378_vbus_confirmed_def tps2378_wait_ready_def
         tps2378_get_source_def tps2378_t2p_confirmed_def tps2378_get_available_power_w_def)
qed

end
