(* ===== verification/Driver_Config.thy ===== *)
theory Driver_Config
  imports Config_Store HV9910_Properties
begin

text \<open>
  \<open>components/driver_config/driver_config.c\<close>: the persisted dimming and power configuration,
  its wire format with the two older layouts, its sanitiser, and the module that loads it at
  boot, keeps it in RAM and pushes its dimming part into the LED driver.
\<close>

section \<open>Data\<close>

definition DRV_CFG_WIRE_SIZE :: nat where [fw_const]: "DRV_CFG_WIRE_SIZE = 14"
definition DRV_CFG_WIRE_SIZE_V1 :: nat where [fw_const]: "DRV_CFG_WIRE_SIZE_V1 = 11"
definition DRV_CFG_WIRE_SIZE_V2 :: nat where [fw_const]: "DRV_CFG_WIRE_SIZE_V2 = 13"
definition DRV_CFG_LAYOUT_VERSION :: u8 where [fw_const]: "DRV_CFG_LAYOUT_VERSION = 3"

definition DRV_POWER_AUTO :: u8 where [fw_const]: "DRV_POWER_AUTO = 0"
definition DRV_POWER_POE_ONLY :: u8 where [fw_const]: "DRV_POWER_POE_ONLY = 1"
definition DRV_POWER_POE_PLUS_REQUIRED :: u8 where [fw_const]: "DRV_POWER_POE_PLUS_REQUIRED = 2"

record driver_config =
  dc_mode :: u8
  dc_pwm_freq_hz :: u16
  dc_analog_freq_hz :: u32
  dc_min_on_time_us :: u16
  dc_crossover_pct :: u8
  dc_power_mode :: u8
  dc_poe_cap_pct :: u8
  dc_lin_enable :: u8

definition drv_config_defaults :: driver_config where
  "drv_config_defaults =
     \<lparr>dc_mode = HV9910_DIM_HYBRID, dc_pwm_freq_hz = 2000, dc_analog_freq_hz = 60000,
      dc_min_on_time_us = 20, dc_crossover_pct = 20, dc_power_mode = DRV_POWER_AUTO,
      dc_poe_cap_pct = 51, dc_lin_enable = 1\<rparr>"

definition drv_config_sanitize :: "driver_config \<Rightarrow> driver_config \<times> bool" where
  "drv_config_sanitize c = fold (\<lambda>(bad, fix). clamp_if bad fix)
     [(\<lambda>c. HV9910_DIM_HYBRID < dc_mode c, dc_mode_update (\<lambda>_. HV9910_DIM_HYBRID)),
      (\<lambda>c. dc_pwm_freq_hz c < 1000, dc_pwm_freq_hz_update (\<lambda>_. 1000)),
      (\<lambda>c. 5000 < dc_pwm_freq_hz c, dc_pwm_freq_hz_update (\<lambda>_. 5000)),
      (\<lambda>c. dc_analog_freq_hz c < 40000, dc_analog_freq_hz_update (\<lambda>_. 40000)),
      (\<lambda>c. 80000 < dc_analog_freq_hz c, dc_analog_freq_hz_update (\<lambda>_. 80000)),
      (\<lambda>c. dc_min_on_time_us c < 2, dc_min_on_time_us_update (\<lambda>_. 2)),
      (\<lambda>c. 200 < dc_min_on_time_us c, dc_min_on_time_us_update (\<lambda>_. 200)),
      (\<lambda>c. dc_crossover_pct c < 10, dc_crossover_pct_update (\<lambda>_. 10)),
      (\<lambda>c. 60 < dc_crossover_pct c, dc_crossover_pct_update (\<lambda>_. 60)),
      (\<lambda>c. DRV_POWER_POE_PLUS_REQUIRED < dc_power_mode c, dc_power_mode_update (\<lambda>_. DRV_POWER_AUTO)),
      (\<lambda>c. dc_poe_cap_pct c < 10, dc_poe_cap_pct_update (\<lambda>_. 10)),
      (\<lambda>c. 100 < dc_poe_cap_pct c, dc_poe_cap_pct_update (\<lambda>_. 100)),
      (\<lambda>c. 1 < dc_lin_enable c, dc_lin_enable_update (\<lambda>_. 1))]
     (c, True)"

definition driver_config_pack :: "driver_config \<Rightarrow> bytes" where
  "driver_config_pack c =
     [DRV_CFG_LAYOUT_VERSION,
      dc_mode c,
      ucast (drop_bit 8 (dc_pwm_freq_hz c)),
      ucast (dc_pwm_freq_hz c AND 0xff),
      ucast (drop_bit 24 (dc_analog_freq_hz c)),
      ucast (drop_bit 16 (dc_analog_freq_hz c)),
      ucast (drop_bit 8 (dc_analog_freq_hz c)),
      ucast (dc_analog_freq_hz c AND 0xff),
      ucast (drop_bit 8 (dc_min_on_time_us c)),
      ucast (dc_min_on_time_us c AND 0xff),
      dc_crossover_pct c,
      dc_power_mode c,
      dc_poe_cap_pct c,
      dc_lin_enable c]"

definition driver_config_unpack :: "bytes \<Rightarrow> driver_config option" where
  "driver_config_unpack inp =
     (let len = length inp;
          v1 = (len = DRV_CFG_WIRE_SIZE_V1 \<and> inp ! 0 = 1);
          v2 = (len = DRV_CFG_WIRE_SIZE_V2 \<and> inp ! 0 = 2);
          v3 = (len = DRV_CFG_WIRE_SIZE \<and> inp ! 0 = DRV_CFG_LAYOUT_VERSION)
      in if \<not> v1 \<and> \<not> v2 \<and> \<not> v3 then None
         else
           let c = drv_config_defaults
                 \<lparr>dc_mode := inp ! 1,
                  dc_pwm_freq_hz := push_bit 8 (ucast (inp ! 2)) OR ucast (inp ! 3),
                  dc_analog_freq_hz := push_bit 24 (ucast (inp ! 4)) OR push_bit 16 (ucast (inp ! 5))
                    OR push_bit 8 (ucast (inp ! 6)) OR ucast (inp ! 7),
                  dc_min_on_time_us := push_bit 8 (ucast (inp ! 8)) OR ucast (inp ! 9),
                  dc_crossover_pct := inp ! 10\<rparr>;
               c = (if v2 \<or> v3 then c\<lparr>dc_power_mode := inp ! 11, dc_poe_cap_pct := inp ! 12\<rparr> else c);
               c = (if v3 then c\<lparr>dc_lin_enable := inp ! 13\<rparr> else c)
           in Some c)"

section \<open>The module\<close>

text \<open>The statics of the file and the blob the storage holds for it.\<close>

record drv_state =
  drv_cfg :: driver_config
  drv_started :: bool
  drv_nvs_ok :: bool
  drv_blob :: "bytes option"

definition drv_config_save :: "nvs_outcome \<Rightarrow> drv_state \<Rightarrow> drv_state" where
  "drv_config_save o' s =
     (if \<not> drv_nvs_ok s then s
      else s\<lparr>drv_blob := nvs_write o' (driver_config_pack (drv_cfg s)) (drv_blob s)\<rparr>)"

definition drv_config_load :: "nvs_outcome \<Rightarrow> drv_state \<Rightarrow> drv_state" where
  "drv_config_load o' s0 =
     (let s = s0\<lparr>drv_cfg := drv_config_defaults\<rparr>;
          (ok, blob) = nvs_open_sequence o' (drv_blob s);
          s = s\<lparr>drv_blob := blob\<rparr>
      in if \<not> ok then s
         else
           let s = s\<lparr>drv_nvs_ok := True\<rparr>
           in case nvs_get_blob DRV_CFG_WIRE_SIZE (drv_blob s) of
                Some buf \<Rightarrow>
                  (case driver_config_unpack buf of
                     Some c \<Rightarrow> s\<lparr>drv_cfg := fst (drv_config_sanitize c)\<rparr>
                   | None \<Rightarrow> drv_config_save o' s)
              | None \<Rightarrow> drv_config_save o' s)"

definition drv_dimming :: "driver_config \<Rightarrow> hv9910_dimming" where
  "drv_dimming c =
     \<lparr>dm_mode = dc_mode c, dm_pwm_freq_hz = dc_pwm_freq_hz c, dm_analog_freq_hz = dc_analog_freq_hz c,
      dm_min_on_time_us = dc_min_on_time_us c, dm_crossover_pct = dc_crossover_pct c,
      dm_lin_enable = dc_lin_enable c\<rparr>"

definition apply_to_hv9910 :: "drv_state \<Rightarrow> hv_state \<Rightarrow> hv_state" where
  "apply_to_hv9910 s hv = hv9910_set_dimming (Some (drv_dimming (drv_cfg s))) hv"

definition driver_config_start :: "nvs_outcome \<Rightarrow> drv_state \<times> hv_state \<Rightarrow> drv_state \<times> hv_state" where
  "driver_config_start o' = (\<lambda>(s, hv).
     (if drv_started s then (s, hv)
      else let s = (drv_config_load o' s)\<lparr>drv_started := True\<rparr> in (s, apply_to_hv9910 s hv)))"

definition driver_config_get :: "drv_state \<Rightarrow> driver_config option" where
  "driver_config_get s = (if drv_started s then Some (drv_cfg s) else None)"

definition driver_config_set ::
  "nvs_outcome \<Rightarrow> driver_config \<Rightarrow> drv_state \<times> hv_state \<Rightarrow> bool \<times> drv_state \<times> hv_state" where
  "driver_config_set o' cfg = (\<lambda>(s, hv).
     (if \<not> drv_started s then (False, s, hv)
      else
        let next_cfg = fst (drv_config_sanitize cfg);
            s = drv_config_save o' (s\<lparr>drv_cfg := next_cfg\<rparr>)
        in (True, s, apply_to_hv9910 s hv)))"

section \<open>The wire format and the sanitiser\<close>

definition drv_config_valid :: "driver_config \<Rightarrow> bool" where
  "drv_config_valid c \<longleftrightarrow> dim_ok (drv_dimming c) \<and> dc_power_mode c \<le> DRV_POWER_POE_PLUS_REQUIRED
     \<and> 10 \<le> dc_poe_cap_pct c \<and> dc_poe_cap_pct c \<le> 100"

lemma drv_unpack_pack: "driver_config_unpack (driver_config_pack c) = Some c"
  by (simp add: driver_config_unpack_def driver_config_pack_def Let_def fw_const drv_config_defaults_def)

lemma drv_pack_length: "length (driver_config_pack c) = DRV_CFG_WIRE_SIZE"
  by (simp add: driver_config_pack_def fw_const)

lemmas drv_clamp_skip =
  clamp_if_skip [of dc_mode] clamp_if_skip [of dc_pwm_freq_hz] clamp_if_skip [of dc_analog_freq_hz]
  clamp_if_skip [of dc_min_on_time_us] clamp_if_skip [of dc_crossover_pct]
  clamp_if_skip [of dc_power_mode] clamp_if_skip [of dc_poe_cap_pct] clamp_if_skip [of dc_lin_enable]

lemmas drv_clamp_set =
  clamp_if_set [of dc_mode] clamp_if_set [of dc_pwm_freq_hz] clamp_if_set [of dc_analog_freq_hz]
  clamp_if_set [of dc_min_on_time_us] clamp_if_set [of dc_crossover_pct]
  clamp_if_set [of dc_power_mode] clamp_if_set [of dc_poe_cap_pct] clamp_if_set [of dc_lin_enable]

lemma drv_sanitize_fields:
  "dc_mode (fst (drv_config_sanitize c)) = (if 2 < dc_mode c then 2 else dc_mode c)"
  "dc_pwm_freq_hz (fst (drv_config_sanitize c)) = max 1000 (min 5000 (dc_pwm_freq_hz c))"
  "dc_analog_freq_hz (fst (drv_config_sanitize c)) = max 40000 (min 80000 (dc_analog_freq_hz c))"
  "dc_min_on_time_us (fst (drv_config_sanitize c)) = max 2 (min 200 (dc_min_on_time_us c))"
  "dc_crossover_pct (fst (drv_config_sanitize c)) = max 10 (min 60 (dc_crossover_pct c))"
  "dc_power_mode (fst (drv_config_sanitize c)) = (if 2 < dc_power_mode c then 0 else dc_power_mode c)"
  "dc_poe_cap_pct (fst (drv_config_sanitize c)) = max 10 (min 100 (dc_poe_cap_pct c))"
  "dc_lin_enable (fst (drv_config_sanitize c)) = min 1 (dc_lin_enable c)"
  by (simp_all add: drv_config_sanitize_def drv_clamp_skip drv_clamp_set fw_const max_def min_def not_less)
     (auto simp: word_le_unat word_less_unat)

lemma drv_sanitize_flag: "snd (drv_config_sanitize c) \<longleftrightarrow> drv_config_valid c"
proof -
  have "snd (drv_config_sanitize c) \<longleftrightarrow>
     \<not> 2 < dc_mode c \<and> (\<not> dc_pwm_freq_hz c < 1000 \<and> \<not> 5000 < dc_pwm_freq_hz c)
   \<and> (\<not> dc_analog_freq_hz c < 40000 \<and> \<not> 80000 < dc_analog_freq_hz c)
   \<and> (\<not> dc_min_on_time_us c < 2 \<and> \<not> 200 < dc_min_on_time_us c)
   \<and> (\<not> dc_crossover_pct c < 10 \<and> \<not> 60 < dc_crossover_pct c) \<and> \<not> 2 < dc_power_mode c
   \<and> (\<not> dc_poe_cap_pct c < 10 \<and> \<not> 100 < dc_poe_cap_pct c) \<and> \<not> 1 < dc_lin_enable c"
    by (simp add: drv_config_sanitize_def clamp_if_snd drv_clamp_skip drv_clamp_set fw_const less_if
          split del: if_split) blast
  then show ?thesis
    by (simp add: drv_config_valid_def dim_ok_def drv_dimming_def not_less fw_const) blast
qed

lemma word_clamp_range:
  fixes x :: "'a::len word"
  assumes "a \<le> b"
  shows "a \<le> max a (min b x)" "max a (min b x) \<le> b"
  using assms by auto

lemma drv_sanitize_valid: "drv_config_valid (fst (drv_config_sanitize c))"
  by (simp add: drv_config_valid_def dim_ok_def drv_dimming_def drv_sanitize_fields fw_const word_clamp_range not_less)

lemma drv_sanitize_id: "drv_config_valid c \<Longrightarrow> fst (drv_config_sanitize c) = c"
  by (rule driver_config.equality)
     (simp_all add: drv_sanitize_fields drv_config_valid_def dim_ok_def drv_dimming_def fw_const, auto)

lemma drv_defaults_valid: "drv_config_valid drv_config_defaults"
  by (simp add: drv_config_valid_def dim_ok_def drv_dimming_def drv_config_defaults_def fw_const)

interpretation drvfmt: config_format driver_config_pack driver_config_unpack drv_config_sanitize
  "\<lambda>_. True" drv_config_valid drv_config_defaults DRV_CFG_WIRE_SIZE
  by unfold_locales
     (simp_all add: drv_pack_length drv_unpack_pack drv_sanitize_valid drv_sanitize_id
        drv_sanitize_flag drv_defaults_valid)

section \<open>The module\<close>

lemma drv_valid_dim: "drv_config_valid c \<Longrightarrow> dim_ok (drv_dimming c)"
  by (simp add: drv_config_valid_def)

lemma drv_save_frame [simp]:
  "drv_cfg (drv_config_save o' s) = drv_cfg s" "drv_started (drv_config_save o' s) = drv_started s"
  "drv_nvs_ok (drv_config_save o' s) = drv_nvs_ok s"
  by (simp_all add: drv_config_save_def)

text \<open>Loading is the interface's \<open>load\<close>, with the defaults where it gives nothing.\<close>

lemma drv_load_cfg:
  "drv_cfg (drv_config_load o' s) =
     (case nvs_open_sequence o' (drv_blob s) of (ok, blob) \<Rightarrow>
        if ok then (case drvfmt.load blob of Some c \<Rightarrow> c | None \<Rightarrow> drv_config_defaults)
        else drv_config_defaults)"
  by (auto simp: drv_config_load_def drvfmt.load_def Let_def split: option.split prod.split)

lemma drv_load_valid: "drv_config_valid (drv_cfg (drv_config_load o' s))"
  by (auto simp: drv_load_cfg drv_defaults_valid drvfmt.load_valid split: option.split prod.split)

definition drv_inv :: "drv_state \<Rightarrow> bool" where
  "drv_inv s \<longleftrightarrow> (drv_started s \<longrightarrow> drv_config_valid (drv_cfg s))"

lemma apply_to_hv9910_inv: "drv_config_valid (drv_cfg s) \<Longrightarrow> hv_inv hv \<Longrightarrow> hv_inv (apply_to_hv9910 s hv)"
  by (simp add: apply_to_hv9910_def hv9910_set_dimming_def post_cmd_inv drv_valid_dim)

lemma drv_start_inv: "drv_inv (fst (driver_config_start o' (s, hv)))"
  if "drv_inv s" using that
  by (simp add: driver_config_start_def drv_inv_def drv_load_valid Let_def)

lemma drv_set_inv: "drv_inv (fst (snd (driver_config_set o' cfg (s, hv))))"
  if "drv_inv s" using that
  by (simp add: driver_config_set_def drv_inv_def drv_sanitize_valid Let_def)

section \<open>Properties\<close>

text \<open>
  Every driver configuration survives the wire format, whose length is the declared one.
\<close>

theorem driver_config_roundtrip:
  "driver_config_unpack (driver_config_pack c) = Some c \<and> length (driver_config_pack c) = DRV_CFG_WIRE_SIZE"
  by (simp add: drv_unpack_pack drv_pack_length)

text \<open>
  A blob of layout 1 or 2, left by an older firmware, is read with its fields intact and
  the fields it lacks at their defaults; a wrong length or version is rejected.
\<close>

theorem driver_config_migration:
  "driver_config_unpack (1 # slice 1 10 (driver_config_pack c)) =
     Some (c\<lparr>dc_power_mode := DRV_POWER_AUTO, dc_poe_cap_pct := 51, dc_lin_enable := 1\<rparr>)
   \<and> driver_config_unpack (2 # slice 1 12 (driver_config_pack c)) = Some (c\<lparr>dc_lin_enable := 1\<rparr>)
   \<and> (driver_config_unpack b = None \<longleftrightarrow>
        (length b, hd b) \<notin> {(11, 1), (13, 2), (14, 3)})"
proof -
  have "driver_config_unpack b = None \<longleftrightarrow> (length b, hd b) \<notin> {(11, 1), (13, 2), (14, 3)}"
    by (cases b) (auto simp: driver_config_unpack_def Let_def fw_const)
  then show ?thesis
    by (simp add: driver_config_unpack_def driver_config_pack_def slice_def Let_def fw_const
          drv_config_defaults_def)
qed

text \<open>
  Sanitising yields a configuration within every documented range, changes nothing that
  was already valid, and reports exactly whether anything changed.
\<close>

theorem driver_config_sanitize_correct:
  "drv_config_valid (fst (drv_config_sanitize c))
   \<and> (snd (drv_config_sanitize c) \<longleftrightarrow> fst (drv_config_sanitize c) = c)
   \<and> (snd (drv_config_sanitize c) \<longleftrightarrow> drv_config_valid c)"
  using drvfmt.sanitize_valid [of c] drvfmt.sanitize_reports [of c] drvfmt.sanitize_flag [of c] by blast

text \<open>
  A configuration accepted by the admin channel survives a power cycle: when the storage
  calls succeed, the next boot loads exactly the sanitised configuration, and the LED driver,
  which then runs with an empty queue, is handed its dimming part.
\<close>

theorem driver_config_persists:
  assumes "drv_started s" and "drv_nvs_ok s" and "nv_set o'" and "nv_commit o'"
    and "hv_task_ready hv'" and "hv_cmd_queue hv' = []"
  shows "let s' = fst (snd (driver_config_set o' cfg (s, hv)));
             boot = driver_config_start nvs_good
               (\<lparr>drv_cfg = c0, drv_started = False, drv_nvs_ok = False, drv_blob = drv_blob s'\<rparr>, hv')
     in driver_config_get (fst boot) = Some (fst (drv_config_sanitize cfg))
        \<and> hv_cmd_queue (snd boot) = [HV_CMD_APPLY_DIMMING (drv_dimming (fst (drv_config_sanitize cfg)))]"
proof -
  let ?s' = "fst (snd (driver_config_set o' cfg (s, hv)))"
  let ?boot = "driver_config_start nvs_good
      (\<lparr>drv_cfg = c0, drv_started = False, drv_nvs_ok = False, drv_blob = drv_blob ?s'\<rparr>, hv')"
  have blob: "drv_blob ?s' = Some (driver_config_pack (fst (drv_config_sanitize cfg)))"
    using assms(1-4) by (simp add: driver_config_set_def drv_config_save_def nvs_write_def Let_def)
  have cfg: "drv_cfg (fst ?boot) = fst (drv_config_sanitize cfg)" "drv_started (fst ?boot)"
    by (simp_all add: driver_config_start_def drv_load_cfg blob drvfmt.load_sanitized
          nvs_open_sequence_def nvs_good_def Let_def)
  have "snd ?boot = apply_to_hv9910 (fst ?boot) hv'"
    by (simp add: driver_config_start_def Let_def)
  then show ?thesis
    using cfg assms(5,6)
    by (simp only: Let_def) (simp add: driver_config_get_def apply_to_hv9910_def hv9910_set_dimming_def post_cmd_queue fw_const)
qed

theorem driver_config_persists_witness:
  "driver_config_get (fst (driver_config_start nvs_good
     (\<lparr>drv_cfg = drv_config_defaults, drv_started = False, drv_nvs_ok = False,
       drv_blob = drv_blob (fst (snd (driver_config_set nvs_good (drv_config_defaults\<lparr>dc_poe_cap_pct := 70\<rparr>)
         (\<lparr>drv_cfg = drv_config_defaults, drv_started = True, drv_nvs_ok = True, drv_blob = None\<rparr>, lit_example))))\<rparr>,
      lit_example))) = Some (drv_config_defaults\<lparr>dc_poe_cap_pct := 70\<rparr>)"
proof -
  have "drv_config_valid (drv_config_defaults\<lparr>dc_poe_cap_pct := 70\<rparr>)"
    by (simp add: drv_config_valid_def dim_ok_def drv_dimming_def drv_config_defaults_def fw_const)
  then have "fst (drv_config_sanitize (drv_config_defaults\<lparr>dc_poe_cap_pct := 70\<rparr>)) = drv_config_defaults\<lparr>dc_poe_cap_pct := 70\<rparr>"
    by (rule drv_sanitize_id)
  then show ?thesis
    using driver_config_persists [of "\<lparr>drv_cfg = drv_config_defaults, drv_started = True, drv_nvs_ok = True,
        drv_blob = None\<rparr>" nvs_good lit_example "drv_config_defaults\<lparr>dc_poe_cap_pct := 70\<rparr>" lit_example
        drv_config_defaults] lit_example_ready lit_example_queue
    by (simp add: nvs_good_def Let_def)
qed

end
