(* ===== verification/Power_Manager.thy ===== *)
theory Power_Manager
  imports TPS2378_Monitor Driver_Config
begin

text \<open>
  \<open>components/power_manager/power_manager.c\<close>: the policy that turns power class and
  configured mode into the driver's cap, gate and resume. Its statics are a record; the
  power monitor and the configuration are read live, the LED driver is updated. The mutex
  makes each entry point one atomic step. The settle timer is an \<open>esp_timer\<close> one-shot: starting
  it while it runs fails, as documented.
\<close>

section \<open>Data\<close>

definition BUDGET_CW_TYPE1 :: u16 where [fw_const]: "BUDGET_CW_TYPE1 = 1295"
definition BUDGET_CW_TYPE2 :: u16 where [fw_const]: "BUDGET_CW_TYPE2 = 2550"

datatype power_manager_state =
    POWER_MANAGER_NO_POWER
  | POWER_MANAGER_ACTIVE_FULL
  | POWER_MANAGER_ACTIVE_CAPPED
  | POWER_MANAGER_BLOCKED_NEEDS_POE_PLUS

fun pm_state_value :: "power_manager_state \<Rightarrow> u8" where
  "pm_state_value POWER_MANAGER_NO_POWER = 0"
| "pm_state_value POWER_MANAGER_ACTIVE_FULL = 1"
| "pm_state_value POWER_MANAGER_ACTIVE_CAPPED = 2"
| "pm_state_value POWER_MANAGER_BLOCKED_NEEDS_POE_PLUS = 3"

datatype settle_timer = TIMER_NULL | TIMER_STOPPED | TIMER_RUNNING

record pm_statics =
  pm_lock :: bool                       \<comment> \<open>the mutex exists\<close>
  pm_settle_timer :: settle_timer
  pm_first_ready_seen :: bool
  pm_started :: bool
  pm_state :: power_manager_state
  pm_scale_pct :: u8
  pm_budget_cw :: u16

definition pm_statics_init :: pm_statics where
  "pm_statics_init = \<lparr>pm_lock = False, pm_settle_timer = TIMER_NULL, pm_first_ready_seen = False,
     pm_started = False, pm_state = POWER_MANAGER_NO_POWER, pm_scale_pct = 100, pm_budget_cw = 0\<rparr>"

section \<open>Operations\<close>

definition budget_cw_for :: "tps2378_source \<Rightarrow> u16" where
  "budget_cw_for src = (case src of
     TPS2378_SOURCE_TYPE1 \<Rightarrow> BUDGET_CW_TYPE1
   | TPS2378_SOURCE_TYPE2 \<Rightarrow> BUDGET_CW_TYPE2
   | TPS2378_SOURCE_AUX \<Rightarrow> BUDGET_CW_TYPE2
   | TPS2378_SOURCE_NONE \<Rightarrow> 0)"

text \<open>\<open>esp_timer_start_once\<close> on the settle timer: the new timer and whether it returned \<open>ESP_OK\<close>.\<close>

definition timer_start_once :: "settle_timer \<Rightarrow> settle_timer \<times> bool" where
  "timer_start_once t = (case t of TIMER_STOPPED \<Rightarrow> (TIMER_RUNNING, True) | _ \<Rightarrow> (t, False))"

definition evaluate ::
  "tps_state \<Rightarrow> drv_state \<Rightarrow> pm_statics \<times> hv_state \<Rightarrow> pm_statics \<times> hv_state" where
  "evaluate tps drv = (\<lambda>(s, hv).
     (let src = tps2378_get_source tps; ready = tps2378_is_ready tps
      in case driver_config_get drv of
           None \<Rightarrow> (s, hv)
         | Some cfg \<Rightarrow>
      (let s = s\<lparr>pm_budget_cw := budget_cw_for src\<rparr>
      in if \<not> ready \<or> src = TPS2378_SOURCE_NONE
         then (s\<lparr>pm_state := POWER_MANAGER_NO_POWER, pm_scale_pct := 100\<rparr>, hv9910_emergency_disable hv)
         else
           let full_capable = (src = TPS2378_SOURCE_TYPE2 \<or> src = TPS2378_SOURCE_AUX);
               (blocked, capped, scale) =
                 (if dc_power_mode cfg = DRV_POWER_POE_ONLY then
                    (if src \<noteq> TPS2378_SOURCE_AUX then (False, True, dc_poe_cap_pct cfg) else (False, False, 100))
                  else if dc_power_mode cfg = DRV_POWER_POE_PLUS_REQUIRED then
                    (\<not> full_capable, False, 100)
                  else
                    (if \<not> full_capable then (False, True, dc_poe_cap_pct cfg) else (False, False, 100)))
           in if blocked
              then (s\<lparr>pm_state := POWER_MANAGER_BLOCKED_NEEDS_POE_PLUS, pm_scale_pct := 100\<rparr>,
                    hv9910_emergency_disable hv)
              else
                let s = s\<lparr>pm_scale_pct := scale\<rparr>;
                    hv = hv9910_set_output_scale scale hv;
                    s = s\<lparr>pm_state := (if capped then POWER_MANAGER_ACTIVE_CAPPED else POWER_MANAGER_ACTIVE_FULL)\<rparr>
                in if \<not> hv9910_pending_on hv then (s, hv)
                   else if \<not> pm_first_ready_seen s then
                     (let s = s\<lparr>pm_first_ready_seen := True\<rparr>;
                          (timer, ok) = timer_start_once (pm_settle_timer s)
                      in if pm_settle_timer s \<noteq> TIMER_NULL \<and> ok
                         then (s\<lparr>pm_settle_timer := timer\<rparr>, hv)
                         else (s, hv9910_enable hv))
                   else (s, hv9910_enable hv))))"

text \<open>The one-shot timer is stopped by the time its callback runs.\<close>

definition settle_cb :: "tps_state \<Rightarrow> drv_state \<Rightarrow> pm_statics \<times> hv_state \<Rightarrow> pm_statics \<times> hv_state" where
  "settle_cb tps drv = (\<lambda>(s, hv).
     (let s = s\<lparr>pm_settle_timer := TIMER_STOPPED\<rparr>
      in if tps2378_is_ready tps then evaluate tps drv (s, hv) else (s, hv)))"

definition locked_evaluate :: "tps_state \<Rightarrow> drv_state \<Rightarrow> pm_statics \<times> hv_state \<Rightarrow> pm_statics \<times> hv_state" where
  "locked_evaluate tps drv = (\<lambda>(s, hv). if \<not> pm_lock s then (s, hv) else evaluate tps drv (s, hv))"

definition power_manager_tps_ready ::
  "tps_state \<Rightarrow> drv_state \<Rightarrow> tps2378_source \<Rightarrow> pm_statics \<times> hv_state \<Rightarrow> pm_statics \<times> hv_state" where
  "power_manager_tps_ready tps drv source = locked_evaluate tps drv"

definition power_manager_tps_lost ::
  "tps_state \<Rightarrow> drv_state \<Rightarrow> pm_statics \<times> hv_state \<Rightarrow> pm_statics \<times> hv_state" where
  "power_manager_tps_lost tps drv = (\<lambda>(s, hv).
     (if \<not> pm_lock s then (s, hv) else evaluate tps drv (s\<lparr>pm_first_ready_seen := False\<rparr>, hv)))"

definition power_manager_tps_source_changed ::
  "tps_state \<Rightarrow> drv_state \<Rightarrow> tps2378_source \<Rightarrow> pm_statics \<times> hv_state \<Rightarrow> pm_statics \<times> hv_state" where
  "power_manager_tps_source_changed tps drv source = locked_evaluate tps drv"

text \<open>\<open>lock_ok\<close> and \<open>timer_ok\<close> are the outcomes of creating the mutex and the timer.\<close>

definition power_manager_start ::
  "bool \<Rightarrow> bool \<Rightarrow> tps_state \<Rightarrow> drv_state \<Rightarrow> pm_statics \<times> hv_state \<Rightarrow> pm_statics \<times> hv_state" where
  "power_manager_start lock_ok timer_ok tps drv = (\<lambda>(s, hv).
     (if pm_started s then (s, hv)
      else locked_evaluate tps drv
        (s\<lparr>pm_lock := lock_ok, pm_settle_timer := (if timer_ok then TIMER_STOPPED else TIMER_NULL),
           pm_started := True\<rparr>, hv)))"

definition power_manager_reeval ::
  "tps_state \<Rightarrow> drv_state \<Rightarrow> pm_statics \<times> hv_state \<Rightarrow> pm_statics \<times> hv_state" where
  "power_manager_reeval tps drv = locked_evaluate tps drv"

definition power_manager_get_state :: "pm_statics \<Rightarrow> power_manager_state" where
  "power_manager_get_state s = pm_state s"

definition power_manager_effective_scale_pct :: "pm_statics \<Rightarrow> u8" where
  "power_manager_effective_scale_pct s = pm_scale_pct s"

definition power_manager_budget_cw :: "pm_statics \<Rightarrow> u16" where
  "power_manager_budget_cw s = pm_budget_cw s"

definition power_manager_indicator_ok :: "pm_statics \<Rightarrow> bool" where
  "power_manager_indicator_ok s \<longleftrightarrow>
     pm_state s = POWER_MANAGER_ACTIVE_FULL \<or> pm_state s = POWER_MANAGER_ACTIVE_CAPPED"

definition power_manager_output_allowed :: "pm_statics \<Rightarrow> bool" where
  "power_manager_output_allowed s \<longleftrightarrow> pm_state s \<noteq> POWER_MANAGER_BLOCKED_NEEDS_POE_PLUS"

text \<open>The dispatch of a monitor callback, wired up in \<open>app_main\<close>.\<close>

fun pm_on_event ::
  "tps_state \<Rightarrow> drv_state \<Rightarrow> tps_event \<Rightarrow> pm_statics \<times> hv_state \<Rightarrow> pm_statics \<times> hv_state" where
  "pm_on_event tps drv (ON_POWER_READY src) st = power_manager_tps_ready tps drv src st"
| "pm_on_event tps drv ON_POWER_LOST st = power_manager_tps_lost tps drv st"
| "pm_on_event tps drv (ON_SOURCE_CHANGED src) st = power_manager_tps_source_changed tps drv src st"

text \<open>One monitor iteration together with the callbacks it makes, in order.\<close>

definition monitor_tick ::
  "int \<Rightarrow> int \<Rightarrow> int \<Rightarrow> drv_state \<Rightarrow> tps_state \<times> pm_statics \<times> hv_state \<Rightarrow> tps_state \<times> pm_statics \<times> hv_state" where
  "monitor_tick cdb t2p mv drv = (\<lambda>(tps, st).
     (let (tps', events) = poe_monitor_step cdb t2p mv tps
      in (tps', fold (pm_on_event tps' drv) events st)))"

section \<open>The policy as a table\<close>

text \<open>
  What the documentation of \<open>driver_power_mode_t\<close> and \<open>power_manager_state_t\<close> promises, as a
  function of power class and configuration alone: state, cap and whether light is held off.
\<close>

definition power_policy :: "tps2378_source \<Rightarrow> driver_config \<Rightarrow> power_manager_state \<times> u8" where
  "power_policy src cfg =
     (case src of
        TPS2378_SOURCE_NONE \<Rightarrow> (POWER_MANAGER_NO_POWER, 100)
      | TPS2378_SOURCE_TYPE1 \<Rightarrow>
          (if dc_power_mode cfg = DRV_POWER_POE_PLUS_REQUIRED then (POWER_MANAGER_BLOCKED_NEEDS_POE_PLUS, 100)
           else (POWER_MANAGER_ACTIVE_CAPPED, dc_poe_cap_pct cfg))
      | TPS2378_SOURCE_TYPE2 \<Rightarrow>
          (if dc_power_mode cfg = DRV_POWER_POE_ONLY then (POWER_MANAGER_ACTIVE_CAPPED, dc_poe_cap_pct cfg)
           else (POWER_MANAGER_ACTIVE_FULL, 100))
      | TPS2378_SOURCE_AUX \<Rightarrow> (POWER_MANAGER_ACTIVE_FULL, 100))"

definition policy_dark :: "power_manager_state \<Rightarrow> bool" where
  "policy_dark st \<longleftrightarrow> st = POWER_MANAGER_NO_POWER \<or> st = POWER_MANAGER_BLOCKED_NEEDS_POE_PLUS"

lemma api_frame [simp]:
  "hv_desired_on (hv9910_set_output_scale p hv) = hv_desired_on hv"
  "hv_desired_on (hv9910_emergency_disable hv) = hv_desired_on hv"
  "hv_desired_on (hv9910_enable hv) = hv_desired_on hv"
  by (simp_all add: hv9910_set_output_scale_def hv9910_emergency_disable_def hv9910_enable_def
        hv9910_enable_at_def Let_def)

lemma evaluate_policy:
  assumes "driver_config_get drv = Some cfg"
    and "ts_source tps = TPS2378_SOURCE_NONE \<longleftrightarrow> \<not> ts_is_ready tps"
  shows "evaluate tps drv (s, hv) =
    (let (st, scale) = power_policy (ts_source tps) cfg;
         s1 = s\<lparr>pm_budget_cw := budget_cw_for (ts_source tps), pm_state := st, pm_scale_pct := scale\<rparr>
     in if policy_dark st then (s1, hv9910_emergency_disable hv)
        else
          let hv1 = hv9910_set_output_scale scale hv
          in if \<not> hv_desired_on hv then (s1, hv1)
             else if pm_first_ready_seen s then (s1, hv9910_enable hv1)
             else if pm_settle_timer s = TIMER_STOPPED
                  then (s1\<lparr>pm_first_ready_seen := True, pm_settle_timer := TIMER_RUNNING\<rparr>, hv1)
                  else (s1\<lparr>pm_first_ready_seen := True\<rparr>, hv9910_enable hv1))"
  using assms
  by (cases s; cases "ts_source tps"; cases "pm_settle_timer s")
     (simp_all add: evaluate_def Let_def power_policy_def policy_dark_def tps2378_get_source_def
        tps2378_is_ready_def timer_start_once_def hv9910_pending_on_def fw_const
        DRV_POWER_POE_ONLY_def DRV_POWER_POE_PLUS_REQUIRED_def)

section \<open>Effect on the driver's queue\<close>

lemma set_scale_queue:
  "hv_task_ready hv \<Longrightarrow> length (hv_cmd_queue hv) < CMD_QUEUE_LEN \<Longrightarrow>
   hv_cmd_queue (hv9910_set_output_scale p hv) = hv_cmd_queue hv @ [HV_CMD_SET_SCALE p]"
  by (simp add: hv9910_set_output_scale_def post_cmd_queue)

text \<open>The level a bare \<open>hv9910_enable\<close> asks for.\<close>

definition resume_level :: "hv_state \<Rightarrow> u8" where
  "resume_level hv =
     (let target = (if 0 < hv_last_nonzero_percent hv then hv_last_nonzero_percent hv else DEFAULT_ON_PERCENT)
      in if 100 < target then 100 else target)"

lemma enable_queue:
  "hv_task_ready hv \<Longrightarrow> length (hv_cmd_queue hv) < CMD_QUEUE_LEN \<Longrightarrow>
   hv_cmd_queue (hv9910_enable hv) = hv_cmd_queue hv @ [HV_CMD_ENABLE (resume_level hv)]"
  by (simp add: hv9910_enable_def hv9910_enable_at_def resume_level_def Let_def post_cmd_queue)

lemma set_scale_frame [simp]:
  "hv_task_ready (hv9910_set_output_scale p hv) = hv_task_ready hv"
  "resume_level (hv9910_set_output_scale p hv) = resume_level hv"
  by (simp_all add: hv9910_set_output_scale_def resume_level_def)

definition pm_coherent :: "tps_state \<Rightarrow> drv_state \<Rightarrow> bool" where
  "pm_coherent tps drv \<longleftrightarrow> drv_started drv
     \<and> (ts_source tps = TPS2378_SOURCE_NONE \<longleftrightarrow> \<not> ts_is_ready tps)"

lemma pm_coherent_get:
  "pm_coherent tps drv \<Longrightarrow> driver_config_get drv = Some (drv_cfg drv)"
  "pm_coherent tps drv \<Longrightarrow> ts_source tps = TPS2378_SOURCE_NONE \<longleftrightarrow> \<not> ts_is_ready tps"
  by (simp_all add: pm_coherent_def driver_config_get_def)

lemmas evaluate_coherent = evaluate_policy [OF pm_coherent_get]

lemma evaluate_commands:
  assumes "pm_coherent tps drv" and "hv_task_ready hv" and "length (hv_cmd_queue hv) + 2 \<le> CMD_QUEUE_LEN"
    and "\<not> policy_dark (fst (power_policy (ts_source tps) (drv_cfg drv)))"
  shows "hv_cmd_queue (snd (evaluate tps drv (s, hv))) =
     hv_cmd_queue hv @ HV_CMD_SET_SCALE (snd (power_policy (ts_source tps) (drv_cfg drv))) #
     (if hv_desired_on hv \<and> (pm_first_ready_seen s \<or> pm_settle_timer s \<noteq> TIMER_STOPPED)
      then [HV_CMD_ENABLE (resume_level hv)] else [])"
proof -
  obtain st scale where pol: "power_policy (ts_source tps) (drv_cfg drv) = (st, scale)" by fastforce
  have room: "length (hv_cmd_queue hv) < CMD_QUEUE_LEN" "Suc (length (hv_cmd_queue hv)) < CMD_QUEUE_LEN"
    using assms(3) by simp_all
  show ?thesis
    using assms(2,4) room by (simp add: evaluate_coherent [OF assms(1,1)] pol Let_def set_scale_queue enable_queue)
qed

section \<open>Properties\<close>

text \<open>
  C33: whenever the driver configuration is loaded and the monitor's class agrees with its
  readiness, an evaluation publishes exactly the state, cap and budget of the policy table;
  output is held off exactly in BLOCKED, and the indicator is solid exactly when light is allowed
  and power is present.
\<close>

theorem evaluate_implements_policy:
  assumes "pm_coherent tps drv"
  shows "let (s', hv') = evaluate tps drv (s, hv); (st, scale) = power_policy (ts_source tps) (drv_cfg drv)
     in power_manager_get_state s' = st \<and> power_manager_effective_scale_pct s' = scale
        \<and> power_manager_budget_cw s' = budget_cw_for (ts_source tps)
        \<and> (power_manager_output_allowed s' \<longleftrightarrow>
             \<not> (ts_source tps = TPS2378_SOURCE_TYPE1 \<and> dc_power_mode (drv_cfg drv) = DRV_POWER_POE_PLUS_REQUIRED))
        \<and> (power_manager_indicator_ok s' \<longleftrightarrow> \<not> policy_dark st)"
proof -
  obtain st scale where pol: "power_policy (ts_source tps) (drv_cfg drv) = (st, scale)" by fastforce
  have st: "st \<noteq> POWER_MANAGER_BLOCKED_NEEDS_POE_PLUS \<longleftrightarrow>
      \<not> (ts_source tps = TPS2378_SOURCE_TYPE1 \<and> dc_power_mode (drv_cfg drv) = DRV_POWER_POE_PLUS_REQUIRED)"
    "st = POWER_MANAGER_ACTIVE_FULL \<or> st = POWER_MANAGER_ACTIVE_CAPPED \<longleftrightarrow> \<not> policy_dark st"
    using pol by (cases "ts_source tps"; auto simp: power_policy_def policy_dark_def split: if_splits)+
  show ?thesis
    unfolding evaluate_coherent [OF assms assms] pol
    by (simp add: Let_def power_manager_get_state_def power_manager_effective_scale_pct_def
          power_manager_budget_cw_def power_manager_output_allowed_def power_manager_indicator_ok_def st)
       (auto simp: policy_dark_def)
qed

definition tps_type1 :: tps_state where
  "tps_type1 = poe_monitor_run [(1, 1, 48000), (1, 1, 48000), (1, 1, 48000), (1, 1, 48000), (1, 1, 48000)]
     (poe_monitor_start \<lparr>tc_vbus_min_mv = 40000, tc_vbus_hysteresis_mv = 2000\<rparr> 1 1 48000)"

lemma tps_type1_values:
  "ts_source tps_type1 = TPS2378_SOURCE_TYPE1" "ts_is_ready tps_type1"
  unfolding tps_type1_def by code_simp+

definition drv_example :: drv_state where
  "drv_example = \<lparr>drv_cfg = drv_config_defaults, drv_started = True, drv_nvs_ok = True, drv_blob = None\<rparr>"

lemma pm_coherent_example: "pm_coherent tps_type1 drv_example"
  by (simp add: pm_coherent_def drv_example_def tps_type1_values)

theorem evaluate_implements_policy_witness:
  "pm_state (fst (evaluate tps_type1 drv_example (pm_statics_init, lit_example))) = POWER_MANAGER_ACTIVE_CAPPED
   \<and> pm_scale_pct (fst (evaluate tps_type1 drv_example (pm_statics_init, lit_example))) = 51"
  using evaluate_implements_policy [OF pm_coherent_example, of pm_statics_init lit_example]
  by (simp add: Let_def power_policy_def tps_type1_values drv_example_def drv_config_defaults_def
        fw_const power_manager_get_state_def power_manager_effective_scale_pct_def split_def)

text \<open>
  When light is allowed, the cap is queued for the driver before any ENABLE: with room
  for two commands, an evaluation appends SET_SCALE with the policy's cap and then, only
  when the network has asked for light and the settle delay does not apply, ENABLE at the
  remembered level, so the LED never comes up above the cap the evaluation decided.
\<close>

theorem cap_precedes_enable:
  assumes "pm_coherent tps drv" and "hv_task_ready hv" and "length (hv_cmd_queue hv) + 2 \<le> CMD_QUEUE_LEN"
    and "\<not> policy_dark (fst (power_policy (ts_source tps) (drv_cfg drv)))"
  shows "hv_cmd_queue (snd (evaluate tps drv (s, hv))) =
     hv_cmd_queue hv @ HV_CMD_SET_SCALE (snd (power_policy (ts_source tps) (drv_cfg drv))) #
     (if hv_desired_on hv \<and> (pm_first_ready_seen s \<or> pm_settle_timer s \<noteq> TIMER_STOPPED)
      then [HV_CMD_ENABLE (resume_level hv)] else [])"
  using assms by (rule evaluate_commands)

lemma policy_example:
  "power_policy (ts_source tps_type1) (drv_cfg drv_example) = (POWER_MANAGER_ACTIVE_CAPPED, 51)"
  by (simp add: power_policy_def tps_type1_values drv_example_def drv_config_defaults_def fw_const)

theorem cap_precedes_enable_witness:
  "hv_cmd_queue (snd (evaluate tps_type1 drv_example (pm_statics_init\<lparr>pm_first_ready_seen := True\<rparr>, lit_example)))
     = HV_CMD_SET_SCALE 51 # (if hv_desired_on lit_example then [HV_CMD_ENABLE (resume_level lit_example)] else [])"
  using cap_precedes_enable [OF pm_coherent_example lit_example_ready]
  by (simp add: lit_example_queue policy_example policy_dark_def fw_const)

text \<open>
  When power is lost or the policy holds light off, the very next command the driver
  takes is the emergency-off, so one iteration later the LED is dark and latched, however
  full the queue was.
\<close>

theorem evaluate_forces_dark:
  assumes "pm_coherent tps drv" and "hv_reachable powf tick_hz hv" and "hv_task_ready hv"
    and "policy_dark (fst (power_policy (ts_source tps) (drv_cfg drv)))"
  shows "let hv' = hv9910_task_step powf tick_hz now (snd (evaluate tps drv (s, hv)))
     in hv_dark hv' \<and> hv_power_cut hv' \<and> hv_level_q hv' = 0"
proof -
  have e: "snd (evaluate tps drv (s, hv)) = hv9910_emergency_disable hv"
    using assms(4) by (simp add: evaluate_coherent [OF assms(1,1)] Let_def split_def)
  have inv: "hv_inv (hv9910_task_step powf tick_hz now (hv9910_emergency_disable hv))"
    using reachable_inv [OF assms(2)] by (simp add: hv9910_emergency_disable_def task_step_inv post_cmd_inv)
  obtain cs where "hv_cmd_queue (hv9910_emergency_disable hv) = HV_CMD_EMERGENCY_OFF # cs"
    using post_cmd_front_queue [OF assms(3)] reachable_inv [OF assms(2)]
    by (auto simp: hv9910_emergency_disable_def inv_core)
  then show ?thesis
    using inv inv_cut_dark by (simp add: e Let_def task_step_head emergency_off_state)
qed

theorem evaluate_forces_dark_witness:
  "hv_dark (hv9910_task_step (\<lambda>p e. p) 100 30 (snd (evaluate tps_type1
     (drv_example\<lparr>drv_cfg := drv_config_defaults\<lparr>dc_power_mode := DRV_POWER_POE_PLUS_REQUIRED\<rparr>\<rparr>)
     (pm_statics_init, lit_example))))"
proof -
  let ?d = "drv_example\<lparr>drv_cfg := drv_config_defaults\<lparr>dc_power_mode := DRV_POWER_POE_PLUS_REQUIRED\<rparr>\<rparr>"
  have "pm_coherent tps_type1 ?d"
    by (simp add: pm_coherent_def drv_example_def tps_type1_values)
  moreover have "policy_dark (fst (power_policy (ts_source tps_type1) (drv_cfg ?d)))"
    by (simp add: power_policy_def tps_type1_values policy_dark_def)
  ultimately show ?thesis
    using evaluate_forces_dark [OF _ lit_example_reachable lit_example_ready] by (simp add: Let_def)
qed

text \<open>
  The power-on settle delay never delays the light when power comes back: the monitor
  makes its ready and source-changed callbacks in the same iteration, the first starts the
  settle timer, and the second finds the session already seen and queues the ENABLE at
  once, while the timer has only just started.
\<close>

theorem settle_delay_bypassed:
  assumes "tps_coherent tps" and "\<not> ts_is_ready tps"
    and "ts_is_ready (fst (poe_monitor_step cdb t2p mv tps))"
    and "drv_started drv"
    and "\<not> policy_dark (fst (power_policy (ts_source (fst (poe_monitor_step cdb t2p mv tps))) (drv_cfg drv)))"
    and "pm_lock s" and "\<not> pm_first_ready_seen s" and "pm_settle_timer s = TIMER_STOPPED"
    and "hv_task_ready hv" and "hv_cmd_queue hv = []" and "hv_desired_on hv"
  shows "let (tps', s', hv') = monitor_tick cdb t2p mv drv (tps, s, hv);
             cap = snd (power_policy (ts_source tps') (drv_cfg drv))
     in hv_cmd_queue hv' = [HV_CMD_SET_SCALE cap, HV_CMD_SET_SCALE cap, HV_CMD_ENABLE (resume_level hv)]
        \<and> pm_settle_timer s' = TIMER_RUNNING"
proof -
  let ?t = "fst (poe_monitor_step cdb t2p mv tps)"
  have coh: "tps_coherent ?t" by (rule monitor_step_coherent [OF assms(1)])
  have pc: "pm_coherent ?t drv" using coh assms(4) by (simp add: pm_coherent_def tps_coherent_def)
  have ev: "snd (poe_monitor_step cdb t2p mv tps) = [ON_POWER_READY (ts_source ?t), ON_SOURCE_CHANGED (ts_source ?t)]"
    using monitor_step_events [OF assms(1), of cdb t2p mv] assms(2,3) by simp
  obtain st cap where pol: "power_policy (ts_source ?t) (drv_cfg drv) = (st, cap)" by fastforce
  let ?s1 = "s\<lparr>pm_budget_cw := budget_cw_for (ts_source ?t), pm_state := st, pm_scale_pct := cap,
      pm_first_ready_seen := True, pm_settle_timer := TIMER_RUNNING\<rparr>"
  have one: "evaluate ?t drv (s, hv) = (?s1, hv9910_set_output_scale cap hv)"
    using assms(5-8,11) by (simp add: evaluate_coherent [OF pc pc] pol Let_def)
  have len: "length (hv_cmd_queue (hv9910_set_output_scale cap hv)) + 2 \<le> CMD_QUEUE_LEN"
    using assms(9,10) by (simp add: set_scale_queue fw_const)
  have two: "hv_cmd_queue (snd (evaluate ?t drv (?s1, hv9910_set_output_scale cap hv))) =
      [HV_CMD_SET_SCALE cap, HV_CMD_SET_SCALE cap, HV_CMD_ENABLE (resume_level hv)]"
    using assms(5,9-11) evaluate_commands [OF pc _ len, of ?s1]
    by (simp add: pol set_scale_queue fw_const)
  have timer: "pm_settle_timer (fst (evaluate ?t drv (?s1, hv9910_set_output_scale cap hv))) = TIMER_RUNNING"
    using assms(5) by (simp add: evaluate_coherent [OF pc pc] pol Let_def)
  have "monitor_tick cdb t2p mv drv (tps, s, hv) = (?t, evaluate ?t drv (?s1, hv9910_set_output_scale cap hv))"
    using assms(6) one
    by (simp add: monitor_tick_def split_def Let_def ev power_manager_tps_ready_def
          power_manager_tps_source_changed_def locked_evaluate_def)
  then show ?thesis
    using two timer by (simp add: Let_def split_def pol)
qed

text \<open>A fixture the network switched on before a power blip.\<close>

definition blip_hv :: hv_state where
  "blip_hv = lit_example\<lparr>hv_desired_on := True\<rparr>"

definition blip_tps :: tps_state where
  "blip_tps = poe_monitor_run [(1, 1, 48000), (1, 1, 48000), (1, 1, 48000), (1, 1, 48000)]
     (poe_monitor_start \<lparr>tc_vbus_min_mv = 40000, tc_vbus_hysteresis_mv = 2000\<rparr> 1 1 48000)"

lemma blip_tps_values:
  "tps_coherent blip_tps" "\<not> ts_is_ready blip_tps"
  "ts_is_ready (fst (poe_monitor_step 1 1 48000 blip_tps))"
  "ts_source (fst (poe_monitor_step 1 1 48000 blip_tps)) = TPS2378_SOURCE_TYPE1"
  using monitor_run_start unfolding blip_tps_def by (blast, code_simp+)

theorem settle_delay_bypassed_witness:
  "hv_cmd_queue (snd (snd (monitor_tick 1 1 48000 drv_example
     (blip_tps, pm_statics_init\<lparr>pm_lock := True, pm_settle_timer := TIMER_STOPPED\<rparr>, blip_hv))))
   = [HV_CMD_SET_SCALE 51, HV_CMD_SET_SCALE 51, HV_CMD_ENABLE (resume_level blip_hv)]"
proof -
  let ?s = "pm_statics_init\<lparr>pm_lock := True, pm_settle_timer := TIMER_STOPPED\<rparr>"
  have pol: "power_policy TPS2378_SOURCE_TYPE1 drv_config_defaults = (POWER_MANAGER_ACTIVE_CAPPED, 51)"
    using policy_example by (simp add: tps_type1_values drv_example_def)
  have "fst (monitor_tick 1 1 48000 drv_example (blip_tps, ?s, blip_hv)) = fst (poe_monitor_step 1 1 48000 blip_tps)"
    by (simp add: monitor_tick_def split_def Let_def)
  then show ?thesis
    using settle_delay_bypassed [OF blip_tps_values(1,2,3), of drv_example ?s blip_hv]
    by (simp add: Let_def split_def blip_tps_values pol policy_dark_def pm_statics_init_def drv_example_def
          blip_hv_def lit_example_ready lit_example_queue)
qed

end
