(* ===== verification/DMX_Merge.thy ===== *)
theory DMX_Merge
  imports DMX_Config Power_Manager
begin

text \<open>
  The merge engine of \<open>components/dmx_input/dmx_input.c\<close>: source tracking, HTP and LTP merge,
  the signal-loss watchdog and the rate-capped actuation of the LED driver. Time is the
  64-bit microsecond counter of \<open>esp_timer_get_time\<close>, an argument of each step and an
  integer here: it would take 292,000 years to overflow.
\<close>

section \<open>Data\<close>

datatype dmx_frame_kind = DMX_FRAME_ARTNET | DMX_FRAME_SACN

record dmx_frame =
  fr_kind :: dmx_frame_kind
  fr_src_ip :: u32
  fr_source_id :: bytes
  fr_priority :: u8
  fr_sequence :: u8
  fr_terminated :: bool
  fr_nslots :: u16
  fr_slots :: bytes

record dmx_source =
  sr_in_use :: bool
  sr_kind :: dmx_frame_kind
  sr_source_id :: bytes
  sr_src_ip :: u32
  sr_priority :: u8
  sr_last_seq :: u8
  sr_have_seq :: bool
  sr_last_seen_us :: int
  sr_ch0 :: u8
  sr_ch1 :: u8
  sr_arrived_seq_us :: int

text \<open>A source slot cleared by \<open>memset\<close>; enumerator 0 is the Art-Net kind.\<close>

definition dmx_source_zero :: dmx_source where
  "dmx_source_zero =
     \<lparr>sr_in_use = False, sr_kind = DMX_FRAME_ARTNET, sr_source_id = replicate 16 0, sr_src_ip = 0,
      sr_priority = 0, sr_last_seq = 0, sr_have_seq = False, sr_last_seen_us = 0, sr_ch0 = 0,
      sr_ch1 = 0, sr_arrived_seq_us = 0\<rparr>"

definition MAX_SOURCES :: nat where [fw_const]: "MAX_SOURCES = 4"
definition ACTUATE_INTERVAL_MS :: int where [fw_const]: "ACTUATE_INTERVAL_MS = 22"

definition DMX_SOURCE_NONE :: u8 where [fw_const]: "DMX_SOURCE_NONE = 0"
definition DMX_SOURCE_ARTNET :: u8 where [fw_const]: "DMX_SOURCE_ARTNET = 1"
definition DMX_SOURCE_SACN :: u8 where [fw_const]: "DMX_SOURCE_SACN = 2"
definition DMX_SOURCE_BOTH :: u8 where [fw_const]: "DMX_SOURCE_BOTH = 3"

record dmx_input_status =
  st_layer_enabled :: bool
  st_active_source :: u8
  st_merged_level_pct :: u8
  st_fps :: u8
  st_artnet_port_address :: u16
  st_sacn_universe :: u16
  st_last_src_ip :: u32
  st_dmx_address :: u16
  st_personality :: u8
  st_proto_mask :: u8

record dmx_merge =
  mg_sources :: "dmx_source list"
  mg_status :: dmx_input_status
  mg_fps_window_us :: int
  mg_fps_count :: u16
  mg_last_applied_pct :: int
  mg_last_actuate_us :: int
  mg_loss_applied :: bool

definition dmx_merge_statics :: dmx_merge where
  "dmx_merge_statics =
     \<lparr>mg_sources = replicate MAX_SOURCES dmx_source_zero,
      mg_status = \<lparr>st_layer_enabled = False, st_active_source = 0, st_merged_level_pct = 0, st_fps = 0,
        st_artnet_port_address = 0, st_sacn_universe = 0, st_last_src_ip = 0, st_dmx_address = 0,
        st_personality = 0, st_proto_mask = 0\<rparr>,
      mg_fps_window_us = 0, mg_fps_count = 0, mg_last_applied_pct = -1, mg_last_actuate_us = 0,
      mg_loss_applied = False\<rparr>"

section \<open>Receiving a frame\<close>

text \<open>The loop of \<open>source_slot\<close>: \<open>rest\<close> is the part of the table from index \<open>i\<close> on.\<close>

fun source_slot_loop :: "bytes \<Rightarrow> dmx_source list \<Rightarrow> dmx_source list \<Rightarrow> nat \<Rightarrow> nat \<Rightarrow> nat" where
  "source_slot_loop sid srcs [] i oldest = oldest"
| "source_slot_loop sid srcs (s # rest) i oldest =
     (if sr_in_use s \<and> sr_source_id s = sid then i
      else if \<not> sr_in_use s then i
      else source_slot_loop sid srcs rest (Suc i)
        (if sr_last_seen_us s < sr_last_seen_us (srcs ! oldest) then i else oldest))"

definition source_slot :: "bytes \<Rightarrow> dmx_source list \<Rightarrow> nat" where
  "source_slot sid srcs = source_slot_loop sid srcs srcs 0 0"

definition dmx_merge_submit :: "int \<Rightarrow> dmx_input_config \<Rightarrow> dmx_frame \<Rightarrow> dmx_merge \<Rightarrow> dmx_merge" where
  "dmx_merge_submit now cfg f m =
     (let channels = (if xc_personality cfg = DMX_PERSONALITY_2CH_16BIT then 2 else 1 :: u32);
          base = xc_dmx_address cfg - 1
      in if ucast (fr_nslots f) < ucast base + channels then m
         else
           let i = source_slot (fr_source_id f) (mg_sources m);
               s = mg_sources m ! i;
               diff = sint (fr_sequence f - sr_last_seq s)
           in if fr_kind f = DMX_FRAME_SACN \<and> fr_sequence f \<noteq> 0 \<and> sr_in_use s \<and> sr_have_seq s
                 \<and> diff \<le> 0 \<and> -20 < diff
              then m
              else
                let s = (if \<not> sr_in_use s \<or> sr_source_id s \<noteq> fr_source_id f
                         then dmx_source_zero\<lparr>sr_source_id := fr_source_id f\<rparr> else s);
                    s = s\<lparr>sr_in_use := \<not> fr_terminated f, sr_kind := fr_kind f, sr_src_ip := fr_src_ip f,
                          sr_priority := fr_priority f, sr_last_seq := fr_sequence f,
                          sr_have_seq := (fr_sequence f \<noteq> 0), sr_last_seen_us := now,
                          sr_arrived_seq_us := now, sr_ch0 := fr_slots f ! unat base,
                          sr_ch1 := (if channels = 2 then fr_slots f ! (unat base + 1) else 0)\<rparr>;
                    s = (if fr_terminated f then s\<lparr>sr_in_use := False\<rparr> else s);
                    m = m\<lparr>mg_sources := (mg_sources m)[i := s]\<rparr>;
                    m = (if 1000000 \<le> now - mg_fps_window_us m
                         then m\<lparr>mg_status := (mg_status m)\<lparr>st_fps :=
                                  (if mg_fps_window_us m = 0 then 0 else ucast (mg_fps_count m))\<rparr>,
                                mg_fps_count := 0, mg_fps_window_us := now\<rparr>
                         else m)
                in m\<lparr>mg_fps_count := mg_fps_count m + 1\<rparr>)"

text \<open>The index of the live source that arrived last, the first of equals.\<close>

fun newest_source :: "dmx_source list \<Rightarrow> nat \<Rightarrow> (nat \<times> int) option \<Rightarrow> nat option" where
  "newest_source [] i best = map_option fst best"
| "newest_source (s # rest) i best =
     newest_source rest (Suc i)
       (if sr_in_use s \<and> (case best of None \<Rightarrow> True | Some (_, t) \<Rightarrow> t < sr_arrived_seq_us s)
        then Some (i, sr_arrived_seq_us s) else best)"

definition dmx_merge_cancel :: "dmx_merge \<Rightarrow> dmx_merge" where
  "dmx_merge_cancel m =
     (let newest = newest_source (mg_sources m) 0 None
      in m\<lparr>mg_sources := map (\<lambda>(i, s). if Some i \<noteq> newest then s\<lparr>sr_in_use := False\<rparr> else s)
                        (enumerate 0 (mg_sources m))\<rparr>)"

section \<open>The actuation tick\<close>

definition level_to_percent :: "dmx_input_config \<Rightarrow> u8 \<Rightarrow> u8 \<Rightarrow> u8" where
  "level_to_percent cfg hi lo =
     (if xc_personality cfg = DMX_PERSONALITY_2CH_16BIT
      then (let v = push_bit 8 (ucast hi) OR ucast lo :: u32 in ucast ((v * 100 + 32767) div 65535))
      else ucast (((ucast hi :: u32) * 100 + 127) div 255))"

text \<open>The first loop of \<open>merge_tick\<close>: time out silent sources.\<close>

definition prune_sources :: "int \<Rightarrow> int \<Rightarrow> dmx_source list \<Rightarrow> dmx_source list" where
  "prune_sources now timeout_us srcs =
     map (\<lambda>s. if sr_in_use s \<and> timeout_us < now - sr_last_seen_us s then s\<lparr>sr_in_use := False\<rparr> else s) srcs"

definition best_priority :: "dmx_source list \<Rightarrow> u8" where
  "best_priority live = fold (\<lambda>s best. if best < sr_priority s then sr_priority s else best) live 0"

definition ltp_step :: "dmx_source \<Rightarrow> int \<times> u8 \<times> u8 \<Rightarrow> int \<times> u8 \<times> u8" where
  "ltp_step s = (\<lambda>(newest_us, hi, lo).
     if newest_us \<le> sr_arrived_seq_us s then (sr_arrived_seq_us s, sr_ch0 s, sr_ch1 s) else (newest_us, hi, lo))"

definition htp_step :: "dmx_source \<Rightarrow> u8 \<times> u8 \<Rightarrow> u8 \<times> u8" where
  "htp_step s = (\<lambda>(hi, lo).
     let cur = push_bit 8 (ucast hi) OR ucast lo :: u16;
         cand = push_bit 8 (ucast (sr_ch0 s)) OR ucast (sr_ch1 s) :: u16
     in if cur < cand then (sr_ch0 s, sr_ch1 s) else (hi, lo))"

definition merge_level :: "dmx_input_config \<Rightarrow> dmx_source list \<Rightarrow> u8 \<times> u8" where
  "merge_level cfg winners =
     (if xc_merge_mode cfg = DMX_MERGE_LTP then snd (fold ltp_step winners (0, 0, 0))
      else fold htp_step winners (0, 0))"

definition status_patch :: "dmx_input_config \<Rightarrow> dmx_input_status \<Rightarrow> dmx_input_status" where
  "status_patch cfg st =
     st\<lparr>st_layer_enabled := (xc_layer_enabled cfg \<noteq> 0), st_artnet_port_address := xc_artnet_port_address cfg,
        st_sacn_universe := xc_sacn_universe cfg, st_dmx_address := xc_dmx_address cfg,
        st_personality := xc_personality cfg, st_proto_mask := xc_proto_mask cfg\<rparr>"

text \<open>What the loss behaviour does to the driver.\<close>

definition apply_loss :: "dmx_input_config \<Rightarrow> hv_state \<Rightarrow> hv_state" where
  "apply_loss cfg hv =
     (if xc_loss_behavior cfg = DMX_LOSS_TO_BLACK then hv9910_disable hv
      else if xc_loss_behavior cfg = DMX_LOSS_TO_LEVEL then
        (if xc_loss_level cfg = 0 then hv9910_disable hv
         else if hv9910_is_enabled hv then hv9910_set_dim (xc_loss_level cfg) hv
         else hv9910_enable_at (xc_loss_level cfg) hv)
      else hv)"

definition merge_tick ::
  "int \<Rightarrow> dmx_input_config \<Rightarrow> tps_state \<Rightarrow> pm_statics \<Rightarrow> dmx_merge \<times> hv_state \<Rightarrow> dmx_merge \<times> hv_state" where
  "merge_tick now cfg tps pm = (\<lambda>(m, hv).
     (let timeout_us = int (unat (xc_loss_timeout_ms cfg)) * 1000;
          m = m\<lparr>mg_sources := prune_sources now timeout_us (mg_sources m)\<rparr>;
          live = filter sr_in_use (mg_sources m);
          best_prio = best_priority live;
          artnet_live = list_ex (\<lambda>s. sr_kind s = DMX_FRAME_ARTNET) live;
          sacn_live = list_ex (\<lambda>s. sr_kind s \<noteq> DMX_FRAME_ARTNET) live
      in if live = [] then
           (let hv = (if \<not> mg_loss_applied m \<and> 0 \<le> mg_last_applied_pct m \<and> power_manager_output_allowed pm
                      then apply_loss cfg hv else hv)
            in (m\<lparr>mg_loss_applied := True, mg_last_applied_pct := -1,
                  mg_status := (status_patch cfg (mg_status m))\<lparr>st_active_source := DMX_SOURCE_NONE\<rparr>\<rparr>, hv))
         else
           let m = m\<lparr>mg_loss_applied := False\<rparr>;
               (out_hi, out_lo) = merge_level cfg (filter (\<lambda>s. sr_priority s = best_prio) live);
               pct = level_to_percent cfg out_hi out_lo;
               due = (ACTUATE_INTERVAL_MS * 1000 \<le> now - mg_last_actuate_us m);
               (m, hv) =
                 (if (int (unat pct) \<noteq> mg_last_applied_pct m \<or> mg_last_applied_pct m < 0) \<and> due
                     \<and> tps2378_is_ready tps \<and> power_manager_output_allowed pm
                  then (m\<lparr>mg_last_applied_pct := int (unat pct), mg_last_actuate_us := now\<rparr>,
                        if hv9910_is_enabled hv then hv9910_set_dim pct hv
                        else if 0 < pct then hv9910_enable_at pct hv
                        else hv)
                  else (m, hv));
               st = (status_patch cfg (mg_status m))
                 \<lparr>st_active_source := (if artnet_live \<and> sacn_live then DMX_SOURCE_BOTH
                     else if artnet_live then DMX_SOURCE_ARTNET
                     else if sacn_live then DMX_SOURCE_SACN else DMX_SOURCE_NONE),
                  st_merged_level_pct := (if 0 \<le> mg_last_applied_pct m
                     then of_int (mg_last_applied_pct m) else pct),
                  st_last_src_ip := sr_src_ip (hd live)\<rparr>
           in (m\<lparr>mg_status := st\<rparr>, hv)))"

definition drop_all_sources :: "dmx_merge \<Rightarrow> dmx_merge" where
  "drop_all_sources m =
     m\<lparr>mg_sources := replicate MAX_SOURCES dmx_source_zero, mg_last_applied_pct := -1, mg_loss_applied := True\<rparr>"

definition dmx_input_get_status :: "dmx_cfg_state \<Rightarrow> dmx_merge \<Rightarrow> dmx_input_status option" where
  "dmx_input_get_status xs m = (if xs_started xs then Some (mg_status m) else None)"

end
