(* ===== verification/DMX_Merge_Facts.thy ===== *)
theory DMX_Merge_Facts
  imports DMX_Merge
begin

text \<open>
  What the merge engine computes: the level map, the winner of a merge, the life of a source
  slot, and how a tick acts on the LED driver.
\<close>

section \<open>Levels as numbers\<close>

lemma join_bytes:
  assumes "16 \<le> LENGTH('a::len)"
  shows "unat (push_bit 8 (ucast (hi :: u8)) OR ucast (lo :: u8) :: 'a word) = unat hi * 256 + unat lo"
proof -
  have up: "unat (ucast hi :: 'a word) = unat hi" "unat (ucast lo :: 'a word) = unat lo"
    using assms by simp_all
  have bound: "(65536 :: nat) \<le> 2 ^ LENGTH('a)"
    using power_increasing [OF assms, of "2::nat"] by simp
  have p: "unat (push_bit 8 (ucast hi) :: 'a word) = unat hi * 256"
    using u8_lt [of hi] bound up by (subst unat_push_small) auto
  have "push_bit 8 (ucast hi) OR ucast lo = (push_bit 8 (ucast hi) + ucast lo :: 'a word)"
    by (rule disjunctive_add [symmetric]) (auto simp: bit_simps dest: bit_imp_le_length)
  then show ?thesis
    using u8_lt [of hi] u8_lt [of lo] bound up p by (simp add: unat_add_small)
qed

definition level_value :: "u8 \<Rightarrow> u8 \<Rightarrow> nat" where
  "level_value hi lo = unat hi * 256 + unat lo"

lemma level_value_less: "level_value hi lo < 65536"
  using u8_lt [of hi] u8_lt [of lo] by (simp add: level_value_def)

lemma unat_level_16:
  assumes "xc_personality cfg = DMX_PERSONALITY_2CH_16BIT"
  shows "unat (level_to_percent cfg hi lo) = (level_value hi lo * 100 + 32767) div 65535"
proof -
  let ?v = "push_bit 8 (ucast hi) OR ucast lo :: u32"
  have v: "unat ?v = level_value hi lo" by (simp add: join_bytes level_value_def)
  have "unat (?v * 100) = level_value hi lo * 100"
    using level_value_less [of hi lo] v by (subst unat_mult_small) auto
  then have "unat (?v * 100 + 32767) = level_value hi lo * 100 + 32767"
    using level_value_less [of hi lo] by (subst unat_add_small) auto
  then have d: "unat ((?v * 100 + 32767) div 65535) = (level_value hi lo * 100 + 32767) div 65535"
    by (simp add: unat_div)
  have "(level_value hi lo * 100 + 32767) div 65535 < 256"
    using level_value_less [of hi lo] by (simp add: div_less_iff_less_mult)
  then show ?thesis using assms d by (simp add: level_to_percent_def Let_def unat_ucast_down)
qed

lemma unat_level_8:
  assumes "xc_personality cfg \<noteq> DMX_PERSONALITY_2CH_16BIT"
  shows "unat (level_to_percent cfg hi lo) = (unat hi * 100 + 127) div 255"
proof -
  have "unat ((ucast hi :: u32) * 100) = unat hi * 100"
    using u8_lt [of hi] by (subst unat_mult_small) auto
  then have "unat ((ucast hi :: u32) * 100 + 127) = unat hi * 100 + 127"
    using u8_lt [of hi] by (subst unat_add_small) auto
  then have d: "unat (((ucast hi :: u32) * 100 + 127) div 255) = (unat hi * 100 + 127) div 255"
    by (simp add: unat_div)
  have "(unat hi * 100 + 127) div 255 < 256"
    using u8_lt [of hi] by (simp add: div_less_iff_less_mult)
  then show ?thesis using assms d by (simp add: level_to_percent_def unat_ucast_down)
qed

lemma level_to_percent_le: "level_to_percent cfg hi lo \<le> 100"
proof (cases "xc_personality cfg = DMX_PERSONALITY_2CH_16BIT")
  case True
  have "(level_value hi lo * 100 + 32767) div 65535 \<le> 100"
    using level_value_less [of hi lo] by (simp add: less_mult_imp_div_less [THEN less_Suc_eq_le [THEN iffD1]])
  then show ?thesis by (simp add: word_le_unat unat_level_16 [OF True])
next
  case False
  have "(unat hi * 100 + 127) div 255 \<le> 100"
    using u8_lt [of hi] by (simp add: less_mult_imp_div_less [THEN less_Suc_eq_le [THEN iffD1]])
  then show ?thesis by (simp add: word_le_unat unat_level_8 [OF False])
qed

section \<open>The winner of a merge\<close>

lemma best_priority_fold:
  "fold (\<lambda>s best. if best < sr_priority s then sr_priority s else best) live b0
     = Max (insert b0 (sr_priority ` set live))"
proof (induction live arbitrary: b0)
  case (Cons s live)
  have "Max (insert (max b0 (sr_priority s)) (sr_priority ` set live))
      = Max (insert b0 (insert (sr_priority s) (sr_priority ` set live)))"
    by (cases "set live = {}") (simp_all add: max.assoc)
  moreover have "(if b0 < sr_priority s then sr_priority s else b0) = max b0 (sr_priority s)"
    by (auto simp: max_def not_less)
  ultimately show ?case
    by (simp only: fold_Cons comp_apply Cons.IH list.set(2) image_insert)
qed simp

lemma best_priority_max: "live \<noteq> [] \<Longrightarrow> best_priority live = Max (sr_priority ` set live)"
  by (simp add: best_priority_def best_priority_fold)

definition source_level :: "dmx_source \<Rightarrow> nat" where
  "source_level s = level_value (sr_ch0 s) (sr_ch1 s)"

lemma htp_step_value:
  "level_value (fst (htp_step s p)) (snd (htp_step s p)) = max (level_value (fst p) (snd p)) (source_level s)"
  by (cases p) (auto simp: htp_step_def Let_def word_less_unat join_bytes level_value_def source_level_def)

lemma htp_fold_value:
  "level_value (fst (fold htp_step ws p)) (snd (fold htp_step ws p))
     = Max (insert (level_value (fst p) (snd p)) (source_level ` set ws))"
proof (induction ws arbitrary: p)
  case (Cons s ws)
  show ?case
    using Cons.IH [of "htp_step s p"]
    by (cases "set ws = {}") (simp_all add: htp_step_value max.assoc)
qed simp

lemma htp_fold_from: "fold htp_step ws p = p \<or> (\<exists>s \<in> set ws. fold htp_step ws p = (sr_ch0 s, sr_ch1 s))"
proof (induction ws arbitrary: p)
  case (Cons s ws)
  have "htp_step s p = p \<or> htp_step s p = (sr_ch0 s, sr_ch1 s)"
    by (cases p) (simp add: htp_step_def Let_def)
  then show ?case using Cons.IH [of "htp_step s p"] by auto
qed simp

lemma ltp_step_eq:
  "ltp_step s (t, hi, lo) = (if t \<le> sr_arrived_seq_us s then (sr_arrived_seq_us s, sr_ch0 s, sr_ch1 s) else (t, hi, lo))"
  by (simp add: ltp_step_def)

lemma ltp_fold:
  assumes "\<forall>s \<in> set ws. 0 \<le> sr_arrived_seq_us s" and "ws \<noteq> []"
  shows "\<exists>s \<in> set ws. fold ltp_step ws (0, 0, 0) = (sr_arrived_seq_us s, sr_ch0 s, sr_ch1 s)
          \<and> (\<forall>t \<in> set ws. sr_arrived_seq_us t \<le> sr_arrived_seq_us s)"
  using assms
proof (induction ws rule: rev_induct)
  case (snoc w ws)
  show ?case
  proof (cases "ws = []")
    case True
    then show ?thesis using snoc.prems by (simp add: ltp_step_eq)
  next
    case False
    then obtain s where s: "s \<in> set ws" "fold ltp_step ws (0, 0, 0) = (sr_arrived_seq_us s, sr_ch0 s, sr_ch1 s)"
      "\<forall>t \<in> set ws. sr_arrived_seq_us t \<le> sr_arrived_seq_us s" using snoc by auto
    show ?thesis
    proof (cases "sr_arrived_seq_us s \<le> sr_arrived_seq_us w")
      case True
      then show ?thesis using s by (intro bexI [of _ w]) (auto simp: ltp_step_eq)
    next
      case False
      then show ?thesis using s by (intro bexI [of _ s]) (auto simp: ltp_step_eq)
    qed
  qed
qed simp

section \<open>Slots\<close>

lemma source_slot_loop_bound:
  "oldest < length srcs \<Longrightarrow> i + length rest = length srcs \<Longrightarrow> source_slot_loop sid srcs rest i oldest < length srcs"
  by (induction sid srcs rest i oldest rule: source_slot_loop.induct) auto

lemma source_slot_bound: "srcs \<noteq> [] \<Longrightarrow> source_slot sid srcs < length srcs"
  by (simp add: source_slot_def source_slot_loop_bound)

text \<open>The first slot that is free or already the source's own wins.\<close>

lemma source_slot_loop_first:
  assumes "\<forall>s \<in> set pre. sr_in_use s \<and> sr_source_id s \<noteq> sid"
    and "\<not> sr_in_use x \<or> sr_source_id x = sid"
  shows "source_slot_loop sid srcs (pre @ x # post) i oldest = i + length pre"
  using assms(1)
proof (induction pre arbitrary: i oldest)
  case Nil
  then show ?case using assms(2) by auto
next
  case (Cons p pre)
  then show ?case by simp
qed

lemma submit_length [simp]: "length (mg_sources (dmx_merge_submit now cfg f m)) = length (mg_sources m)"
  by (simp add: dmx_merge_submit_def Let_def)

lemma cancel_length [simp]: "length (mg_sources (dmx_merge_cancel m)) = length (mg_sources m)"
  by (simp add: dmx_merge_cancel_def Let_def)

lemma tick_length [simp]: "length (mg_sources (fst (merge_tick now cfg tps pm (m, hv)))) = length (mg_sources m)"
  by (simp add: merge_tick_def Let_def prune_sources_def split_def)

lemma drop_length [simp]: "length (mg_sources (drop_all_sources m)) = MAX_SOURCES"
  by (simp add: drop_all_sources_def)

section \<open>What a frame changes\<close>

lemma submit_ignored:
  "unat (fr_nslots f) < unat (xc_dmx_address cfg - 1) + dmx_channels cfg \<Longrightarrow> dmx_merge_submit now cfg f m = m"
proof -
  assume a: "unat (fr_nslots f) < unat (xc_dmx_address cfg - 1) + dmx_channels cfg"
  let ?ch = "if xc_personality cfg = DMX_PERSONALITY_2CH_16BIT then 2 else 1 :: u32"
  have "unat (ucast (xc_dmx_address cfg - 1) + ?ch) = unat (xc_dmx_address cfg - 1) + dmx_channels cfg"
    using u16_lt [of "xc_dmx_address cfg - 1"] by (subst unat_add_small) (auto simp: dmx_channels_def)
  then have "(ucast (fr_nslots f) :: u32) < ucast (xc_dmx_address cfg - 1) + ?ch"
    using a by (simp add: word_less_unat)
  then show ?thesis by (simp add: dmx_merge_submit_def Let_def)
qed

lemma submit_slot:
  assumes "unat (xc_dmx_address cfg - 1) + dmx_channels cfg \<le> unat (fr_nslots f)"
    and "fr_kind f = DMX_FRAME_SACN \<longrightarrow> fr_sequence f = 0 \<or> \<not> sr_in_use (mg_sources m ! i) \<or> \<not> sr_have_seq (mg_sources m ! i)"
    and "source_slot (fr_source_id f) (mg_sources m) = i" and "mg_sources m \<noteq> []"
  shows "\<exists>s. mg_sources (dmx_merge_submit now cfg f m) = (mg_sources m)[i := s]
     \<and> sr_in_use s = (\<not> fr_terminated f) \<and> sr_source_id s = fr_source_id f \<and> sr_priority s = fr_priority f
     \<and> sr_last_seen_us s = now \<and> sr_ch0 s = fr_slots f ! unat (xc_dmx_address cfg - 1)"
proof -
  let ?ch = "if xc_personality cfg = DMX_PERSONALITY_2CH_16BIT then 2 else 1 :: u32"
  have "unat (ucast (xc_dmx_address cfg - 1) + ?ch) = unat (xc_dmx_address cfg - 1) + dmx_channels cfg"
    using u16_lt [of "xc_dmx_address cfg - 1"] by (subst unat_add_small) (auto simp: dmx_channels_def)
  then have "\<not> (ucast (fr_nslots f) :: u32) < ucast (xc_dmx_address cfg - 1) + ?ch"
    using assms(1) by (simp add: word_less_unat)
  then show ?thesis
    using assms(2,3)
    by (cases "fr_terminated f"; cases "sr_in_use (mg_sources m ! i)") (auto simp: dmx_merge_submit_def Let_def)
qed

section \<open>One tick, case by case\<close>

definition live_sources :: "int \<Rightarrow> dmx_input_config \<Rightarrow> dmx_merge \<Rightarrow> dmx_source list" where
  "live_sources now cfg m =
     filter sr_in_use (prune_sources now (int (unat (xc_loss_timeout_ms cfg)) * 1000) (mg_sources m))"

definition winning_sources :: "int \<Rightarrow> dmx_input_config \<Rightarrow> dmx_merge \<Rightarrow> dmx_source list" where
  "winning_sources now cfg m =
     (let live = live_sources now cfg m in filter (\<lambda>s. sr_priority s = best_priority live) live)"

definition merged_percent :: "int \<Rightarrow> dmx_input_config \<Rightarrow> dmx_merge \<Rightarrow> u8" where
  "merged_percent now cfg m =
     (case merge_level cfg (winning_sources now cfg m) of (hi, lo) \<Rightarrow> level_to_percent cfg hi lo)"

definition tick_actuates :: "int \<Rightarrow> dmx_input_config \<Rightarrow> tps_state \<Rightarrow> pm_statics \<Rightarrow> dmx_merge \<Rightarrow> bool" where
  "tick_actuates now cfg tps pm m \<longleftrightarrow>
     int (unat (merged_percent now cfg m)) \<noteq> mg_last_applied_pct m \<and> 22000 \<le> now - mg_last_actuate_us m
     \<and> tps2378_is_ready tps \<and> power_manager_output_allowed pm"

lemma live_source_iff:
  "s \<in> set (live_sources now cfg m) \<longleftrightarrow>
     s \<in> set (mg_sources m) \<and> sr_in_use s \<and> now - sr_last_seen_us s \<le> int (unat (xc_loss_timeout_ms cfg)) * 1000"
  by (auto simp: live_sources_def prune_sources_def image_iff)

abbreviation pruned :: "int \<Rightarrow> dmx_input_config \<Rightarrow> dmx_merge \<Rightarrow> dmx_source list" where
  "pruned now cfg m \<equiv> prune_sources now (int (unat (xc_loss_timeout_ms cfg)) * 1000) (mg_sources m)"

lemma live_fold: "filter sr_in_use (pruned now cfg m) = live_sources now cfg m"
  by (simp add: live_sources_def)

lemma winning_fold:
  "filter (\<lambda>s. sr_priority s = best_priority (live_sources now cfg m)) (live_sources now cfg m)
     = winning_sources now cfg m"
  by (simp add: winning_sources_def Let_def)

lemma tick_lost:
  "live_sources now cfg m = [] \<Longrightarrow> merge_tick now cfg tps pm (m, hv) =
     (m\<lparr>mg_sources := pruned now cfg m, mg_loss_applied := True, mg_last_applied_pct := -1,
        mg_status := (status_patch cfg (mg_status m))\<lparr>st_active_source := DMX_SOURCE_NONE\<rparr>\<rparr>,
      if \<not> mg_loss_applied m \<and> 0 \<le> mg_last_applied_pct m \<and> power_manager_output_allowed pm
      then apply_loss cfg hv else hv)"
  by (simp add: merge_tick_def Let_def live_fold split_def del: of_nat_unat)

lemma actuate_cond:
  "(int (unat p) \<noteq> l \<or> l < 0) \<and> 22000 \<le> t \<and> a \<and> b \<longleftrightarrow> int (unat p) \<noteq> l \<and> 22000 \<le> t \<and> a \<and> b"
  using of_nat_0_le_iff [of "unat p"] by (metis not_less)

lemma tick_live:
  assumes "live_sources now cfg m \<noteq> []"
  shows "\<exists>st. merge_tick now cfg tps pm (m, hv) =
     (if tick_actuates now cfg tps pm m
      then (m\<lparr>mg_sources := pruned now cfg m, mg_loss_applied := False,
              mg_last_applied_pct := int (unat (merged_percent now cfg m)), mg_last_actuate_us := now,
              mg_status := st\<rparr>,
            if hv9910_is_enabled hv then hv9910_set_dim (merged_percent now cfg m) hv
            else if 0 < merged_percent now cfg m then hv9910_enable_at (merged_percent now cfg m) hv else hv)
      else (m\<lparr>mg_sources := pruned now cfg m, mg_loss_applied := False, mg_status := st\<rparr>, hv))"
proof -
  obtain hi lo where ml: "merge_level cfg (winning_sources now cfg m) = (hi, lo)" by fastforce
  have pct: "merged_percent now cfg m = level_to_percent cfg hi lo" by (simp add: merged_percent_def ml)
  have due: "ACTUATE_INTERVAL_MS * 1000 = 22000" by (simp add: fw_const)
  have cond: "int (unat (level_to_percent cfg hi lo)) \<noteq> mg_last_applied_pct m
      \<and> 22000 \<le> now - mg_last_actuate_us m \<and> tps2378_is_ready tps \<and> power_manager_output_allowed pm
      \<longleftrightarrow> tick_actuates now cfg tps pm m"
    unfolding tick_actuates_def pct ..
  show ?thesis
    unfolding pct merge_tick_def Let_def
    by (simp add: live_fold winning_fold ml assms due cond actuate_cond del: of_nat_unat split del: if_split)
       (cases "tick_actuates now cfg tps pm m"; simp del: of_nat_unat split del: if_split; rule exI; rule refl)
qed

lemma tick_driver:
  "snd (merge_tick now cfg tps pm (m, hv)) =
     (if live_sources now cfg m = []
      then (if \<not> mg_loss_applied m \<and> 0 \<le> mg_last_applied_pct m \<and> power_manager_output_allowed pm
            then apply_loss cfg hv else hv)
      else if tick_actuates now cfg tps pm m
      then (if hv9910_is_enabled hv then hv9910_set_dim (merged_percent now cfg m) hv
            else if 0 < merged_percent now cfg m then hv9910_enable_at (merged_percent now cfg m) hv else hv)
      else hv)"
  by (cases "live_sources now cfg m = []")
     (simp add: tick_lost, use tick_live [of now cfg m tps pm hv] in auto)

lemma tick_engine:
  fixes now cfg tps pm m hv
  defines "r \<equiv> fst (merge_tick now cfg tps pm (m, hv))"
  shows "mg_last_applied_pct r =
     (if live_sources now cfg m = [] then -1
      else if tick_actuates now cfg tps pm m then int (unat (merged_percent now cfg m))
      else mg_last_applied_pct m)"
    and "mg_last_actuate_us r =
     (if live_sources now cfg m \<noteq> [] \<and> tick_actuates now cfg tps pm m then now else mg_last_actuate_us m)"
    and "mg_loss_applied r = (live_sources now cfg m = [])"
    and "mg_sources r = pruned now cfg m"
proof -
  consider (lost) "live_sources now cfg m = []"
    | (acts) "live_sources now cfg m \<noteq> []" "tick_actuates now cfg tps pm m"
    | (idle) "live_sources now cfg m \<noteq> []" "\<not> tick_actuates now cfg tps pm m" by blast
  then have "mg_last_applied_pct r =
     (if live_sources now cfg m = [] then -1
      else if tick_actuates now cfg tps pm m then int (unat (merged_percent now cfg m))
      else mg_last_applied_pct m)
    \<and> mg_last_actuate_us r =
     (if live_sources now cfg m \<noteq> [] \<and> tick_actuates now cfg tps pm m then now else mg_last_actuate_us m)
    \<and> mg_loss_applied r = (live_sources now cfg m = []) \<and> mg_sources r = pruned now cfg m"
  proof cases
    case lost
    then show ?thesis by (simp add: r_def tick_lost del: of_nat_unat)
  next
    case acts
    then obtain st where "r = m\<lparr>mg_sources := pruned now cfg m, mg_loss_applied := False,
        mg_last_applied_pct := int (unat (merged_percent now cfg m)), mg_last_actuate_us := now, mg_status := st\<rparr>"
      using tick_live [OF acts(1), of tps pm hv] unfolding r_def by auto
    then show ?thesis using acts by simp
  next
    case idle
    then obtain st where "r = m\<lparr>mg_sources := pruned now cfg m, mg_loss_applied := False, mg_status := st\<rparr>"
      using tick_live [OF idle(1), of tps pm hv] unfolding r_def by auto
    then show ?thesis using idle by simp
  qed
  then show "mg_last_applied_pct r =
     (if live_sources now cfg m = [] then -1
      else if tick_actuates now cfg tps pm m then int (unat (merged_percent now cfg m))
      else mg_last_applied_pct m)"
    and "mg_last_actuate_us r =
     (if live_sources now cfg m \<noteq> [] \<and> tick_actuates now cfg tps pm m then now else mg_last_actuate_us m)"
    and "mg_loss_applied r = (live_sources now cfg m = [])"
    and "mg_sources r = pruned now cfg m" by blast+
qed

lemma winning_nonempty:
  assumes "live_sources now cfg m \<noteq> []"
  shows "winning_sources now cfg m \<noteq> []"
proof -
  let ?l = "live_sources now cfg m"
  have "Max (sr_priority ` set ?l) \<in> sr_priority ` set ?l" using assms by (intro Max_in) auto
  then obtain s where "s \<in> set ?l" "sr_priority s = best_priority ?l"
    using best_priority_max [OF assms] by auto
  then show ?thesis by (auto simp: winning_sources_def Let_def filter_empty_conv)
qed

lemma winning_set:
  "live_sources now cfg m \<noteq> [] \<Longrightarrow> set (winning_sources now cfg m) =
     {s \<in> set (live_sources now cfg m). \<forall>t \<in> set (live_sources now cfg m). sr_priority t \<le> sr_priority s}"
proof -
  assume ne: "live_sources now cfg m \<noteq> []"
  let ?S = "set (live_sources now cfg m)"
  have "sr_priority s = Max (sr_priority ` ?S) \<longleftrightarrow> (\<forall>t \<in> ?S. sr_priority t \<le> sr_priority s)" if "s \<in> ?S" for s
  proof
    assume "sr_priority s = Max (sr_priority ` ?S)"
    then show "\<forall>t \<in> ?S. sr_priority t \<le> sr_priority s" by simp
  next
    assume "\<forall>t \<in> ?S. sr_priority t \<le> sr_priority s"
    then show "sr_priority s = Max (sr_priority ` ?S)" using that by (intro Max_eqI [symmetric]) auto
  qed
  then show ?thesis using ne by (auto simp: winning_sources_def Let_def best_priority_max)
qed

end
