(* ===== verification/Device_Identity.thy ===== *)
theory Device_Identity
  imports Config_Store
begin

text \<open>
  \<open>components/devid/devid.c\<close>: serial number, base MAC and the admin secret with its
  persistence. The eFuse read and the storage calls are external: their outcomes are
  arguments. The crypto library's initialisation has no effect on this state.
\<close>

section \<open>Data\<close>

definition DEVID_MAC_LEN :: nat where [fw_const]: "DEVID_MAC_LEN = 6"
definition DEVID_SECRET_LEN :: nat where [fw_const]: "DEVID_SECRET_LEN = 32"

record devid_config =
  model_prefix :: string
  factory_default_secret :: bytes

record devid_state =
  dv_model_prefix :: "string option"
  dv_serial :: string
  dv_serial_computed :: bool
  dv_mac :: bytes
  dv_mac_computed :: bool
  dv_nvs_ok :: bool
  dv_active_secret :: bytes
  dv_blob :: "bytes option"

text \<open>The statics at start-up; the blob is what the storage holds from earlier boots.\<close>

definition devid_statics :: "bytes option \<Rightarrow> devid_state" where
  "devid_statics blob =
     \<lparr>dv_model_prefix = None, dv_serial = [], dv_serial_computed = False,
      dv_mac = replicate DEVID_MAC_LEN 0, dv_mac_computed = False, dv_nvs_ok = False,
      dv_active_secret = replicate DEVID_SECRET_LEN 0, dv_blob = blob\<rparr>"

text \<open>The format \<open>%02X\<close>, and \<open>snprintf\<close> into a buffer of \<open>n\<close> characters.\<close>

definition hex_digit :: "nat \<Rightarrow> char" where
  "hex_digit d = ''0123456789ABCDEF'' ! d"

definition hex2 :: "u8 \<Rightarrow> string" where
  "hex2 b = [hex_digit (unat b div 16), hex_digit (unat b mod 16)]"

definition snprintf :: "nat \<Rightarrow> string \<Rightarrow> string" where
  "snprintf n s = take (n - 1) s"

section \<open>Operations\<close>

definition compute_serial :: "bytes option \<Rightarrow> devid_state \<Rightarrow> devid_state" where
  "compute_serial efuse s =
     (let prefix = (case dv_model_prefix s of Some p \<Rightarrow> p | None \<Rightarrow> ''UNKNOWN'')
      in s\<lparr>dv_serial :=
             (case efuse of
                None \<Rightarrow> snprintf 32 (prefix @ ''-UNKNOWN000000'')
              | Some mac \<Rightarrow> snprintf 32 (prefix @ ''-'' @ concat (map hex2 mac))),
           dv_serial_computed := True\<rparr>)"

definition compute_mac :: "bytes option \<Rightarrow> devid_state \<Rightarrow> devid_state" where
  "compute_mac efuse s =
     s\<lparr>dv_mac := (case efuse of Some mac \<Rightarrow> mac | None \<Rightarrow> replicate DEVID_MAC_LEN 0),
       dv_mac_computed := True\<rparr>"

definition devid_init :: "bytes option \<Rightarrow> nvs_outcome \<Rightarrow> devid_config \<Rightarrow> devid_state \<Rightarrow> devid_state" where
  "devid_init efuse o' config s0 =
     (let s = compute_serial efuse (s0\<lparr>dv_model_prefix := Some (model_prefix config)\<rparr>);
          (ok, blob) = nvs_open_sequence o' (dv_blob s);
          s = s\<lparr>dv_blob := blob\<rparr>
      in if \<not> ok then s
         else
           let s = s\<lparr>dv_nvs_ok := True\<rparr>;
               write_default = s\<lparr>dv_active_secret := factory_default_secret config,
                 dv_blob := nvs_write o' (factory_default_secret config) (dv_blob s)\<rparr>
           in case nvs_read_blob DEVID_SECRET_LEN (dv_blob s) of
                BLOB_NOT_FOUND \<Rightarrow> write_default
              | BLOB_OK b \<Rightarrow>
                  (if length b \<noteq> DEVID_SECRET_LEN then write_default else s\<lparr>dv_active_secret := b\<rparr>)
              | BLOB_ERROR \<Rightarrow> s\<lparr>dv_active_secret := factory_default_secret config\<rparr>)"

definition devid_get_serial :: "bytes option \<Rightarrow> devid_state \<Rightarrow> string \<times> devid_state" where
  "devid_get_serial efuse s =
     (let s = (if \<not> dv_serial_computed s then compute_serial efuse s else s) in (dv_serial s, s))"

definition devid_get_model_prefix :: "devid_state \<Rightarrow> string option" where
  "devid_get_model_prefix s = dv_model_prefix s"

definition devid_get_mac :: "bytes option \<Rightarrow> devid_state \<Rightarrow> bytes \<times> devid_state" where
  "devid_get_mac efuse s =
     (let s = (if \<not> dv_mac_computed s then compute_mac efuse s else s) in (dv_mac s, s))"

definition devid_get_admin_secret :: "devid_state \<Rightarrow> bytes" where
  "devid_get_admin_secret s = dv_active_secret s"

definition devid_set_admin_secret :: "nvs_outcome \<Rightarrow> bytes \<Rightarrow> devid_state \<Rightarrow> bool \<times> devid_state" where
  "devid_set_admin_secret o' new_secret s =
     (if \<not> dv_nvs_ok s then (False, s)
      else
        let s = s\<lparr>dv_blob := nvs_write o' new_secret (dv_blob s)\<rparr>
        in if \<not> (nv_set o' \<and> nv_commit o') then (False, s)
           else (True, s\<lparr>dv_active_secret := new_secret\<rparr>))"

section \<open>Properties\<close>

text \<open>
  A new admin secret takes effect both in RAM and across a reboot, or is refused: after the
  call returns true, a boot with working storage comes up with the new secret whatever the
  factory default is; after false, the active secret is the old one, and so is the stored blob
  unless the failed write reached the storage all the same.
\<close>

theorem secret_change_atomic:
  assumes "length new_secret = DEVID_SECRET_LEN"
  shows "let (ok, s') = devid_set_admin_secret o' new_secret s;
             boot = devid_init efuse nvs_good config (devid_statics (dv_blob s'))
     in if ok then devid_get_admin_secret s' = new_secret \<and> devid_get_admin_secret boot = new_secret
        else devid_get_admin_secret s' = devid_get_admin_secret s
          \<and> (\<not> nv_lands o' \<longrightarrow> dv_blob s' = dv_blob s)"
  using assms
  by (simp add: devid_set_admin_secret_def devid_get_admin_secret_def devid_init_def devid_statics_def
        nvs_write_def nvs_open_sequence_def nvs_good_def nvs_read_blob_def compute_serial_def Let_def)

theorem secret_change_atomic_witness:
  "devid_get_admin_secret (devid_init None nvs_good \<lparr>model_prefix = ''D'', factory_default_secret = replicate 32 1\<rparr>
     (devid_statics (dv_blob (snd (devid_set_admin_secret nvs_good (replicate 32 7)
        ((devid_statics None)\<lparr>dv_nvs_ok := True\<rparr>)))))) = replicate 32 7"
  using secret_change_atomic [of "replicate 32 7" nvs_good "(devid_statics None)\<lparr>dv_nvs_ok := True\<rparr>" None
      "\<lparr>model_prefix = ''D'', factory_default_secret = replicate 32 1\<rparr>"]
  by (simp add: devid_set_admin_secret_def nvs_good_def Let_def fw_const split: if_splits)

text \<open>
  C34: when the storage cannot be opened at boot, the active admin secret is not the factory
  default: initialisation returns before any secret is chosen and leaves thirty-two zero
  bytes as the key of the admin channel.
\<close>

theorem storage_failure_leaves_zero_secret:
  assumes "\<not> fst (nvs_open_sequence o' blob)"
  shows "devid_get_admin_secret (devid_init efuse o' config (devid_statics blob)) = replicate 32 0"
  using assms
  by (auto simp: devid_init_def devid_statics_def devid_get_admin_secret_def compute_serial_def Let_def fw_const
        split: prod.split)

theorem storage_failure_leaves_zero_secret_witness:
  "devid_get_admin_secret (devid_init (Some [1, 2, 3, 4, 5, 6]) (nvs_good\<lparr>nv_init := NVS_FAILED\<rparr>)
     \<lparr>model_prefix = ''DriverPoE'', factory_default_secret = replicate 32 0x44\<rparr> (devid_statics None)) = replicate 32 0"
  by (rule storage_failure_leaves_zero_secret) (simp add: nvs_open_sequence_def nvs_good_def)

text \<open>Whatever happens at boot, the active secret has the key length the HMAC uses.\<close>

lemma active_secret_length:
  "length (factory_default_secret config) = DEVID_SECRET_LEN \<Longrightarrow>
   length (dv_active_secret (devid_init efuse o' config (devid_statics blob))) = DEVID_SECRET_LEN"
  by (auto simp: devid_init_def devid_statics_def compute_serial_def nvs_read_blob_def Let_def
        split: prod.split option.split)

end
