(* ===== verification/Eth_Bringup.thy ===== *)
theory Eth_Bringup
  imports Firmware_Prelude
begin

text \<open>
  \<open>components/eth_init/eth_init.c\<close>: the creation of the Ethernet stack with its retries and
  backoff, the event handlers, and the cached IP configuration. The ESP-IDF calls are
  external: their outcomes are arguments. The objects an attempt creates are tracked, with the documented
  ownership: uninstalling the driver deletes neither MAC, PHY nor glue, and destroying the
  interface deletes only the interface.
\<close>

section \<open>Data\<close>

type_synonym esp_err = int

definition ESP_OK :: esp_err where [fw_const]: "ESP_OK = 0"
definition ESP_FAIL :: esp_err where [fw_const]: "ESP_FAIL = -1"
definition ESP_ERR_NO_MEM :: esp_err where [fw_const]: "ESP_ERR_NO_MEM = 0x101"
definition ESP_ERR_INVALID_STATE :: esp_err where [fw_const]: "ESP_ERR_INVALID_STATE = 0x103"

definition ETH_BRINGUP_MAX_RETRIES :: nat where [fw_const]: "ETH_BRINGUP_MAX_RETRIES = 5"
definition ETH_BRINGUP_INITIAL_BACKOFF_MS :: u32 where [fw_const]: "ETH_BRINGUP_INITIAL_BACKOFF_MS = 500"
definition ETH_BRINGUP_MAX_BACKOFF_MS :: u32 where [fw_const]: "ETH_BRINGUP_MAX_BACKOFF_MS = 8000"

text \<open>Addresses hold the word the network stack stores, in network byte order.\<close>

record ip_info =
  ip_addr :: u32
  ip_netmask :: u32
  ip_gw :: u32

record eth_state =
  et_got_ip :: bool
  et_ip_info :: ip_info

datatype eth_event = ETHERNET_EVENT_CONNECTED | ETHERNET_EVENT_DISCONNECTED | ETHERNET_EVENT_START | ETHERNET_EVENT_STOP

definition eth_event_handler :: "eth_event \<Rightarrow> eth_state \<Rightarrow> eth_state" where
  "eth_event_handler event_id s =
     (case event_id of ETHERNET_EVENT_DISCONNECTED \<Rightarrow> s\<lparr>et_got_ip := False\<rparr> | _ \<Rightarrow> s)"

definition got_ip_event_handler :: "ip_info \<Rightarrow> eth_state \<Rightarrow> eth_state" where
  "got_ip_event_handler info s = s\<lparr>et_ip_info := info, et_got_ip := True\<rparr>"

definition eth_has_ip :: "eth_state \<Rightarrow> bool" where
  "eth_has_ip s = et_got_ip s"

definition eth_get_ip_info :: "eth_state \<Rightarrow> ip_info option" where
  "eth_get_ip_info s = (if \<not> et_got_ip s then None else Some (et_ip_info s))"

section \<open>One attempt\<close>

datatype eth_object = ETH_NETIF | ETH_MAC | ETH_PHY | ETH_DRIVER | ETH_GLUE

text \<open>Outcomes of the calls of one attempt; a creation either succeeds or returns \<open>NULL\<close>.\<close>

record eth_attempt =
  ea_netif :: bool
  ea_mac :: bool
  ea_phy :: bool
  ea_install :: esp_err
  ea_glue :: bool
  ea_attach :: esp_err
  ea_start :: esp_err

text \<open>The result and the objects still allocated when the attempt returns.\<close>

definition try_create_eth :: "eth_attempt \<Rightarrow> eth_object list \<Rightarrow> esp_err \<times> eth_object list" where
  "try_create_eth a objs =
     (if \<not> ea_netif a then (ESP_ERR_NO_MEM, objs)
      else let objs = ETH_NETIF # objs
      in if \<not> ea_mac a then (ESP_FAIL, remove1 ETH_NETIF objs)
      else let objs = ETH_MAC # objs
      in if \<not> ea_phy a then (ESP_FAIL, remove1 ETH_NETIF (remove1 ETH_MAC objs))
      else let objs = ETH_PHY # objs
      in if ea_install a \<noteq> ESP_OK
         then (ea_install a, remove1 ETH_NETIF (remove1 ETH_PHY (remove1 ETH_MAC objs)))
      else let objs = ETH_DRIVER # objs
      in if \<not> ea_glue a then (ESP_FAIL, remove1 ETH_NETIF (remove1 ETH_DRIVER objs))
      else let objs = ETH_GLUE # objs
      in if ea_attach a \<noteq> ESP_OK then (ea_attach a, remove1 ETH_NETIF (remove1 ETH_DRIVER objs))
      else if ea_start a \<noteq> ESP_OK then (ea_start a, remove1 ETH_NETIF (remove1 ETH_DRIVER objs))
      else (ESP_OK, objs))"

section \<open>Retries\<close>

text \<open>The loop of \<open>eth_bringup\<close>: result, remaining objects, and the delays slept, in ms.\<close>

function eth_attempts ::
  "(nat \<Rightarrow> eth_attempt) \<Rightarrow> nat \<Rightarrow> u32 \<Rightarrow> eth_object list \<Rightarrow> esp_err \<times> eth_object list \<times> u32 list" where
  "eth_attempts outcome attempt backoff_ms objs =
     (let (err, objs) = try_create_eth (outcome attempt) objs
      in if err = ESP_OK then (ESP_OK, objs, [])
         else if attempt < ETH_BRINGUP_MAX_RETRIES then
           (let next_backoff = (if ETH_BRINGUP_MAX_BACKOFF_MS < backoff_ms * 2
                                then ETH_BRINGUP_MAX_BACKOFF_MS else backoff_ms * 2);
                (err, objs, delays) = eth_attempts outcome (attempt + 1) next_backoff objs
            in (err, objs, backoff_ms # delays))
         else (err, objs, []))"
  by pat_completeness auto
termination
  by (relation "measure (\<lambda>(outcome, attempt, backoff_ms, objs). ETH_BRINGUP_MAX_RETRIES - attempt)") auto

declare eth_attempts.simps [simp del]

definition eth_bringup ::
  "esp_err \<Rightarrow> esp_err \<Rightarrow> esp_err \<Rightarrow> esp_err \<Rightarrow> (nat \<Rightarrow> eth_attempt) \<Rightarrow> esp_err \<times> eth_object list \<times> u32 list" where
  "eth_bringup netif_init loop_create reg_eth reg_ip outcome =
     (if netif_init \<noteq> ESP_OK \<and> netif_init \<noteq> ESP_ERR_INVALID_STATE then (netif_init, [], [])
      else if loop_create \<noteq> ESP_OK \<and> loop_create \<noteq> ESP_ERR_INVALID_STATE then (loop_create, [], [])
      else if reg_eth \<noteq> ESP_OK then (reg_eth, [], [])
      else if reg_ip \<noteq> ESP_OK then (reg_ip, [], [])
      else eth_attempts outcome 1 ETH_BRINGUP_INITIAL_BACKOFF_MS [])"

section \<open>The retry schedule\<close>

definition attempt_ok :: "eth_attempt \<Rightarrow> bool" where
  "attempt_ok a \<longleftrightarrow> ea_netif a \<and> ea_mac a \<and> ea_phy a \<and> ea_install a = ESP_OK \<and> ea_glue a
     \<and> ea_attach a = ESP_OK \<and> ea_start a = ESP_OK"

lemma try_create_ok: "fst (try_create_eth a objs) = ESP_OK \<longleftrightarrow> attempt_ok a"
  by (simp add: try_create_eth_def attempt_ok_def Let_def fw_const)

text \<open>What one attempt adds to the allocated objects.\<close>

definition attempt_leaves :: "eth_attempt \<Rightarrow> eth_object list" where
  "attempt_leaves a =
     (if attempt_ok a then [ETH_GLUE, ETH_DRIVER, ETH_PHY, ETH_MAC, ETH_NETIF]
      else if ea_netif a \<and> ea_mac a \<and> ea_phy a \<and> ea_install a = ESP_OK
      then (if ea_glue a then [ETH_GLUE, ETH_PHY, ETH_MAC] else [ETH_PHY, ETH_MAC])
      else [])"

lemma try_create_objects: "snd (try_create_eth a objs) = attempt_leaves a @ objs"
  by (simp add: try_create_eth_def attempt_leaves_def attempt_ok_def Let_def fw_const)

lemma try_create_pair:
  "try_create_eth a objs = (fst (try_create_eth a []), attempt_leaves a @ objs)"
proof -
  have "fst (try_create_eth a objs) = fst (try_create_eth a [])"
    by (simp add: try_create_eth_def Let_def)
  then show ?thesis by (metis prod.collapse try_create_objects)
qed

lemma eth_attempts_step:
  "eth_attempts out k b objs =
     (if attempt_ok (out k) then (ESP_OK, attempt_leaves (out k) @ objs, [])
      else if k < 5 then
        (case eth_attempts out (Suc k) (if 8000 < b * 2 then 8000 else b * 2) (attempt_leaves (out k) @ objs)
         of (err, objs, delays) \<Rightarrow> (err, objs, b # delays))
      else (fst (try_create_eth (out k) []), attempt_leaves (out k) @ objs, []))"
  using try_create_ok [of "out k" "[]"]
  by (subst eth_attempts.simps) (simp add: try_create_pair [of "out k" objs] fw_const split_def Let_def)

definition failures_before_success :: "(nat \<Rightarrow> eth_attempt) \<Rightarrow> nat" where
  "failures_before_success out = length (takeWhile (\<lambda>k. \<not> attempt_ok (out k)) [1, 2, 3, 4, 5])"

lemma eth_attempts_five:
  "fst (eth_attempts out 1 500 []) = ESP_OK \<longleftrightarrow> failures_before_success out < 5"
  "snd (snd (eth_attempts out 1 500 [])) = take (failures_before_success out) [500, 1000, 2000, 4000]"
  "fst (snd (eth_attempts out 1 500 [])) =
     concat (rev (map (attempt_leaves \<circ> out) (take (Suc (failures_before_success out)) [1, 2, 3, 4, 5])))"
proof -
  have s: "Suc 1 = 2" "Suc 2 = 3" "Suc 3 = 4" "Suc 4 = 5" by simp_all
  have f: "fst (try_create_eth (out 5) []) = ESP_OK \<longleftrightarrow> attempt_ok (out 5)" by (rule try_create_ok)
  show "fst (eth_attempts out 1 500 []) = ESP_OK \<longleftrightarrow> failures_before_success out < 5"
    "snd (snd (eth_attempts out 1 500 [])) = take (failures_before_success out) [500, 1000, 2000, 4000]"
    "fst (snd (eth_attempts out 1 500 [])) =
       concat (rev (map (attempt_leaves \<circ> out) (take (Suc (failures_before_success out)) [1, 2, 3, 4, 5])))"
    using f
    by (simp_all add: eth_attempts_step [of out 1] eth_attempts_step [of out 2] eth_attempts_step [of out 3]
          eth_attempts_step [of out 4] eth_attempts_step [of out 5] s failures_before_success_def split_def
          del: One_nat_def)
qed

section \<open>Properties\<close>

text \<open>
  C37: the bring-up makes at most five attempts and stops at the first that succeeds; it reports
  success exactly when one of the five does, and sleeps 500, 1000, 2000 and 4000 ms between
  the attempts it needs.
\<close>

theorem eth_retry_schedule:
  "let (err, objs, delays) = eth_bringup ESP_OK ESP_OK ESP_OK ESP_OK out;
       n = failures_before_success out
   in (err = ESP_OK \<longleftrightarrow> n < 5) \<and> delays = take n [500, 1000, 2000, 4000]"
  using eth_attempts_five [of out]
  by (simp add: eth_bringup_def fw_const split_def)

text \<open>
  An attempt that fails once its driver is installed leaves its MAC and PHY objects
  allocated, and the glue too when it was created; the retry allocates new ones, so five such
  attempts leave fifteen objects and no interface.
\<close>

theorem eth_failed_attempts_leak:
  assumes "\<forall>k \<in> {1..5}. ea_netif (out k) \<and> ea_mac (out k) \<and> ea_phy (out k) \<and> ea_install (out k) = ESP_OK
      \<and> ea_glue (out k) \<and> ea_attach (out k) = ESP_OK \<and> ea_start (out k) \<noteq> ESP_OK"
  shows "let (err, objs, delays) = eth_bringup ESP_OK ESP_OK ESP_OK ESP_OK out
     in err \<noteq> ESP_OK \<and> objs = concat (replicate 5 [ETH_GLUE, ETH_PHY, ETH_MAC])"
proof -
  have no: "\<not> attempt_ok (out k) \<and> attempt_leaves (out k) = [ETH_GLUE, ETH_PHY, ETH_MAC]" if "k \<in> {1..5}" for k
    using bspec [OF assms that] by (simp add: attempt_ok_def attempt_leaves_def)
  have five: "\<not> attempt_ok (out 1) \<and> \<not> attempt_ok (out 2) \<and> \<not> attempt_ok (out 3) \<and> \<not> attempt_ok (out 4)
      \<and> \<not> attempt_ok (out 5)"
    "map (attempt_leaves \<circ> out) [1, 2, 3, 4, 5] = replicate 5 [ETH_GLUE, ETH_PHY, ETH_MAC]"
    using no by (simp_all add: numeral_eq_Suc del: One_nat_def)
  then have n: "failures_before_success out = 5"
    by (simp add: failures_before_success_def)
  show ?thesis
  proof -
    have "concat (rev (map (attempt_leaves \<circ> out) [1, 2, 3, 4, 5])) = concat (replicate 5 [ETH_GLUE, ETH_PHY, ETH_MAC])"
      by (simp only: five(2) rev_replicate)
    then show ?thesis
      using eth_attempts_five [of out] n by (simp add: eth_bringup_def fw_const split_def)
  qed
qed

theorem eth_failed_attempts_leak_witness:
  "fst (snd (eth_bringup ESP_OK ESP_OK ESP_OK ESP_OK
     (\<lambda>k. \<lparr>ea_netif = True, ea_mac = True, ea_phy = True, ea_install = ESP_OK, ea_glue = True,
           ea_attach = ESP_OK, ea_start = ESP_FAIL\<rparr>))) = concat (replicate 5 [ETH_GLUE, ETH_PHY, ETH_MAC])"
  using eth_failed_attempts_leak [of "\<lambda>k. \<lparr>ea_netif = True, ea_mac = True, ea_phy = True, ea_install = ESP_OK,
      ea_glue = True, ea_attach = ESP_OK, ea_start = ESP_FAIL\<rparr>"]
  by (simp add: split_def Let_def ESP_OK_def ESP_FAIL_def)

end
