(* ===== verification/Network_Wire.thy ===== *)
theory Network_Wire
  imports Device_Identity Eth_Bringup
begin

text \<open>
  What the three UDP services (Art-Net, sACN, admin channel) share: socket addresses in
  network byte order on the little-endian ESP32, the memory image of a 32-bit word, the bytes
  of C strings, and the datagrams a handler sends.
\<close>

section \<open>Byte order\<close>

text \<open>The four bytes \<open>memcpy\<close> reads from the address of a word.\<close>

definition mem_u32 :: "u32 \<Rightarrow> bytes" where
  "mem_u32 v = [ucast v, ucast (drop_bit 8 v), ucast (drop_bit 16 v), ucast (drop_bit 24 v)]"

text \<open>On a little-endian machine \<open>htonl\<close> and \<open>ntohl\<close> read those bytes in the opposite order.\<close>

definition htonl :: "u32 \<Rightarrow> u32" where
  "htonl v = get_u32_be (mem_u32 v) 0"

definition htons :: "u16 \<Rightarrow> u16" where
  "htons v = push_bit 8 v OR drop_bit 8 v"

lemma length_mem_u32 [simp]: "length (mem_u32 v) = 4"
  by (simp add: mem_u32_def)

lemma bytes_of_join_u32:
  fixes a b c d :: u8
  defines "v \<equiv> push_bit 24 (ucast a) OR push_bit 16 (ucast b) OR push_bit 8 (ucast c) OR ucast d :: u32"
  shows "ucast v = d" "ucast (drop_bit 8 v) = c" "ucast (drop_bit 16 v) = b" "ucast (drop_bit 24 v) = a"
  unfolding v_def by (rule bit_word_eqI; auto simp: bit_simps dest: bit_imp_le_length)+

lemma put_get_u32: "put_u32_be (get_u32_be [a, b, c, d] 0) = [a, b, c, d]"
  and mem_get_u32: "mem_u32 (get_u32_be [a, b, c, d] 0) = [d, c, b, a]"
  using bytes_of_join_u32 [of a b c d] by (simp_all add: put_u32_be_def mem_u32_def get_u32_be_def)

lemma get_put_u32: "get_u32_be (put_u32_be v) 0 = v"
  by (simp add: get_u32_be_def put_u32_be_def)

text \<open>Copying a stored network-order address into a packet gives its big-endian form.\<close>

lemma mem_htonl: "mem_u32 (htonl v) = put_u32_be v"
  by (simp add: htonl_def mem_u32_def [of v] mem_get_u32 put_u32_be_def)

lemma htonl_htonl [simp]: "htonl (htonl v) = v"
  by (simp add: htonl_def [of "htonl v"] mem_htonl get_put_u32)

lemma htons_htons [simp]: "htons (htons v) = v"
  unfolding htons_def by (rule bit_word_eqI) (auto simp: bit_simps)

section \<open>Strings in packets\<close>

definition char_bytes :: "string \<Rightarrow> bytes" where
  "char_bytes s = map of_char s"

text \<open>\<open>strncpy\<close> with a count of \<open>n\<close> writes exactly \<open>n\<close> bytes, padding with zeros.\<close>

definition strncpy :: "nat \<Rightarrow> string \<Rightarrow> bytes" where
  "strncpy n s = char_bytes (take n s) @ replicate (n - length s) 0"

lemma length_strncpy [simp]: "length (strncpy n s) = n"
  by (simp add: strncpy_def char_bytes_def)

section \<open>Sockets\<close>

text \<open>The fields of \<open>struct sockaddr_in\<close> as stored, in network byte order.\<close>

record sockaddr_in =
  sin_addr :: u32
  sin_port :: u16

record datagram =
  dg_dst :: sockaddr_in
  dg_data :: bytes

definition INADDR_ANY :: u32 where [fw_const]: "INADDR_ANY = 0"
definition INADDR_BROADCAST :: u32 where [fw_const]: "INADDR_BROADCAST = 0xffffffff"

end
