(* ===== verification/DMX_Receiver.thy ===== *)
theory DMX_Receiver
  imports DMX_Merge_Facts Network_Wire
begin

text \<open>
  The interface of \<open>dmx_internal.h\<close> between the protocol parsers and the merge engine: what a
  decoded frame promises, what the merge engine may rely on, and the state of the
  \<open>dmx_input\<close> task the parsers work on. \<open>DMX_Artnet\<close> and \<open>DMX_Sacn\<close> are its two providers.
\<close>

section \<open>The state a parser works on\<close>

text \<open>Configuration, merge engine, identity, and the datagrams sent so far.\<close>

record dmx_node =
  dn_xs :: dmx_cfg_state
  dn_mg :: dmx_merge
  dn_dv :: devid_state
  dn_sent :: "datagram list"

text \<open>What a handler reads from its surroundings: time, storage outcomes, eFuse, IP state.\<close>

record rx_env =
  rx_now :: int
  rx_nvs :: nvs_outcome
  rx_efuse :: "bytes option"
  rx_eth :: eth_state

section \<open>Well-formed frames and tables\<close>

definition frame_ok :: "dmx_frame \<Rightarrow> bool" where
  "frame_ok f \<longleftrightarrow> length (fr_source_id f) = 16 \<and> unat (fr_nslots f) \<le> 512
     \<and> unat (fr_nslots f) \<le> length (fr_slots f)"

definition table_ok :: "dmx_merge \<Rightarrow> bool" where
  "table_ok m \<longleftrightarrow> length (mg_sources m) = MAX_SOURCES \<and> list_all (\<lambda>s. length (sr_source_id s) = 16) (mg_sources m)"

text \<open>The slots the merge engine reads of an accepted frame, as indices into its slot array.\<close>

definition slots_read :: "dmx_input_config \<Rightarrow> nat list" where
  "slots_read cfg = [unat (xc_dmx_address cfg - 1) ..< unat (xc_dmx_address cfg - 1) + dmx_channels cfg]"

lemma submit_table:
  assumes "table_ok m" and "frame_ok f"
  shows "table_ok (dmx_merge_submit now cfg f m)"
proof -
  have upd: "list_all (\<lambda>s. length (sr_source_id s) = 16) (xs[i := x])"
    if "list_all (\<lambda>s. length (sr_source_id s) = 16) xs" "length (sr_source_id x) = 16" for xs i x
    using that set_update_subset_insert [of xs i x] by (auto simp: list_all_iff)
  have l: "length (sr_source_id (mg_sources m ! source_slot (fr_source_id f) (mg_sources m))) = 16"
    using assms source_slot_bound [of "mg_sources m" "fr_source_id f"]
    by (cases "mg_sources m = []") (auto simp: table_ok_def list_all_length fw_const)
  show ?thesis
    using assms l
    by (auto simp: table_ok_def frame_ok_def dmx_merge_submit_def Let_def intro!: upd)
qed

lemma list_all_map_field:
  "list_all (\<lambda>s. length (sr_source_id s) = 16) xs \<Longrightarrow> (\<And>s. s \<in> set xs \<Longrightarrow> sr_source_id (g s) = sr_source_id s) \<Longrightarrow>
   list_all (\<lambda>s. length (sr_source_id s) = 16) (map g xs)"
  by (simp add: list_all_iff)

lemma tick_table: "table_ok m \<Longrightarrow> table_ok (fst (merge_tick now cfg tps pm (m, hv)))"
  by (auto simp: table_ok_def tick_engine(4) prune_sources_def intro!: list_all_map_field)

lemma drop_table [simp]: "table_ok (drop_all_sources m)"
  by (simp add: table_ok_def drop_all_sources_def dmx_source_zero_def list_all_iff)

lemma cancel_table: "table_ok m \<Longrightarrow> table_ok (dmx_merge_cancel m)"
  by (auto simp: table_ok_def dmx_merge_cancel_def Let_def list_all_iff enumerate_eq_zip
        dest!: set_zip_rightD split: if_splits)

section \<open>Receivers\<close>

text \<open>
  A receiver decodes a datagram for the current configuration. It promises well-formed
  frames, and none at all unless the layer and its own protocol bit are enabled.
\<close>

locale dmx_receiver =
  fixes decode :: "dmx_input_config \<Rightarrow> bytes \<Rightarrow> u32 \<Rightarrow> dmx_frame option"
    and proto :: u8
  assumes decode_ok: "decode cfg buf ip = Some f \<Longrightarrow> frame_ok f"
    and decode_gated: "decode cfg buf ip = Some f \<Longrightarrow>
      xc_layer_enabled cfg \<noteq> 0 \<and> xc_proto_mask cfg AND proto \<noteq> 0"
    and decode_source: "decode cfg buf ip = Some f \<Longrightarrow> fr_src_ip f = ip"
begin

definition receive :: "int \<Rightarrow> dmx_input_config \<Rightarrow> bytes \<Rightarrow> u32 \<Rightarrow> dmx_merge \<Rightarrow> dmx_merge" where
  "receive now cfg buf ip m =
     (case decode cfg buf ip of None \<Rightarrow> m | Some f \<Rightarrow> dmx_merge_submit now cfg f m)"

lemma receive_disabled: "xc_layer_enabled cfg = 0 \<Longrightarrow> receive now cfg buf ip m = m"
  using decode_gated by (auto simp: receive_def split: option.split)

lemma receive_wrong_protocol: "xc_proto_mask cfg AND proto = 0 \<Longrightarrow> receive now cfg buf ip m = m"
  using decode_gated by (auto simp: receive_def split: option.split)

lemma receive_table: "table_ok m \<Longrightarrow> table_ok (receive now cfg buf ip m)"
  using decode_ok by (auto simp: receive_def submit_table split: option.split)

text \<open>When a datagram changes anything, every slot the merge reads lies within it.\<close>

lemma receive_in_bounds:
  assumes "receive now cfg buf ip m \<noteq> m"
  shows "\<exists>f. decode cfg buf ip = Some f \<and> (\<forall>i \<in> set (slots_read cfg). i < length (fr_slots f) \<and> i < 512)"
proof -
  obtain f where f: "decode cfg buf ip = Some f" "dmx_merge_submit now cfg f m \<noteq> m"
    using assms by (auto simp: receive_def split: option.splits)
  then have "unat (xc_dmx_address cfg - 1) + dmx_channels cfg \<le> unat (fr_nslots f)"
    using submit_ignored [of f cfg now m] by (meson not_le)
  then show ?thesis using decode_ok [OF f(1)] f(1) by (auto simp: frame_ok_def slots_read_def)
qed

end

end
