(* ===== verification/DMX_Artnet.thy ===== *)
theory DMX_Artnet
  imports DMX_Receiver
begin

text \<open>
  \<open>components/dmx_input/dmx_artnet.c\<close>: ArtDmx, ArtPoll with its ArtPollReply, and ArtAddress.
  A datagram is the list of its received bytes; what a handler sends is appended to the
  node's sent datagrams (a failing \<open>sendto\<close> is only logged).
\<close>

section \<open>Constants\<close>

definition ARTNET_PORT :: u16 where [fw_const]: "ARTNET_PORT = 6454"
definition ARTNET_ID :: bytes where "ARTNET_ID = [0x41, 0x72, 0x74, 0x2d, 0x4e, 0x65, 0x74, 0]"
definition ARTNET_OP_POLL :: u16 where [fw_const]: "ARTNET_OP_POLL = 0x2000"
definition ARTNET_OP_POLLREPLY :: u16 where [fw_const]: "ARTNET_OP_POLLREPLY = 0x2100"
definition ARTNET_OP_DMX :: u16 where [fw_const]: "ARTNET_OP_DMX = 0x5000"
definition ARTNET_OP_ADDRESS :: u16 where [fw_const]: "ARTNET_OP_ADDRESS = 0x6000"
definition ARTNET_DMX_HDR_LEN :: nat where [fw_const]: "ARTNET_DMX_HDR_LEN = 18"
definition ARTNET_POLL_MIN_LEN :: nat where [fw_const]: "ARTNET_POLL_MIN_LEN = 14"
definition ARTNET_ADDRESS_LEN :: nat where [fw_const]: "ARTNET_ADDRESS_LEN = 107"
definition ARTNET_POLLREPLY_LEN :: nat where [fw_const]: "ARTNET_POLLREPLY_LEN = 239"
definition ARTNET_STYLE_NODE :: u8 where [fw_const]: "ARTNET_STYLE_NODE = 0x00"
definition ARTNET_PORTTYPE_OUT_DMX :: u8 where [fw_const]: "ARTNET_PORTTYPE_OUT_DMX = 0x80"
definition ARTNET_ESTA_MAN :: u16 where [fw_const]: "ARTNET_ESTA_MAN = 0x7ff0"
definition ARTNET_OEM_UNKNOWN :: u16 where [fw_const]: "ARTNET_OEM_UNKNOWN = 0x00ff"

section \<open>Decoding\<close>

definition artnet_parse_common :: "bytes \<Rightarrow> u16 option" where
  "artnet_parse_common buf =
     (if length buf < 10 then None
      else if slice 0 8 buf \<noteq> ARTNET_ID then None
      else Some (get_u16_le buf 8))"

text \<open>The decoding part of \<open>handle_dmx\<close>; the source id is the address in host order as stored.\<close>

definition artnet_frame :: "dmx_input_config \<Rightarrow> bytes \<Rightarrow> u32 \<Rightarrow> dmx_frame option" where
  "artnet_frame cfg buf src_ip =
     (if length buf < ARTNET_DMX_HDR_LEN then None
      else
        let data_len = get_u16_be buf 16
        in if data_len < 2 \<or> 512 < data_len \<or> length buf < ARTNET_DMX_HDR_LEN + unat data_len then None
           else if xc_layer_enabled cfg = 0 \<or> xc_proto_mask cfg AND DMX_PROTO_ARTNET = 0 then None
           else
             let sub_uni = ucast (buf ! 14);
                 net = ucast (buf ! 15);
                 port_address = push_bit 8 (net AND 0x7f) OR (sub_uni AND 0xff) :: u16
             in if port_address \<noteq> xc_artnet_port_address cfg AND 0x7fff then None
                else Some \<lparr>fr_kind = DMX_FRAME_ARTNET, fr_src_ip = src_ip,
                       fr_source_id = mem_u32 src_ip @ replicate 12 0, fr_priority = 100, fr_sequence = 0,
                       fr_terminated = False, fr_nslots = data_len, fr_slots = drop ARTNET_DMX_HDR_LEN buf\<rparr>)"

definition handle_dmx :: "int \<Rightarrow> bytes \<Rightarrow> u32 \<Rightarrow> dmx_cfg_state \<Rightarrow> dmx_merge \<Rightarrow> dmx_merge" where
  "handle_dmx now buf src_ip xs m =
     (case artnet_frame (dmx_cfg_snapshot xs) buf src_ip of
        None \<Rightarrow> m
      | Some frame \<Rightarrow> dmx_merge_submit now (dmx_cfg_snapshot xs) frame m)"

section \<open>ArtPollReply\<close>

text \<open>
  The packet is a cleared buffer overwritten field by field, in the order of the code; a
  \<open>NULL\<close> model prefix prints as the C library prints it.
\<close>

definition poll_reply_packet :: "dmx_input_config \<Rightarrow> u32 \<Rightarrow> string \<Rightarrow> string option \<Rightarrow> bytes \<Rightarrow> bytes" where
  "poll_reply_packet cfg ip serial prefix mac =
     (let addr = xc_artnet_port_address cfg AND 0x7fff;
          text = (\<lambda>s. char_bytes (snprintf 64 s) @ [0])
      in fold (\<lambda>(i, xs) pkt. blit pkt i xs)
        [(0, ARTNET_ID),
         (8, [ucast (ARTNET_OP_POLLREPLY AND 0xff)]),
         (9, [ucast (drop_bit 8 ARTNET_OP_POLLREPLY)]),
         (10, mem_u32 ip),
         (14, [ucast (ARTNET_PORT AND 0xff)]),
         (15, [ucast (drop_bit 8 ARTNET_PORT)]),
         (16, [0]),
         (17, [1]),
         (18, [ucast (drop_bit 8 addr AND 0x7f)]),
         (19, [ucast (drop_bit 4 addr AND 0x0f)]),
         (20, [ucast (drop_bit 8 ARTNET_OEM_UNKNOWN)]),
         (21, [ucast (ARTNET_OEM_UNKNOWN AND 0xff)]),
         (23, [0]),
         (24, [ucast (ARTNET_ESTA_MAN AND 0xff)]),
         (25, [ucast (drop_bit 8 ARTNET_ESTA_MAN)]),
         (26, strncpy 17 serial),
         (44, text ((case prefix of Some p \<Rightarrow> p | None \<Rightarrow> ''(null)'') @ '' DMX fixture ('' @ serial @ '')'')),
         (108, text ''#0001 [0000] Art-Net/sACN DMX input OK''),
         (172, [0]),
         (173, [1]),
         (174, [ARTNET_PORTTYPE_OUT_DMX]),
         (182, [if xc_layer_enabled cfg \<noteq> 0 then 0x80 else 0x00]),
         (190, [ucast (addr AND 0x0f)]),
         (200, [ARTNET_STYLE_NODE]),
         (201, take 6 mac),
         (207, mem_u32 ip),
         (211, [1]),
         (212, [0x0e])]
        (replicate ARTNET_POLLREPLY_LEN 0))"

definition send_poll_reply :: "rx_env \<Rightarrow> sockaddr_in option \<Rightarrow> dmx_node \<Rightarrow> dmx_node" where
  "send_poll_reply e fallback n =
     (let cfg = dmx_cfg_snapshot (dn_xs n);
          info = (case eth_get_ip_info (rx_eth e) of Some i \<Rightarrow> i | None \<Rightarrow> \<lparr>ip_addr = 0, ip_netmask = 0, ip_gw = 0\<rparr>);
          ip = ip_addr info;
          (serial, dv) = devid_get_serial (rx_efuse e) (dn_dv n);
          prefix = devid_get_model_prefix dv;
          (mac, dv) = devid_get_mac (rx_efuse e) dv;
          pkt = poll_reply_packet cfg ip serial prefix mac;
          dst = (if ip \<noteq> 0 \<and> ip_netmask info \<noteq> 0
                 then \<lparr>sin_addr = ip_addr info OR NOT (ip_netmask info), sin_port = htons ARTNET_PORT\<rparr>
                 else case fallback of
                   Some f \<Rightarrow> \<lparr>sin_addr = sin_addr f, sin_port = sin_port f\<rparr>
                 | None \<Rightarrow> \<lparr>sin_addr = htonl INADDR_BROADCAST, sin_port = htons ARTNET_PORT\<rparr>)
      in n\<lparr>dn_dv := dv, dn_sent := dn_sent n @ [\<lparr>dg_dst = dst, dg_data = pkt\<rparr>]\<rparr>)"

section \<open>ArtAddress and dispatch\<close>

definition apply_switch :: "u8 \<Rightarrow> u8 \<Rightarrow> u8 \<Rightarrow> u8" where
  "apply_switch cur wire msk = (if wire AND 0x80 \<noteq> 0 then wire AND msk else cur)"

text \<open>The port address an ArtAddress leaves: each switch byte applies on its own.\<close>

definition artaddress_port :: "u16 \<Rightarrow> bytes \<Rightarrow> u16" where
  "artaddress_port port buf =
     (let addr = port AND 0x7fff;
          net = ucast (drop_bit 8 addr AND 0x7f) :: u8;
          sub = ucast (drop_bit 4 addr AND 0x0f) :: u8;
          uni = ucast (addr AND 0x0f) :: u8;
          net = apply_switch net (buf ! 12) 0x7f;
          sub = apply_switch sub (buf ! 104) 0x0f;
          uni = apply_switch uni (buf ! 100) 0x0f
      in push_bit 8 (ucast net) OR push_bit 4 (ucast sub) OR ucast uni)"

definition handle_address :: "rx_env \<Rightarrow> bytes \<Rightarrow> sockaddr_in \<Rightarrow> dmx_node \<Rightarrow> dmx_node" where
  "handle_address e buf dst n =
     (if length buf < ARTNET_ADDRESS_LEN then n
      else
        let cfg = dmx_cfg_snapshot (dn_xs n)
        in if xc_allow_artaddress cfg = 0 then n
           else
             let cfg = cfg\<lparr>xc_artnet_port_address := artaddress_port (xc_artnet_port_address cfg) buf\<rparr>;
                 n = (if buf ! 106 = 0x01 then n\<lparr>dn_mg := dmx_merge_cancel (dn_mg n)\<rparr> else n);
                 (ok, xs) = dmx_input_set_config (rx_nvs e) cfg (dn_xs n);
                 n = n\<lparr>dn_xs := xs\<rparr>
             in if \<not> ok then n else send_poll_reply e (Some dst) n)"

definition dmx_artnet_handle :: "rx_env \<Rightarrow> bytes \<Rightarrow> u32 \<Rightarrow> u16 \<Rightarrow> dmx_node \<Rightarrow> dmx_node" where
  "dmx_artnet_handle e buf src_ip src_port n =
     (case artnet_parse_common buf of
        None \<Rightarrow> n
      | Some op \<Rightarrow>
          let reply_to = \<lparr>sin_addr = htonl src_ip,
                          sin_port = htons (if src_port \<noteq> 0 then src_port else ARTNET_PORT)\<rparr>
          in if op = ARTNET_OP_DMX then n\<lparr>dn_mg := handle_dmx (rx_now e) buf src_ip (dn_xs n) (dn_mg n)\<rparr>
             else if op = ARTNET_OP_POLL then
               (if ARTNET_POLL_MIN_LEN \<le> length buf then send_poll_reply e (Some reply_to) n else n)
             else if op = ARTNET_OP_ADDRESS then handle_address e buf reply_to n
             else n)"

text \<open>Whether a descriptor is returned, from the outcomes of \<open>socket\<close> and \<open>bind\<close>.\<close>

definition dmx_artnet_open :: "bool \<Rightarrow> bool \<Rightarrow> bool" where
  "dmx_artnet_open socket_ok bind_ok = (if \<not> socket_ok then False else if \<not> bind_ok then False else True)"

section \<open>The receiver interface\<close>

lemma artnet_frame_SomeE:
  assumes "artnet_frame cfg buf src_ip = Some f"
  shows "ARTNET_DMX_HDR_LEN + unat (get_u16_be buf 16) \<le> length buf"
    and "2 \<le> get_u16_be buf 16" and "get_u16_be buf 16 \<le> 512"
    and "xc_layer_enabled cfg \<noteq> 0" and "xc_proto_mask cfg AND DMX_PROTO_ARTNET \<noteq> 0"
    and "f = \<lparr>fr_kind = DMX_FRAME_ARTNET, fr_src_ip = src_ip, fr_source_id = mem_u32 src_ip @ replicate 12 0,
      fr_priority = 100, fr_sequence = 0, fr_terminated = False, fr_nslots = get_u16_be buf 16,
      fr_slots = drop ARTNET_DMX_HDR_LEN buf\<rparr>"
    and "push_bit 8 (ucast (buf ! 15) AND 0x7f) OR (ucast (buf ! 14) AND 0xff) = xc_artnet_port_address cfg AND 0x7fff"
  using assms by (auto simp: artnet_frame_def Let_def not_less split: if_splits)

interpretation artnet: dmx_receiver artnet_frame DMX_PROTO_ARTNET
proof
  fix cfg buf ip f
  assume f: "artnet_frame cfg buf ip = Some f"
  note d = artnet_frame_SomeE [OF f]
  have "unat (get_u16_be buf 16) \<le> 512" using d(3) by (simp add: word_le_unat)
  then show "frame_ok f" using d(1) by (simp add: frame_ok_def d(6) fw_const)
  show "xc_layer_enabled cfg \<noteq> 0 \<and> xc_proto_mask cfg AND DMX_PROTO_ARTNET \<noteq> 0" using d(4,5) by simp
  show "fr_src_ip f = ip" by (simp add: d(6))
qed

lemma handle_dmx_receive: "handle_dmx now buf ip xs m = artnet.receive now (dmx_cfg_snapshot xs) buf ip m"
  by (simp add: handle_dmx_def artnet.receive_def)

section \<open>The reply packet\<close>

lemma nth_blit:
  "i + length xs \<le> length buf \<Longrightarrow> k < length buf \<Longrightarrow>
   blit buf i xs ! k = (if i \<le> k \<and> k < i + length xs then xs ! (k - i) else buf ! k)"
  by (auto simp: blit_def nth_append min_def)

lemma blits_length:
  assumes "list_all (\<lambda>(i, xs). i + length xs \<le> length buf) ws"
  shows "length (fold (\<lambda>(i, xs) pkt. blit pkt i xs) ws buf) = length buf"
  using assms by (induction ws arbitrary: buf) auto

text \<open>The last write that covers an index decides it.\<close>

lemma nth_blits:
  assumes "list_all (\<lambda>(i, xs). i + length xs \<le> length buf) ws" and "k < length buf"
  shows "fold (\<lambda>(i, xs) pkt. blit pkt i xs) ws buf ! k =
    foldr (\<lambda>(i, xs) rest. if i \<le> k \<and> k < i + length xs then xs ! (k - i) else rest) (rev ws) (buf ! k)"
  using assms
proof (induction ws arbitrary: buf)
  case (Cons w ws)
  obtain i xs where w: "w = (i, xs)" by (cases w)
  have "length (blit buf i xs) = length buf" using Cons.prems w by simp
  then show ?case using Cons.IH [of "blit buf i xs"] Cons.prems w by (simp add: nth_blit)
qed simp

lemma text_field_length: "length (char_bytes (snprintf 64 s) @ [0]) \<le> 64"
  by (simp add: char_bytes_def snprintf_def)

lemma poll_reply_fields:
  fixes ip serial prefix
  assumes "length mac = 6"
  defines "pkt \<equiv> \<lambda>cfg. poll_reply_packet cfg ip serial prefix mac"
  shows "length (pkt cfg) = 239"
    and "pkt cfg ! 18 = ucast (drop_bit 8 (xc_artnet_port_address cfg AND 0x7fff) AND 0x7f)"
    and "pkt cfg ! 19 = ucast (drop_bit 4 (xc_artnet_port_address cfg AND 0x7fff) AND 0x0f)"
    and "pkt cfg ! 190 = ucast ((xc_artnet_port_address cfg AND 0x7fff) AND 0x0f)"
    and "pkt cfg ! 182 = (if xc_layer_enabled cfg \<noteq> 0 then 0x80 else 0)"
proof -
  have t: "length (char_bytes (snprintf 64 s)) \<le> 194" "length (char_bytes (snprintf 64 s)) \<le> 130"
    "44 + length (char_bytes (snprintf 64 s)) < 108" "108 + length (char_bytes (snprintf 64 s)) < 172" for s
    using text_field_length [of s] by simp_all
  have ok: "list_all (\<lambda>(i, xs). i + length xs \<le> 239)
     [(0, ARTNET_ID), (10, mem_u32 ip), (26, strncpy 17 serial),
      (44, char_bytes (snprintf 64 x) @ [0]), (108, char_bytes (snprintf 64 y) @ [0]),
      (201, take 6 mac), (207, mem_u32 ip)]" for x y
    using t assms(1) by (simp add: ARTNET_ID_def)
  show "length (pkt cfg) = 239"
    using ok unfolding pkt_def poll_reply_packet_def Let_def
    by (subst blits_length) (simp_all add: fw_const)
  show "pkt cfg ! 18 = ucast (drop_bit 8 (xc_artnet_port_address cfg AND 0x7fff) AND 0x7f)"
    "pkt cfg ! 19 = ucast (drop_bit 4 (xc_artnet_port_address cfg AND 0x7fff) AND 0x0f)"
    "pkt cfg ! 190 = ucast ((xc_artnet_port_address cfg AND 0x7fff) AND 0x0f)"
    "pkt cfg ! 182 = (if xc_layer_enabled cfg \<noteq> 0 then 0x80 else 0)"
    using ok t(3,4) assms(1) unfolding pkt_def poll_reply_packet_def Let_def
    by (subst nth_blits; simp add: fw_const ARTNET_ID_def not_less)+
qed

section \<open>Port addresses\<close>

lemma port_masks:
  "(0x7fff :: u16) = mask 15" "(0x7f :: u16) = mask 7" "(0x0f :: u16) = mask 4"
  "(0x7f :: u8) = mask 7" "(0x0f :: u8) = mask 4"
  by (simp_all add: mask_eq_exp_minus_1)

lemma port_address_fields:
  "push_bit 8 (ucast (ucast (drop_bit 8 (p AND 0x7fff) AND 0x7f :: u16) :: u8))
   OR push_bit 4 (ucast (ucast (drop_bit 4 (p AND 0x7fff) AND 0x0f :: u16) :: u8))
   OR ucast (ucast ((p AND 0x7fff) AND 0x0f :: u16) :: u8) = (p AND 0x7fff :: u16)" (is "?l = ?r")
proof (rule bit_word_eqI)
  fix n assume "n < LENGTH(16)"
  then consider "n < 4" | "4 \<le> n" "n < 8" | "8 \<le> n" "n < 16" by fastforce
  then show "bit ?l n = bit ?r n" unfolding port_masks by cases (auto simp: bit_simps)
qed

lemma bit_0x80: "bit (0x80 :: u8) n \<longleftrightarrow> n = 7"
proof -
  have "(0x80 :: u8) = 2 ^ 7" by simp
  then show ?thesis by (simp only: bit_exp_iff possible_bit_word) auto
qed

lemma switch_set: "(0x80 OR x) AND 0x80 \<noteq> (0 :: u8)"
proof -
  have "bit ((0x80 OR x) AND 0x80) 7" by (simp add: bit_and_iff bit_or_iff bit_0x80)
  then show ?thesis by (metis bit_0_eq bot_apply bot_bool_def)
qed

lemma switch_masked:
  "(0x80 OR ucast (v AND 0x7f :: u16)) AND 0x7f = (ucast (v AND 0x7f) :: u8)"
  "(0x80 OR ucast (v AND 0x0f :: u16)) AND 0x0f = (ucast (v AND 0x0f) :: u8)"
  unfolding port_masks(2-5) by (rule bit_word_eqI, simp only: bit_and_iff bit_or_iff bit_0x80, auto simp: bit_simps)+

text \<open>The three switch bytes that program the port address \<open>p\<close>, as a console sends them.\<close>

definition programs_port :: "u16 \<Rightarrow> bytes \<Rightarrow> bool" where
  "programs_port p buf \<longleftrightarrow>
     buf ! 12 = 0x80 OR ucast (drop_bit 8 (p AND 0x7fff) AND 0x7f)
   \<and> buf ! 104 = 0x80 OR ucast (drop_bit 4 (p AND 0x7fff) AND 0x0f)
   \<and> buf ! 100 = 0x80 OR ucast ((p AND 0x7fff) AND 0x0f)"

lemma artaddress_sets: "programs_port p buf \<Longrightarrow> artaddress_port port buf = p AND 0x7fff"
  unfolding artaddress_port_def programs_port_def Let_def apply_switch_def
  by (elim conjE, simp only: switch_set switch_masked if_True not_False_eq_True port_address_fields simp_thms)

lemma artaddress_keeps:
  "buf ! 12 AND 0x80 = 0 \<Longrightarrow> buf ! 104 AND 0x80 = 0 \<Longrightarrow> buf ! 100 AND 0x80 = 0 \<Longrightarrow>
   artaddress_port port buf = port AND 0x7fff"
  unfolding artaddress_port_def Let_def apply_switch_def
  by (simp only: if_False simp_thms port_address_fields)

lemma send_poll_reply_frame [simp]:
  "dn_xs (send_poll_reply e dst n) = dn_xs n" "dn_mg (send_poll_reply e dst n) = dn_mg n"
  by (simp_all add: send_poll_reply_def split_def Let_def)

lemma send_poll_reply_sent:
  "\<exists>d. dn_sent (send_poll_reply e dst n) = dn_sent n
      @ [\<lparr>dg_dst = d, dg_data = poll_reply_packet (dmx_cfg_snapshot (dn_xs n))
           (case eth_get_ip_info (rx_eth e) of Some i \<Rightarrow> ip_addr i | None \<Rightarrow> 0)
           (fst (devid_get_serial (rx_efuse e) (dn_dv n)))
           (devid_get_model_prefix (snd (devid_get_serial (rx_efuse e) (dn_dv n))))
           (fst (devid_get_mac (rx_efuse e) (snd (devid_get_serial (rx_efuse e) (dn_dv n)))))\<rparr>]"
  by (cases "eth_get_ip_info (rx_eth e)") (simp_all add: send_poll_reply_def split_def Let_def)

lemma mac_after_serial:
  "fst (devid_get_mac efuse (snd (devid_get_serial efuse dv))) = fst (devid_get_mac efuse dv)"
  by (simp add: devid_get_mac_def devid_get_serial_def compute_mac_def compute_serial_def Let_def)

section \<open>Properties\<close>

text \<open>
  C38: an accepted ArtAddress that carries the switch values of a port address programs
  exactly that address and no other field of the patch, and is answered with one
  ArtPollReply of 239 bytes that reports the new address; when remote programming is not
  allowed the datagram changes nothing and is not answered.
\<close>

theorem artaddress_programs_address:
  assumes "ARTNET_ADDRESS_LEN \<le> length buf" and "programs_port p buf" and "xs_started (dn_xs n)"
    and "dmx_config_valid (xs_cfg (dn_xs n))" and "length (fst (devid_get_mac (rx_efuse e) (dn_dv n))) = 6"
  shows "let n' = handle_address e buf dst n; cfg = xs_cfg (dn_xs n)
     in if xc_allow_artaddress cfg = 0 then n' = n
        else xs_cfg (dn_xs n') = cfg\<lparr>xc_artnet_port_address := p AND 0x7fff\<rparr> \<and> xs_cfg_changed (dn_xs n')
           \<and> length (dn_sent n') = Suc (length (dn_sent n)) \<and> butlast (dn_sent n') = dn_sent n
           \<and> (let r = dg_data (last (dn_sent n')) in length r = 239
              \<and> 0x80 OR r ! 18 = buf ! 12 \<and> 0x80 OR r ! 19 = buf ! 104 \<and> 0x80 OR r ! 190 = buf ! 100)"
proof (cases "xc_allow_artaddress (xs_cfg (dn_xs n)) = 0")
  case True
  then show ?thesis by (simp add: handle_address_def dmx_cfg_snapshot_def Let_def)
next
  case False
  define cfg where "cfg = (xs_cfg (dn_xs n))\<lparr>xc_artnet_port_address := p AND 0x7fff\<rparr>"
  define n1 where "n1 = (if buf ! 106 = 1 then n\<lparr>dn_mg := dmx_merge_cancel (dn_mg n)\<rparr> else n)
     \<lparr>dn_xs := snd (dmx_input_set_config (rx_nvs e) cfg (dn_xs n))\<rparr>"
  have "dmx_config_valid cfg"
    using assms(4) and_7fff_le [of p] by (simp add: cfg_def dmx_config_valid_def dmx_channels_def)
  then have xs: "xs_cfg (dn_xs n1) = cfg" "xs_cfg_changed (dn_xs n1)"
    using assms(3) by (simp_all add: n1_def dmx_input_set_config_def Let_def dmx_sanitize_id)
  have n1: "dn_sent n1 = dn_sent n" "dn_dv n1 = dn_dv n" by (simp_all add: n1_def)
  have h: "handle_address e buf dst n = send_poll_reply e (Some dst) n1"
    using assms False artaddress_sets [OF assms(2)]
    by (simp add: handle_address_def dmx_cfg_snapshot_def Let_def split_def dmx_input_set_config_def n1_def cfg_def)
  obtain d pkt where sent: "dn_sent (handle_address e buf dst n) = dn_sent n @ [\<lparr>dg_dst = d, dg_data = pkt\<rparr>]"
    and pkt: "length pkt = 239" "pkt ! 18 = ucast (drop_bit 8 (xc_artnet_port_address cfg AND 0x7fff) AND 0x7f)"
      "pkt ! 19 = ucast (drop_bit 4 (xc_artnet_port_address cfg AND 0x7fff) AND 0x0f)"
      "pkt ! 190 = ucast ((xc_artnet_port_address cfg AND 0x7fff) AND 0x0f)"
    using send_poll_reply_sent [of e "Some dst" n1] poll_reply_fields assms(5)
    by (auto simp: h n1 mac_after_serial dmx_cfg_snapshot_def xs(1))
  have p: "xc_artnet_port_address cfg AND 0x7fff = p AND 0x7fff" by (simp add: cfg_def)
  show ?thesis
    using False sent pkt assms(2) xs
    by (simp add: p programs_port_def h cfg_def Let_def)
qed

definition example_address :: bytes where
  "example_address = (replicate 107 0)[12 := 0x92, 104 := 0x83, 100 := 0x84]"

definition example_node :: dmx_node where
  "example_node =
     \<lparr>dn_xs = \<lparr>xs_cfg = dmx_config_defaults, xs_cfg_changed = False, xs_started = True, xs_nvs_ok = False, xs_blob = None\<rparr>,
      dn_mg = dmx_merge_statics,
      dn_dv = (devid_statics None)\<lparr>dv_model_prefix := Some ''DriverPoE'', dv_serial := ''DriverPoE-1'', dv_serial_computed := True\<rparr>,
      dn_sent = []\<rparr>"

definition example_rx :: rx_env where
  "example_rx = \<lparr>rx_now = 0, rx_nvs = nvs_good, rx_efuse = None,
     rx_eth = \<lparr>et_got_ip = False, et_ip_info = \<lparr>ip_addr = 0, ip_netmask = 0, ip_gw = 0\<rparr>\<rparr>\<rparr>"

lemma example_programs: "programs_port 0x1234 example_address"
  unfolding programs_port_def example_address_def by code_simp

theorem artaddress_programs_address_witness:
  "xc_artnet_port_address (xs_cfg (dn_xs (handle_address example_rx example_address
     \<lparr>sin_addr = 0, sin_port = 0\<rparr> example_node))) = 0x1234"
proof -
  have len: "ARTNET_ADDRESS_LEN \<le> length example_address"
    by (simp add: fw_const example_address_def)
  have n: "xs_started (dn_xs example_node)" "dmx_config_valid (xs_cfg (dn_xs example_node))"
    "xs_cfg (dn_xs example_node) = dmx_config_defaults"
    "length (fst (devid_get_mac (rx_efuse example_rx) (dn_dv example_node))) = 6"
    using dmx_defaults_ok
    by (simp_all add: example_node_def example_rx_def devid_get_mac_def compute_mac_def devid_statics_def Let_def fw_const)
  have "(0x1234 :: u16) AND 0x7fff = 0x1234" "xc_allow_artaddress dmx_config_defaults \<noteq> 0"
    by (simp_all add: dmx_config_defaults_def)
  then show ?thesis
    using artaddress_programs_address [OF len example_programs n(1,2,4), of "\<lparr>sin_addr = 0, sin_port = 0\<rparr>"]
    by (simp add: n(3) Let_def)
qed

end
