(* ===== verification/DMX_Sacn.thy ===== *)
theory DMX_Sacn
  imports DMX_Receiver
begin

text \<open>
  \<open>components/dmx_input/dmx_sacn.c\<close>: E1.31 data packets and the multicast membership of the
  socket. The network stack is external: whether a join succeeds is an argument, and the
  groups joined on the socket are tracked with the documented effect of the socket options.
\<close>

section \<open>Constants\<close>

definition SACN_PORT :: u16 where [fw_const]: "SACN_PORT = 5568"
definition ACN_PACKET_ID :: bytes where
  "ACN_PACKET_ID = [0x41, 0x53, 0x43, 0x2d, 0x45, 0x31, 0x2e, 0x31, 0x37, 0x00, 0x00, 0x00]"
definition SACN_ROOT_VECTOR_DATA :: u32 where [fw_const]: "SACN_ROOT_VECTOR_DATA = 0x00000004"
definition SACN_FRAME_VECTOR_DATA :: u32 where [fw_const]: "SACN_FRAME_VECTOR_DATA = 0x00000002"
definition SACN_DMP_VECTOR_SET :: u8 where [fw_const]: "SACN_DMP_VECTOR_SET = 0x02"
definition SACN_OFF_ACN_ID :: nat where [fw_const]: "SACN_OFF_ACN_ID = 4"
definition SACN_OFF_ROOT_VECTOR :: nat where [fw_const]: "SACN_OFF_ROOT_VECTOR = 18"
definition SACN_OFF_CID :: nat where [fw_const]: "SACN_OFF_CID = 22"
definition SACN_OFF_FRAME_VECTOR :: nat where [fw_const]: "SACN_OFF_FRAME_VECTOR = 40"
definition SACN_OFF_PRIORITY :: nat where [fw_const]: "SACN_OFF_PRIORITY = 108"
definition SACN_OFF_SEQUENCE :: nat where [fw_const]: "SACN_OFF_SEQUENCE = 111"
definition SACN_OFF_OPTIONS :: nat where [fw_const]: "SACN_OFF_OPTIONS = 112"
definition SACN_OFF_UNIVERSE :: nat where [fw_const]: "SACN_OFF_UNIVERSE = 113"
definition SACN_OFF_DMP_VECTOR :: nat where [fw_const]: "SACN_OFF_DMP_VECTOR = 117"
definition SACN_OFF_PROP_COUNT :: nat where [fw_const]: "SACN_OFF_PROP_COUNT = 123"
definition SACN_OFF_PROP_VALUES :: nat where [fw_const]: "SACN_OFF_PROP_VALUES = 125"
definition SACN_MIN_LEN :: nat where [fw_const]: "SACN_MIN_LEN = 126"
definition SACN_OPT_TERMINATED :: u8 where [fw_const]: "SACN_OPT_TERMINATED = 0x40"
definition SACN_OPT_PREVIEW :: u8 where [fw_const]: "SACN_OPT_PREVIEW = 0x80"

section \<open>Decoding\<close>

text \<open>The number of slots of a data packet: announced, at most 512, and never past its end.\<close>

definition sacn_slot_count :: "u16 \<Rightarrow> nat \<Rightarrow> u16" where
  "sacn_slot_count prop_count len =
     (let slot_count = prop_count - 1;
          slot_count = (if 512 < slot_count then 512 else slot_count)
      in if len < SACN_OFF_PROP_VALUES + 1 + unat slot_count
         then of_nat (len - SACN_OFF_PROP_VALUES - 1) else slot_count)"

definition sacn_frame :: "dmx_input_config \<Rightarrow> bytes \<Rightarrow> u32 \<Rightarrow> dmx_frame option" where
  "sacn_frame cfg buf src_ip =
     (if length buf < SACN_MIN_LEN then None
      else if slice SACN_OFF_ACN_ID 12 buf \<noteq> ACN_PACKET_ID then None
      else if get_u32_be buf SACN_OFF_ROOT_VECTOR \<noteq> SACN_ROOT_VECTOR_DATA then None
      else if get_u32_be buf SACN_OFF_FRAME_VECTOR \<noteq> SACN_FRAME_VECTOR_DATA then None
      else if buf ! SACN_OFF_DMP_VECTOR \<noteq> SACN_DMP_VECTOR_SET then None
      else
        let options = buf ! SACN_OFF_OPTIONS
        in if options AND SACN_OPT_PREVIEW \<noteq> 0 then None
           else
             let universe = get_u16_be buf SACN_OFF_UNIVERSE
             in if xc_layer_enabled cfg = 0 \<or> xc_proto_mask cfg AND DMX_PROTO_SACN = 0 then None
                else if universe \<noteq> xc_sacn_universe cfg then None
                else
                  let prop_count = get_u16_be buf SACN_OFF_PROP_COUNT
                  in if prop_count < 1 then None
                     else
                       let slot_count = sacn_slot_count prop_count (length buf)
                       in if buf ! SACN_OFF_PROP_VALUES \<noteq> 0x00 then None
                          else Some \<lparr>fr_kind = DMX_FRAME_SACN, fr_src_ip = src_ip,
                                 fr_source_id = slice SACN_OFF_CID 16 buf,
                                 fr_priority = buf ! SACN_OFF_PRIORITY, fr_sequence = buf ! SACN_OFF_SEQUENCE,
                                 fr_terminated = (options AND SACN_OPT_TERMINATED \<noteq> 0),
                                 fr_nslots = slot_count, fr_slots = drop (SACN_OFF_PROP_VALUES + 1) buf\<rparr>)"

definition dmx_sacn_handle :: "rx_env \<Rightarrow> bytes \<Rightarrow> u32 \<Rightarrow> dmx_node \<Rightarrow> dmx_node" where
  "dmx_sacn_handle e buf src_ip n =
     (case sacn_frame (dmx_cfg_snapshot (dn_xs n)) buf src_ip of
        None \<Rightarrow> n
      | Some frame \<Rightarrow>
          n\<lparr>dn_mg := dmx_merge_submit (rx_now e) (dmx_cfg_snapshot (dn_xs n)) frame (dn_mg n)\<rparr>)"

section \<open>Multicast membership\<close>

text \<open>The joined universe (0 is none) and the groups joined on the socket, with their interface.\<close>

record sacn_state =
  sc_joined_universe :: u16
  sc_groups :: "(u32 \<times> u32) list"

text \<open>Group and interface of a universe, in network byte order.\<close>

definition universe_mreq :: "u16 \<Rightarrow> eth_state \<Rightarrow> u32 \<times> u32" where
  "universe_mreq universe eth =
     (let group = push_bit 24 239 OR push_bit 16 255
            OR push_bit 8 (ucast (drop_bit 8 universe) AND 0xff) OR (ucast universe AND 0xff) :: u32
      in (htonl group, case eth_get_ip_info eth of Some info \<Rightarrow> ip_addr info | None \<Rightarrow> htonl INADDR_ANY))"

definition IP_DROP_MEMBERSHIP :: "u32 \<times> u32 \<Rightarrow> sacn_state \<Rightarrow> sacn_state" where
  "IP_DROP_MEMBERSHIP mreq s = s\<lparr>sc_groups := remove1 mreq (sc_groups s)\<rparr>"

definition IP_ADD_MEMBERSHIP :: "bool \<Rightarrow> u32 \<times> u32 \<Rightarrow> sacn_state \<Rightarrow> sacn_state" where
  "IP_ADD_MEMBERSHIP ok mreq s = (if ok then s\<lparr>sc_groups := mreq # sc_groups s\<rparr> else s)"

text \<open>\<open>join_ok\<close> is the outcome of the join should one be tried.\<close>

definition sync_membership :: "bool \<Rightarrow> eth_state \<Rightarrow> dmx_input_config \<Rightarrow> sacn_state \<Rightarrow> sacn_state" where
  "sync_membership join_ok eth cfg s =
     (let want = (if xc_proto_mask cfg AND DMX_PROTO_SACN \<noteq> 0 \<and> xc_layer_enabled cfg \<noteq> 0
                  then xc_sacn_universe cfg else 0)
      in if want = sc_joined_universe s then s
         else
           let s = (if sc_joined_universe s \<noteq> 0
                    then IP_DROP_MEMBERSHIP (universe_mreq (sc_joined_universe s) eth) s else s)
           in if want = 0 then s\<lparr>sc_joined_universe := 0\<rparr>
              else
                let s = IP_ADD_MEMBERSHIP join_ok (universe_mreq want eth) s
                in if \<not> join_ok then s\<lparr>sc_joined_universe := 0\<rparr>
                   else s\<lparr>sc_joined_universe := want\<rparr>)"

definition dmx_sacn_open ::
  "bool \<Rightarrow> bool \<Rightarrow> bool \<Rightarrow> eth_state \<Rightarrow> dmx_input_config \<Rightarrow> sacn_state \<Rightarrow> bool \<times> sacn_state" where
  "dmx_sacn_open socket_ok bind_ok join_ok eth cfg s =
     (if \<not> socket_ok then (False, s)
      else if \<not> bind_ok then (False, s)
      else (True, sync_membership join_ok eth cfg (s\<lparr>sc_joined_universe := 0\<rparr>)))"

text \<open>Closing the socket releases every membership it still holds.\<close>

definition dmx_sacn_close :: "bool \<Rightarrow> eth_state \<Rightarrow> sacn_state \<Rightarrow> sacn_state" where
  "dmx_sacn_close sock_ok eth s =
     (if \<not> sock_ok then s
      else
        let s = (if sc_joined_universe s \<noteq> 0
                 then (IP_DROP_MEMBERSHIP (universe_mreq (sc_joined_universe s) eth) s)\<lparr>sc_joined_universe := 0\<rparr>
                 else s)
        in s\<lparr>sc_groups := []\<rparr>)"

definition dmx_sacn_rejoin :: "bool \<Rightarrow> bool \<Rightarrow> eth_state \<Rightarrow> dmx_input_config \<Rightarrow> sacn_state \<Rightarrow> sacn_state" where
  "dmx_sacn_rejoin sock_ok join_ok eth cfg s = (if sock_ok then sync_membership join_ok eth cfg s else s)"

section \<open>The receiver interface\<close>

lemma sacn_slot_count_bound:
  assumes "SACN_MIN_LEN \<le> len"
  shows "unat (sacn_slot_count prop_count len) \<le> 512"
    and "SACN_OFF_PROP_VALUES + 1 + unat (sacn_slot_count prop_count len) \<le> len"
proof -
  let ?c = "if 512 < prop_count - 1 then 512 else prop_count - 1"
  have c: "unat ?c \<le> 512" by (auto simp: word_less_unat not_less)
  have "unat (sacn_slot_count prop_count len) \<le> 512 \<and> 126 + unat (sacn_slot_count prop_count len) \<le> len"
  proof (cases "len < 126 + unat ?c")
    case True
    then have "len - 126 < 512" using c by linarith
    then have "unat (of_nat (len - 126) :: u16) = len - 126"
      by (simp add: unsigned_of_nat take_bit_nat_eq_self)
    then have "unat (sacn_slot_count prop_count len) = len - 126"
      using True by (simp add: sacn_slot_count_def Let_def fw_const)
    then show ?thesis using \<open>len - 126 < 512\<close> assms by (simp add: fw_const)
  next
    case False
    then have "sacn_slot_count prop_count len = ?c"
      by (simp add: sacn_slot_count_def Let_def fw_const)
    then show ?thesis using False c by simp
  qed
  then show "unat (sacn_slot_count prop_count len) \<le> 512"
    "SACN_OFF_PROP_VALUES + 1 + unat (sacn_slot_count prop_count len) \<le> len"
    by (simp_all add: fw_const)
qed

lemma sacn_frame_SomeE:
  assumes "sacn_frame cfg buf src_ip = Some f"
  shows "SACN_MIN_LEN \<le> length buf" and "get_u16_be buf SACN_OFF_UNIVERSE = xc_sacn_universe cfg"
    and "xc_layer_enabled cfg \<noteq> 0" and "xc_proto_mask cfg AND DMX_PROTO_SACN \<noteq> 0"
    and "buf ! SACN_OFF_OPTIONS AND SACN_OPT_PREVIEW = 0"
    and "f = \<lparr>fr_kind = DMX_FRAME_SACN, fr_src_ip = src_ip, fr_source_id = slice SACN_OFF_CID 16 buf,
      fr_priority = buf ! SACN_OFF_PRIORITY, fr_sequence = buf ! SACN_OFF_SEQUENCE,
      fr_terminated = (buf ! SACN_OFF_OPTIONS AND SACN_OPT_TERMINATED \<noteq> 0),
      fr_nslots = sacn_slot_count (get_u16_be buf SACN_OFF_PROP_COUNT) (length buf),
      fr_slots = drop (SACN_OFF_PROP_VALUES + 1) buf\<rparr>"
  using assms by (simp_all add: sacn_frame_def Let_def split: if_splits)

interpretation sacn: dmx_receiver sacn_frame DMX_PROTO_SACN
proof
  fix cfg buf ip f
  assume f: "sacn_frame cfg buf ip = Some f"
  note d = sacn_frame_SomeE [OF f]
  show "frame_ok f"
    using sacn_slot_count_bound [OF d(1), of "get_u16_be buf SACN_OFF_PROP_COUNT"] d(1)
    by (simp add: frame_ok_def d(6) length_slice fw_const)
  show "xc_layer_enabled cfg \<noteq> 0 \<and> xc_proto_mask cfg AND DMX_PROTO_SACN \<noteq> 0" using d(3,4) by simp
  show "fr_src_ip f = ip" by (simp add: d(6))
qed

lemma sacn_handle_receive:
  "dn_mg (dmx_sacn_handle e buf ip n) = sacn.receive (rx_now e) (dmx_cfg_snapshot (dn_xs n)) buf ip (dn_mg n)"
  "dn_xs (dmx_sacn_handle e buf ip n) = dn_xs n"
  by (simp_all add: dmx_sacn_handle_def sacn.receive_def split: option.split)

section \<open>Membership over time\<close>











section \<open>Properties\<close>




end
