(* ===== verification/DMX_Task.thy ===== *)
theory DMX_Task
  imports DMX_Artnet DMX_Sacn
begin

text \<open>
  The task of \<open>components/dmx_input/dmx_input.c\<close>: one iteration of \<open>dmx_input_task\<close> (configuration
  change, periodic re-join, at most one datagram per socket, the 22 ms cadence) and
  \<open>dmx_input_start\<close>. What the sockets, the clock and the network stack deliver during an
  iteration is its input.
\<close>

section \<open>State and input of an iteration\<close>

definition RX_BUF_SIZE :: nat where [fw_const]: "RX_BUF_SIZE = 640"

record dmx_task =
  tk_node :: dmx_node
  tk_sacn :: sacn_state
  tk_artnet_sock :: bool                \<comment> \<open>the descriptor is valid\<close>
  tk_sacn_sock :: bool
  tk_next_tick_us :: int
  tk_rejoin_divider :: nat

text \<open>A received datagram: its bytes, source address and port, and the time it is handled.\<close>

record task_input =
  ti_eth :: eth_state
  ti_nvs :: nvs_outcome
  ti_efuse :: "bytes option"
  ti_join_changed :: bool               \<comment> \<open>outcome of the join after a configuration change\<close>
  ti_join_periodic :: bool              \<comment> \<open>outcome of the periodic join\<close>
  ti_artnet :: "(bytes \<times> u32 \<times> u16 \<times> int) option"
  ti_sacn :: "(bytes \<times> u32 \<times> u16 \<times> int) option"
  ti_now :: int                         \<comment> \<open>time after the sockets were served\<close>

section \<open>The iteration\<close>

definition task_config_change :: "task_input \<Rightarrow> dmx_task \<Rightarrow> dmx_task" where
  "task_config_change i t =
     (let n = tk_node t
      in if xs_cfg_changed (dn_xs n) then
           let n = n\<lparr>dn_xs := (dn_xs n)\<lparr>xs_cfg_changed := False\<rparr>\<rparr>;
               cfg = dmx_cfg_snapshot (dn_xs n);
               n = (if xc_layer_enabled cfg = 0 then n\<lparr>dn_mg := drop_all_sources (dn_mg n)\<rparr> else n)
           in t\<lparr>tk_node := n,
                tk_sacn := dmx_sacn_rejoin (tk_sacn_sock t) (ti_join_changed i) (ti_eth i)
                             (dmx_cfg_snapshot (dn_xs n)) (tk_sacn t)\<rparr>
         else t)"

definition task_rejoin :: "task_input \<Rightarrow> dmx_task \<Rightarrow> dmx_task" where
  "task_rejoin i t =
     (let t = t\<lparr>tk_rejoin_divider := tk_rejoin_divider t + 1\<rparr>
      in if nat (2000 div ACTUATE_INTERVAL_MS) \<le> tk_rejoin_divider t
         then t\<lparr>tk_rejoin_divider := 0,
                tk_sacn := dmx_sacn_rejoin (tk_sacn_sock t) (ti_join_periodic i) (ti_eth i)
                             (dmx_cfg_snapshot (dn_xs (tk_node t))) (tk_sacn t)\<rparr>
         else t)"

text \<open>The time \<open>select\<close> waits at most, from the time it is called.\<close>

definition select_timeout_us :: "int \<Rightarrow> dmx_task \<Rightarrow> int" where
  "select_timeout_us now t =
     (let wait_us = tk_next_tick_us t - now in if wait_us < 0 then 0 else wait_us)"

definition task_rx_env :: "task_input \<Rightarrow> int \<Rightarrow> rx_env" where
  "task_rx_env i now = \<lparr>rx_now = now, rx_nvs = ti_nvs i, rx_efuse = ti_efuse i, rx_eth = ti_eth i\<rparr>"

text \<open>The two passes over the sockets; \<open>recvfrom\<close> cuts a datagram at the buffer size.\<close>

definition task_receive :: "task_input \<Rightarrow> dmx_task \<Rightarrow> dmx_task" where
  "task_receive i t =
     (let t = (case ti_artnet i of
                 None \<Rightarrow> t
               | Some (datagram, src_ip, src_port, now) \<Rightarrow>
                   let rx = take RX_BUF_SIZE datagram
                   in if \<not> tk_artnet_sock t \<or> rx = [] then t
                      else t\<lparr>tk_node := dmx_artnet_handle (task_rx_env i now) rx src_ip src_port (tk_node t)\<rparr>)
      in case ti_sacn i of
           None \<Rightarrow> t
         | Some (datagram, src_ip, src_port, now) \<Rightarrow>
             let rx = take RX_BUF_SIZE datagram
             in if \<not> tk_sacn_sock t \<or> rx = [] then t
                else t\<lparr>tk_node := dmx_sacn_handle (task_rx_env i now) rx src_ip (tk_node t)\<rparr>)"

definition task_actuate ::
  "task_input \<Rightarrow> tps_state \<Rightarrow> pm_statics \<Rightarrow> dmx_task \<times> hv_state \<Rightarrow> dmx_task \<times> hv_state" where
  "task_actuate i tps pm = (\<lambda>(t, hv).
     (let now = ti_now i
      in if tk_next_tick_us t \<le> now then
           let (m, hv) = merge_tick now (dmx_cfg_snapshot (dn_xs (tk_node t))) tps pm (dn_mg (tk_node t), hv);
               next_tick = tk_next_tick_us t + ACTUATE_INTERVAL_MS * 1000;
               next_tick = (if next_tick < now then now + ACTUATE_INTERVAL_MS * 1000 else next_tick)
           in (t\<lparr>tk_node := (tk_node t)\<lparr>dn_mg := m\<rparr>, tk_next_tick_us := next_tick\<rparr>, hv)
         else (t, hv)))"

definition dmx_input_iterate ::
  "task_input \<Rightarrow> tps_state \<Rightarrow> pm_statics \<Rightarrow> dmx_task \<times> hv_state \<Rightarrow> dmx_task \<times> hv_state" where
  "dmx_input_iterate i tps pm = (\<lambda>(t, hv).
     task_actuate i tps pm (task_receive i (task_rejoin i (task_config_change i t)), hv))"

section \<open>Start\<close>

text \<open>The sockets the task opens first; with neither it ends.\<close>

definition dmx_input_task_start ::
  "bool \<times> bool \<Rightarrow> bool \<times> bool \<times> bool \<Rightarrow> eth_state \<Rightarrow> int \<Rightarrow> sacn_state \<Rightarrow> dmx_node \<Rightarrow> dmx_task option" where
  "dmx_input_task_start artnet_out sacn_out eth now sc n =
     (let artnet_sock = dmx_artnet_open (fst artnet_out) (snd artnet_out);
          (sacn_sock, sc) = dmx_sacn_open (fst sacn_out) (fst (snd sacn_out)) (snd (snd sacn_out)) eth
             (dmx_cfg_snapshot (dn_xs n)) sc
      in if \<not> artnet_sock \<and> \<not> sacn_sock then None
         else Some \<lparr>tk_node = n, tk_sacn = sc, tk_artnet_sock = artnet_sock, tk_sacn_sock = sacn_sock,
                    tk_next_tick_us = now, tk_rejoin_divider = 0\<rparr>)"

text \<open>\<open>lock_ok\<close> and \<open>task_ok\<close> are the outcomes of creating the mutex and the task.\<close>

definition dmx_input_start :: "bool \<Rightarrow> bool \<Rightarrow> nvs_outcome \<Rightarrow> dmx_node \<Rightarrow> dmx_node" where
  "dmx_input_start lock_ok task_ok o' n =
     (if xs_started (dn_xs n) then n
      else if \<not> lock_ok then n
      else
        let n = n\<lparr>dn_xs := dmx_config_load o' (dn_xs n)\<rparr>;
            n = n\<lparr>dn_mg := drop_all_sources (dn_mg n)\<rparr>;
            n = n\<lparr>dn_xs := (dn_xs n)\<lparr>xs_started := True\<rparr>\<rparr>
        in if \<not> task_ok then n\<lparr>dn_xs := (dn_xs n)\<lparr>xs_started := False\<rparr>\<rparr> else n)"

section \<open>The invariant of the task\<close>

definition task_ok :: "dmx_task \<Rightarrow> bool" where
  "task_ok t \<longleftrightarrow> table_ok (dn_mg (tk_node t)) \<and> dmx_config_valid (xs_cfg (dn_xs (tk_node t)))"

lemma artnet_handle_table:
  "table_ok (dn_mg n) \<Longrightarrow> table_ok (dn_mg (dmx_artnet_handle e buf ip port n))"
  by (auto simp: dmx_artnet_handle_def handle_address_def handle_dmx_receive artnet.receive_table cancel_table
        Let_def split_def split: option.split)

lemma artnet_handle_valid:
  "dmx_config_valid (xs_cfg (dn_xs n)) \<Longrightarrow> dmx_config_valid (xs_cfg (dn_xs (dmx_artnet_handle e buf ip port n)))"
  by (auto simp: dmx_artnet_handle_def handle_address_def dmx_set_config_valid Let_def split_def split: option.split)

lemma receive_ok: "task_ok t \<Longrightarrow> task_ok (task_receive i t)"
proof -
  have "task_ok (t\<lparr>tk_node := dmx_artnet_handle e buf ip port (tk_node t)\<rparr>)" if "task_ok t" for e buf ip port t
    using that by (simp add: task_ok_def artnet_handle_table artnet_handle_valid)
  moreover have "task_ok (t\<lparr>tk_node := dmx_sacn_handle e buf ip (tk_node t)\<rparr>)" if "task_ok t" for e buf ip t
    using that by (simp add: task_ok_def sacn_handle_receive sacn.receive_table)
  ultimately show "task_ok t \<Longrightarrow> task_ok (task_receive i t)"
    by (auto simp: task_receive_def Let_def split: option.split prod.split)
qed

lemma config_change_ok: "task_ok t \<Longrightarrow> task_ok (task_config_change i t)"
  by (simp add: task_config_change_def task_ok_def Let_def)

lemma rejoin_ok: "task_ok t \<Longrightarrow> task_ok (task_rejoin i t)"
  by (simp add: task_rejoin_def task_ok_def Let_def)

lemma actuate_ok: "task_ok t \<Longrightarrow> task_ok (fst (task_actuate i tps pm (t, hv)))"
  by (simp add: task_actuate_def task_ok_def Let_def split_def tick_table)

lemma iterate_ok: "task_ok t \<Longrightarrow> task_ok (fst (dmx_input_iterate i tps pm (t, hv)))"
  by (simp add: dmx_input_iterate_def actuate_ok receive_ok rejoin_ok config_change_ok)

section \<open>The disabled layer\<close>

definition layer_off :: "dmx_task \<Rightarrow> bool" where
  "layer_off t \<longleftrightarrow> xc_layer_enabled (xs_cfg (dn_xs (tk_node t))) = 0"

definition engine_quiet :: "dmx_merge \<Rightarrow> bool" where
  "engine_quiet m \<longleftrightarrow> list_all (\<lambda>s. \<not> sr_in_use s) (mg_sources m) \<and> mg_loss_applied m"

lemma quiet_drop [simp]: "engine_quiet (drop_all_sources m)"
  by (simp add: engine_quiet_def drop_all_sources_def dmx_source_zero_def list_all_iff)

lemma quiet_cancel: "engine_quiet m \<Longrightarrow> engine_quiet (dmx_merge_cancel m)"
  by (auto simp: engine_quiet_def dmx_merge_cancel_def Let_def list_all_iff enumerate_eq_zip dest!: set_zip_rightD
        split: if_splits)

lemma quiet_no_live: "engine_quiet m \<Longrightarrow> live_sources now cfg m = []"
  by (auto simp: engine_quiet_def list_all_iff filter_empty_conv live_sources_def prune_sources_def)

lemma quiet_tick:
  assumes "engine_quiet m"
  shows "snd (merge_tick now cfg tps pm (m, hv)) = hv" and "engine_quiet (fst (merge_tick now cfg tps pm (m, hv)))"
proof -
  show "snd (merge_tick now cfg tps pm (m, hv)) = hv"
    using assms by (simp add: tick_driver quiet_no_live) (simp add: engine_quiet_def)
  show "engine_quiet (fst (merge_tick now cfg tps pm (m, hv)))"
    using assms by (simp add: engine_quiet_def tick_engine quiet_no_live [unfolded engine_quiet_def])
       (auto simp: prune_sources_def list_all_iff)
qed

lemma artnet_handle_off:
  assumes "xc_layer_enabled (xs_cfg (dn_xs n)) = 0" and "engine_quiet (dn_mg n)"
  shows "xc_layer_enabled (xs_cfg (dn_xs (dmx_artnet_handle e buf ip port n))) = 0"
    and "engine_quiet (dn_mg (dmx_artnet_handle e buf ip port n))"
proof -
  have "handle_dmx now buf ip (dn_xs n) m = m" for now m
    using assms(1) by (simp add: handle_dmx_receive artnet.receive_disabled dmx_cfg_snapshot_def)
  then show "xc_layer_enabled (xs_cfg (dn_xs (dmx_artnet_handle e buf ip port n))) = 0"
    and "engine_quiet (dn_mg (dmx_artnet_handle e buf ip port n))"
    using assms
    by (auto simp: dmx_artnet_handle_def handle_address_def Let_def split_def dmx_input_set_config_def
          dmx_cfg_snapshot_def dmx_sanitize_fields quiet_cancel split: option.split)
qed

lemma receive_off:
  assumes "layer_off t" and "engine_quiet (dn_mg (tk_node t))"
  shows "layer_off (task_receive i t) \<and> engine_quiet (dn_mg (tk_node (task_receive i t)))"
proof -
  let ?ok = "\<lambda>n. xc_layer_enabled (xs_cfg (dn_xs n)) = 0 \<and> engine_quiet (dn_mg n)"
  have art: "?ok (dmx_artnet_handle e buf ip port n)" if "?ok n" for e buf ip port n
    using that artnet_handle_off by blast
  have sac: "?ok (dmx_sacn_handle e buf ip n)" if "?ok n" for e buf ip n
    using that by (simp add: sacn_handle_receive sacn.receive_disabled dmx_cfg_snapshot_def)
  have "?ok (tk_node t)" using assms by (simp add: layer_off_def)
  then have "?ok (tk_node (task_receive i t))"
    using art sac by (auto simp: task_receive_def Let_def split: option.split prod.split)
  then show ?thesis by (simp add: layer_off_def)
qed

text \<open>Off, and either idle already or about to notice the change.\<close>

definition task_passive :: "dmx_task \<Rightarrow> bool" where
  "task_passive t \<longleftrightarrow> layer_off t \<and> (xs_cfg_changed (dn_xs (tk_node t)) \<or> engine_quiet (dn_mg (tk_node t)))"

lemma iterate_passive:
  assumes "task_passive t"
  shows "snd (dmx_input_iterate i tps pm (t, hv)) = hv"
    and "task_passive (fst (dmx_input_iterate i tps pm (t, hv)))"
proof -
  let ?t1 = "task_rejoin i (task_config_change i t)"
  have "layer_off ?t1 \<and> engine_quiet (dn_mg (tk_node ?t1))"
    using assms
    by (simp add: task_passive_def task_rejoin_def task_config_change_def layer_off_def dmx_cfg_snapshot_def Let_def)
       auto
  then have q: "layer_off (task_receive i ?t1)" "engine_quiet (dn_mg (tk_node (task_receive i ?t1)))"
    using receive_off by blast+
  show "snd (dmx_input_iterate i tps pm (t, hv)) = hv"
    using quiet_tick(1) [OF q(2)] by (simp add: dmx_input_iterate_def task_actuate_def Let_def split_def)
  show "task_passive (fst (dmx_input_iterate i tps pm (t, hv)))"
    using q quiet_tick(2) [OF q(2)]
    by (simp add: dmx_input_iterate_def task_actuate_def Let_def split_def task_passive_def layer_off_def)
qed

text \<open>Iterations against changing surroundings: the monitor and the policy state vary freely.\<close>

fun dmx_input_run ::
  "(task_input \<times> tps_state \<times> pm_statics) list \<Rightarrow> dmx_task \<times> hv_state \<Rightarrow> dmx_task \<times> hv_state" where
  "dmx_input_run [] st = st"
| "dmx_input_run ((i, tps, pm) # is) st = dmx_input_run is (dmx_input_iterate i tps pm st)"

lemma run_passive: "task_passive t \<Longrightarrow> snd (dmx_input_run is (t, hv)) = hv"
proof (induction "is" arbitrary: t hv)
  case (Cons x "is")
  obtain i tps pm where x: "x = (i, tps, pm)" by (cases x)
  obtain t' hv' where it: "dmx_input_iterate i tps pm (t, hv) = (t', hv')" by fastforce
  then show ?case
    using Cons.IH [of t' hv'] iterate_passive [OF Cons.prems, of i tps pm hv] by (simp add: x)
qed simp

lemma run_ok: "task_ok t \<Longrightarrow> task_ok (fst (dmx_input_run is (t, hv)))"
proof (induction "is" arbitrary: t hv)
  case (Cons x "is")
  obtain i tps pm where x: "x = (i, tps, pm)" by (cases x)
  obtain t' hv' where it: "dmx_input_iterate i tps pm (t, hv) = (t', hv')" by fastforce
  then show ?case
    using Cons.IH [of t' hv'] iterate_ok [OF Cons.prems, of i tps pm hv] by (simp add: x)
qed simp

end
