(* ===== verification/DMX_Merge_Properties.thy ===== *)
theory DMX_Merge_Properties
  imports DMX_Merge_Facts
begin

text \<open>
  The properties of the DMX merge engine: the level map, who wins a merge, what a tick may do
  to the LED driver, the handling of signal loss, and the life of a source slot.
\<close>

section \<open>Level map and merge\<close>

lemma level_mono_8: "hi \<le> (hi' :: nat) \<Longrightarrow> (hi * 100 + 127) div 255 \<le> (hi' * 100 + 127) div 255"
  by (intro div_le_mono) simp

text \<open>
  The level map never exceeds 100 %, is monotone in the received level for both
  personalities, maps level zero to 0 and full level to 100.
\<close>

theorem dmx_level_map:
  assumes "xc_personality cfg = DMX_PERSONALITY_2CH_16BIT \<longrightarrow> level_value hi lo \<le> level_value hi' lo'"
    and "xc_personality cfg \<noteq> DMX_PERSONALITY_2CH_16BIT \<longrightarrow> hi \<le> hi'"
  shows "level_to_percent cfg hi lo \<le> level_to_percent cfg hi' lo' \<and> level_to_percent cfg hi' lo' \<le> 100
       \<and> level_to_percent cfg 0 0 = 0 \<and> level_to_percent cfg 255 255 = 100"
proof (cases "xc_personality cfg = DMX_PERSONALITY_2CH_16BIT")
  case True
  have "(level_value hi lo * 100 + 32767) div 65535 \<le> (level_value hi' lo' * 100 + 32767) div 65535"
    using assms(1) True by (intro div_le_mono) simp
  then have mono: "level_to_percent cfg hi lo \<le> level_to_percent cfg hi' lo'"
    by (simp add: word_le_unat unat_level_16 [OF True])
  have "unat (level_to_percent cfg 0 0) = unat (0 :: u8)" "unat (level_to_percent cfg 255 255) = unat (100 :: u8)"
    by (simp_all add: unat_level_16 [OF True] level_value_def)
  then show ?thesis using mono level_to_percent_le by (simp only: word_unat_eq_iff simp_thms)
next
  case False
  have "(unat hi * 100 + 127) div 255 \<le> (unat hi' * 100 + 127) div 255"
    using assms(2) False by (intro level_mono_8) (simp add: word_le_unat)
  then have mono: "level_to_percent cfg hi lo \<le> level_to_percent cfg hi' lo'"
    by (simp add: word_le_unat unat_level_8 [OF False])
  have "unat (level_to_percent cfg 0 0) = unat (0 :: u8)" "unat (level_to_percent cfg 255 255) = unat (100 :: u8)"
    by (simp_all add: unat_level_8 [OF False])
  then show ?thesis using mono level_to_percent_le by (simp only: word_unat_eq_iff simp_thms)
qed

theorem dmx_level_map_witness:
  "level_to_percent dmx_config_defaults 10 0 \<le> level_to_percent dmx_config_defaults 200 0"
  using dmx_level_map [of dmx_config_defaults 10 0 200 0]
  by (simp add: dmx_config_defaults_def fw_const)

text \<open>
  C35: with at least one live source, the merged level is that of a live source of the
  highest live priority: in HTP mode of the one with the greatest level, in LTP mode of the one
  that arrived last; timed-out and lower-priority sources have no influence.
\<close>

theorem merge_picks_winner:
  assumes "live_sources now cfg m \<noteq> []" and "\<forall>s \<in> set (mg_sources m). 0 \<le> sr_arrived_seq_us s"
  shows "let ws = {s \<in> set (live_sources now cfg m).
                     \<forall>t \<in> set (live_sources now cfg m). sr_priority t \<le> sr_priority s};
             (hi, lo) = merge_level cfg (winning_sources now cfg m)
     in (if xc_merge_mode cfg = DMX_MERGE_LTP
         then \<exists>s \<in> ws. hi = sr_ch0 s \<and> lo = sr_ch1 s \<and> (\<forall>t \<in> ws. sr_arrived_seq_us t \<le> sr_arrived_seq_us s)
         else level_value hi lo = Max (source_level ` ws))"
proof -
  let ?ws = "winning_sources now cfg m"
  have ws: "?ws \<noteq> []" by (rule winning_nonempty [OF assms(1)])
  have arr: "\<forall>s \<in> set ?ws. 0 \<le> sr_arrived_seq_us s"
  proof
    fix s assume "s \<in> set ?ws"
    then have "s \<in> set (mg_sources m)"
      by (auto simp: winning_sources_def Let_def live_source_iff)
    then show "0 \<le> sr_arrived_seq_us s" using assms(2) by blast
  qed
  have max0: "Max (insert 0 (source_level ` set ?ws)) = Max (source_level ` set ?ws)"
    using ws by simp
  obtain hi lo where ml: "merge_level cfg ?ws = (hi, lo)" by fastforce
  show ?thesis
  proof (cases "xc_merge_mode cfg = DMX_MERGE_LTP")
    case True
    have "\<exists>s \<in> set ?ws. hi = sr_ch0 s \<and> lo = sr_ch1 s \<and> (\<forall>t \<in> set ?ws. sr_arrived_seq_us t \<le> sr_arrived_seq_us s)"
      using ltp_fold [OF arr ws] ml True by (auto simp: merge_level_def)
    then show ?thesis using True ml unfolding Let_def winning_set [OF assms(1), symmetric] by simp
  next
    case False
    have "level_value hi lo = Max (source_level ` set ?ws)"
      using htp_fold_value [of ?ws "(0, 0)"] ml False max0 by (simp add: merge_level_def level_value_def)
    then show ?thesis using False ml unfolding Let_def winning_set [OF assms(1), symmetric] by simp
  qed
qed

definition example_source :: "u8 \<Rightarrow> u8 \<Rightarrow> int \<Rightarrow> dmx_source" where
  "example_source n level t = dmx_source_zero\<lparr>sr_in_use := True, sr_source_id := replicate 16 n,
     sr_priority := 100, sr_last_seen_us := t, sr_arrived_seq_us := t, sr_ch0 := level\<rparr>"

definition example_merge :: dmx_merge where
  "example_merge = dmx_merge_statics\<lparr>mg_sources :=
     [example_source 1 200 5000, example_source 2 80 9000, dmx_source_zero, dmx_source_zero]\<rparr>"

lemma example_live: "live_sources 10000 dmx_config_defaults example_merge = [example_source 1 200 5000, example_source 2 80 9000]"
  by (simp add: live_sources_def prune_sources_def example_merge_def example_source_def dmx_source_zero_def
        dmx_config_defaults_def)

theorem merge_picks_winner_witness:
  "level_value (fst (merge_level dmx_config_defaults (winning_sources 10000 dmx_config_defaults example_merge)))
     (snd (merge_level dmx_config_defaults (winning_sources 10000 dmx_config_defaults example_merge))) = 51200"
proof -
  have arr: "\<forall>s \<in> set (mg_sources example_merge). 0 \<le> sr_arrived_seq_us s"
    by (simp add: example_merge_def example_source_def dmx_source_zero_def)
  have ws: "{s \<in> set (live_sources 10000 dmx_config_defaults example_merge).
      \<forall>t \<in> set (live_sources 10000 dmx_config_defaults example_merge). sr_priority t \<le> sr_priority s}
      = {example_source 1 200 5000, example_source 2 80 9000}"
    unfolding example_live by (auto simp: example_source_def)
  have htp: "xc_merge_mode dmx_config_defaults \<noteq> DMX_MERGE_LTP"
    by (simp add: dmx_config_defaults_def fw_const)
  show ?thesis
    using merge_picks_winner [OF _ arr, of 10000 dmx_config_defaults] htp unfolding ws Let_def
    by (simp add: example_live split_def)
       (simp add: source_level_def level_value_def example_source_def dmx_source_zero_def)
qed

section \<open>What a tick may do to the driver\<close>

text \<open>
  While a source is live, a tick commands the driver only when power is confirmed, the
  policy allows output, the level differs from the last one applied and 22 ms have passed
  since the last actuation; it then records level and time, so two actuations are never
  closer. In every other case the driver is untouched.
\<close>

theorem tick_is_gated:
  assumes "live_sources now cfg m \<noteq> []"
    and "snd (merge_tick now cfg tps pm (m, hv)) \<noteq> hv"
  shows "tps2378_is_ready tps \<and> power_manager_output_allowed pm \<and> mg_last_actuate_us m + 22000 \<le> now
       \<and> int (unat (merged_percent now cfg m)) \<noteq> mg_last_applied_pct m
       \<and> mg_last_applied_pct (fst (merge_tick now cfg tps pm (m, hv))) = int (unat (merged_percent now cfg m))
       \<and> mg_last_actuate_us (fst (merge_tick now cfg tps pm (m, hv))) = now
       \<and> snd (merge_tick now cfg tps pm (m, hv)) \<in>
           {hv9910_set_dim (merged_percent now cfg m) hv, hv9910_enable_at (merged_percent now cfg m) hv}"
proof -
  have act: "tick_actuates now cfg tps pm m"
    using assms by (auto simp: tick_driver split: if_splits)
  then show ?thesis
    using assms unfolding tick_driver tick_engine
    by (auto simp: tick_actuates_def split: if_splits)
qed

definition example_pm :: pm_statics where
  "example_pm = pm_statics_init\<lparr>pm_state := POWER_MANAGER_ACTIVE_CAPPED, pm_scale_pct := 51\<rparr>"

lemma example_percent: "merged_percent 10000 dmx_config_defaults example_merge = 78"
  by code_simp

theorem tick_is_gated_witness:
  "mg_last_actuate_us (fst (merge_tick 10000 dmx_config_defaults tps_type1 example_pm
     (example_merge\<lparr>mg_last_actuate_us := -20000\<rparr>, lit_example))) = 10000"
proof -
  let ?m = "example_merge\<lparr>mg_last_actuate_us := -20000\<rparr>"
  have eq: "live_sources 10000 dmx_config_defaults ?m = live_sources 10000 dmx_config_defaults example_merge"
    "merged_percent 10000 dmx_config_defaults ?m = merged_percent 10000 dmx_config_defaults example_merge"
    by (simp_all add: live_sources_def merged_percent_def winning_sources_def)
  have act: "tick_actuates 10000 dmx_config_defaults tps_type1 example_pm ?m"
    by (simp add: tick_actuates_def eq example_percent tps2378_is_ready_def tps_type1_values
          power_manager_output_allowed_def example_pm_def pm_statics_init_def)
       (simp add: example_merge_def dmx_merge_statics_def)
  have "hv_cmd_queue (snd (merge_tick 10000 dmx_config_defaults tps_type1 example_pm (?m, lit_example)))
      = [HV_CMD_SET_DIM 78]"
    using act by (simp add: tick_driver eq example_live example_percent hv9910_is_enabled_def lit_example_enabled
        hv9910_set_dim_def post_cmd_queue lit_example_ready lit_example_queue fw_const)
  then have "snd (merge_tick 10000 dmx_config_defaults tps_type1 example_pm (?m, lit_example)) \<noteq> lit_example"
    using lit_example_queue by force
  then show ?thesis
    using tick_is_gated [of 10000 dmx_config_defaults ?m tps_type1 example_pm lit_example]
    by (simp add: eq example_live)
qed

lemma prune_prune_empty:
  "live_sources now cfg m = [] \<Longrightarrow> mg_sources m' = pruned now cfg m \<Longrightarrow> live_sources now' cfg' m' = []"
proof -
  assume a: "live_sources now cfg m = []" "mg_sources m' = pruned now cfg m"
  then have "\<forall>s \<in> set (mg_sources m'). \<not> sr_in_use s"
    by (simp add: live_sources_def filter_empty_conv)
  then show ?thesis by (simp add: live_sources_def prune_sources_def filter_empty_conv)
qed

text \<open>
  When every source is gone, the loss behaviour acts at most once: the tick releases
  control, and every later tick without a live source leaves the driver alone, whatever the
  admin channel did in between; HOLD never touches it at all.
\<close>

theorem loss_acts_once:
  assumes "live_sources now cfg m = []"
  shows "let m' = fst (merge_tick now cfg tps pm (m, hv))
     in snd (merge_tick now' cfg' tps' pm' (m', hv')) = hv'
        \<and> mg_last_applied_pct (fst (merge_tick now' cfg' tps' pm' (m', hv'))) = -1
        \<and> (xc_loss_behavior cfg = DMX_LOSS_HOLD \<longrightarrow> snd (merge_tick now cfg tps pm (m, hv)) = hv)"
proof -
  let ?m' = "fst (merge_tick now cfg tps pm (m, hv))"
  have m': "mg_sources ?m' = pruned now cfg m" "mg_loss_applied ?m'"
    using assms(1) by (simp_all add: tick_engine del: of_nat_unat)
  have "live_sources now' cfg' ?m' = []" using prune_prune_empty [OF assms(1) m'(1)] .
  then show ?thesis
    using m'(2) assms(1) by (simp add: tick_driver tick_engine apply_loss_def fw_const Let_def del: of_nat_unat)
qed

definition lost_merge :: dmx_merge where
  "lost_merge = example_merge\<lparr>mg_last_applied_pct := 78\<rparr>"

definition loss_config :: dmx_input_config where
  "loss_config = dmx_config_defaults\<lparr>xc_loss_behavior := DMX_LOSS_TO_LEVEL, xc_loss_level := 30\<rparr>"

lemma lost_example: "live_sources 9000000 loss_config lost_merge = []"
  by (simp add: live_sources_def prune_sources_def lost_merge_def loss_config_def example_merge_def
        example_source_def dmx_source_zero_def dmx_config_defaults_def)

theorem loss_acts_once_witness:
  "snd (merge_tick 9022000 loss_config tps_type1 example_pm
     (fst (merge_tick 9000000 loss_config tps_type1 example_pm (lost_merge, lit_example)), cut_example)) = cut_example"
  using loss_acts_once [OF lost_example, of tps_type1 example_pm lit_example 9022000 loss_config tps_type1
      example_pm cut_example] by (simp add: Let_def)

text \<open>
  C36: the loss behaviour ignores whether power is confirmed. After a power loss (state
  NO_POWER, driver dark with the power-cut latch set), a fixture configured to fall back to a
  level queues an ENABLE when its last source times out, and the driver's next iteration
  clears the latch and renders that level, although the monitor reports no power.
\<close>

theorem loss_relights_without_power:
  assumes "live_sources now cfg m = []" and "\<not> mg_loss_applied m" and "0 \<le> mg_last_applied_pct m"
    and "xc_loss_behavior cfg = DMX_LOSS_TO_LEVEL" and "0 < xc_loss_level cfg" and "xc_loss_level cfg \<le> 100"
    and "\<not> tps2378_is_ready tps" and "pm_state pm = POWER_MANAGER_NO_POWER"
    and "hv_task_ready hv" and "hv_cmd_queue hv = []" and "hv_dark hv" and "hv_power_cut hv"
  shows "let hv' = hv9910_task_step powf tick_hz t (snd (merge_tick now cfg tps pm (m, hv)))
     in \<not> hv_power_cut hv' \<and> hv_level_q hv' = pct_to_q (xc_loss_level cfg)
        \<and> hv_enabled hv' = want_lit (rendered powf (pct_to_q (xc_loss_level cfg)) hv)"
proof -
  have r: "snd (merge_tick now cfg tps pm (m, hv)) = hv9910_enable_at (xc_loss_level cfg) hv"
    using assms by (auto simp: tick_driver apply_loss_def power_manager_output_allowed_def hv_dark_def
        hv9910_is_enabled_def fw_const)
  have q: "hv_cmd_queue (hv9910_enable_at (xc_loss_level cfg) hv) = [HV_CMD_ENABLE (xc_loss_level cfg)]"
    using assms(6,9,10) by (simp add: hv9910_enable_at_def Let_def post_cmd_queue not_less [symmetric] fw_const)
  have same: "rendered powf l (hv9910_enable_at p hv\<lparr>hv_cmd_queue := [], hv_pending := PENDING_NONE,
      hv_desired_on := True, hv_power_cut := False, hv_last_nonzero_percent := x\<rparr>) = rendered powf l hv" for l p x
    by (rule rendered_cong) (simp_all add: hv9910_enable_at_def Let_def post_cmd_eq)
  show ?thesis
    using assms(5,6) by (simp add: r task_step_head [OF q] hv_do_enable_def hv_do_set_dim_def apply_level_output
        same Let_def not_less [symmetric])
qed

theorem loss_relights_without_power_witness:
  "\<not> hv_power_cut (hv9910_task_step (\<lambda>p e. p) 100 50 (snd (merge_tick 9000000 loss_config
     (poe_monitor_start \<lparr>tc_vbus_min_mv = 40000, tc_vbus_hysteresis_mv = 2000\<rparr> 0 1 0) pm_statics_init
     (lost_merge, cut_example\<lparr>hv_cmd_queue := []\<rparr>))))"
proof -
  have ready: "hv_task_ready cut_example"
    by (simp add: cut_example_def hv9910_set_dim_def hv9910_emergency_disable_def lit_example_ready)
  have "hv_dark cut_example"
    using inv_cut_dark [OF reachable_inv [OF cut_example_reachable]] cut_example_values by simp
  then have "hv_dark (cut_example\<lparr>hv_cmd_queue := []\<rparr>)" by (simp add: hv_dark_def)
  then show ?thesis
    using loss_relights_without_power [OF lost_example, of "poe_monitor_start \<lparr>tc_vbus_min_mv = 40000,
        tc_vbus_hysteresis_mv = 2000\<rparr> 0 1 0" pm_statics_init "cut_example\<lparr>hv_cmd_queue := []\<rparr>"
        "\<lambda>p e. p" 100 50] ready cut_example_values
    by (simp add: loss_config_def lost_merge_def example_merge_def dmx_merge_statics_def tps2378_is_ready_def
          poe_monitor_start_def pm_statics_init_def Let_def)
qed

text \<open>
  A live DMX signal at an unchanged level does not take the fixture back from the admin
  channel: as long as the merged level equals the last one applied, no tick commands the
  driver, whatever level, on or off state the admin channel has set since.
\<close>

theorem unchanged_level_not_reapplied:
  assumes "live_sources now cfg m \<noteq> []"
    and "int (unat (merged_percent now cfg m)) = mg_last_applied_pct m"
  shows "snd (merge_tick now cfg tps pm (m, hv)) = hv
       \<and> mg_last_applied_pct (fst (merge_tick now cfg tps pm (m, hv))) = mg_last_applied_pct m"
  using assms by (simp add: tick_driver tick_engine tick_actuates_def)

theorem unchanged_level_not_reapplied_witness:
  "snd (merge_tick 10000 dmx_config_defaults tps_type1 example_pm (lost_merge, cut_example)) = cut_example"
proof -
  have eq: "live_sources 10000 dmx_config_defaults lost_merge = live_sources 10000 dmx_config_defaults example_merge"
    "merged_percent 10000 dmx_config_defaults lost_merge = merged_percent 10000 dmx_config_defaults example_merge"
    by (simp_all add: lost_merge_def live_sources_def merged_percent_def winning_sources_def)
  show ?thesis
    using unchanged_level_not_reapplied [of 10000 dmx_config_defaults lost_merge tps_type1 example_pm cut_example]
    by (simp add: eq example_live example_percent) (simp add: lost_merge_def)
qed

section \<open>Receiving a frame\<close>

lemma nth_after: "(pre @ x # mid @ y # post) ! (length pre + 1 + length mid) = y"
  by (simp add: nth_append)

text \<open>
  One controller can occupy two slots. When the slot before its own has been freed, its
  next frame is stored in the free slot while the old slot stays live with the old level, so
  until it times out an HTP merge at that priority cannot fall below the old level, however low the
  controller now sends.
\<close>

theorem freed_slot_duplicates_source:
  assumes "mg_sources m = pre @ free # mid @ old # post"
    and "\<forall>s \<in> set pre. sr_in_use s \<and> sr_source_id s \<noteq> fr_source_id f"
    and "\<not> sr_in_use free" and "sr_in_use old" and "sr_source_id old = fr_source_id f"
    and "unat (xc_dmx_address cfg - 1) + dmx_channels cfg \<le> unat (fr_nslots f)" and "\<not> fr_terminated f"
  shows "let srcs = mg_sources (dmx_merge_submit now cfg f m); i = length pre; j = i + 1 + length mid
     in i < j \<and> j < length srcs \<and> sr_in_use (srcs ! i) \<and> sr_in_use (srcs ! j) \<and> srcs ! j = old
        \<and> sr_source_id (srcs ! i) = sr_source_id (srcs ! j)
        \<and> source_level old \<le> (case fold htp_step srcs (0, 0) of (hi, lo) \<Rightarrow> level_value hi lo)"
proof -
  let ?i = "length pre" and ?j = "length pre + 1 + length mid"
  have slot: "source_slot (fr_source_id f) (mg_sources m) = ?i"
    unfolding source_slot_def assms(1) using assms(2,3) by (subst source_slot_loop_first) auto
  have fi: "mg_sources m ! ?i = free" by (simp add: assms(1))
  obtain s where s: "mg_sources (dmx_merge_submit now cfg f m) = (mg_sources m)[?i := s]"
      "sr_in_use s" "sr_source_id s = fr_source_id f"
    using submit_slot [OF assms(6) _ slot, of now] assms(1,3,7) fi by auto
  let ?srcs = "mg_sources (dmx_merge_submit now cfg f m)"
  have len: "?j < length ?srcs" by (simp add: s(1) assms(1))
  have at: "?srcs ! ?i = s" "?srcs ! ?j = old"
    using nth_after [of pre s mid old post] by (simp_all add: s(1) assms(1))
  have "old \<in> set ?srcs" using len at(2) nth_mem by metis
  then have "source_level old \<le> Max (insert 0 (source_level ` set ?srcs))" by simp
  then have "source_level old \<le> (case fold htp_step ?srcs (0, 0) of (hi, lo) \<Rightarrow> level_value hi lo)"
    using htp_fold_value [of ?srcs "(0, 0)"] by (simp add: split_def level_value_def)
  then show ?thesis using len at s assms(4,5) by (simp add: Let_def)
qed

definition second_frame :: dmx_frame where
  "second_frame = \<lparr>fr_kind = DMX_FRAME_ARTNET, fr_src_ip = 2, fr_source_id = replicate 16 2,
     fr_priority = 100, fr_sequence = 0, fr_terminated = False, fr_nslots = 512, fr_slots = replicate 512 0\<rparr>"

theorem freed_slot_duplicates_source_witness:
  "\<exists>m. mg_sources m = [dmx_source_zero, example_source 2 80 9000, dmx_source_zero, dmx_source_zero]
     \<and> sr_in_use (mg_sources (dmx_merge_submit 12000 dmx_config_defaults second_frame m) ! 0)
     \<and> mg_sources (dmx_merge_submit 12000 dmx_config_defaults second_frame m) ! 1 = example_source 2 80 9000"
proof -
  let ?m = "dmx_merge_statics\<lparr>mg_sources := [dmx_source_zero, example_source 2 80 9000, dmx_source_zero, dmx_source_zero]\<rparr>"
  have "sr_in_use (mg_sources (dmx_merge_submit 12000 dmx_config_defaults second_frame ?m) ! 0)
     \<and> mg_sources (dmx_merge_submit 12000 dmx_config_defaults second_frame ?m) ! 1 = example_source 2 80 9000"
    using freed_slot_duplicates_source [of ?m "[]" dmx_source_zero "[]" "example_source 2 80 9000"
        "[dmx_source_zero, dmx_source_zero]" second_frame dmx_config_defaults 12000]
    by (simp add: second_frame_def example_source_def dmx_source_zero_def dmx_config_defaults_def
          dmx_channels_def fw_const Let_def)
  then show ?thesis by (intro exI [of _ ?m]) simp
qed

end
