(* ===== verification/DMX_Task_Properties.thy ===== *)
theory DMX_Task_Properties
  imports DMX_Task DMX_Merge_Properties
begin

text \<open>
  What holds of the DMX task as a whole: every byte the merge engine reads is a byte of the
  datagram, a disabled layer never touches the LED driver, the cadence never stalls, and what
  happens when a fifth controller meets a full source table.
\<close>

section \<open>Memory safety of the receive path\<close>

text \<open>Where the slots of a frame start in its datagram.\<close>

fun slots_offset :: "dmx_frame_kind \<Rightarrow> nat" where
  "slots_offset DMX_FRAME_ARTNET = 18"
| "slots_offset DMX_FRAME_SACN = 126"

text \<open>
  C40: whatever bytes arrive, when a decoded Art-Net or sACN frame is merged, every slot the
  merge engine reads is one of the announced slots and a byte of the received datagram, and
  the layer and the frame's protocol are enabled and its universe is the configured one.
\<close>

theorem dmx_reads_in_bounds:
  assumes "artnet_frame cfg buf ip = Some f \<or> sacn_frame cfg buf ip = Some f"
    and "dmx_merge_submit now cfg f m \<noteq> m"
  shows "list_all (\<lambda>i. i < unat (fr_nslots f) \<and> slots_offset (fr_kind f) + i < length buf
            \<and> fr_slots f ! i = buf ! (slots_offset (fr_kind f) + i)) (slots_read cfg)
    \<and> xc_layer_enabled cfg \<noteq> 0
    \<and> (case fr_kind f of
         DMX_FRAME_ARTNET \<Rightarrow> xc_proto_mask cfg AND DMX_PROTO_ARTNET \<noteq> 0
           \<and> push_bit 8 (ucast (buf ! 15) AND 0x7f) OR (ucast (buf ! 14) AND 0xff) = xc_artnet_port_address cfg AND 0x7fff
       | DMX_FRAME_SACN \<Rightarrow> xc_proto_mask cfg AND DMX_PROTO_SACN \<noteq> 0
           \<and> get_u16_be buf SACN_OFF_UNIVERSE = xc_sacn_universe cfg)"
proof -
  have n: "unat (xc_dmx_address cfg - 1) + dmx_channels cfg \<le> unat (fr_nslots f)"
    using assms(2) submit_ignored [of f cfg now m] by (meson not_le)
  have read: "i < unat (fr_nslots f)" if "i \<in> set (slots_read cfg)" for i
    using that n by (auto simp: slots_read_def)
  from assms(1) show ?thesis
  proof
    assume f: "artnet_frame cfg buf ip = Some f"
    note d = artnet_frame_SomeE [OF f]
    have "unat (get_u16_be buf 16) + 18 \<le> length buf" using d(1) by (simp add: fw_const)
    then show ?thesis using read d(4,5,7) by (simp add: d(6) list_all_iff fw_const) force
  next
    assume f: "sacn_frame cfg buf ip = Some f"
    note d = sacn_frame_SomeE [OF f]
    have "unat (sacn_slot_count (get_u16_be buf 123) (length buf)) + 126 \<le> length buf"
      using sacn_slot_count_bound(2) [OF d(1), of "get_u16_be buf 123"] by (simp add: fw_const)
    then show ?thesis using read d(2-4) by (simp add: d(6) list_all_iff fw_const) force
  qed
qed

definition example_artdmx :: bytes where
  "example_artdmx = ARTNET_ID @ [0x00, 0x50, 0, 14, 0, 0, 0x34, 0x12, 0, 2, 0x80, 0x40]"

definition artnet_patch :: dmx_input_config where
  "artnet_patch = dmx_config_defaults\<lparr>xc_layer_enabled := 1, xc_artnet_port_address := 0x1234\<rparr>"

lemma example_artdmx_frame:
  "artnet_frame artnet_patch example_artdmx 7 = Some \<lparr>fr_kind = DMX_FRAME_ARTNET, fr_src_ip = 7,
     fr_source_id = mem_u32 7 @ replicate 12 0, fr_priority = 100, fr_sequence = 0, fr_terminated = False,
     fr_nslots = 2, fr_slots = [0x80, 0x40]\<rparr>"
  unfolding artnet_patch_def by code_simp

lemma example_artdmx_merged:
  "dmx_merge_submit 5 artnet_patch \<lparr>fr_kind = DMX_FRAME_ARTNET, fr_src_ip = 7,
     fr_source_id = mem_u32 7 @ replicate 12 0, fr_priority = 100, fr_sequence = 0, fr_terminated = False,
     fr_nslots = 2, fr_slots = [0x80, 0x40]\<rparr> dmx_merge_statics \<noteq> dmx_merge_statics"
proof
  assume "dmx_merge_submit 5 artnet_patch \<lparr>fr_kind = DMX_FRAME_ARTNET, fr_src_ip = 7,
     fr_source_id = mem_u32 7 @ replicate 12 0, fr_priority = 100, fr_sequence = 0, fr_terminated = False,
     fr_nslots = 2, fr_slots = [0x80, 0x40]\<rparr> dmx_merge_statics = dmx_merge_statics" (is "?m = _")
  then have "mg_fps_count ?m = mg_fps_count dmx_merge_statics" by simp
  moreover have "mg_fps_count ?m = 1" "mg_fps_count dmx_merge_statics = 0"
    unfolding artnet_patch_def by code_simp+
  ultimately show False by simp
qed

theorem dmx_reads_in_bounds_witness:
  "slots_read artnet_patch = [0] \<and> slots_offset DMX_FRAME_ARTNET + 0 < length example_artdmx
   \<and> example_artdmx ! 18 = 0x80"
proof -
  have "slots_read artnet_patch = [0]"
    by (simp add: slots_read_def artnet_patch_def dmx_config_defaults_def dmx_channels_def fw_const)
  then show ?thesis
    using dmx_reads_in_bounds [OF disjI1 [OF example_artdmx_frame] example_artdmx_merged]
    by (simp add: list_all_iff)
qed

section \<open>A disabled layer\<close>

text \<open>
  Once the layer is switched off, the DMX task never commands the LED driver again, from
  the iteration that notices the change on: whatever datagrams, configuration changes by
  ArtAddress, clock readings and power events follow, over any number of iterations, the
  driver's queue, flags and outputs are the ones it had.
\<close>

theorem disabled_layer_is_passive:
  assumes "xs_started (dn_xs (tk_node t))"
    and "xc_layer_enabled cfg = 0"
  shows "snd (dmx_input_run is
    (t\<lparr>tk_node := (tk_node t)\<lparr>dn_xs := snd (dmx_input_set_config o' cfg (dn_xs (tk_node t)))\<rparr>\<rparr>, hv)) = hv"
  using assms
  by (intro run_passive)
     (simp add: task_passive_def layer_off_def dmx_input_set_config_def Let_def dmx_sanitize_fields)

definition example_task :: dmx_task where
  "example_task =
     \<lparr>tk_node = example_node\<lparr>dn_mg := lost_merge\<rparr>, tk_sacn = \<lparr>sc_joined_universe = 0, sc_groups = []\<rparr>,
      tk_artnet_sock = True, tk_sacn_sock = False, tk_next_tick_us = 0, tk_rejoin_divider = 0\<rparr>"

definition example_input :: "int \<Rightarrow> task_input" where
  "example_input now =
     \<lparr>ti_eth = \<lparr>et_got_ip = False, et_ip_info = \<lparr>ip_addr = 0, ip_netmask = 0, ip_gw = 0\<rparr>\<rparr>, ti_nvs = nvs_good,
      ti_efuse = None, ti_join_changed = False, ti_join_periodic = False,
      ti_artnet = Some (example_artdmx, 7, 6454, now), ti_sacn = None, ti_now = now\<rparr>"

theorem disabled_layer_is_passive_witness:
  "snd (dmx_input_run [(example_input 1000, tps_type1, example_pm), (example_input 30000, tps_type1, example_pm)]
     (example_task\<lparr>tk_node := (tk_node example_task)\<lparr>dn_xs := snd (dmx_input_set_config nvs_good dmx_config_defaults
        (dn_xs (tk_node example_task)))\<rparr>\<rparr>, cut_example)) = cut_example"
  by (rule disabled_layer_is_passive)
     (simp_all add: example_task_def example_node_def dmx_config_defaults_def)

section \<open>The cadence\<close>

text \<open>
  The task never blocks for more than one actuation interval: after an iteration that
  started with its deadline at most 22 ms ahead, \<open>select\<close> at any later time waits at most
  22 ms, and the tick runs exactly in the iterations that reach the deadline.
\<close>

theorem tick_cadence_bounded:
  assumes "tk_next_tick_us t \<le> ti_now i + 22000" and "ti_now i \<le> now"
  shows "let (t', hv') = dmx_input_iterate i tps pm (t, hv)
     in select_timeout_us now t' \<le> 22000 \<and> 0 \<le> select_timeout_us now t'
        \<and> tk_next_tick_us t' \<le> ti_now i + 22000
        \<and> (tk_next_tick_us t' = tk_next_tick_us t \<longleftrightarrow> ti_now i < tk_next_tick_us t)"
proof -
  have next_tick: "tk_next_tick_us (task_config_change i t) = tk_next_tick_us t"
    "tk_next_tick_us (task_rejoin i t) = tk_next_tick_us t"
    "tk_next_tick_us (task_receive i t) = tk_next_tick_us t" for t
    by (simp_all add: task_config_change_def task_rejoin_def task_receive_def Let_def split: option.split prod.split)
  then show ?thesis
    using assms
    by (simp add: dmx_input_iterate_def task_actuate_def Let_def split_def select_timeout_us_def fw_const)
qed

theorem tick_cadence_bounded_witness:
  "select_timeout_us 1500 (fst (dmx_input_iterate (example_input 1000) tps_type1 example_pm (example_task, cut_example))) \<le> 22000"
  using tick_cadence_bounded [of example_task "example_input 1000" 1500 tps_type1 example_pm cut_example]
  by (simp add: example_task_def example_input_def split_def Let_def)

section \<open>A full source table\<close>

text \<open>
  With four live controllers, a frame from a fifth one is measured against the sequence
  counter of the controller it would replace: inside the window it is dropped; outside,
  a frame that only announces the end of its own stream still removes that live controller.
\<close>

theorem fifth_source_meets_foreign_counter:
  assumes "list_all (\<lambda>s. sr_in_use s \<and> sr_source_id s \<noteq> fr_source_id f) (mg_sources m)" and "mg_sources m \<noteq> []"
    and "fr_kind f = DMX_FRAME_SACN" and "fr_sequence f \<noteq> 0"
    and "unat (xc_dmx_address cfg - 1) + dmx_channels cfg \<le> unat (fr_nslots f)"
  shows "let i = source_slot (fr_source_id f) (mg_sources m); victim = mg_sources m ! i;
             diff = sint (fr_sequence f - sr_last_seq victim); m' = dmx_merge_submit now cfg f m
     in i < length (mg_sources m) \<and> sr_in_use victim \<and> sr_source_id victim \<noteq> fr_source_id f
        \<and> (if sr_have_seq victim \<and> diff \<le> 0 \<and> -20 < diff then m' = m
           else sr_in_use (mg_sources m' ! i) = (\<not> fr_terminated f)
             \<and> sr_source_id (mg_sources m' ! i) = fr_source_id f)"
proof -
  let ?i = "source_slot (fr_source_id f) (mg_sources m)"
  let ?ch = "if xc_personality cfg = DMX_PERSONALITY_2CH_16BIT then 2 else 1 :: u32"
  have i: "?i < length (mg_sources m)" using assms(2) by (rule source_slot_bound)
  have v: "sr_in_use (mg_sources m ! ?i)" "sr_source_id (mg_sources m ! ?i) \<noteq> fr_source_id f"
    using assms(1) i by (simp_all add: list_all_length)
  have "unat (ucast (xc_dmx_address cfg - 1) + ?ch) = unat (xc_dmx_address cfg - 1) + dmx_channels cfg"
    using u16_lt [of "xc_dmx_address cfg - 1"] by (subst unat_add_small) (auto simp: dmx_channels_def)
  then have len: "\<not> (ucast (fr_nslots f) :: u32) < ucast (xc_dmx_address cfg - 1) + ?ch"
    using assms(5) by (simp add: word_less_unat)
  show ?thesis
    using i v len assms(3,4) by (auto simp: Let_def dmx_merge_submit_def)
qed

definition sacn_source :: "u8 \<Rightarrow> dmx_source" where
  "sacn_source k = dmx_source_zero\<lparr>sr_in_use := True, sr_kind := DMX_FRAME_SACN, sr_source_id := replicate 16 k,
     sr_have_seq := True, sr_last_seq := 10, sr_last_seen_us := 100\<rparr>"

definition fifth_frame :: dmx_frame where
  "fifth_frame = \<lparr>fr_kind = DMX_FRAME_SACN, fr_src_ip = 9, fr_source_id = replicate 16 9, fr_priority = 100,
     fr_sequence = 7, fr_terminated = False, fr_nslots = 512, fr_slots = replicate 512 255\<rparr>"

theorem fifth_source_meets_foreign_counter_witness:
  "dmx_merge_submit 200 dmx_config_defaults fifth_frame
     (dmx_merge_statics\<lparr>mg_sources := map sacn_source [1, 2, 3, 4]\<rparr>)
   = dmx_merge_statics\<lparr>mg_sources := map sacn_source [1, 2, 3, 4]\<rparr>"
proof -
  let ?m = "dmx_merge_statics\<lparr>mg_sources := map sacn_source [1, 2, 3, 4]\<rparr>"
  have slot: "source_slot (fr_source_id fifth_frame) (mg_sources ?m) = 0"
    by (simp add: source_slot_def sacn_source_def fifth_frame_def)
  have v: "mg_sources ?m ! 0 = sacn_source 1" "sr_have_seq (sacn_source 1)"
    "sint (fr_sequence fifth_frame - sr_last_seq (sacn_source 1)) = -3"
    by (simp_all add: sacn_source_def fifth_frame_def)
  have hyp: "list_all (\<lambda>s. sr_in_use s \<and> sr_source_id s \<noteq> fr_source_id fifth_frame) (mg_sources ?m)"
    "mg_sources ?m \<noteq> []" "fr_kind fifth_frame = DMX_FRAME_SACN" "fr_sequence fifth_frame \<noteq> 0"
    "unat (xc_dmx_address dmx_config_defaults - 1) + dmx_channels dmx_config_defaults \<le> unat (fr_nslots fifth_frame)"
    by (simp_all add: sacn_source_def fifth_frame_def dmx_config_defaults_def dmx_channels_def fw_const)
  show ?thesis
    using fifth_source_meets_foreign_counter [OF hyp, of 200] by (simp only: slot v Let_def) simp
qed

end
