(* ===== verification/Admin_Wire.thy ===== *)
theory Admin_Wire
  imports Network_Wire
begin

text \<open>
  The wire format of the admin protocol (\<open>components/admin_channel/admin_protocol.h\<close>) and the
  packet primitives of \<open>admin_channel.c\<close>: header parsing, packet assembly and the calls of the
  PSA crypto library. The algorithms are external: they are the functions of a record,
  and whether a call succeeds is an argument.
\<close>

section \<open>Constants\<close>

definition ADMIN_PROTO_MAGIC :: u32 where [fw_const]: "ADMIN_PROTO_MAGIC = 0x44504F45"
definition ADMIN_PROTO_VERSION :: u8 where [fw_const]: "ADMIN_PROTO_VERSION = 5"
definition ADMIN_SERIAL_LEN :: nat where [fw_const]: "ADMIN_SERIAL_LEN = 24"
definition ADMIN_NONCE_LEN :: nat where [fw_const]: "ADMIN_NONCE_LEN = 16"
definition ADMIN_HMAC_LEN :: nat where [fw_const]: "ADMIN_HMAC_LEN = 32"
definition ADMIN_GCM_TAG_LEN :: nat where [fw_const]: "ADMIN_GCM_TAG_LEN = 16"
definition ADMIN_HEADER_WIRE_SIZE :: nat where [fw_const]:
  "ADMIN_HEADER_WIRE_SIZE = 4 + 1 + 1 + ADMIN_SERIAL_LEN + ADMIN_NONCE_LEN + 2"
definition ADMIN_OTA_CHUNK_MAX_DATA :: nat where [fw_const]: "ADMIN_OTA_CHUNK_MAX_DATA = 1024"
definition ADMIN_OTA_SHA256_LEN :: nat where [fw_const]: "ADMIN_OTA_SHA256_LEN = 32"
definition ADMIN_MAX_PAYLOAD :: nat where [fw_const]: "ADMIN_MAX_PAYLOAD = 4 + ADMIN_OTA_CHUNK_MAX_DATA"
definition ADMIN_MAX_PACKET :: nat where [fw_const]:
  "ADMIN_MAX_PACKET = ADMIN_HEADER_WIRE_SIZE + ADMIN_MAX_PAYLOAD + ADMIN_HMAC_LEN"

text \<open>The enumerators of \<open>admin_pkt_type_t\<close>, compared with the type byte of a header.\<close>

definition ADMIN_TYPE_INFO :: u8 where [fw_const]: "ADMIN_TYPE_INFO = 0x01"
definition ADMIN_TYPE_INFO_RESP :: u8 where [fw_const]: "ADMIN_TYPE_INFO_RESP = 0x81"
definition ADMIN_TYPE_CHALLENGE :: u8 where [fw_const]: "ADMIN_TYPE_CHALLENGE = 0x02"
definition ADMIN_TYPE_CHALLENGE_RESP :: u8 where [fw_const]: "ADMIN_TYPE_CHALLENGE_RESP = 0x82"
definition ADMIN_TYPE_ON :: u8 where [fw_const]: "ADMIN_TYPE_ON = 0x03"
definition ADMIN_TYPE_ON_RESP :: u8 where [fw_const]: "ADMIN_TYPE_ON_RESP = 0x83"
definition ADMIN_TYPE_OFF :: u8 where [fw_const]: "ADMIN_TYPE_OFF = 0x04"
definition ADMIN_TYPE_OFF_RESP :: u8 where [fw_const]: "ADMIN_TYPE_OFF_RESP = 0x84"
definition ADMIN_TYPE_DIM :: u8 where [fw_const]: "ADMIN_TYPE_DIM = 0x05"
definition ADMIN_TYPE_DIM_RESP :: u8 where [fw_const]: "ADMIN_TYPE_DIM_RESP = 0x85"
definition ADMIN_TYPE_IDENTIFY :: u8 where [fw_const]: "ADMIN_TYPE_IDENTIFY = 0x06"
definition ADMIN_TYPE_IDENTIFY_RESP :: u8 where [fw_const]: "ADMIN_TYPE_IDENTIFY_RESP = 0x86"
definition ADMIN_TYPE_REBOOT :: u8 where [fw_const]: "ADMIN_TYPE_REBOOT = 0x07"
definition ADMIN_TYPE_REBOOT_RESP :: u8 where [fw_const]: "ADMIN_TYPE_REBOOT_RESP = 0x87"
definition ADMIN_TYPE_FACTORY_RESET :: u8 where [fw_const]: "ADMIN_TYPE_FACTORY_RESET = 0x08"
definition ADMIN_TYPE_FACTORY_RESET_RESP :: u8 where [fw_const]: "ADMIN_TYPE_FACTORY_RESET_RESP = 0x88"
definition ADMIN_TYPE_CHANGE_SECRET :: u8 where [fw_const]: "ADMIN_TYPE_CHANGE_SECRET = 0x09"
definition ADMIN_TYPE_CHANGE_SECRET_RESP :: u8 where [fw_const]: "ADMIN_TYPE_CHANGE_SECRET_RESP = 0x89"
definition ADMIN_TYPE_OTA_BEGIN :: u8 where [fw_const]: "ADMIN_TYPE_OTA_BEGIN = 0x0a"
definition ADMIN_TYPE_OTA_BEGIN_RESP :: u8 where [fw_const]: "ADMIN_TYPE_OTA_BEGIN_RESP = 0x8a"
definition ADMIN_TYPE_OTA_CHUNK :: u8 where [fw_const]: "ADMIN_TYPE_OTA_CHUNK = 0x0b"
definition ADMIN_TYPE_OTA_CHUNK_RESP :: u8 where [fw_const]: "ADMIN_TYPE_OTA_CHUNK_RESP = 0x8b"
definition ADMIN_TYPE_OTA_END :: u8 where [fw_const]: "ADMIN_TYPE_OTA_END = 0x0c"
definition ADMIN_TYPE_OTA_END_RESP :: u8 where [fw_const]: "ADMIN_TYPE_OTA_END_RESP = 0x8c"
definition ADMIN_TYPE_OTA_ABORT :: u8 where [fw_const]: "ADMIN_TYPE_OTA_ABORT = 0x0d"
definition ADMIN_TYPE_OTA_ABORT_RESP :: u8 where [fw_const]: "ADMIN_TYPE_OTA_ABORT_RESP = 0x8d"
definition ADMIN_TYPE_DMX_GET_CONFIG :: u8 where [fw_const]: "ADMIN_TYPE_DMX_GET_CONFIG = 0x0e"
definition ADMIN_TYPE_DMX_GET_CONFIG_RESP :: u8 where [fw_const]: "ADMIN_TYPE_DMX_GET_CONFIG_RESP = 0x8e"
definition ADMIN_TYPE_DMX_SET_CONFIG :: u8 where [fw_const]: "ADMIN_TYPE_DMX_SET_CONFIG = 0x0f"
definition ADMIN_TYPE_DMX_SET_CONFIG_RESP :: u8 where [fw_const]: "ADMIN_TYPE_DMX_SET_CONFIG_RESP = 0x8f"
definition ADMIN_TYPE_DRIVER_GET_CONFIG :: u8 where [fw_const]: "ADMIN_TYPE_DRIVER_GET_CONFIG = 0x10"
definition ADMIN_TYPE_DRIVER_GET_CONFIG_RESP :: u8 where [fw_const]: "ADMIN_TYPE_DRIVER_GET_CONFIG_RESP = 0x90"
definition ADMIN_TYPE_DRIVER_SET_CONFIG :: u8 where [fw_const]: "ADMIN_TYPE_DRIVER_SET_CONFIG = 0x11"
definition ADMIN_TYPE_DRIVER_SET_CONFIG_RESP :: u8 where [fw_const]: "ADMIN_TYPE_DRIVER_SET_CONFIG_RESP = 0x91"
definition ADMIN_TYPE_ERR_RESP :: u8 where [fw_const]: "ADMIN_TYPE_ERR_RESP = 0xff"

datatype admin_status =
    ADMIN_STATUS_OK
  | ADMIN_STATUS_ERR_BAD_ARG
  | ADMIN_STATUS_ERR_NOT_READY
  | ADMIN_STATUS_ERR_INTERNAL
  | ADMIN_STATUS_ACCEPTED_PENDING
  | ADMIN_STATUS_ERR_BUSY

fun admin_status_value :: "admin_status \<Rightarrow> u8" where
  "admin_status_value ADMIN_STATUS_OK = 0"
| "admin_status_value ADMIN_STATUS_ERR_BAD_ARG = 1"
| "admin_status_value ADMIN_STATUS_ERR_NOT_READY = 2"
| "admin_status_value ADMIN_STATUS_ERR_INTERNAL = 3"
| "admin_status_value ADMIN_STATUS_ACCEPTED_PENDING = 4"
| "admin_status_value ADMIN_STATUS_ERR_BUSY = 5"

section \<open>Crypto\<close>

text \<open>
  HMAC-SHA-256 of a key and a message, SHA-256, and AES-256-GCM decryption of key, nonce,
  associated data and ciphertext with tag, \<open>None\<close> when the tag does not verify.
\<close>

record crypto =
  cr_hmac :: "bytes \<Rightarrow> bytes \<Rightarrow> bytes"
  cr_sha256 :: "bytes \<Rightarrow> bytes"
  cr_gcm_open :: "bytes \<Rightarrow> bytes \<Rightarrow> bytes \<Rightarrow> bytes \<Rightarrow> bytes option"

text \<open>\<open>psa_ok\<close>: the key import and the operation itself did not fail for want of resources.\<close>

definition hmac_verify :: "crypto \<Rightarrow> bool \<Rightarrow> bytes \<Rightarrow> bytes \<Rightarrow> bytes \<Rightarrow> bool" where
  "hmac_verify c psa_ok key data mac = (if \<not> psa_ok then False else mac = cr_hmac c key data)"

definition hmac_compute :: "crypto \<Rightarrow> bool \<Rightarrow> bytes \<Rightarrow> bytes \<Rightarrow> bytes option" where
  "hmac_compute c psa_ok key data = (if \<not> psa_ok then None else Some (cr_hmac c key data))"

definition gcm_decrypt :: "crypto \<Rightarrow> bool \<Rightarrow> bytes \<Rightarrow> bytes \<Rightarrow> bytes \<Rightarrow> bytes \<Rightarrow> bytes option" where
  "gcm_decrypt c psa_ok key nonce aad ciphertext =
     (if \<not> psa_ok then None else cr_gcm_open c key nonce aad ciphertext)"

section \<open>Headers and packets\<close>

record parsed_header =
  ph_magic :: u32
  ph_version :: u8
  ph_type :: u8
  ph_serial :: bytes
  ph_nonce :: bytes
  ph_payload_len :: u16

definition parse_header :: "bytes \<Rightarrow> parsed_header option" where
  "parse_header buf =
     (if length buf < ADMIN_HEADER_WIRE_SIZE then None
      else Some \<lparr>ph_magic = get_u32_be buf 0, ph_version = buf ! 4, ph_type = buf ! 5,
                 ph_serial = slice 6 ADMIN_SERIAL_LEN buf, ph_nonce = slice 30 ADMIN_NONCE_LEN buf,
                 ph_payload_len = get_u16_be buf 46\<rparr>)"

text \<open>The serial field: the string cut at 23 characters, padded with zeros to 24 bytes.\<close>

definition padded_serial :: "string \<Rightarrow> bytes" where
  "padded_serial serial = strncpy (ADMIN_SERIAL_LEN - 1) serial @ [0]"

text \<open>
  The bytes \<open>send_packet\<close> assembles: header, payload, and the MAC over both, or zeros when
  there is no key or the MAC cannot be computed.
\<close>

definition packet_body :: "string \<Rightarrow> u8 \<Rightarrow> bytes option \<Rightarrow> bytes \<Rightarrow> bytes" where
  "packet_body serial type nonce payload =
     put_u32_be ADMIN_PROTO_MAGIC @ [ADMIN_PROTO_VERSION] @ [type]
     @ padded_serial serial
     @ (case nonce of Some n \<Rightarrow> take ADMIN_NONCE_LEN n | None \<Rightarrow> replicate ADMIN_NONCE_LEN 0)
     @ put_u16_be (of_nat (length payload)) @ payload"

definition packet_bytes ::
  "crypto \<Rightarrow> bool \<Rightarrow> string \<Rightarrow> u8 \<Rightarrow> bytes option \<Rightarrow> bytes \<Rightarrow> bytes option \<Rightarrow> bytes" where
  "packet_bytes c psa_ok serial type nonce payload hmac_key =
     (let buf = packet_body serial type nonce payload;
          mac = (case hmac_key of
                   None \<Rightarrow> replicate ADMIN_HMAC_LEN 0
                 | Some key \<Rightarrow> (case hmac_compute c psa_ok key buf of
                                 Some m \<Rightarrow> m | None \<Rightarrow> replicate ADMIN_HMAC_LEN 0))
      in buf @ mac)"

section \<open>Layout\<close>

lemma length_padded_serial [simp]: "length (padded_serial serial) = 24"
  by (simp add: padded_serial_def fw_const)

lemma packet_body_length:
  assumes "nonce = None \<or> (\<exists>n. nonce = Some n \<and> length n = 16)"
  shows "length (packet_body serial type nonce payload) = ADMIN_HEADER_WIRE_SIZE + length payload"
  using assms by (auto simp: packet_body_def fw_const)

text \<open>The header of an assembled packet, whatever follows it, and its payload.\<close>

lemma slice_skip: "length pre = i \<Longrightarrow> length xs = n \<Longrightarrow> slice i n (pre @ xs @ post) = xs"
  by (simp add: slice_def)

lemma get_u32_be_0: "get_u32_be (put_u32_be v @ rest) 0 = v"
  by (simp add: get_u32_be_def put_u32_be_def)

lemma get_u16_be_skip: "length pre = i \<Longrightarrow> get_u16_be (pre @ put_u16_be v @ rest) i = v"
  by (simp add: get_u16_be_def put_u16_be_def nth_append)

lemma parse_packet_body:
  assumes "length n = 16" and "length payload \<le> ADMIN_MAX_PAYLOAD"
  shows "parse_header (packet_body serial type (Some n) payload @ rest) =
     Some \<lparr>ph_magic = ADMIN_PROTO_MAGIC, ph_version = ADMIN_PROTO_VERSION, ph_type = type,
           ph_serial = padded_serial serial, ph_nonce = n, ph_payload_len = of_nat (length payload)\<rparr>"
proof -
  define buf where "buf = packet_body serial type (Some n) payload @ rest"
  let ?m = "put_u32_be ADMIN_PROTO_MAGIC" and ?s = "padded_serial serial"
    and ?l = "put_u16_be (of_nat (length payload))"
  have b: "buf = ?m @ [ADMIN_PROTO_VERSION] @ [type] @ ?s @ n @ ?l @ payload @ rest"
    using assms(1) by (simp add: buf_def packet_body_def fw_const)
  have len: "\<not> length buf < ADMIN_HEADER_WIRE_SIZE" using assms(1) by (simp add: b fw_const)
  have magic: "get_u32_be buf 0 = ADMIN_PROTO_MAGIC" by (simp only: b get_u32_be_0)
  have vt: "buf ! 4 = ADMIN_PROTO_VERSION" "buf ! 5 = type" by (simp_all add: b nth_append)
  have serial: "slice 6 ADMIN_SERIAL_LEN buf = ?s"
    using slice_skip [of "?m @ [ADMIN_PROTO_VERSION] @ [type]" 6 ?s 24 "n @ ?l @ payload @ rest"]
    by (simp add: b fw_const)
  have nonce: "slice 30 ADMIN_NONCE_LEN buf = n"
    using slice_skip [of "?m @ [ADMIN_PROTO_VERSION] @ [type] @ ?s" 30 n 16 "?l @ payload @ rest"] assms(1)
    by (simp add: b fw_const)
  have plen: "get_u16_be buf 46 = of_nat (length payload)"
    using get_u16_be_skip [of "?m @ [ADMIN_PROTO_VERSION] @ [type] @ ?s @ n" 46 "of_nat (length payload)" "payload @ rest"]
      assms(1) by (simp add: b)
  show ?thesis
    using len magic vt serial nonce plen unfolding buf_def [symmetric] by (simp add: parse_header_def)
qed

lemma unat_payload_len: "length payload \<le> ADMIN_MAX_PAYLOAD \<Longrightarrow> unat (of_nat (length payload) :: u16) = length payload"
  by (simp add: fw_const unsigned_of_nat take_bit_nat_eq_self)

end
