(* ===== verification/Admin_Security.thy ===== *)
theory Admin_Security
  imports Admin_Wire "HOL-Library.Multiset"
begin

text \<open>
  The two tables that protect the admin channel in \<open>admin_channel.c\<close>: the pool of single-use
  nonces and the per-address rate limit, with what each promises: a store of single-use
  tickets, stated as a locale, and a limiter on a map from addresses.
\<close>

section \<open>The nonce pool\<close>

definition NONCE_POOL_SIZE :: nat where [fw_const]: "NONCE_POOL_SIZE = 8"
definition NONCE_TTL_US :: int where [fw_const]: "NONCE_TTL_US = 5 * 1000000"
definition INT64_MAX :: int where "INT64_MAX = 0x7fffffffffffffff"

record nonce_slot =
  ns_used :: bool
  ns_ip :: u32
  ns_nonce :: bytes
  ns_issued_at_us :: int

definition nonce_pool_init :: "nonce_slot list" where
  "nonce_pool_init = replicate NONCE_POOL_SIZE
     \<lparr>ns_used = False, ns_ip = 0, ns_nonce = replicate ADMIN_NONCE_LEN 0, ns_issued_at_us = 0\<rparr>"

text \<open>The search of \<open>nonce_issue\<close>: the first free slot, else the oldest.\<close>

fun nonce_victim :: "nonce_slot list \<Rightarrow> nat \<Rightarrow> nat \<Rightarrow> int \<Rightarrow> nat" where
  "nonce_victim [] i victim oldest = victim"
| "nonce_victim (s # rest) i victim oldest =
     (if \<not> ns_used s then i
      else if ns_issued_at_us s < oldest then nonce_victim rest (Suc i) i (ns_issued_at_us s)
      else nonce_victim rest (Suc i) victim oldest)"

text \<open>The result is the nonce issued, \<open>None\<close> when the random generator failed.\<close>

definition nonce_issue :: "int \<Rightarrow> u32 \<Rightarrow> bytes option \<Rightarrow> nonce_slot list \<Rightarrow> bytes option \<times> nonce_slot list" where
  "nonce_issue now ip rnd pool =
     (case rnd of
        None \<Rightarrow> (None, pool)
      | Some out \<Rightarrow>
          let victim = nonce_victim pool 0 0 INT64_MAX
          in (Some out, pool[victim := \<lparr>ns_used = True, ns_ip = ip, ns_nonce = out, ns_issued_at_us = now\<rparr>]))"

fun nonce_consume :: "int \<Rightarrow> u32 \<Rightarrow> bytes \<Rightarrow> nonce_slot list \<Rightarrow> bool \<times> nonce_slot list" where
  "nonce_consume now ip nonce [] = (False, [])"
| "nonce_consume now ip nonce (s # rest) =
     (if \<not> ns_used s then
        (let (ok, rest') = nonce_consume now ip nonce rest in (ok, s # rest'))
      else if NONCE_TTL_US < now - ns_issued_at_us s then
        (let (ok, rest') = nonce_consume now ip nonce rest in (ok, s\<lparr>ns_used := False\<rparr> # rest'))
      else if ns_ip s = ip \<and> ns_nonce s = nonce then (True, s\<lparr>ns_used := False\<rparr> # rest)
      else (let (ok, rest') = nonce_consume now ip nonce rest in (ok, s # rest')))"

section \<open>What the pool promises\<close>

text \<open>The tickets of an address and a nonce: the live slots that would be accepted.\<close>

definition ticket :: "u32 \<Rightarrow> bytes \<Rightarrow> nonce_slot \<Rightarrow> bool" where
  "ticket ip nonce s \<longleftrightarrow> ns_used s \<and> ns_ip s = ip \<and> ns_nonce s = nonce"

definition tickets :: "u32 \<Rightarrow> bytes \<Rightarrow> nonce_slot list \<Rightarrow> nat" where
  "tickets ip nonce pool = length (filter (ticket ip nonce) pool)"

lemma tickets_simps [simp]:
  "tickets ip nonce [] = 0"
  "tickets ip nonce (s # rest) = (if ticket ip nonce s then 1 else 0) + tickets ip nonce rest"
  by (simp_all add: tickets_def)

lemma ticket_used_up [simp]: "\<not> ticket ip nonce (s\<lparr>ns_used := False\<rparr>)"
  by (simp add: ticket_def)

lemma tickets_update:
  "tickets ip nonce (pool[i := s]) \<le> tickets ip nonce pool + (if ticket ip nonce s then 1 else 0)"
  by (induction pool arbitrary: i) (auto split: nat.split)

lemma issue_tickets:
  "tickets ip' n' (snd (nonce_issue now ip rnd pool))
     \<le> tickets ip' n' pool + (if ip' = ip \<and> rnd = Some n' then 1 else 0)"
proof (cases rnd)
  case (Some out)
  let ?s = "\<lparr>ns_used = True, ns_ip = ip, ns_nonce = out, ns_issued_at_us = now\<rparr>"
  have "ticket ip' n' ?s \<longleftrightarrow> ip' = ip \<and> n' = out" by (auto simp: ticket_def)
  then show ?thesis
    using tickets_update [of ip' n' pool "nonce_victim pool 0 0 INT64_MAX" ?s] Some
    by (auto simp: nonce_issue_def Let_def)
qed (simp add: nonce_issue_def)

lemma consume_tickets:
  "tickets ip' n' (snd (nonce_consume now ip nonce pool))
     + (if fst (nonce_consume now ip nonce pool) \<and> ip' = ip \<and> n' = nonce then 1 else 0)
   \<le> tickets ip' n' pool"
proof (induction pool)
  case (Cons s rest)
  then show ?case by (auto simp: split_def Let_def ticket_def)
qed simp

lemma nonce_victim_bound: "victim < k \<Longrightarrow> i + length pool \<le> k \<Longrightarrow> nonce_victim pool i victim oldest < k"
  by (induction pool i victim oldest rule: nonce_victim.induct) auto

text \<open>Acceptance as a predicate on the pool, with the address and the age checked.\<close>

lemma consume_iff:
  "fst (nonce_consume now ip nonce pool) \<longleftrightarrow>
     list_ex (\<lambda>s. ticket ip nonce s \<and> now - ns_issued_at_us s \<le> NONCE_TTL_US) pool"
  by (induction pool) (auto simp: split_def Let_def ticket_def not_less)

lemma length_issue [simp]: "length (snd (nonce_issue now ip rnd pool)) = length pool"
  by (auto simp: nonce_issue_def Let_def split: option.split)

lemma length_consume [simp]: "length (snd (nonce_consume now ip nonce pool)) = length pool"
  by (induction pool) (auto simp: split_def Let_def)

lemma issue_accepted:
  assumes "pool \<noteq> []" and "rnd = Some n" and "now' - now \<le> NONCE_TTL_US"
  shows "fst (nonce_consume now' ip n (snd (nonce_issue now ip rnd pool)))"
proof -
  have "nonce_victim pool 0 0 INT64_MAX < length pool"
    using assms(1) by (intro nonce_victim_bound) auto
  then show ?thesis
    using assms(2,3) by (auto simp: consume_iff nonce_issue_def Let_def ticket_def list_ex_length)
qed

section \<open>Single-use tickets\<close>

text \<open>
  What the admin channel relies on: issuing a ticket adds at most that one, spending one with
  success takes it away. Then over any history the tickets spent are among those issued.
\<close>

locale single_use =
  fixes issue :: "'t \<Rightarrow> 'k \<Rightarrow> 'p \<Rightarrow> 'p"
    and spend :: "'t \<Rightarrow> 'k \<Rightarrow> 'p \<Rightarrow> bool \<times> 'p"
    and held :: "'k \<Rightarrow> 'p \<Rightarrow> nat"
    and empty :: 'p
  assumes issue_held: "held k' (issue t k p) \<le> held k' p + (if k' = k then 1 else 0)"
    and spend_held: "held k' (snd (spend t k p)) + (if fst (spend t k p) \<and> k' = k then 1 else 0) \<le> held k' p"
    and empty_held: "held k empty = 0"
begin

inductive history :: "'p \<Rightarrow> 'k list \<Rightarrow> 'k list \<Rightarrow> bool" where
  start: "history empty [] []"
| issued: "history p is sp \<Longrightarrow> history (issue t k p) (is @ [k]) sp"
| spent: "history p is sp \<Longrightarrow> fst (spend t k p) \<Longrightarrow> history (snd (spend t k p)) is (sp @ [k])"
| refused: "history p is sp \<Longrightarrow> \<not> fst (spend t k p) \<Longrightarrow> history (snd (spend t k p)) is sp"

lemma history_held: "history p is sp \<Longrightarrow> held k p + count_list sp k \<le> count_list is k"
proof (induction rule: history.induct)
  case start
  then show ?case by (simp add: empty_held)
next
  case (issued p "is" sp t k')
  then show ?case using issue_held [of k t k' p] by (simp split: if_splits)
next
  case (spent p "is" sp t k')
  then show ?case using spend_held [of k t k' p] by (simp split: if_splits)
next
  case (refused p "is" sp t k')
  then show ?case using spend_held [of k t k' p] by simp
qed

lemma spent_within:
  assumes "history p is sp"
  shows "mset sp \<subseteq># mset is"
proof -
  have "count_list sp k \<le> count_list is k" for k using history_held [OF assms, of k] by simp
  then show ?thesis by (simp add: subseteq_mset_def count_mset)
qed

lemma spent_once:
  assumes "history p is sp" and "distinct is"
  shows "distinct sp"
proof -
  have "count (mset sp) k = (if k \<in> set sp then 1 else 0)" for k
  proof -
    have "count (mset is) k \<le> 1" using assms(2) by (simp add: distinct_count_atmost_1)
    then have "count (mset sp) k \<le> 1"
      using mset_subset_eq_count [OF spent_within [OF assms(1)], of k] by linarith
    moreover have "0 < count (mset sp) k \<longleftrightarrow> k \<in> set sp" by (simp add: count_greater_zero_iff)
    ultimately show ?thesis by (cases "count (mset sp) k") auto
  qed
  then show ?thesis by (simp add: distinct_count_atmost_1)
qed

end

interpretation pool: single_use "\<lambda>now (ip, nonce) pool. snd (nonce_issue now ip (Some nonce) pool)"
  "\<lambda>now (ip, nonce). nonce_consume now ip nonce" "\<lambda>(ip, nonce). tickets ip nonce" nonce_pool_init
proof
  fix k' k :: "u32 \<times> bytes" and t p
  show "(case k' of (ip, nonce) \<Rightarrow> tickets ip nonce)
      ((case k of (ip, nonce) \<Rightarrow> \<lambda>pool. snd (nonce_issue t ip (Some nonce) pool)) p)
    \<le> (case k' of (ip, nonce) \<Rightarrow> tickets ip nonce) p + (if k' = k then 1 else 0)"
    using issue_tickets [of "fst k'" "snd k'" t "fst k" "Some (snd k)" p] by (cases k; cases k') (auto split: if_splits)
  show "(case k' of (ip, nonce) \<Rightarrow> tickets ip nonce) (snd ((case k of (ip, nonce) \<Rightarrow> nonce_consume t ip nonce) p))
      + (if fst ((case k of (ip, nonce) \<Rightarrow> nonce_consume t ip nonce) p) \<and> k' = k then 1 else 0)
    \<le> (case k' of (ip, nonce) \<Rightarrow> tickets ip nonce) p"
    using consume_tickets [of "fst k'" "snd k'" t "fst k" "snd k" p] by (cases k; cases k') (auto split: if_splits)
next
  fix k :: "u32 \<times> bytes"
  show "(case k of (ip, nonce) \<Rightarrow> tickets ip nonce) nonce_pool_init = 0"
    by (cases k) (simp add: nonce_pool_init_def tickets_def ticket_def)
qed

section \<open>The rate limit\<close>

definition RATE_LIMIT_TABLE_SIZE :: nat where [fw_const]: "RATE_LIMIT_TABLE_SIZE = 16"
definition RATE_LIMIT_WINDOW_US :: int where [fw_const]: "RATE_LIMIT_WINDOW_US = 1 * 1000000"
definition RATE_LIMIT_MAX_PER_WINDOW :: int where [fw_const]: "RATE_LIMIT_MAX_PER_WINDOW = 40"

record rate_entry =
  re_ip :: u32
  re_count :: int
  re_window_start_us :: int

definition rate_table_init :: "rate_entry list" where
  "rate_table_init = replicate RATE_LIMIT_TABLE_SIZE \<lparr>re_ip = 0, re_count = 0, re_window_start_us = 0\<rparr>"

text \<open>The loop: the entry of the address, or the first free slot there is.\<close>

fun rate_scan :: "u32 \<Rightarrow> rate_entry list \<Rightarrow> nat \<Rightarrow> nat option \<Rightarrow> nat + nat option" where
  "rate_scan ip [] i free_slot = Inr free_slot"
| "rate_scan ip (e # rest) i free_slot =
     (if re_ip e = ip then Inl i
      else rate_scan ip rest (Suc i) (if re_ip e = 0 \<and> free_slot = None then Some i else free_slot))"

definition rate_limit_check :: "int \<Rightarrow> u32 \<Rightarrow> rate_entry list \<Rightarrow> bool \<times> rate_entry list" where
  "rate_limit_check now ip table =
     (case rate_scan ip table 0 None of
        Inl i \<Rightarrow>
          let e = table ! i;
              e = (if RATE_LIMIT_WINDOW_US < now - re_window_start_us e
                   then e\<lparr>re_window_start_us := now, re_count := 0\<rparr> else e);
              e = e\<lparr>re_count := re_count e + 1\<rparr>
          in (re_count e \<le> RATE_LIMIT_MAX_PER_WINDOW, table[i := e])
      | Inr free_slot \<Rightarrow>
          let slot = (case free_slot of Some i \<Rightarrow> i | None \<Rightarrow> 0)
          in (True, table[slot := \<lparr>re_ip = ip, re_count = 1, re_window_start_us = now\<rparr>]))"

section \<open>The limiter as a map\<close>

text \<open>What the table stands for: count and start of the window of each known address.\<close>

type_synonym limiter = "u32 \<rightharpoonup> int \<times> int"

definition limiter_step :: "int \<Rightarrow> u32 \<Rightarrow> limiter \<Rightarrow> bool \<times> limiter" where
  "limiter_step now ip m =
     (case m ip of
        None \<Rightarrow> (True, m(ip \<mapsto> (1, now)))
      | Some (n, start) \<Rightarrow>
          if RATE_LIMIT_WINDOW_US < now - start then (True, m(ip \<mapsto> (1, now)))
          else (n + 1 \<le> RATE_LIMIT_MAX_PER_WINDOW, m(ip \<mapsto> (n + 1, start))))"

definition limiter_of :: "rate_entry list \<Rightarrow> limiter" where
  "limiter_of table = map_of (map (\<lambda>e. (re_ip e, (re_count e, re_window_start_us e)))
     (filter (\<lambda>e. re_ip e \<noteq> 0) table))"

text \<open>Every address has at most one entry.\<close>

definition rate_table_ok :: "rate_entry list \<Rightarrow> bool" where
  "rate_table_ok table \<longleftrightarrow> distinct (map re_ip (filter (\<lambda>e. re_ip e \<noteq> 0) table))"

lemma rate_scan_found:
  assumes "ip \<notin> re_ip ` set pre" and "re_ip e = ip"
  shows "rate_scan ip (pre @ e # post) i free = Inl (i + length pre)"
  using assms by (induction pre arbitrary: i free) auto

lemma rate_scan_free:
  "ip \<notin> re_ip ` set table \<Longrightarrow> rate_scan ip table i (Some j) = Inr (Some j)"
  by (induction table arbitrary: i) auto

lemma rate_scan_unknown:
  assumes "0 \<notin> re_ip ` set pre" and "re_ip z = 0" and "ip \<notin> re_ip ` set (pre @ z # post)"
  shows "rate_scan ip (pre @ z # post) i None = Inr (Some (i + length pre))"
  using assms by (induction pre arbitrary: i) (auto simp: rate_scan_free)

lemma rate_scan_full:
  "0 \<notin> re_ip ` set table \<Longrightarrow> ip \<notin> re_ip ` set table \<Longrightarrow> rate_scan ip table i None = Inr None"
  by (induction table arbitrary: i) auto

lemma limiter_of_entry:
  assumes "re_ip e \<noteq> 0" and "re_ip e \<notin> re_ip ` set pre"
  shows "limiter_of (pre @ e # post) = (limiter_of (pre @ post))(re_ip e \<mapsto> (re_count e, re_window_start_us e))"
proof -
  let ?f = "\<lambda>e. (re_ip e, (re_count e, re_window_start_us e))"
  have none: "map_of (map ?f (filter (\<lambda>e. re_ip e \<noteq> 0) pre)) (re_ip e) = None"
    using assms(2) by (auto simp: map_of_eq_None_iff)
  show ?thesis
    using assms(1) none by (intro ext) (simp add: limiter_of_def map_add_def split: option.split)
qed

lemma limiter_of_zero: "re_ip z = 0 \<Longrightarrow> limiter_of (pre @ z # post) = limiter_of (pre @ post)"
  by (simp add: limiter_of_def)

lemma limiter_of_unknown: "ip \<notin> re_ip ` set table \<Longrightarrow> limiter_of table ip = None"
  by (auto simp: limiter_of_def map_of_eq_None_iff)

text \<open>One check does what the limiter on the map does, as long as the address has or finds a slot.\<close>

lemma split_first:
  "x \<in> f ` set xs \<Longrightarrow> \<exists>pre y post. xs = pre @ y # post \<and> f y = x \<and> x \<notin> f ` set pre"
proof -
  assume "x \<in> f ` set xs"
  then have "\<exists>y \<in> set xs. f y = x" by auto
  from split_list_first_prop [OF this] show ?thesis by fastforce
qed

text \<open>One request leaves table and map in step, whether its address is known or takes a free entry.\<close>

definition step_refines :: "int \<Rightarrow> u32 \<Rightarrow> rate_entry list \<Rightarrow> bool" where
  "step_refines now ip table \<longleftrightarrow>
     (let r = rate_limit_check now ip table; l = limiter_step now ip (limiter_of table)
      in fst r = fst l \<and> limiter_of (snd r) = snd l \<and> rate_table_ok (snd r)
         \<and> re_ip ` set (snd r) \<subseteq> insert ip (re_ip ` set table) \<and> length (snd r) = length table)"

lemma known_step_refines:
  assumes ok: "rate_table_ok table" and ip: "ip \<noteq> 0" and known: "ip \<in> re_ip ` set table"
  shows "step_refines now ip table"
proof -
  let ?r = "rate_limit_check now ip table" and ?l = "limiter_step now ip (limiter_of table)"
  obtain pre e post where t: "table = pre @ e # post" and e: "re_ip e = ip" and pre: "ip \<notin> re_ip ` set pre"
    using known split_first [of ip re_ip table] by blast
  define e' where "e' = (if RATE_LIMIT_WINDOW_US < now - re_window_start_us e
    then e\<lparr>re_window_start_us := now, re_count := 1\<rparr> else e\<lparr>re_count := re_count e + 1\<rparr>)"
  have e': "re_ip e' = ip" by (simp add: e'_def e)
  have r: "?r = (re_count e' \<le> RATE_LIMIT_MAX_PER_WINDOW, pre @ e' # post)"
    using rate_scan_found [OF pre e, of post 0 None]
    by (simp add: rate_limit_check_def t Let_def nth_append list_update_append e'_def)
  have old: "limiter_of table = (limiter_of (pre @ post))(ip \<mapsto> (re_count e, re_window_start_us e))"
    using limiter_of_entry [of e pre post] ip e pre by (simp add: t)
  have new: "limiter_of (pre @ e' # post) = (limiter_of (pre @ post))(ip \<mapsto> (re_count e', re_window_start_us e'))"
    using limiter_of_entry [of e' pre post] ip e' pre by simp
  have "rate_table_ok (pre @ e' # post)"
    using ok e e' ip by (simp add: rate_table_ok_def t)
  moreover have "?l = (re_count e' \<le> RATE_LIMIT_MAX_PER_WINDOW,
      (limiter_of (pre @ post))(ip \<mapsto> (re_count e', re_window_start_us e')))"
    by (simp add: limiter_step_def old e'_def fw_const)
  moreover have "re_ip ` set (pre @ e' # post) \<subseteq> insert ip (re_ip ` set table)" by (auto simp: t e')
  moreover have "length (pre @ e' # post) = length table" by (simp add: t)
  ultimately show ?thesis by (simp add: step_refines_def r new)
qed

lemma new_step_refines:
  assumes ok: "rate_table_ok table" and ip: "ip \<noteq> 0" and unknown: "ip \<notin> re_ip ` set table"
    and room: "0 \<in> re_ip ` set table"
  shows "step_refines now ip table"
proof -
  let ?r = "rate_limit_check now ip table" and ?l = "limiter_step now ip (limiter_of table)"
  obtain pre z post where t: "table = pre @ z # post" and z: "re_ip z = 0" and pre: "0 \<notin> re_ip ` set pre"
    using room split_first [of 0 re_ip table] by blast
  let ?e = "\<lparr>re_ip = ip, re_count = 1, re_window_start_us = now\<rparr>"
  have un: "ip \<notin> re_ip ` set (pre @ z # post)" using unknown by (simp add: t)
  have r: "?r = (True, pre @ ?e # post)"
    using rate_scan_unknown [OF pre z un, of 0] by (simp add: rate_limit_check_def t Let_def list_update_append)
  have new: "limiter_of (pre @ ?e # post) = (limiter_of table)(ip \<mapsto> (1, now))"
  proof -
    have "re_ip ?e \<noteq> 0" "re_ip ?e \<notin> re_ip ` set pre" using un ip by auto
    from limiter_of_entry [OF this, of post] show ?thesis by (simp add: t limiter_of_zero z)
  qed
  have "rate_table_ok (pre @ ?e # post)"
    using ok un ip z by (auto simp: rate_table_ok_def t)
  moreover have "?l = (True, (limiter_of table)(ip \<mapsto> (1, now)))"
    using limiter_of_unknown [OF unknown] by (simp add: limiter_step_def)
  moreover have "re_ip ` set (pre @ ?e # post) \<subseteq> insert ip (re_ip ` set table)" by (auto simp: t)
  moreover have "length (pre @ ?e # post) = length table" by (simp add: t)
  ultimately show ?thesis by (simp add: step_refines_def r new)
qed

lemma rate_step_refines:
  assumes "rate_table_ok table" and "ip \<noteq> 0" and "ip \<in> re_ip ` set table \<or> 0 \<in> re_ip ` set table"
  shows "fst (rate_limit_check now ip table) = fst (limiter_step now ip (limiter_of table))"
    and "limiter_of (snd (rate_limit_check now ip table)) = snd (limiter_step now ip (limiter_of table))"
    and "rate_table_ok (snd (rate_limit_check now ip table))"
    and "re_ip ` set (snd (rate_limit_check now ip table)) \<subseteq> insert ip (re_ip ` set table)"
    and "length (snd (rate_limit_check now ip table)) = length table"
proof -
  have "step_refines now ip table" using known_step_refines new_step_refines assms by blast
  then show "fst (rate_limit_check now ip table) = fst (limiter_step now ip (limiter_of table))"
    "limiter_of (snd (rate_limit_check now ip table)) = snd (limiter_step now ip (limiter_of table))"
    "rate_table_ok (snd (rate_limit_check now ip table))"
    "re_ip ` set (snd (rate_limit_check now ip table)) \<subseteq> insert ip (re_ip ` set table)"
    "length (snd (rate_limit_check now ip table)) = length table"
    by (simp_all add: step_refines_def Let_def)
qed

section \<open>Runs of requests\<close>

text \<open>The verdicts on a sequence of requests, each a time and an address.\<close>

fun rate_run :: "(int \<times> u32) list \<Rightarrow> rate_entry list \<Rightarrow> bool list" where
  "rate_run [] table = []"
| "rate_run ((now, ip) # reqs) table =
     (let (ok, table) = rate_limit_check now ip table in ok # rate_run reqs table)"

fun limiter_run :: "(int \<times> u32) list \<Rightarrow> limiter \<Rightarrow> bool list" where
  "limiter_run [] m = []"
| "limiter_run ((now, ip) # reqs) m = (let (ok, m) = limiter_step now ip m in ok # limiter_run reqs m)"

text \<open>How many requests of an address are accepted.\<close>

definition accepted :: "u32 \<Rightarrow> (int \<times> u32) list \<Rightarrow> bool list \<Rightarrow> nat" where
  "accepted ip reqs oks = length (filter (\<lambda>((now, i), ok). i = ip \<and> ok) (zip reqs oks))"

lemma accepted_simps [simp]:
  "accepted ip [] oks = 0"
  "accepted ip ((now, i) # reqs) (ok # oks) = (if i = ip \<and> ok then 1 else 0) + accepted ip reqs oks"
  by (simp_all add: accepted_def)

lemma free_slot_exists:
  assumes "rate_table_ok table" and "re_ip ` set table \<subseteq> insert 0 S" and "finite S" and "card S \<le> length table"
    and "ip \<in> S" and "ip \<notin> re_ip ` set table" and "0 \<notin> S"
  shows "0 \<in> re_ip ` set table"
proof (rule ccontr)
  assume no: "0 \<notin> re_ip ` set table"
  then have "\<forall>e \<in> set table. re_ip e \<noteq> 0" by (metis image_eqI)
  then have "filter (\<lambda>e. re_ip e \<noteq> 0) table = table" by (rule filter_True)
  then have "card (re_ip ` set table) = length table"
    using assms(1) distinct_card [of "map re_ip table"] unfolding rate_table_ok_def by simp
  moreover have "re_ip ` set table \<subseteq> S - {ip}" using assms(2,6) no by auto
  then have "card (re_ip ` set table) \<le> card (S - {ip})" using assms(3) by (intro card_mono) auto
  moreover have "card (S - {ip}) < card S" using assms(3,5) by (rule card_Diff1_less)
  ultimately show False using assms(4) by linarith
qed

lemma rate_run_refines:
  assumes "rate_table_ok table" and "re_ip ` set table \<subseteq> insert 0 S" and "finite S" and "card S \<le> length table"
    and "snd ` set reqs \<subseteq> S" and "0 \<notin> S"
  shows "rate_run reqs table = limiter_run reqs (limiter_of table)"
  using assms
proof (induction reqs arbitrary: table)
  case (Cons q reqs)
  obtain now ip where q: "q = (now, ip)" by (cases q)
  have ip: "ip \<in> S" "ip \<noteq> 0" using Cons.prems q by auto
  have room: "ip \<in> re_ip ` set table \<or> 0 \<in> re_ip ` set table"
    using free_slot_exists [OF Cons.prems(1-4) ip(1) _ Cons.prems(6)] by blast
  note r = rate_step_refines [OF Cons.prems(1) ip(2) room, of now]
  obtain ok t' where c: "rate_limit_check now ip table = (ok, t')" by fastforce
  have "re_ip ` set t' \<subseteq> insert ip (re_ip ` set table)" using r(4) c by simp
  then have sub: "re_ip ` set t' \<subseteq> insert 0 S" using Cons.prems(2) ip(1) by blast
  have "rate_run reqs t' = limiter_run reqs (limiter_of t')"
    using Cons.prems(3-6) r(3,5) c by (intro Cons.IH [OF _ sub]) auto
  then show ?case using r c by (simp add: q split_def Let_def)
qed simp

section \<open>How much the limit lets through\<close>

fun limiter_after :: "(int \<times> u32) list \<Rightarrow> limiter \<Rightarrow> limiter" where
  "limiter_after [] m = m"
| "limiter_after ((now, ip) # reqs) m = limiter_after reqs (snd (limiter_step now ip m))"

lemma limiter_run_drop:
  "drop (length before) (limiter_run (before @ during) m) = limiter_run during (limiter_after before m)"
  by (induction before arbitrary: m) (auto simp: split_def Let_def)

definition counts_ok :: "limiter \<Rightarrow> bool" where
  "counts_ok m \<longleftrightarrow> (\<forall>ip n start. m ip = Some (n, start) \<longrightarrow> 0 \<le> n)"

lemma counts_step: "counts_ok m \<Longrightarrow> counts_ok (snd (limiter_step now ip m))"
  by (auto simp: counts_ok_def limiter_step_def split: option.split) (metis add.commute add_increasing zero_le_one)

lemma counts_after: "counts_ok m \<Longrightarrow> counts_ok (limiter_after reqs m)"
  by (induction reqs arbitrary: m) (auto simp: counts_step)

text \<open>How many more requests the open window of an address admits.\<close>

definition window_left :: "u32 \<Rightarrow> limiter \<Rightarrow> nat" where
  "window_left ip m = (case m ip of None \<Rightarrow> 0 | Some (n, start) \<Rightarrow> nat (40 - n))"

lemma window_left_le: "counts_ok m \<Longrightarrow> window_left ip m \<le> 40"
proof (cases "m ip")
  case (Some w)
  obtain n start where w: "w = (n, start)" by (cases w)
  assume "counts_ok m"
  then have "0 \<le> n" using Some w unfolding counts_ok_def by blast
  then show ?thesis using Some w by (simp add: window_left_def)
qed (simp add: window_left_def)

lemma limiter_step_other: "i \<noteq> ip \<Longrightarrow> snd (limiter_step now i m) ip = m ip"
  by (auto simp: limiter_step_def split: option.split)

lemma nat_left: "n \<le> 39 \<Longrightarrow> nat (40 - n) = Suc (nat (39 - n))" "\<not> n \<le> (39 :: int) \<Longrightarrow> nat (39 - n) = 0"
  by linarith+

lemma window_open:
  assumes "m ip = Some (n, start)" and "list_all (\<lambda>(now, i). now - start \<le> RATE_LIMIT_WINDOW_US) reqs"
  shows "accepted ip reqs (limiter_run reqs m) \<le> nat (40 - n)"
  using assms
proof (induction reqs arbitrary: m n)
  case (Cons q reqs)
  obtain now i where q: "q = (now, i)" by (cases q)
  show ?case
  proof (cases "i = ip")
    case True
    have "accepted ip reqs (limiter_run reqs (m(ip \<mapsto> (n + 1, start)))) \<le> nat (40 - (n + 1))"
      using Cons.prems by (intro Cons.IH) auto
    then show ?thesis
      using Cons.prems True
      by (cases "n \<le> 39") (simp_all add: q limiter_step_def split_def Let_def nat_left fw_const)
  next
    case False
    have "accepted ip reqs (limiter_run reqs (snd (limiter_step now i m))) \<le> nat (40 - n)"
      using Cons.prems False by (intro Cons.IH) (auto simp: limiter_step_other)
    then show ?thesis using False by (simp add: q split_def Let_def)
  qed
qed simp

lemma second_admits:
  assumes "list_all (\<lambda>(now, i). a \<le> now \<and> now \<le> a + RATE_LIMIT_WINDOW_US) reqs"
  shows "accepted ip reqs (limiter_run reqs m) \<le> window_left ip m + 40"
  using assms
proof (induction reqs arbitrary: m)
  case (Cons q reqs)
  obtain now i where q: "q = (now, i)" by (cases q)
  have a: "a \<le> now" using Cons.prems q by simp
  have rest: "list_all (\<lambda>(t, i). t - now \<le> RATE_LIMIT_WINDOW_US) reqs"
    using Cons.prems a by (auto simp: q list_all_iff)
  have restart: "accepted ip reqs (limiter_run reqs (m(ip \<mapsto> (1, now)))) \<le> 39"
    using window_open [of "m(ip \<mapsto> (1, now))" ip 1 now reqs] rest by simp
  have IH: "accepted ip reqs (limiter_run reqs m') \<le> window_left ip m' + 40" for m'
    using Cons by simp
  show ?case
  proof (cases "i = ip")
    case False
    have "window_left ip (snd (limiter_step now i m)) = window_left ip m"
      using False by (simp add: window_left_def limiter_step_other)
    then show ?thesis
      using False IH [of "snd (limiter_step now i m)"] by (simp add: q split_def Let_def)
  next
    case True
    show ?thesis
    proof (cases "m ip")
      case None
      then show ?thesis using True restart by (simp add: q limiter_step_def window_left_def)
    next
      case (Some w)
      obtain n start where w: "w = (n, start)" by (cases w)
      have go: "accepted ip reqs (limiter_run reqs (m(ip \<mapsto> (n + 1, start)))) \<le> nat (40 - (n + 1)) + 40"
        using IH [of "m(ip \<mapsto> (n + 1, start))"] by (simp add: window_left_def)
      show ?thesis
        using True Some w restart go
        by (cases "RATE_LIMIT_WINDOW_US < now - start"; cases "n \<le> 39")
           (simp_all add: q limiter_step_def window_left_def nat_left fw_const)
    qed
  qed
qed simp

lemma limiter_of_init: "limiter_of rate_table_init = Map.empty"
  and table_init_ok: "rate_table_ok rate_table_init" "re_ip ` set rate_table_init \<subseteq> {0}"
    "length rate_table_init = 16"
  by (auto simp: limiter_of_def rate_table_init_def rate_table_ok_def fw_const)

section \<open>Properties\<close>

text \<open>
  C19: as long as at most sixteen addresses have sent requests since boot, the fixed table
  decides exactly like a map from addresses to counters, and within any stretch of one
  second no address has more than eighty requests accepted (forty per window, two
  windows at most).
\<close>

theorem rate_limit_refines_map:
  assumes "0 \<notin> set (map snd (before @ during))" and "card (set (map snd (before @ during))) \<le> 16"
    and "list_all (\<lambda>(now, i). a \<le> now \<and> now \<le> a + RATE_LIMIT_WINDOW_US) during"
  shows "let oks = rate_run (before @ during) rate_table_init
     in oks = limiter_run (before @ during) Map.empty
        \<and> accepted ip during (drop (length before) oks) \<le> 80"
proof -
  let ?S = "set (map snd (before @ during))"
  have sub: "re_ip ` set rate_table_init \<subseteq> insert 0 ?S" using table_init_ok(2) by blast
  have reqs: "snd ` set (before @ during) \<subseteq> ?S" by auto
  have run: "rate_run (before @ during) rate_table_init = limiter_run (before @ during) Map.empty"
    using rate_run_refines [OF table_init_ok(1) sub _ _ reqs assms(1)] assms(2) table_init_ok(3)
    by (simp add: limiter_of_init)
  have "counts_ok (limiter_after before Map.empty)" by (rule counts_after) (simp add: counts_ok_def)
  then have "accepted ip during (limiter_run during (limiter_after before Map.empty)) \<le> 80"
    using second_admits [OF assms(3), of ip "limiter_after before Map.empty"]
      window_left_le [of "limiter_after before Map.empty" ip] by linarith
  then show ?thesis by (simp only: run Let_def limiter_run_drop)
qed

theorem rate_limit_refines_map_witness:
  "accepted 7 (replicate 45 (5, 7)) (rate_run (replicate 45 (5, 7)) rate_table_init) \<le> 80"
proof -
  have hyp: "0 \<notin> set (map snd ([] @ replicate 45 (5 :: int, 7 :: u32)))"
    "card (set (map snd ([] @ replicate 45 (5 :: int, 7 :: u32)))) \<le> 16"
    "list_all (\<lambda>(now, i). 5 \<le> now \<and> now \<le> 5 + RATE_LIMIT_WINDOW_US) (replicate 45 (5 :: int, 7 :: u32))"
    by (simp_all add: list_all_iff fw_const)
  show ?thesis using rate_limit_refines_map [OF hyp, of 7, unfolded Let_def, THEN conjunct2] by simp
qed

lemma evict_slot_0:
  assumes "0 \<notin> re_ip ` set (e # rest)" and "ip \<notin> re_ip ` set (e # rest)"
  shows "rate_limit_check now ip (e # rest) = (True, \<lparr>re_ip = ip, re_count = 1, re_window_start_us = now\<rparr> # rest)"
  using rate_scan_full [OF assms, of 0] by (simp add: rate_limit_check_def Let_def)

text \<open>
  C27: once sixteen other addresses fill the table, the limit no longer binds: two further
  addresses that take turns evict each other from slot 0, and all their requests are
  accepted, however many and however fast.
\<close>

theorem rate_limit_evaded:
  assumes "length table = RATE_LIMIT_TABLE_SIZE" and "list_all (\<lambda>e. re_ip e \<notin> {0, a, b}) table"
    and "a \<noteq> b" and "a \<noteq> 0" and "b \<noteq> 0"
  shows "list_all id (rate_run (concat (map (\<lambda>now. [(now, a), (now, b)]) ts)) table)"
proof -
  obtain e rest where t: "table = e # rest" using assms(1) by (cases table) (auto simp: fw_const)
  have rest: "0 \<notin> re_ip ` set rest" "a \<notin> re_ip ` set rest" "b \<notin> re_ip ` set rest"
    using assms(2) by (auto simp: t list_all_iff)
  have "list_all id (rate_run (concat (map (\<lambda>now. [(now, a), (now, b)]) ts)) (e # rest))"
    if "re_ip e \<noteq> 0" "re_ip e \<noteq> a" for e
    using that
  proof (induction ts arbitrary: e)
    case (Cons now ts)
    have "rate_limit_check now a (e # rest) = (True, \<lparr>re_ip = a, re_count = 1, re_window_start_us = now\<rparr> # rest)"
      using Cons.prems rest by (intro evict_slot_0) auto
    moreover have "rate_limit_check now b (\<lparr>re_ip = a, re_count = 1, re_window_start_us = now\<rparr> # rest)
        = (True, \<lparr>re_ip = b, re_count = 1, re_window_start_us = now\<rparr> # rest)"
      using assms(3,4) rest by (intro evict_slot_0) auto
    ultimately show ?case using Cons.IH [of "\<lparr>re_ip = b, re_count = 1, re_window_start_us = now\<rparr>"] assms(3,5) by simp
  qed simp
  then show ?thesis using assms(2) by (simp add: t)
qed

theorem rate_limit_evaded_witness:
  "list_all id (rate_run (concat (map (\<lambda>now. [(now, 100), (now, 101)]) (replicate 200 0)))
     (map (\<lambda>i. \<lparr>re_ip = i, re_count = 40, re_window_start_us = 0\<rparr>) [1, 2, 3, 4, 5, 6, 7, 8, 9, 10, 11, 12, 13, 14, 15, 16]))"
  by (rule rate_limit_evaded) (simp_all add: fw_const)

end
