(* ===== verification/Firmware_State.thy ===== *)
theory Firmware_State
  imports Admin_Security DMX_Task
begin

text \<open>
  The state of the whole firmware as the admin channel sees it: the statics of every module
  it calls, its own tables, the OTA session, and what leaves the device (datagrams sent, the
  image staged for the next boot, a restart). One record, because the handlers of
  \<open>admin_channel.c\<close> call into all of them.
\<close>

section \<open>The OTA session\<close>

text \<open>
  \<open>os_image\<close> is what the open OTA handle has written to the inactive partition, \<open>os_hash_op\<close>
  the data fed to the running hash, \<open>None\<close> when the operation is inactive or failed.
\<close>

record ota_state =
  os_in_progress :: bool
  os_total_size :: u32
  os_bytes_written :: u32
  os_sha256_expected :: bytes
  os_hash_op :: "bytes option"
  os_last_activity_us :: int
  os_image :: bytes

definition ota_zero :: ota_state where
  "ota_zero = \<lparr>os_in_progress = False, os_total_size = 0, os_bytes_written = 0,
     os_sha256_expected = replicate ADMIN_OTA_SHA256_LEN 0, os_hash_op = None, os_last_activity_us = 0,
     os_image = []\<rparr>"

section \<open>The firmware\<close>

text \<open>
  \<open>fw_boot\<close> is \<open>None\<close> until \<open>esp_ota_set_boot_partition\<close> selects the update partition, and from
  then on what has been written to that partition since it was last erased. There are two
  application slots (\<open>partitions.csv\<close>), so every update of one run goes to the slot that is not
  running: after a first update that slot is both the selected and the next one to be written.
\<close>

record firmware =
  fw_hv :: hv_state
  fw_drv :: drv_state
  fw_tps :: tps_state
  fw_pm :: pm_statics
  fw_vs :: voltage_sense_state
  fw_eth :: eth_state
  fw_dv :: devid_state
  fw_xs :: dmx_cfg_state
  fw_mg :: dmx_merge
  fw_nonces :: "nonce_slot list"
  fw_rate :: "rate_entry list"
  fw_ota :: ota_state
  fw_boot :: "bytes option"             \<comment> \<open>the update partition, once selected for the next boot\<close>
  fw_restart :: bool                    \<comment> \<open>\<open>esp_restart\<close> was called\<close>
  fw_sent :: "datagram list"

text \<open>What the calls of one packet's handling return.\<close>

record admin_env =
  ae_now :: int
  ae_crypto :: crypto
  ae_verify_ok :: bool                  \<comment> \<open>PSA has the resources to verify\<close>
  ae_compute_ok :: bool                 \<comment> \<open>\<dots> to sign\<close>
  ae_decrypt_ok :: bool                 \<comment> \<open>\<dots> to decrypt\<close>
  ae_random :: "bytes option"           \<comment> \<open>\<open>psa_generate_random\<close>\<close>
  ae_nvs :: nvs_outcome
  ae_erase_ok :: bool                   \<comment> \<open>\<open>nvs_flash_erase_partition\<close>\<close>
  ae_efuse :: "bytes option"
  ae_app_version :: string
  ae_reset_reason :: u8
  ae_cali :: "int \<Rightarrow> int"
  ae_adc :: "int option \<times> int option"
  ae_partition :: "u32 option"          \<comment> \<open>size of the next update partition\<close>
  ae_ota_begin :: esp_err
  ae_ota_write :: esp_err
  ae_ota_end :: esp_err
  ae_set_boot :: esp_err
  ae_hash_setup_ok :: bool
  ae_hash_update_ok :: bool
  ae_hash_finish_ok :: bool
  ae_flash_left :: "bytes \<Rightarrow> bytes"      \<comment> \<open>what a failing erase or write makes of the partition\<close>

section \<open>Sending\<close>

text \<open>The secret the handlers pass as key, read when the response is built.\<close>

definition fw_secret :: "firmware \<Rightarrow> bytes" where
  "fw_secret fw = devid_get_admin_secret (fw_dv fw)"

definition send_packet ::
  "admin_env \<Rightarrow> sockaddr_in \<Rightarrow> u8 \<Rightarrow> bytes option \<Rightarrow> bytes \<Rightarrow> bytes option \<Rightarrow> firmware \<Rightarrow> firmware" where
  "send_packet e dst type nonce payload hmac_key fw =
     (let (serial, dv) = devid_get_serial (ae_efuse e) (fw_dv fw);
          buf = packet_bytes (ae_crypto e) (ae_compute_ok e) serial type nonce payload hmac_key
      in fw\<lparr>fw_dv := dv, fw_sent := fw_sent fw @ [\<lparr>dg_dst = dst, dg_data = buf\<rparr>]\<rparr>)"

definition send_status_resp ::
  "admin_env \<Rightarrow> sockaddr_in \<Rightarrow> bytes \<Rightarrow> u8 \<Rightarrow> admin_status \<Rightarrow> bytes \<Rightarrow> firmware \<Rightarrow> firmware" where
  "send_status_resp e dst nonce type status hmac_key =
     send_packet e dst type (Some nonce) [admin_status_value status] (Some hmac_key)"

text \<open>What sending leaves alone: everything but the sent datagrams and the lazily computed serial.\<close>

lemma send_packet_frame [simp]:
  fixes e dst type nonce payload key fw
  defines "r \<equiv> send_packet e dst type nonce payload key fw"
  shows "fw_hv r = fw_hv fw" "fw_drv r = fw_drv fw" "fw_tps r = fw_tps fw" "fw_pm r = fw_pm fw"
    "fw_vs r = fw_vs fw" "fw_eth r = fw_eth fw" "fw_xs r = fw_xs fw" "fw_mg r = fw_mg fw"
    "fw_nonces r = fw_nonces fw" "fw_rate r = fw_rate fw" "fw_ota r = fw_ota fw" "fw_boot r = fw_boot fw"
    "fw_restart r = fw_restart fw" "dv_active_secret (fw_dv r) = dv_active_secret (fw_dv fw)"
    "dv_blob (fw_dv r) = dv_blob (fw_dv fw)" "dv_nvs_ok (fw_dv r) = dv_nvs_ok (fw_dv fw)"
  by (simp_all add: r_def send_packet_def split_def Let_def devid_get_serial_def compute_serial_def)

lemma send_packet_secret [simp]: "fw_secret (send_packet e dst type nonce payload key fw) = fw_secret fw"
  by (simp add: fw_secret_def devid_get_admin_secret_def)

lemma send_status_unfold [simp]:
  "send_status_resp e dst nonce type status key fw =
     send_packet e dst type (Some nonce) [admin_status_value status] (Some key) fw"
  by (simp add: send_status_resp_def)

text \<open>Every response is one datagram to the requester.\<close>

lemma send_packet_sent:
  "fw_sent (send_packet e dst type nonce payload key fw) = fw_sent fw @
     [\<lparr>dg_dst = dst, dg_data = packet_bytes (ae_crypto e) (ae_compute_ok e)
         (fst (devid_get_serial (ae_efuse e) (fw_dv fw))) type nonce payload key\<rparr>]"
  by (simp add: send_packet_def split_def Let_def)

end
