(* ===== verification/Admin_Ota.thy ===== *)
theory Admin_Ota
  imports Firmware_State
begin

text \<open>
  The firmware update over the admin channel: \<open>ota_reset\<close> and the handlers of OTA_BEGIN,
  OTA_CHUNK, OTA_END and OTA_ABORT in \<open>admin_channel.c\<close>. The \<open>esp_ota\<close> calls are external:
  \<open>esp_ota_begin\<close> erases the update partition, \<open>esp_ota_write\<close> appends to the image of the open
  handle, \<open>esp_ota_set_boot_partition\<close> stages it, and their return codes are inputs, as are those
  of the hash operation. The erase and the writes go to the one partition that is not running,
  also when it has been selected for the next boot; \<open>boot_slot\<close> is their effect there, and what a
  failing call leaves in the flash is an input.
\<close>

section \<open>Handlers\<close>

definition OTA_IDLE_TIMEOUT_US :: int where [fw_const]: "OTA_IDLE_TIMEOUT_US = 30 * 1000000"

definition boot_slot :: "(bytes \<Rightarrow> bytes) \<Rightarrow> firmware \<Rightarrow> firmware" where
  "boot_slot flash fw = fw\<lparr>fw_boot := map_option flash (fw_boot fw)\<rparr>"

text \<open>Aborting the handle and the hash has no effect that outlives the session.\<close>

definition ota_reset :: "bool \<Rightarrow> firmware \<Rightarrow> firmware" where
  "ota_reset abort_handle fw = fw\<lparr>fw_ota := ota_zero\<rparr>"

definition send_ota_chunk_resp ::
  "admin_env \<Rightarrow> sockaddr_in \<Rightarrow> bytes \<Rightarrow> admin_status \<Rightarrow> u32 \<Rightarrow> firmware \<Rightarrow> firmware" where
  "send_ota_chunk_resp e src nonce status bytes_written fw =
     send_packet e src ADMIN_TYPE_OTA_CHUNK_RESP (Some nonce)
       ([admin_status_value status] @ put_u32_be bytes_written) (Some (fw_secret fw)) fw"

definition handle_ota_begin ::
  "admin_env \<Rightarrow> parsed_header \<Rightarrow> bytes \<Rightarrow> sockaddr_in \<Rightarrow> firmware \<Rightarrow> firmware" where
  "handle_ota_begin e hdr payload src fw =
     (let respond = (\<lambda>status fw. send_status_resp e src (ph_nonce hdr) ADMIN_TYPE_OTA_BEGIN_RESP status (fw_secret fw) fw)
      in if length payload \<noteq> 4 + ADMIN_OTA_SHA256_LEN then respond ADMIN_STATUS_ERR_BAD_ARG fw
         else
           let now = ae_now e; s = fw_ota fw
           in if os_in_progress s \<and> now - os_last_activity_us s < OTA_IDLE_TIMEOUT_US
              then respond ADMIN_STATUS_ERR_BUSY fw
              else
                let fw = (if os_in_progress s then ota_reset True fw else fw);
                    total_size = get_u32_be payload 0
                in case ae_partition e of
                     None \<Rightarrow> respond ADMIN_STATUS_ERR_BAD_ARG fw
                   | Some partition_size \<Rightarrow>
                       if total_size = 0 \<or> partition_size < total_size then respond ADMIN_STATUS_ERR_BAD_ARG fw
                       else if ae_ota_begin e \<noteq> ESP_OK
                       then respond ADMIN_STATUS_ERR_INTERNAL (boot_slot (ae_flash_left e) fw)
                       else
                         let fw = (boot_slot (\<lambda>_. []) fw)\<lparr>fw_ota := ota_zero\<lparr>os_in_progress := True, os_total_size := total_size,
                                os_sha256_expected := slice 4 ADMIN_OTA_SHA256_LEN payload,
                                os_last_activity_us := now,
                                os_hash_op := (if ae_hash_setup_ok e then Some [] else None)\<rparr>\<rparr>
                         in respond ADMIN_STATUS_OK fw)"

definition handle_ota_chunk ::
  "admin_env \<Rightarrow> parsed_header \<Rightarrow> bytes \<Rightarrow> sockaddr_in \<Rightarrow> firmware \<Rightarrow> firmware" where
  "handle_ota_chunk e hdr payload src fw =
     (let respond = send_ota_chunk_resp e src (ph_nonce hdr); s = fw_ota fw
      in if \<not> os_in_progress s \<or> length payload < 4
         then respond ADMIN_STATUS_ERR_BAD_ARG (os_bytes_written s) fw
         else
           let offset = get_u32_be payload 0; data = drop 4 payload
           in if offset < os_bytes_written s then respond ADMIN_STATUS_OK (os_bytes_written s) fw
              else if offset \<noteq> os_bytes_written s \<or> unat (os_total_size s) < unat offset + length data
              then respond ADMIN_STATUS_ERR_BAD_ARG (os_bytes_written s) fw
              else if ae_ota_write e \<noteq> ESP_OK
              then respond ADMIN_STATUS_ERR_INTERNAL 0 (ota_reset True (boot_slot (ae_flash_left e) fw))
              else
                let s = s\<lparr>os_image := os_image s @ data,
                          os_hash_op := (if ae_hash_update_ok e
                             then map_option (\<lambda>hashed. hashed @ data) (os_hash_op s) else None),
                          os_bytes_written := os_bytes_written s + of_nat (length data),
                          os_last_activity_us := ae_now e\<rparr>
                in respond ADMIN_STATUS_OK (os_bytes_written s)
                     ((boot_slot (\<lambda>image. image @ data) fw)\<lparr>fw_ota := s\<rparr>))"

definition handle_ota_end :: "admin_env \<Rightarrow> parsed_header \<Rightarrow> sockaddr_in \<Rightarrow> firmware \<Rightarrow> firmware" where
  "handle_ota_end e hdr src fw =
     (let respond = (\<lambda>status fw. send_status_resp e src (ph_nonce hdr) ADMIN_TYPE_OTA_END_RESP status (fw_secret fw) fw);
          s = fw_ota fw
      in if \<not> os_in_progress s then respond ADMIN_STATUS_ERR_BAD_ARG fw
         else if os_bytes_written s \<noteq> os_total_size s
         then respond ADMIN_STATUS_ERR_BAD_ARG (ota_reset True fw)
         else
           let digest = (if ae_hash_finish_ok e then map_option (cr_sha256 (ae_crypto e)) (os_hash_op s) else None);
               hash_ok = (case digest of None \<Rightarrow> False
                          | Some d \<Rightarrow> length d = ADMIN_OTA_SHA256_LEN \<and> d = os_sha256_expected s)
           in if \<not> hash_ok then respond ADMIN_STATUS_ERR_BAD_ARG (fw\<lparr>fw_ota := ota_zero\<rparr>)
              else if ae_ota_end e \<noteq> ESP_OK then respond ADMIN_STATUS_ERR_INTERNAL (fw\<lparr>fw_ota := ota_zero\<rparr>)
              else
                let err = ae_set_boot e;
                    fw = (if err = ESP_OK then fw\<lparr>fw_boot := Some (os_image s)\<rparr> else fw);
                    fw = fw\<lparr>fw_ota := ota_zero\<rparr>
                in if err \<noteq> ESP_OK then respond ADMIN_STATUS_ERR_INTERNAL fw
                   else respond ADMIN_STATUS_OK fw)"

definition handle_ota_abort :: "admin_env \<Rightarrow> parsed_header \<Rightarrow> sockaddr_in \<Rightarrow> firmware \<Rightarrow> firmware" where
  "handle_ota_abort e hdr src fw =
     (let fw = (if os_in_progress (fw_ota fw) then ota_reset True fw else fw)
      in send_status_resp e src (ph_nonce hdr) ADMIN_TYPE_OTA_ABORT_RESP ADMIN_STATUS_OK (fw_secret fw) fw)"

lemmas ota_handler_defs = handle_ota_begin_def handle_ota_chunk_def handle_ota_end_def handle_ota_abort_def
  ota_reset_def send_ota_chunk_resp_def boot_slot_def

lemma boot_slot_frame [simp]:
  "fw_hv (boot_slot f fw) = fw_hv fw" "fw_drv (boot_slot f fw) = fw_drv fw" "fw_tps (boot_slot f fw) = fw_tps fw"
  "fw_pm (boot_slot f fw) = fw_pm fw" "fw_vs (boot_slot f fw) = fw_vs fw" "fw_eth (boot_slot f fw) = fw_eth fw"
  "fw_dv (boot_slot f fw) = fw_dv fw" "fw_xs (boot_slot f fw) = fw_xs fw" "fw_mg (boot_slot f fw) = fw_mg fw"
  "fw_nonces (boot_slot f fw) = fw_nonces fw" "fw_rate (boot_slot f fw) = fw_rate fw"
  "fw_ota (boot_slot f fw) = fw_ota fw" "fw_restart (boot_slot f fw) = fw_restart fw"
  "fw_sent (boot_slot f fw) = fw_sent fw" "fw_boot (boot_slot f fw) = map_option f (fw_boot fw)"
  by (simp_all add: boot_slot_def)

lemma boot_slot_secret [simp]: "fw_secret (boot_slot f fw) = fw_secret fw"
  by (simp add: fw_secret_def)

section \<open>The session invariant\<close>

text \<open>
  A live session counts exactly the bytes it has written, never more than announced, and
  the hash has seen the same bytes; an idle one is all zero.
\<close>

definition ota_ok :: "ota_state \<Rightarrow> bool" where
  "ota_ok s \<longleftrightarrow>
     (if os_in_progress s
      then length (os_image s) = unat (os_bytes_written s) \<and> os_bytes_written s \<le> os_total_size s
        \<and> os_total_size s \<noteq> 0 \<and> os_hash_op s \<in> {None, Some (os_image s)}
        \<and> length (os_sha256_expected s) = 32
      else s = ota_zero)"

lemma ota_ok_zero [simp]: "ota_ok ota_zero" "\<not> os_in_progress ota_zero"
  by (simp_all add: ota_ok_def ota_zero_def)

lemma chunk_count:
  assumes "unat (b :: u32) + n \<le> unat (t :: u32)"
  shows "unat (b + of_nat n) = unat b + n"
proof -
  have "n < 2 ^ 32" using assms u32_lt [of t] by simp
  then have "unat (of_nat n :: u32) = n" by (simp add: unsigned_of_nat take_bit_nat_eq_self)
  then show ?thesis using assms u32_lt [of t] by (subst unat_add_small) simp_all
qed

lemma begin_ok: "ota_ok (fw_ota fw) \<Longrightarrow> ota_ok (fw_ota (handle_ota_begin e hdr payload src fw))"
  by (auto simp: handle_ota_begin_def ota_reset_def Let_def ota_ok_def length_slice fw_const ota_zero_def
        split: option.split)

lemma chunk_ok:
  assumes "ota_ok (fw_ota fw)"
  shows "ota_ok (fw_ota (handle_ota_chunk e hdr payload src fw))"
proof -
  let ?s = "fw_ota fw" and ?n = "length payload - 4"
  have grow: "unat (os_bytes_written ?s + of_nat ?n) = unat (os_bytes_written ?s) + ?n
      \<and> os_bytes_written ?s + of_nat ?n \<le> os_total_size ?s"
    if "unat (os_bytes_written ?s) + ?n \<le> unat (os_total_size ?s)"
    using chunk_count [OF that] that by (simp add: word_le_unat)
  show ?thesis
    using assms grow
    by (auto simp: handle_ota_chunk_def send_ota_chunk_resp_def ota_reset_def Let_def ota_ok_def not_less
          split del: if_split split: if_splits)
qed

lemma end_ok: "ota_ok (fw_ota fw) \<Longrightarrow> ota_ok (fw_ota (handle_ota_end e hdr src fw))"
  by (auto simp: handle_ota_end_def ota_reset_def Let_def split: option.split)

lemma abort_ok: "ota_ok (fw_ota fw) \<Longrightarrow> ota_ok (fw_ota (handle_ota_abort e hdr src fw))"
  by (auto simp: handle_ota_abort_def ota_reset_def Let_def)

section \<open>What may be staged\<close>

text \<open>
  The update partition is selected only by OTA_END, with an image of the announced size and
  hash. Begin and chunk never select it, but write to it whether it is selected or not.
\<close>

lemma begin_boot:
  "\<exists>flash \<in> {id, \<lambda>_. [], ae_flash_left e}. fw_boot (handle_ota_begin e hdr payload src fw) = map_option flash (fw_boot fw)"
  by (simp add: handle_ota_begin_def ota_reset_def Let_def option.map_id split: option.split)

lemma chunk_boot:
  "\<exists>flash \<in> {id, \<lambda>image. image @ drop 4 payload, ae_flash_left e}.
     fw_boot (handle_ota_chunk e hdr payload src fw) = map_option flash (fw_boot fw)"
  by (simp add: handle_ota_chunk_def send_ota_chunk_resp_def ota_reset_def Let_def option.map_id)

lemma begin_chunk_boot [simp]:
  "fw_boot fw = None \<Longrightarrow> fw_boot (handle_ota_begin e hdr payload src fw) = None"
  "fw_boot fw = None \<Longrightarrow> fw_boot (handle_ota_chunk e hdr payload src fw) = None"
  using begin_boot [of e hdr payload src fw] chunk_boot [of payload e hdr src fw] by auto

lemma abort_boot [simp]: "fw_boot (handle_ota_abort e hdr src fw) = fw_boot fw"
  by (simp add: handle_ota_abort_def ota_reset_def Let_def)

lemma end_boot:
  assumes "ota_ok (fw_ota fw)"
  shows "fw_boot (handle_ota_end e hdr src fw) = fw_boot fw
    \<or> fw_boot (handle_ota_end e hdr src fw) = Some (os_image (fw_ota fw))
      \<and> os_in_progress (fw_ota fw)
      \<and> length (os_image (fw_ota fw)) = unat (os_total_size (fw_ota fw))
      \<and> cr_sha256 (ae_crypto e) (os_image (fw_ota fw)) = os_sha256_expected (fw_ota fw)
      \<and> ae_ota_end e = ESP_OK \<and> ae_set_boot e = ESP_OK"
  using assms
  by (cases "os_hash_op (fw_ota fw)")
     (auto simp: handle_ota_end_def ota_reset_def ota_ok_def Let_def split: if_splits)

end
