(* ===== verification/Admin_Channel.thy ===== *)
theory Admin_Channel
  imports Admin_Ota
begin

text \<open>
  \<open>components/admin_channel/admin_channel.c\<close>: the handlers of the admin commands, and
  \<open>handle_packet\<close>, which rate-limits, parses, authenticates and dispatches every datagram. Each
  handler is a function on the state of the firmware, with every response it sends and every call
  it makes into the other modules.
\<close>

section \<open>INFO\<close>

text \<open>The 84 bytes of the INFO response, in the order they are written.\<close>

definition info_payload :: "admin_env \<Rightarrow> bytes \<Rightarrow> firmware \<Rightarrow> bytes" where
  "info_payload e mac fw =
     (let tps = fw_tps fw; hv = fw_hv fw; pm = fw_pm fw;
          led_mv = (case voltage_sense_read (ae_cali e) (fw_vs fw) (fst (ae_adc e)) (snd (ae_adc e)) of
                      Some v \<Rightarrow> vr_led_voltage_mv v | None \<Rightarrow> 0);
          dmx = (case dmx_input_get_status (fw_xs fw) (fw_mg fw) of
                   Some st \<Rightarrow> st
                 | None \<Rightarrow> \<lparr>st_layer_enabled = False, st_active_source = 0, st_merged_level_pct = 0, st_fps = 0,
                     st_artnet_port_address = 0, st_sacn_universe = 0, st_last_src_ip = 0, st_dmx_address = 0,
                     st_personality = 0, st_proto_mask = 0\<rparr>);
          drv = (case driver_config_get (fw_drv fw) of
                   Some c \<Rightarrow> c
                 | None \<Rightarrow> \<lparr>dc_mode = 0, dc_pwm_freq_hz = 0, dc_analog_freq_hz = 0, dc_min_on_time_us = 0,
                     dc_crossover_pct = 0, dc_power_mode = 0, dc_poe_cap_pct = 0, dc_lin_enable = 0\<rparr>)
      in take 6 mac
         @ strncpy 15 (ae_app_version e) @ [0]
         @ (case eth_get_ip_info (fw_eth fw) of Some info \<Rightarrow> mem_u32 (ip_addr info) | None \<Rightarrow> [0, 0, 0, 0])
         @ put_u32_be (of_int (ae_now e div 1000000))
         @ [ae_reset_reason e,
            (if tps2378_is_ready tps then 1 else 0),
            of_nat (source_value (tps2378_get_source tps)),
            (if tps2378_cdb_confirmed tps then 1 else 0),
            (if tps2378_t2p_confirmed tps then 1 else 0),
            (if tps2378_vbus_confirmed tps then 1 else 0),
            (if hv9910_is_enabled hv then 1 else 0),
            (if hv9910_pending_on hv then 1 else 0),
            hv9910_get_dim_percent hv]
         @ put_u32_be (of_int (tps2378_get_vbus_mv tps))
         @ put_u32_be (of_int led_mv)
         @ [(if st_layer_enabled dmx then 1 else 0), st_active_source dmx, st_merged_level_pct dmx, st_fps dmx]
         @ put_u16_be (st_artnet_port_address dmx)
         @ put_u16_be (st_sacn_universe dmx)
         @ put_u32_be (st_last_src_ip dmx)
         @ put_u16_be (st_dmx_address dmx)
         @ [st_personality dmx, st_proto_mask dmx]
         @ [dc_mode drv]
         @ put_u16_be (dc_pwm_freq_hz drv)
         @ put_u16_be (ucast (dc_analog_freq_hz drv div 10))
         @ put_u16_be (dc_min_on_time_us drv)
         @ [dc_crossover_pct drv]
         @ [dc_power_mode drv, dc_poe_cap_pct drv,
            pm_state_value (power_manager_get_state pm),
            power_manager_effective_scale_pct pm]
         @ put_u16_be (power_manager_budget_cw pm)
         @ [dc_lin_enable drv]
         @ replicate 6 0)"

definition handle_info :: "admin_env \<Rightarrow> parsed_header \<Rightarrow> sockaddr_in \<Rightarrow> firmware \<Rightarrow> firmware" where
  "handle_info e hdr src fw =
     (let (mac, dv) = devid_get_mac (ae_efuse e) (fw_dv fw);
          fw = fw\<lparr>fw_dv := dv\<rparr>
      in send_packet e src ADMIN_TYPE_INFO_RESP None (info_payload e mac fw) None fw)"

section \<open>Light commands\<close>

definition handle_challenge :: "admin_env \<Rightarrow> parsed_header \<Rightarrow> sockaddr_in \<Rightarrow> firmware \<Rightarrow> firmware" where
  "handle_challenge e hdr src fw =
     (case nonce_issue (ae_now e) (htonl (sin_addr src)) (ae_random e) (fw_nonces fw) of
        (None, pool) \<Rightarrow> fw\<lparr>fw_nonces := pool\<rparr>
      | (Some new_nonce, pool) \<Rightarrow>
          let fw = fw\<lparr>fw_nonces := pool\<rparr>
          in send_packet e src ADMIN_TYPE_CHALLENGE_RESP (Some new_nonce) [] (Some (fw_secret fw)) fw)"

definition handle_on :: "admin_env \<Rightarrow> parsed_header \<Rightarrow> bytes \<Rightarrow> sockaddr_in \<Rightarrow> firmware \<Rightarrow> firmware" where
  "handle_on e hdr payload src fw =
     (let respond = (\<lambda>status fw. send_status_resp e src (ph_nonce hdr) ADMIN_TYPE_ON_RESP status (fw_secret fw) fw)
      in if length payload \<noteq> 4 then respond ADMIN_STATUS_ERR_BAD_ARG fw
         else if \<not> tps2378_is_ready (fw_tps fw) \<or> \<not> power_manager_output_allowed (fw_pm fw)
         then respond ADMIN_STATUS_ACCEPTED_PENDING (fw\<lparr>fw_hv := hv9910_set_pending True 0 (fw_hv fw)\<rparr>)
         else respond ADMIN_STATUS_OK (fw\<lparr>fw_hv := hv9910_enable (fw_hv fw)\<rparr>))"

definition handle_off :: "admin_env \<Rightarrow> parsed_header \<Rightarrow> bytes \<Rightarrow> sockaddr_in \<Rightarrow> firmware \<Rightarrow> firmware" where
  "handle_off e hdr payload src fw =
     (let respond = (\<lambda>status fw. send_status_resp e src (ph_nonce hdr) ADMIN_TYPE_OFF_RESP status (fw_secret fw) fw)
      in if length payload \<noteq> 4 then respond ADMIN_STATUS_ERR_BAD_ARG fw
         else respond ADMIN_STATUS_OK (fw\<lparr>fw_hv := hv9910_disable (fw_hv fw)\<rparr>))"

definition handle_dim :: "admin_env \<Rightarrow> parsed_header \<Rightarrow> bytes \<Rightarrow> sockaddr_in \<Rightarrow> firmware \<Rightarrow> firmware" where
  "handle_dim e hdr payload src fw =
     (let respond = (\<lambda>status fw. send_status_resp e src (ph_nonce hdr) ADMIN_TYPE_DIM_RESP status (fw_secret fw) fw)
      in if length payload \<noteq> 5 \<or> 100 < payload ! 0 then respond ADMIN_STATUS_ERR_BAD_ARG fw
         else
           let percent = payload ! 0
           in if percent = 0 then respond ADMIN_STATUS_OK (fw\<lparr>fw_hv := hv9910_disable (fw_hv fw)\<rparr>)
              else if \<not> tps2378_is_ready (fw_tps fw) \<or> \<not> power_manager_output_allowed (fw_pm fw)
              then respond ADMIN_STATUS_ACCEPTED_PENDING (fw\<lparr>fw_hv := hv9910_set_pending True percent (fw_hv fw)\<rparr>)
              else respond ADMIN_STATUS_OK (fw\<lparr>fw_hv := hv9910_enable_at percent (fw_hv fw)\<rparr>))"

definition handle_identify :: "admin_env \<Rightarrow> parsed_header \<Rightarrow> sockaddr_in \<Rightarrow> firmware \<Rightarrow> firmware" where
  "handle_identify e hdr src fw =
     (let respond = (\<lambda>status fw. send_status_resp e src (ph_nonce hdr) ADMIN_TYPE_IDENTIFY_RESP status (fw_secret fw) fw)
      in if \<not> tps2378_is_ready (fw_tps fw) \<or> \<not> power_manager_output_allowed (fw_pm fw)
         then respond ADMIN_STATUS_ERR_NOT_READY fw
         else let fw = respond ADMIN_STATUS_OK fw in fw\<lparr>fw_hv := hv9910_identify (fw_hv fw)\<rparr>)"

section \<open>Device commands\<close>

definition handle_reboot :: "admin_env \<Rightarrow> parsed_header \<Rightarrow> sockaddr_in \<Rightarrow> firmware \<Rightarrow> firmware" where
  "handle_reboot e hdr src fw =
     (send_status_resp e src (ph_nonce hdr) ADMIN_TYPE_REBOOT_RESP ADMIN_STATUS_OK (fw_secret fw) fw)
       \<lparr>fw_restart := True\<rparr>"

text \<open>Erasing the partition removes what all three modules store in it.\<close>

definition nvs_erase :: "firmware \<Rightarrow> firmware" where
  "nvs_erase fw = fw\<lparr>fw_drv := (fw_drv fw)\<lparr>drv_blob := None\<rparr>, fw_xs := (fw_xs fw)\<lparr>xs_blob := None\<rparr>,
     fw_dv := (fw_dv fw)\<lparr>dv_blob := None\<rparr>\<rparr>"

definition handle_factory_reset :: "admin_env \<Rightarrow> parsed_header \<Rightarrow> sockaddr_in \<Rightarrow> firmware \<Rightarrow> firmware" where
  "handle_factory_reset e hdr src fw =
     (let fw = send_status_resp e src (ph_nonce hdr) ADMIN_TYPE_FACTORY_RESET_RESP ADMIN_STATUS_OK (fw_secret fw) fw;
          fw = (if ae_erase_ok e then nvs_erase fw else fw)
      in fw\<lparr>fw_restart := True\<rparr>)"

text \<open>\<open>raw_header\<close> is the header part of the packet, the associated data of the ciphertext.\<close>

definition handle_change_secret ::
  "admin_env \<Rightarrow> parsed_header \<Rightarrow> bytes \<Rightarrow> sockaddr_in \<Rightarrow> bytes \<Rightarrow> firmware \<Rightarrow> firmware" where
  "handle_change_secret e hdr payload src raw_header fw =
     (let respond = (\<lambda>status fw. send_status_resp e src (ph_nonce hdr) ADMIN_TYPE_CHANGE_SECRET_RESP status (fw_secret fw) fw)
      in if length payload \<noteq> DEVID_SECRET_LEN + ADMIN_GCM_TAG_LEN then respond ADMIN_STATUS_ERR_BAD_ARG fw
         else
           case gcm_decrypt (ae_crypto e) (ae_decrypt_ok e) (fw_secret fw) (ph_nonce hdr) raw_header payload of
             None \<Rightarrow> respond ADMIN_STATUS_ERR_BAD_ARG fw
           | Some new_secret \<Rightarrow>
               if length new_secret \<noteq> DEVID_SECRET_LEN then respond ADMIN_STATUS_ERR_BAD_ARG fw
               else
                 let (ok, dv) = devid_set_admin_secret (ae_nvs e) new_secret (fw_dv fw);
                     fw = fw\<lparr>fw_dv := dv\<rparr>
                 in if \<not> ok then respond ADMIN_STATUS_ERR_INTERNAL fw else respond ADMIN_STATUS_OK fw)"

section \<open>Configuration commands\<close>

definition handle_dmx_get_config :: "admin_env \<Rightarrow> parsed_header \<Rightarrow> sockaddr_in \<Rightarrow> firmware \<Rightarrow> firmware" where
  "handle_dmx_get_config e hdr src fw =
     (case dmx_input_get_config (fw_xs fw) of
        None \<Rightarrow> send_status_resp e src (ph_nonce hdr) ADMIN_TYPE_DMX_GET_CONFIG_RESP ADMIN_STATUS_ERR_INTERNAL (fw_secret fw) fw
      | Some cfg \<Rightarrow>
          send_packet e src ADMIN_TYPE_DMX_GET_CONFIG_RESP (Some (ph_nonce hdr)) (dmx_config_pack cfg) (Some (fw_secret fw)) fw)"

definition handle_dmx_set_config ::
  "admin_env \<Rightarrow> parsed_header \<Rightarrow> bytes \<Rightarrow> sockaddr_in \<Rightarrow> firmware \<Rightarrow> firmware" where
  "handle_dmx_set_config e hdr payload src fw =
     (let respond = (\<lambda>status fw. send_status_resp e src (ph_nonce hdr) ADMIN_TYPE_DMX_SET_CONFIG_RESP status (fw_secret fw) fw)
      in if length payload \<noteq> DMX_CFG_WIRE_SIZE then respond ADMIN_STATUS_ERR_BAD_ARG fw
         else case dmx_config_unpack payload of
             None \<Rightarrow> respond ADMIN_STATUS_ERR_BAD_ARG fw
           | Some cfg \<Rightarrow>
               let (ok, xs) = dmx_input_set_config (ae_nvs e) cfg (fw_xs fw);
                   fw = fw\<lparr>fw_xs := xs\<rparr>
               in if \<not> ok then respond ADMIN_STATUS_ERR_INTERNAL fw else respond ADMIN_STATUS_OK fw)"

definition handle_driver_get_config :: "admin_env \<Rightarrow> parsed_header \<Rightarrow> sockaddr_in \<Rightarrow> firmware \<Rightarrow> firmware" where
  "handle_driver_get_config e hdr src fw =
     (case driver_config_get (fw_drv fw) of
        None \<Rightarrow> send_status_resp e src (ph_nonce hdr) ADMIN_TYPE_DRIVER_GET_CONFIG_RESP ADMIN_STATUS_ERR_INTERNAL (fw_secret fw) fw
      | Some cfg \<Rightarrow>
          send_packet e src ADMIN_TYPE_DRIVER_GET_CONFIG_RESP (Some (ph_nonce hdr)) (driver_config_pack cfg) (Some (fw_secret fw)) fw)"

definition handle_driver_set_config ::
  "admin_env \<Rightarrow> parsed_header \<Rightarrow> bytes \<Rightarrow> sockaddr_in \<Rightarrow> firmware \<Rightarrow> firmware" where
  "handle_driver_set_config e hdr payload src fw =
     (let respond = (\<lambda>status fw. send_status_resp e src (ph_nonce hdr) ADMIN_TYPE_DRIVER_SET_CONFIG_RESP status (fw_secret fw) fw)
      in if length payload \<noteq> DRV_CFG_WIRE_SIZE then respond ADMIN_STATUS_ERR_BAD_ARG fw
         else case driver_config_unpack payload of
             None \<Rightarrow> respond ADMIN_STATUS_ERR_BAD_ARG fw
           | Some cfg \<Rightarrow>
               let (ok, drv, hv) = driver_config_set (ae_nvs e) cfg (fw_drv fw, fw_hv fw);
                   fw = fw\<lparr>fw_drv := drv, fw_hv := hv\<rparr>
               in if \<not> ok then respond ADMIN_STATUS_ERR_INTERNAL fw
                  else
                    let (pm, hv) = power_manager_reeval (fw_tps fw) (fw_drv fw) (fw_pm fw, fw_hv fw)
                    in respond ADMIN_STATUS_OK (fw\<lparr>fw_pm := pm, fw_hv := hv\<rparr>))"

section \<open>Dispatch\<close>

text \<open>The final \<open>switch\<close>; \<open>buf\<close> is the packet, \<open>payload\<close> its payload part.\<close>

definition dispatch_packet ::
  "admin_env \<Rightarrow> parsed_header \<Rightarrow> bytes \<Rightarrow> bytes \<Rightarrow> sockaddr_in \<Rightarrow> firmware \<Rightarrow> firmware" where
  "dispatch_packet e hdr buf payload src fw =
     (let type = ph_type hdr
      in if type = ADMIN_TYPE_CHALLENGE then handle_challenge e hdr src fw
         else if type = ADMIN_TYPE_ON then handle_on e hdr payload src fw
         else if type = ADMIN_TYPE_OFF then handle_off e hdr payload src fw
         else if type = ADMIN_TYPE_DIM then handle_dim e hdr payload src fw
         else if type = ADMIN_TYPE_IDENTIFY then handle_identify e hdr src fw
         else if type = ADMIN_TYPE_REBOOT then handle_reboot e hdr src fw
         else if type = ADMIN_TYPE_OTA_BEGIN then handle_ota_begin e hdr payload src fw
         else if type = ADMIN_TYPE_OTA_CHUNK then handle_ota_chunk e hdr payload src fw
         else if type = ADMIN_TYPE_OTA_END then handle_ota_end e hdr src fw
         else if type = ADMIN_TYPE_OTA_ABORT then handle_ota_abort e hdr src fw
         else if type = ADMIN_TYPE_FACTORY_RESET then handle_factory_reset e hdr src fw
         else if type = ADMIN_TYPE_CHANGE_SECRET
         then handle_change_secret e hdr payload src (take ADMIN_HEADER_WIRE_SIZE buf) fw
         else if type = ADMIN_TYPE_DMX_GET_CONFIG then handle_dmx_get_config e hdr src fw
         else if type = ADMIN_TYPE_DMX_SET_CONFIG then handle_dmx_set_config e hdr payload src fw
         else if type = ADMIN_TYPE_DRIVER_GET_CONFIG then handle_driver_get_config e hdr src fw
         else if type = ADMIN_TYPE_DRIVER_SET_CONFIG then handle_driver_set_config e hdr payload src fw
         else send_status_resp e src (ph_nonce hdr) ADMIN_TYPE_ERR_RESP ADMIN_STATUS_ERR_BAD_ARG (fw_secret fw) fw)"

definition handle_packet :: "admin_env \<Rightarrow> bytes \<Rightarrow> sockaddr_in \<Rightarrow> firmware \<Rightarrow> firmware" where
  "handle_packet e buf src fw =
     (let ip = htonl (sin_addr src);
          (allowed, rate) = rate_limit_check (ae_now e) ip (fw_rate fw);
          fw = fw\<lparr>fw_rate := rate\<rparr>
      in if \<not> allowed then fw
         else case parse_header buf of
             None \<Rightarrow> fw
           | Some hdr \<Rightarrow>
               if ph_magic hdr \<noteq> ADMIN_PROTO_MAGIC \<or> ph_version hdr \<noteq> ADMIN_PROTO_VERSION then fw
               else
                 let len = unat (ph_payload_len hdr)
                 in if ADMIN_MAX_PAYLOAD < len \<or> length buf \<noteq> ADMIN_HEADER_WIRE_SIZE + len + ADMIN_HMAC_LEN then fw
                    else
                      let payload = slice ADMIN_HEADER_WIRE_SIZE len buf;
                          hmac = drop (ADMIN_HEADER_WIRE_SIZE + len) buf;
                          covered = take (ADMIN_HEADER_WIRE_SIZE + len) buf
                      in if ph_type hdr = ADMIN_TYPE_INFO then handle_info e hdr src fw
                         else
                           let (serial, dv) = devid_get_serial (ae_efuse e) (fw_dv fw);
                               fw = fw\<lparr>fw_dv := dv\<rparr>
                           in if ph_serial hdr \<noteq> padded_serial serial then fw
                              else if \<not> hmac_verify (ae_crypto e) (ae_verify_ok e) (fw_secret fw) covered hmac then fw
                              else
                                let needs_pool_nonce =
                                      (ph_type hdr \<noteq> ADMIN_TYPE_CHALLENGE \<and> ph_type hdr \<noteq> ADMIN_TYPE_OTA_CHUNK);
                                    (ok, pool) = (if needs_pool_nonce
                                      then nonce_consume (ae_now e) ip (ph_nonce hdr) (fw_nonces fw)
                                      else (True, fw_nonces fw));
                                    fw = fw\<lparr>fw_nonces := pool\<rparr>
                                in if needs_pool_nonce \<and> \<not> ok then fw
                                   else dispatch_packet e hdr buf payload src fw)"

text \<open>
  One round of the task's loop: \<open>recvfrom\<close> cuts a datagram at the buffer size; an error
  (\<open>None\<close>) or an empty datagram is skipped.
\<close>

definition admin_channel_iterate :: "admin_env \<Rightarrow> (bytes \<times> sockaddr_in) option \<Rightarrow> firmware \<Rightarrow> firmware" where
  "admin_channel_iterate e received fw =
     (case received of
        None \<Rightarrow> fw
      | Some (datagram, src_addr) \<Rightarrow>
          let rx_buf = take ADMIN_MAX_PACKET datagram
          in if rx_buf = [] then fw else handle_packet e rx_buf src_addr fw)"

text \<open>Whether the task reaches its loop, from the outcomes of crypto init, socket and bind.\<close>

definition admin_channel_task_start :: "bool \<Rightarrow> bool \<Rightarrow> bool \<Rightarrow> bool" where
  "admin_channel_task_start psa_ok socket_ok bind_ok =
     (if \<not> psa_ok then False else if \<not> socket_ok then False else if \<not> bind_ok then False else True)"

lemma info_payload_length: "length mac = 6 \<Longrightarrow> length (info_payload e mac fw) = 84"
  by (simp add: info_payload_def Let_def split: option.split)

end
