(* ===== verification/Admin_Facts.thy ===== *)
theory Admin_Facts
  imports Admin_Channel "HOL-Library.Sublist"
begin

text \<open>
  Facts about the admin channel: the checks of \<open>handle_packet\<close> as one predicate on packet and
  state, with the two equations that split its behaviour along it; and what the handlers
  may change: the boot image, the secret, the nonce pool, the OTA session, the driver's queue,
  and the datagrams sent.
\<close>

section \<open>The checks of a packet\<close>

text \<open>Header and length checks, which need no state.\<close>

definition well_formed :: "bytes \<Rightarrow> parsed_header option" where
  "well_formed buf =
     (case parse_header buf of
        None \<Rightarrow> None
      | Some hdr \<Rightarrow>
          if ph_magic hdr = ADMIN_PROTO_MAGIC \<and> ph_version hdr = ADMIN_PROTO_VERSION
             \<and> unat (ph_payload_len hdr) \<le> ADMIN_MAX_PAYLOAD
             \<and> length buf = ADMIN_HEADER_WIRE_SIZE + unat (ph_payload_len hdr) + ADMIN_HMAC_LEN
          then Some hdr else None)"

definition covered_part :: "parsed_header \<Rightarrow> bytes \<Rightarrow> bytes" where
  "covered_part hdr buf = take (ADMIN_HEADER_WIRE_SIZE + unat (ph_payload_len hdr)) buf"

definition mac_part :: "parsed_header \<Rightarrow> bytes \<Rightarrow> bytes" where
  "mac_part hdr buf = drop (ADMIN_HEADER_WIRE_SIZE + unat (ph_payload_len hdr)) buf"

definition payload_part :: "parsed_header \<Rightarrow> bytes \<Rightarrow> bytes" where
  "payload_part hdr buf = slice ADMIN_HEADER_WIRE_SIZE (unat (ph_payload_len hdr)) buf"

text \<open>Addressed to this device and signed with its secret.\<close>

definition device_serial :: "admin_env \<Rightarrow> firmware \<Rightarrow> string" where
  "device_serial e fw = fst (devid_get_serial (ae_efuse e) (fw_dv fw))"

definition authentic :: "admin_env \<Rightarrow> firmware \<Rightarrow> parsed_header \<Rightarrow> bytes \<Rightarrow> bool" where
  "authentic e fw hdr buf \<longleftrightarrow> ph_serial hdr = padded_serial (device_serial e fw)
     \<and> ae_verify_ok e \<and> mac_part hdr buf = cr_hmac (ae_crypto e) (fw_secret fw) (covered_part hdr buf)"

text \<open>The commands that spend a nonce of the pool.\<close>

definition spends_nonce :: "parsed_header \<Rightarrow> bool" where
  "spends_nonce hdr \<longleftrightarrow> ph_type hdr \<noteq> ADMIN_TYPE_CHALLENGE \<and> ph_type hdr \<noteq> ADMIN_TYPE_OTA_CHUNK"

definition spend :: "admin_env \<Rightarrow> parsed_header \<Rightarrow> sockaddr_in \<Rightarrow> firmware \<Rightarrow> bool \<times> nonce_slot list" where
  "spend e hdr src fw =
     (if spends_nonce hdr then nonce_consume (ae_now e) (htonl (sin_addr src)) (ph_nonce hdr) (fw_nonces fw)
      else (True, fw_nonces fw))"

definition rate_admits :: "admin_env \<Rightarrow> sockaddr_in \<Rightarrow> firmware \<Rightarrow> bool" where
  "rate_admits e src fw \<longleftrightarrow> fst (rate_limit_check (ae_now e) (htonl (sin_addr src)) (fw_rate fw))"

text \<open>The header of a command that is carried out, \<open>None\<close> for every other datagram.\<close>

definition executed :: "admin_env \<Rightarrow> bytes \<Rightarrow> sockaddr_in \<Rightarrow> firmware \<Rightarrow> parsed_header option" where
  "executed e buf src fw =
     (case well_formed buf of
        None \<Rightarrow> None
      | Some hdr \<Rightarrow>
          if rate_admits e src fw \<and> ph_type hdr \<noteq> ADMIN_TYPE_INFO \<and> authentic e fw hdr buf \<and> fst (spend e hdr src fw)
          then Some hdr else None)"

text \<open>The state after the checks: rate table, cached serial, and the nonce pool.\<close>

definition counted :: "admin_env \<Rightarrow> sockaddr_in \<Rightarrow> firmware \<Rightarrow> firmware" where
  "counted e src fw =
     fw\<lparr>fw_rate := snd (rate_limit_check (ae_now e) (htonl (sin_addr src)) (fw_rate fw))\<rparr>"

definition admitted :: "admin_env \<Rightarrow> parsed_header \<Rightarrow> sockaddr_in \<Rightarrow> firmware \<Rightarrow> firmware" where
  "admitted e hdr src fw =
     (counted e src fw)\<lparr>fw_dv := snd (devid_get_serial (ae_efuse e) (fw_dv fw)),
                        fw_nonces := snd (spend e hdr src fw)\<rparr>"

lemma serial_secret [simp]:
  "devid_get_admin_secret (snd (devid_get_serial ef dv)) = devid_get_admin_secret dv"
  "dv_active_secret (snd (devid_get_serial ef dv)) = dv_active_secret dv"
  "dv_blob (snd (devid_get_serial ef dv)) = dv_blob dv"
  "dv_nvs_ok (snd (devid_get_serial ef dv)) = dv_nvs_ok dv"
  by (simp_all add: devid_get_serial_def compute_serial_def devid_get_admin_secret_def Let_def)

lemma counted_frame [simp]:
  "fw_hv (counted e src fw) = fw_hv fw" "fw_drv (counted e src fw) = fw_drv fw"
  "fw_tps (counted e src fw) = fw_tps fw" "fw_pm (counted e src fw) = fw_pm fw"
  "fw_vs (counted e src fw) = fw_vs fw" "fw_eth (counted e src fw) = fw_eth fw"
  "fw_dv (counted e src fw) = fw_dv fw"
  "fw_xs (counted e src fw) = fw_xs fw" "fw_mg (counted e src fw) = fw_mg fw"
  "fw_nonces (counted e src fw) = fw_nonces fw"
  "fw_ota (counted e src fw) = fw_ota fw" "fw_boot (counted e src fw) = fw_boot fw"
  "fw_restart (counted e src fw) = fw_restart fw" "fw_sent (counted e src fw) = fw_sent fw"
  by (simp_all add: counted_def)

lemma admitted_frame [simp]:
  "fw_hv (admitted e hdr src fw) = fw_hv fw" "fw_drv (admitted e hdr src fw) = fw_drv fw"
  "fw_tps (admitted e hdr src fw) = fw_tps fw" "fw_pm (admitted e hdr src fw) = fw_pm fw"
  "fw_vs (admitted e hdr src fw) = fw_vs fw" "fw_eth (admitted e hdr src fw) = fw_eth fw"
  "fw_xs (admitted e hdr src fw) = fw_xs fw" "fw_mg (admitted e hdr src fw) = fw_mg fw"
  "fw_rate (admitted e hdr src fw) = fw_rate (counted e src fw)"
  "fw_nonces (admitted e hdr src fw) = snd (spend e hdr src fw)"
  "fw_ota (admitted e hdr src fw) = fw_ota fw" "fw_boot (admitted e hdr src fw) = fw_boot fw"
  "fw_restart (admitted e hdr src fw) = fw_restart fw" "fw_sent (admitted e hdr src fw) = fw_sent fw"
  "fw_secret (admitted e hdr src fw) = fw_secret fw"
  "dv_blob (fw_dv (admitted e hdr src fw)) = dv_blob (fw_dv fw)"
  by (simp_all add: admitted_def fw_secret_def)

section \<open>The two cases of \<open>handle_packet\<close>\<close>

lemma executed_Some:
  "executed e buf src fw = Some hdr \<longleftrightarrow>
     well_formed buf = Some hdr \<and> rate_admits e src fw \<and> ph_type hdr \<noteq> ADMIN_TYPE_INFO
     \<and> authentic e fw hdr buf \<and> fst (spend e hdr src fw)"
  by (auto simp: executed_def split: option.split)

lemma handle_packet_unfold:
  "handle_packet e buf src fw =
     (if \<not> rate_admits e src fw then counted e src fw
      else case well_formed buf of
          None \<Rightarrow> counted e src fw
        | Some hdr \<Rightarrow>
            if ph_type hdr = ADMIN_TYPE_INFO then handle_info e hdr src (counted e src fw)
            else if \<not> authentic e fw hdr buf
            then (counted e src fw)\<lparr>fw_dv := snd (devid_get_serial (ae_efuse e) (fw_dv fw))\<rparr>
            else if \<not> fst (spend e hdr src fw) then admitted e hdr src fw
            else dispatch_packet e hdr buf (payload_part hdr buf) src (admitted e hdr src fw))"
proof (cases "rate_admits e src fw")
  case False
  then show ?thesis by (simp add: handle_packet_def rate_admits_def counted_def Let_def split_def)
next
  case rate: True
  show ?thesis
  proof (cases "well_formed buf")
    case None
    then have "parse_header buf = None \<or> (\<exists>hdr. parse_header buf = Some hdr \<and>
        ((ph_magic hdr \<noteq> ADMIN_PROTO_MAGIC \<or> ph_version hdr \<noteq> ADMIN_PROTO_VERSION)
         \<or> (ADMIN_MAX_PAYLOAD < unat (ph_payload_len hdr)
            \<or> length buf \<noteq> ADMIN_HEADER_WIRE_SIZE + unat (ph_payload_len hdr) + ADMIN_HMAC_LEN)))"
      by (auto simp: well_formed_def split: option.splits if_splits)
    then have "handle_packet e buf src fw = counted e src fw"
      using rate
      by (elim disjE exE conjE)
         (simp_all only: handle_packet_def Let_def split_def option.case rate_admits_def counted_def
            if_False if_True if_cancel simp_thms)
    then show ?thesis using rate None by simp
  next
    case (Some hdr)
    then have hdr: "parse_header buf = Some hdr" "\<not> (ph_magic hdr \<noteq> ADMIN_PROTO_MAGIC \<or> ph_version hdr \<noteq> ADMIN_PROTO_VERSION)"
      "\<not> (ADMIN_MAX_PAYLOAD < unat (ph_payload_len hdr)
         \<or> length buf \<noteq> ADMIN_HEADER_WIRE_SIZE + unat (ph_payload_len hdr) + ADMIN_HMAC_LEN)"
      by (auto simp: well_formed_def split: option.splits if_splits)
    show ?thesis
      using rate
      by (simp only: handle_packet_def Let_def split_def hdr option.case if_False rate_admits_def Some not_True_eq_False)
         (simp add: counted_def admitted_def spend_def spends_nonce_def authentic_def hmac_verify_def
            device_serial_def fw_secret_def covered_part_def mac_part_def payload_part_def)
  qed
qed

lemma handle_packet_executed:
  "executed e buf src fw = Some hdr \<Longrightarrow>
   handle_packet e buf src fw = dispatch_packet e hdr buf (payload_part hdr buf) src (admitted e hdr src fw)"
  by (simp add: executed_Some handle_packet_unfold)

lemma well_formed_fields:
  assumes "well_formed buf = Some hdr"
  shows "ph_nonce hdr = slice 30 16 buf" and "length (ph_nonce hdr) = 16"
    and "length buf = 80 + unat (ph_payload_len hdr)" and "unat (ph_payload_len hdr) \<le> 1028"
proof -
  have p: "parse_header buf = Some hdr"
    and len: "unat (ph_payload_len hdr) \<le> ADMIN_MAX_PAYLOAD"
      "length buf = ADMIN_HEADER_WIRE_SIZE + unat (ph_payload_len hdr) + ADMIN_HMAC_LEN"
    using assms by (auto simp: well_formed_def split: option.splits if_splits)
  show n: "ph_nonce hdr = slice 30 16 buf"
    using p by (auto simp: parse_header_def fw_const simp del: One_nat_def split: if_splits)
  show l: "length buf = 80 + unat (ph_payload_len hdr)" "unat (ph_payload_len hdr) \<le> 1028"
    using len by (simp_all add: fw_const)
  show "length (ph_nonce hdr) = 16" using l(1) by (simp add: n length_slice)
qed

end
