(* ===== verification/Admin_Handlers.thy ===== *)
theory Admin_Handlers
  imports Admin_Facts
begin

text \<open>
  What each handler of the admin channel may change. The rule \<open>dispatch_by_handler\<close> splits
  the final \<open>switch\<close> into its handlers; with the frame facts collected here, a statement about
  the dispatch reduces to the one handler that touches the component in question.
\<close>

lemma if_by: "(b \<Longrightarrow> P x) \<Longrightarrow> (\<not> b \<Longrightarrow> P y) \<Longrightarrow> P (if b then x else y)"
  by simp

lemma dispatch_by_handler:
  assumes "ph_type hdr = ADMIN_TYPE_CHALLENGE \<Longrightarrow> P (handle_challenge e hdr src fw)"
    and "ph_type hdr = ADMIN_TYPE_ON \<Longrightarrow> P (handle_on e hdr payload src fw)"
    and "ph_type hdr = ADMIN_TYPE_OFF \<Longrightarrow> P (handle_off e hdr payload src fw)"
    and "ph_type hdr = ADMIN_TYPE_DIM \<Longrightarrow> P (handle_dim e hdr payload src fw)"
    and "ph_type hdr = ADMIN_TYPE_IDENTIFY \<Longrightarrow> P (handle_identify e hdr src fw)"
    and "ph_type hdr = ADMIN_TYPE_REBOOT \<Longrightarrow> P (handle_reboot e hdr src fw)"
    and "ph_type hdr = ADMIN_TYPE_OTA_BEGIN \<Longrightarrow> P (handle_ota_begin e hdr payload src fw)"
    and "ph_type hdr = ADMIN_TYPE_OTA_CHUNK \<Longrightarrow> P (handle_ota_chunk e hdr payload src fw)"
    and "ph_type hdr = ADMIN_TYPE_OTA_END \<Longrightarrow> P (handle_ota_end e hdr src fw)"
    and "ph_type hdr = ADMIN_TYPE_OTA_ABORT \<Longrightarrow> P (handle_ota_abort e hdr src fw)"
    and "ph_type hdr = ADMIN_TYPE_FACTORY_RESET \<Longrightarrow> P (handle_factory_reset e hdr src fw)"
    and "ph_type hdr = ADMIN_TYPE_CHANGE_SECRET \<Longrightarrow>
           P (handle_change_secret e hdr payload src (take ADMIN_HEADER_WIRE_SIZE buf) fw)"
    and "ph_type hdr = ADMIN_TYPE_DMX_GET_CONFIG \<Longrightarrow> P (handle_dmx_get_config e hdr src fw)"
    and "ph_type hdr = ADMIN_TYPE_DMX_SET_CONFIG \<Longrightarrow> P (handle_dmx_set_config e hdr payload src fw)"
    and "ph_type hdr = ADMIN_TYPE_DRIVER_GET_CONFIG \<Longrightarrow> P (handle_driver_get_config e hdr src fw)"
    and "ph_type hdr = ADMIN_TYPE_DRIVER_SET_CONFIG \<Longrightarrow> P (handle_driver_set_config e hdr payload src fw)"
    and "ph_type hdr \<notin> {ADMIN_TYPE_CHALLENGE, ADMIN_TYPE_DRIVER_SET_CONFIG} \<Longrightarrow>
           P (send_status_resp e src (ph_nonce hdr) ADMIN_TYPE_ERR_RESP ADMIN_STATUS_ERR_BAD_ARG (fw_secret fw) fw)"
  shows "P (dispatch_packet e hdr buf payload src fw)"
  unfolding dispatch_packet_def Let_def
  by (intro if_by [where P = P]; (erule assms(1-16) | (rule assms(17), simp)))

lemmas query_handler_defs = handle_dmx_get_config_def handle_driver_get_config_def
lemmas light_handler_defs = handle_on_def handle_off_def handle_dim_def handle_identify_def
lemmas device_handler_defs = handle_challenge_def handle_reboot_def handle_factory_reset_def nvs_erase_def
  handle_change_secret_def
lemmas config_handler_defs = handle_dmx_set_config_def handle_driver_set_config_def
lemmas handler_defs = query_handler_defs light_handler_defs device_handler_defs config_handler_defs ota_handler_defs

section \<open>Components no handler touches\<close>

definition same_inputs :: "firmware \<Rightarrow> firmware \<Rightarrow> bool" where
  "same_inputs fw r \<longleftrightarrow> fw_tps r = fw_tps fw \<and> fw_vs r = fw_vs fw \<and> fw_eth r = fw_eth fw \<and> fw_mg r = fw_mg fw
     \<and> fw_rate r = fw_rate fw"

lemma same_inputs_refl [simp]: "same_inputs fw fw"
  by (simp add: same_inputs_def)

lemma handlers_inputs:
  "same_inputs fw (handle_challenge e hdr src fw)" "same_inputs fw (handle_on e hdr payload src fw)"
  "same_inputs fw (handle_off e hdr payload src fw)" "same_inputs fw (handle_dim e hdr payload src fw)"
  "same_inputs fw (handle_identify e hdr src fw)" "same_inputs fw (handle_reboot e hdr src fw)"
  "same_inputs fw (handle_factory_reset e hdr src fw)" "same_inputs fw (handle_change_secret e hdr payload src rh fw)"
  "same_inputs fw (handle_dmx_get_config e hdr src fw)" "same_inputs fw (handle_dmx_set_config e hdr payload src fw)"
  "same_inputs fw (handle_driver_get_config e hdr src fw)" "same_inputs fw (handle_driver_set_config e hdr payload src fw)"
  "same_inputs fw (handle_ota_begin e hdr payload src fw)" "same_inputs fw (handle_ota_chunk e hdr payload src fw)"
  "same_inputs fw (handle_ota_end e hdr src fw)" "same_inputs fw (handle_ota_abort e hdr src fw)"
  by (simp_all add: same_inputs_def handler_defs Let_def split_def split: option.split)

lemma dispatch_inputs: "same_inputs fw (dispatch_packet e hdr buf payload src fw)"
  by (rule dispatch_by_handler) (simp_all add: handlers_inputs, simp add: same_inputs_def)

section \<open>The boot image, the OTA session, the secret and the nonce pool\<close>

lemma handlers_ota [simp]:
  "fw_ota (handle_challenge e hdr src fw) = fw_ota fw" "fw_ota (handle_on e hdr payload src fw) = fw_ota fw"
  "fw_ota (handle_off e hdr payload src fw) = fw_ota fw" "fw_ota (handle_dim e hdr payload src fw) = fw_ota fw"
  "fw_ota (handle_identify e hdr src fw) = fw_ota fw" "fw_ota (handle_reboot e hdr src fw) = fw_ota fw"
  "fw_ota (handle_factory_reset e hdr src fw) = fw_ota fw"
  "fw_ota (handle_change_secret e hdr payload src rh fw) = fw_ota fw"
  "fw_ota (handle_dmx_get_config e hdr src fw) = fw_ota fw"
  "fw_ota (handle_dmx_set_config e hdr payload src fw) = fw_ota fw"
  "fw_ota (handle_driver_get_config e hdr src fw) = fw_ota fw"
  "fw_ota (handle_driver_set_config e hdr payload src fw) = fw_ota fw"
  by (simp_all add: handler_defs Let_def split_def split: option.split)

lemma handlers_boot [simp]:
  "fw_boot (handle_challenge e hdr src fw) = fw_boot fw" "fw_boot (handle_on e hdr payload src fw) = fw_boot fw"
  "fw_boot (handle_off e hdr payload src fw) = fw_boot fw" "fw_boot (handle_dim e hdr payload src fw) = fw_boot fw"
  "fw_boot (handle_identify e hdr src fw) = fw_boot fw" "fw_boot (handle_reboot e hdr src fw) = fw_boot fw"
  "fw_boot (handle_factory_reset e hdr src fw) = fw_boot fw"
  "fw_boot (handle_change_secret e hdr payload src rh fw) = fw_boot fw"
  "fw_boot (handle_dmx_get_config e hdr src fw) = fw_boot fw"
  "fw_boot (handle_dmx_set_config e hdr payload src fw) = fw_boot fw"
  "fw_boot (handle_driver_get_config e hdr src fw) = fw_boot fw"
  "fw_boot (handle_driver_set_config e hdr payload src fw) = fw_boot fw"
  by (simp_all add: handler_defs Let_def split_def split: option.split)

lemma handlers_nonces [simp]:
  "fw_nonces (handle_on e hdr payload src fw) = fw_nonces fw"
  "fw_nonces (handle_off e hdr payload src fw) = fw_nonces fw"
  "fw_nonces (handle_dim e hdr payload src fw) = fw_nonces fw"
  "fw_nonces (handle_identify e hdr src fw) = fw_nonces fw"
  "fw_nonces (handle_reboot e hdr src fw) = fw_nonces fw"
  "fw_nonces (handle_factory_reset e hdr src fw) = fw_nonces fw"
  "fw_nonces (handle_change_secret e hdr payload src rh fw) = fw_nonces fw"
  "fw_nonces (handle_dmx_get_config e hdr src fw) = fw_nonces fw"
  "fw_nonces (handle_dmx_set_config e hdr payload src fw) = fw_nonces fw"
  "fw_nonces (handle_driver_get_config e hdr src fw) = fw_nonces fw"
  "fw_nonces (handle_driver_set_config e hdr payload src fw) = fw_nonces fw"
  "fw_nonces (handle_ota_begin e hdr payload src fw) = fw_nonces fw"
  "fw_nonces (handle_ota_chunk e hdr payload src fw) = fw_nonces fw"
  "fw_nonces (handle_ota_end e hdr src fw) = fw_nonces fw"
  "fw_nonces (handle_ota_abort e hdr src fw) = fw_nonces fw"
  by (simp_all add: handler_defs Let_def split_def split: option.split)

lemma challenge_nonces:
  "fw_nonces (handle_challenge e hdr src fw) =
     snd (nonce_issue (ae_now e) (htonl (sin_addr src)) (ae_random e) (fw_nonces fw))"
  by (simp add: handle_challenge_def Let_def split: option.split prod.split)

lemma dispatch_nonces:
  "fw_nonces (dispatch_packet e hdr buf payload src fw) =
     (if ph_type hdr = ADMIN_TYPE_CHALLENGE
      then snd (nonce_issue (ae_now e) (htonl (sin_addr src)) (ae_random e) (fw_nonces fw))
      else fw_nonces fw)"
  by (rule dispatch_by_handler) (simp_all add: challenge_nonces fw_const)

lemma dispatch_boot:
  assumes "ph_type hdr \<notin> {ADMIN_TYPE_OTA_BEGIN, ADMIN_TYPE_OTA_CHUNK, ADMIN_TYPE_OTA_END}"
  shows "fw_boot (dispatch_packet e hdr buf payload src fw) = fw_boot fw"
  by (rule dispatch_by_handler) (use assms in simp_all)

lemma dispatch_ota_ok:
  assumes "ota_ok (fw_ota fw)"
  shows "ota_ok (fw_ota (dispatch_packet e hdr buf payload src fw))"
  by (rule dispatch_by_handler) (simp_all add: assms begin_ok chunk_ok end_ok abort_ok)

lemma factory_reset_secret [simp]: "fw_secret (handle_factory_reset e hdr src fw) = fw_secret fw"
  by (simp add: handle_factory_reset_def nvs_erase_def Let_def fw_secret_def devid_get_admin_secret_def)


end
