(* ===== verification/Driver_Clients.thy ===== *)
theory Driver_Clients
  imports Admin_Handlers DMX_Task
begin

text \<open>
  The clients of the LED driver: power policy, driver configuration, DMX engine and admin
  channel change its state only through its public interface, so what they do is a sequence
  of \<open>hv_step\<close>s and every reachable-state fact of the driver carries over to the whole
  firmware. Without power, none of the policy or admin operations adds a command that could
  light the LED.
\<close>

section \<open>Sequences of driver calls\<close>

abbreviation hv_steps :: "(rat \<Rightarrow> rat \<Rightarrow> rat) \<Rightarrow> u32 \<Rightarrow> hv_state \<Rightarrow> hv_state \<Rightarrow> bool" where
  "hv_steps powf hz \<equiv> rtranclp (hv_step powf hz)"

lemma hv_call [simp, intro]:
  "hv_steps powf hz hv (hv9910_task_step powf hz now hv)"
  "hv_steps powf hz hv (hv9910_enable_at p hv)" "hv_steps powf hz hv (hv9910_enable hv)"
  "hv_steps powf hz hv (hv9910_disable hv)" "hv_steps powf hz hv (hv9910_emergency_disable hv)"
  "hv_steps powf hz hv (hv9910_set_dim p hv)" "hv_steps powf hz hv (hv9910_identify hv)"
  "hv_steps powf hz hv (hv9910_set_pending b p hv)" "hv_steps powf hz hv (hv9910_set_output_scale p hv)"
  by (auto intro: hv_step.intros)

lemma hv_steps_reachable: "hv_steps powf hz hv hv' \<Longrightarrow> hv_reachable powf hz hv \<Longrightarrow> hv_reachable powf hz hv'"
  by (induction rule: rtranclp_induct) (auto intro: hv_reachable.step)

lemma hv_steps_then: "hv_steps powf hz hv hv1 \<Longrightarrow> hv_steps powf hz hv1 hv2 \<Longrightarrow> hv_steps powf hz hv hv2"
  by (rule rtranclp_trans)

lemma evaluate_steps: "hv_steps powf hz hv (snd (evaluate tps drv (s, hv)))"
proof -
  have "hv_steps powf hz hv (hv9910_enable (hv9910_set_output_scale p hv))" for p
    by (rule hv_steps_then) (rule hv_call)+
  then show ?thesis
    by (auto simp: evaluate_def Let_def split_def split: option.split)
qed

lemma locked_steps: "hv_steps powf hz hv (snd (locked_evaluate tps drv (s, hv)))"
  by (simp add: locked_evaluate_def evaluate_steps)

lemma settle_steps: "hv_steps powf hz hv (snd (settle_cb tps drv (s, hv)))"
  by (simp add: settle_cb_def Let_def evaluate_steps)

lemma event_steps: "hv_steps powf hz (snd st) (snd (pm_on_event tps drv ev st))"
  by (cases st; cases ev)
     (simp_all add: power_manager_tps_ready_def power_manager_tps_lost_def power_manager_tps_source_changed_def
        locked_steps evaluate_steps)

lemma events_steps: "hv_steps powf hz (snd st) (snd (fold (pm_on_event tps drv) evs st))"
proof (induction evs arbitrary: st)
  case (Cons ev evs)
  show ?case using hv_steps_then [OF event_steps Cons.IH] by simp
qed simp

lemma monitor_tick_steps: "hv_steps powf hz hv (snd (snd (monitor_tick cdb t2p mv drv (tps, s, hv))))"
  using events_steps [of powf hz "(s, hv)"] by (simp add: monitor_tick_def split_def Let_def)

lemma start_steps: "hv_steps powf hz hv (snd (power_manager_start l t tps drv (s, hv)))"
  by (simp add: power_manager_start_def locked_steps)

lemma reeval_steps: "hv_steps powf hz hv (snd (power_manager_reeval tps drv (s, hv)))"
  by (simp add: power_manager_reeval_def locked_steps)

lemma dimming_steps: "drv_config_valid (drv_cfg s) \<Longrightarrow> hv_steps powf hz hv (apply_to_hv9910 s hv)"
  by (auto simp: apply_to_hv9910_def dest: drv_valid_dim intro!: r_into_rtranclp hv_step.set_dimming)

lemma config_set_steps: "hv_steps powf hz hv (snd (snd (driver_config_set o' cfg (s, hv))))"
  by (simp add: driver_config_set_def Let_def dimming_steps drv_sanitize_valid)

lemma config_start_steps: "hv_steps powf hz hv (snd (driver_config_start o' (s, hv)))"
  by (simp add: driver_config_start_def Let_def dimming_steps drv_load_valid)

lemma tick_steps: "hv_steps powf hz hv (snd (merge_tick now cfg tps pm (m, hv)))"
  by (auto simp: tick_driver apply_loss_def Let_def)

lemma iterate_steps: "hv_steps powf hz hv (snd (dmx_input_iterate i tps pm (t, hv)))"
  by (simp add: dmx_input_iterate_def task_actuate_def Let_def split_def tick_steps)

lemma dispatch_steps: "hv_steps powf hz (fw_hv fw) (fw_hv (dispatch_packet e hdr buf payload src fw))"
proof (rule dispatch_by_handler)
  have "hv_steps powf hz hv (snd (power_manager_reeval tps drv (pm, snd (snd (driver_config_set o' cfg st)))))"
    if "snd st = hv" for hv tps drv pm o' cfg st
    using hv_steps_then [OF config_set_steps reeval_steps] that by (cases st) simp
  then show "hv_steps powf hz (fw_hv fw) (fw_hv (handle_driver_set_config e hdr payload src fw))"
    by (auto simp: handle_driver_set_config_def Let_def split_def config_set_steps split: option.split)
qed (simp_all add: light_handler_defs device_handler_defs query_handler_defs handle_dmx_set_config_def
       ota_handler_defs Let_def split_def split: option.split)

section \<open>No light without power\<close>

text \<open>
  The driver's state before and after, when nothing has been added that could light it: the
  latch is as it was and the relighting commands still queued are the last of those before.
\<close>

definition keeps_dark :: "hv_state \<Rightarrow> hv_state \<Rightarrow> bool" where
  "keeps_dark hv hv' \<longleftrightarrow> hv_power_cut hv' = hv_power_cut hv
     \<and> suffix (filter relights (hv_cmd_queue hv')) (filter relights (hv_cmd_queue hv))"

lemma keeps_dark_refl [simp]: "keeps_dark hv hv"
  by (simp add: keeps_dark_def)

lemma keeps_dark_trans: "keeps_dark a b \<Longrightarrow> keeps_dark b c \<Longrightarrow> keeps_dark a c"
  by (auto simp: keeps_dark_def intro: suffix_order.trans)

lemma keeps_dark_post: "keeps_dark hv (post_cmd c front hv)" if "\<not> relights c"
  using that
  by (cases "hv_cmd_queue hv")
     (auto simp: keeps_dark_def post_cmd_def xQueueSend_def xQueueSendToFront_def xQueueReceive_def Let_def
        suffix_ConsI)

lemma keeps_dark_calls [simp]:
  "keeps_dark hv (hv9910_disable hv)" "keeps_dark hv (hv9910_emergency_disable hv)"
  "keeps_dark hv (hv9910_set_pending b p hv)" "keeps_dark hv (hv9910_set_output_scale p hv)"
  "keeps_dark hv (hv9910_set_dim p hv)" "keeps_dark hv (hv9910_set_dimming d hv)"
  "keeps_dark hv (apply_to_hv9910 drv hv)"
  by (auto simp: hv_api_defs apply_to_hv9910_def keeps_dark_post split: option.split)

lemma keeps_dark_latched:
  "keeps_dark hv hv' \<Longrightarrow> \<not> list_ex relights (hv_cmd_queue hv) \<Longrightarrow> \<not> list_ex relights (hv_cmd_queue hv')"
  by (auto simp: keeps_dark_def list_ex_iff filter_empty_conv suffix_def)

lemma evaluate_unpowered: "\<not> ts_is_ready tps \<Longrightarrow> keeps_dark hv (snd (evaluate tps drv (s, hv)))"
  by (auto simp: evaluate_def Let_def tps2378_is_ready_def split: option.split)

lemma reeval_unpowered: "\<not> ts_is_ready tps \<Longrightarrow> keeps_dark hv (snd (power_manager_reeval tps drv (s, hv)))"
  by (simp add: power_manager_reeval_def locked_evaluate_def evaluate_unpowered)

lemma settle_unpowered: "\<not> ts_is_ready tps \<Longrightarrow> snd (settle_cb tps drv (s, hv)) = hv"
  by (simp add: settle_cb_def Let_def tps2378_is_ready_def)

lemma config_set_unpowered: "keeps_dark hv (snd (snd (driver_config_set o' cfg (s, hv))))"
  by (simp add: driver_config_set_def Let_def)

lemma dispatch_unpowered:
  assumes "\<not> ts_is_ready (fw_tps fw)"
  shows "keeps_dark (fw_hv fw) (fw_hv (dispatch_packet e hdr buf payload src fw))"
proof (rule dispatch_by_handler)
  have "keeps_dark hv (snd (power_manager_reeval (fw_tps fw) drv (pm, snd (snd (driver_config_set o' cfg st)))))"
    if "snd st = hv" for hv drv pm o' cfg st
    using keeps_dark_trans [OF config_set_unpowered reeval_unpowered [OF assms]] that by (cases st) simp
  then show "keeps_dark (fw_hv fw) (fw_hv (handle_driver_set_config e hdr payload src fw))"
    by (auto simp: handle_driver_set_config_def Let_def split_def config_set_unpowered split: option.split)
qed (use assms in \<open>simp_all add: light_handler_defs device_handler_defs query_handler_defs handle_dmx_set_config_def
       ota_handler_defs Let_def split_def tps2378_is_ready_def split: option.split\<close>)

lemma event_unpowered: "\<not> ts_is_ready tps \<Longrightarrow> keeps_dark (snd st) (snd (pm_on_event tps drv ev st))"
  by (cases st; cases ev)
     (simp_all add: power_manager_tps_ready_def power_manager_tps_lost_def power_manager_tps_source_changed_def
        locked_evaluate_def evaluate_unpowered)

lemma events_unpowered: "\<not> ts_is_ready tps \<Longrightarrow> keeps_dark (snd st) (snd (fold (pm_on_event tps drv) evs st))"
proof (induction evs arbitrary: st)
  case (Cons ev evs)
  then show ?case
    using keeps_dark_trans [OF event_unpowered Cons.IH, of tps st drv ev] by simp
qed simp

lemma monitor_unpowered:
  "\<not> ts_is_ready (fst (monitor_tick cdb t2p mv drv (tps, s, hv))) \<Longrightarrow>
   keeps_dark hv (snd (snd (monitor_tick cdb t2p mv drv (tps, s, hv))))"
  using events_unpowered [of "fst (poe_monitor_step cdb t2p mv tps)" "(s, hv)"]
  by (simp add: monitor_tick_def split_def Let_def)

text \<open>The only unpowered lighting the DMX engine does is its loss behaviour.\<close>

definition loss_edge :: "int \<Rightarrow> dmx_input_config \<Rightarrow> pm_statics \<Rightarrow> dmx_merge \<Rightarrow> bool" where
  "loss_edge now cfg pm m \<longleftrightarrow> live_sources now cfg m = [] \<and> \<not> mg_loss_applied m \<and> 0 \<le> mg_last_applied_pct m
     \<and> power_manager_output_allowed pm \<and> xc_loss_behavior cfg = DMX_LOSS_TO_LEVEL"

lemma tick_unpowered:
  assumes "\<not> ts_is_ready tps" and "\<not> loss_edge now cfg pm m"
  shows "keeps_dark hv (snd (merge_tick now cfg tps pm (m, hv)))"
  using assms
  by (auto simp: tick_driver loss_edge_def tick_actuates_def tps2378_is_ready_def apply_loss_def fw_const)

section \<open>The contract of a client\<close>

text \<open>The latch is set, and no command behind it lifts it.\<close>

definition latched :: "hv_state \<Rightarrow> bool" where
  "latched hv \<longleftrightarrow> hv_power_cut hv \<and> \<not> list_ex relights (hv_cmd_queue hv)"

lemma latched_keeps: "latched hv \<Longrightarrow> keeps_dark hv hv' \<Longrightarrow> latched hv'"
  using keeps_dark_latched by (auto simp: latched_def) (simp add: keeps_dark_def)

text \<open>
  What the driver may expect of those who call it: an operation is a sequence of driver calls, so
  it keeps every invariant of the driver; and as long as the client's guard holds it queues
  nothing that lights, so the latch stays effective and the LED dark.
\<close>

locale driver_client =
  fixes act :: "hv_state \<Rightarrow> hv_state"
  assumes calls: "hv_steps powf hz hv (act hv)"
begin

lemma reachable: "hv_reachable powf hz hv \<Longrightarrow> hv_reachable powf hz (act hv)"
  by (rule hv_steps_reachable [OF calls])

lemma invariant: "hv_reachable powf hz hv \<Longrightarrow> hv_inv (act hv)"
  by (rule reachable_inv [OF reachable])

end

locale guarded_client = driver_client +
  fixes guard :: bool
  assumes dark: "guard \<Longrightarrow> keeps_dark hv (act hv)"
begin

lemma stays_latched: "guard \<Longrightarrow> latched hv \<Longrightarrow> latched (act hv)"
  by (rule latched_keeps [OF _ dark])

lemma stays_dark: "guard \<Longrightarrow> hv_reachable powf hz hv \<Longrightarrow> latched hv \<Longrightarrow> hv_dark (act hv)"
  using inv_cut_dark [OF invariant] stays_latched by (auto simp: latched_def)

end

text \<open>The clients of the firmware.\<close>

interpretation monitor: guarded_client "\<lambda>hv. snd (snd (monitor_tick cdb t2p mv drv (tps, s, hv)))"
  "\<not> ts_is_ready (fst (poe_monitor_step cdb t2p mv tps))" for cdb t2p mv drv tps s
  by unfold_locales
     (rule monitor_tick_steps, rule monitor_unpowered, simp add: monitor_tick_def split_def Let_def)

interpretation settle: guarded_client "\<lambda>hv. snd (settle_cb tps drv (s, hv))" "\<not> ts_is_ready tps" for tps drv s
  by unfold_locales (rule settle_steps, simp add: settle_unpowered)

interpretation policy: guarded_client "\<lambda>hv. snd (power_manager_reeval tps drv (s, hv))" "\<not> ts_is_ready tps" for tps drv s
  by unfold_locales (rule reeval_steps, rule reeval_unpowered)

interpretation store: guarded_client "\<lambda>hv. snd (snd (driver_config_set o' cfg (s, hv)))" True for o' cfg s
  by unfold_locales (rule config_set_steps, rule config_set_unpowered)

interpretation merge: guarded_client "\<lambda>hv. snd (merge_tick now cfg tps pm (m, hv))"
  "\<not> ts_is_ready tps \<and> \<not> loss_edge now cfg pm m" for now cfg tps pm m
  by unfold_locales (rule tick_steps, simp add: tick_unpowered)

interpretation admin: guarded_client "\<lambda>hv. fw_hv (dispatch_packet e hdr buf payload src (fw\<lparr>fw_hv := hv\<rparr>))"
  "\<not> ts_is_ready (fw_tps fw)" for e hdr buf payload src fw
proof
  show "hv_steps powf hz hv (fw_hv (dispatch_packet e hdr buf payload src (fw\<lparr>fw_hv := hv\<rparr>)))" for powf hz hv
    using dispatch_steps [of powf hz "fw\<lparr>fw_hv := hv\<rparr>"] by simp
  show "\<not> ts_is_ready (fw_tps fw) \<Longrightarrow> keeps_dark hv (fw_hv (dispatch_packet e hdr buf payload src (fw\<lparr>fw_hv := hv\<rparr>)))" for hv
    using dispatch_unpowered [of "fw\<lparr>fw_hv := hv\<rparr>"] by simp
qed

end
