(* ===== verification/Status_Leds.thy ===== *)
theory Status_Leds
  imports Power_Manager
begin

text \<open>
  \<open>components/status_leds/status_leds.c\<close>: the two indicator LEDs. The status callbacks are
  the functions \<open>app_main\<close> wires in, as options because either pointer may be \<open>NULL\<close>.
\<close>

record status_leds_config =
  blue_active_high :: bool
  red_active_high :: bool

record status_leds_state =
  sl_config :: status_leds_config
  sl_blue_level :: int
  sl_red_level :: int
  sl_task_running :: bool
  sl_blink_phase :: bool

definition led_level :: "bool \<Rightarrow> bool \<Rightarrow> int" where
  "led_level active_high lit = (if lit = active_high then 1 else 0)"

text \<open>\<open>configure_led_pin\<close>: on a failed GPIO configuration the level is not written.\<close>

definition configure_led_pin :: "bool \<Rightarrow> bool \<Rightarrow> bool \<Rightarrow> int \<Rightarrow> bool \<times> int" where
  "configure_led_pin gpio_ok active_high initial_lit level =
     (if \<not> gpio_ok then (False, level) else (True, led_level active_high initial_lit))"

definition status_leds_init ::
  "bool \<Rightarrow> bool \<Rightarrow> bool \<Rightarrow> status_leds_config \<Rightarrow> status_leds_state \<Rightarrow> status_leds_state" where
  "status_leds_init blue_gpio_ok red_gpio_ok task_ok config s =
     (let s = s\<lparr>sl_config := config\<rparr>;
          (blue_ok, blue) = configure_led_pin blue_gpio_ok (blue_active_high config) True (sl_blue_level s);
          (red_ok, red) = configure_led_pin red_gpio_ok (red_active_high config) False (sl_red_level s);
          s = s\<lparr>sl_blue_level := blue, sl_red_level := red\<rparr>
      in if \<not> blue_ok \<or> \<not> red_ok then s
         else if \<not> task_ok then s
         else s\<lparr>sl_task_running := True, sl_blink_phase := False\<rparr>)"

text \<open>One pass of \<open>status_leds_task\<close>.\<close>

definition status_leds_step :: "bool option \<Rightarrow> bool option \<Rightarrow> status_leds_state \<Rightarrow> status_leds_state" where
  "status_leds_step power_ok_fn driver_on_fn s =
     (let blink_phase = (\<not> sl_blink_phase s);
          vbus_ok = (case power_ok_fn of Some b \<Rightarrow> b | None \<Rightarrow> False);
          blue = led_level (blue_active_high (sl_config s)) (if vbus_ok then True else blink_phase);
          driver_on = (case driver_on_fn of Some b \<Rightarrow> b | None \<Rightarrow> False);
          red = led_level (red_active_high (sl_config s)) driver_on
      in s\<lparr>sl_blink_phase := blink_phase, sl_blue_level := blue, sl_red_level := red\<rparr>)"

text \<open>Whether an LED is lit, read back from the electrical level and its polarity.\<close>

definition blue_lit :: "status_leds_state \<Rightarrow> bool" where
  "blue_lit s \<longleftrightarrow> (sl_blue_level s = 1) = blue_active_high (sl_config s)"

definition red_lit :: "status_leds_state \<Rightarrow> bool" where
  "red_lit s \<longleftrightarrow> (sl_red_level s = 1) = red_active_high (sl_config s)"

section \<open>Property\<close>

text \<open>
  Whatever the polarities, after each poll the red LED is lit exactly when the driver is
  on, the blue LED is lit while the power policy is satisfied, and without power two
  successive polls show opposite blue states, so it blinks.
\<close>

theorem indicator_shows_status:
  "let s1 = status_leds_step (Some (power_manager_indicator_ok pm)) (Some (hv9910_is_enabled hv)) s;
       s2 = status_leds_step (Some (power_manager_indicator_ok pm)) (Some (hv9910_is_enabled hv)) s1
   in (red_lit s1 \<longleftrightarrow> hv9910_is_enabled hv)
    \<and> (if power_manager_indicator_ok pm then blue_lit s1 \<and> blue_lit s2 else blue_lit s2 \<noteq> blue_lit s1)"
  by (auto simp: status_leds_step_def led_level_def blue_lit_def red_lit_def Let_def)

end
