(* ===== verification/Firmware_System.thy ===== *)
theory Firmware_System
  imports Driver_Clients Status_Leds
begin

text \<open>
  The program as a whole: \<open>main/poe_luminaire_main.c\<close> boots the modules in order and starts
  their tasks; after that the tasks, the timer and the event loop interleave. Boot is a pair
  of functions, split where \<open>app_main\<close> blocks until the monitor confirms power, and every
  activation of a task is an event. A step is one activation: the mutexes of
  the modules, the driver's queue and the single reader of each socket make each of them atomic
  for the others.
\<close>

section \<open>Board constants\<close>

definition HV9910_PWMD_INVERT :: bool where "HV9910_PWMD_INVERT = False"
definition HV9910_LD_INVERT :: bool where "HV9910_LD_INVERT = True"
definition STATUS_LED_BLUE_ACTIVE_HIGH :: bool where "STATUS_LED_BLUE_ACTIVE_HIGH = False"
definition STATUS_LED_RED_ACTIVE_HIGH :: bool where "STATUS_LED_RED_ACTIVE_HIGH = False"
definition VLED_DIVIDER_RUP_OHM :: rat where "VLED_DIVIDER_RUP_OHM = 560000"
definition VLED_DIVIDER_RDOWN_OHM :: rat where "VLED_DIVIDER_RDOWN_OHM = 22200"
definition VLED_DIVIDER_RATIO :: rat where
  "VLED_DIVIDER_RATIO = f32_div (f32_add VLED_DIVIDER_RUP_OHM VLED_DIVIDER_RDOWN_OHM) VLED_DIVIDER_RDOWN_OHM"
definition VBUS_MIN_MV :: int where "VBUS_MIN_MV = 40000"
definition VBUS_HYSTERESIS_MV :: int where "VBUS_HYSTERESIS_MV = 2000"
definition DEVID_MODEL_PREFIX :: string where "DEVID_MODEL_PREFIX = ''DriverPoE''"
definition ADMIN_DEFAULT_SECRET :: bytes where
  "ADMIN_DEFAULT_SECRET =
     [0x44, 0x72, 0x69, 0x76, 0x65, 0x72, 0x50, 0x6f, 0x45, 0x2d, 0x64, 0x65, 0x66, 0x61, 0x75, 0x6c,
      0x74, 0x2d, 0x61, 0x64, 0x6d, 0x69, 0x6e, 0x2d, 0x73, 0x65, 0x63, 0x72, 0x65, 0x74, 0x21, 0x21]"

section \<open>Image confirmation\<close>

datatype img_state =
    ESP_OTA_IMG_NEW | ESP_OTA_IMG_PENDING_VERIFY | ESP_OTA_IMG_VALID | ESP_OTA_IMG_INVALID | ESP_OTA_IMG_ABORTED
  | ESP_OTA_IMG_UNDEFINED

text \<open>\<open>known\<close>: the state of the running partition could be read; marking writes \<open>VALID\<close>.\<close>

definition confirm_app_if_pending_verify :: "bool \<Rightarrow> esp_err \<Rightarrow> img_state \<Rightarrow> img_state" where
  "confirm_app_if_pending_verify known mark_valid st =
     (if \<not> known then st
      else if st \<noteq> ESP_OTA_IMG_PENDING_VERIFY then st
      else if mark_valid = ESP_OK then ESP_OTA_IMG_VALID else st)"

section \<open>Boot\<close>

text \<open>The outcomes of every call \<open>app_main\<close> makes into the platform, and what the storage holds.\<close>

record boot_env =
  be_led_gpio :: "bool \<times> bool"
  be_led_task :: bool
  be_img_known :: bool
  be_img_mark :: esp_err
  be_img :: img_state
  be_hv_queue :: bool
  be_hv_task :: bool
  be_nvs_drv :: nvs_outcome
  be_nvs_dv :: nvs_outcome
  be_nvs_xs :: nvs_outcome
  be_blob_drv :: "bytes option"
  be_blob_dv :: "bytes option"
  be_blob_xs :: "bytes option"
  be_efuse :: "bytes option"
  be_cali :: bool
  be_tps_group :: bool
  be_tps_task :: bool
  be_first_samples :: "int \<times> int \<times> int"    \<comment> \<open>CDB, T2P, VBUS at the start of the monitor\<close>
  be_pm_lock :: bool
  be_pm_timer :: bool
  be_eth_calls :: "esp_err \<times> esp_err \<times> esp_err \<times> esp_err"
  be_eth_attempts :: "nat \<Rightarrow> eth_attempt"
  be_dmx_lock :: bool
  be_dmx_task :: bool
  be_artnet_open :: "bool \<times> bool"
  be_sacn_open :: "bool \<times> bool \<times> bool"
  be_admin_task :: bool
  be_admin_start :: "bool \<times> bool \<times> bool"
  be_now :: int

record system =
  sy_fw :: firmware
  sy_leds :: status_leds_state
  sy_img :: img_state
  sy_powered :: bool                    \<comment> \<open>\<open>app_main\<close> is past \<open>tps2378_wait_ready\<close>\<close>
  sy_dmx :: "dmx_task option"           \<comment> \<open>the DMX task, once in its loop\<close>
  sy_admin :: bool                      \<comment> \<open>the admin task is in its loop\<close>

text \<open>\<open>tps2378_init\<close>: without its event group or its task the device reboots (\<open>None\<close>).\<close>

definition tps2378_init :: "bool \<Rightarrow> bool \<Rightarrow> tps2378_config \<Rightarrow> int \<times> int \<times> int \<Rightarrow> tps_state option" where
  "tps2378_init group_created task_created config = (\<lambda>(cdb, t2p, vbus_mv).
     (if \<not> group_created then None
      else if \<not> task_created then None
      else Some (poe_monitor_start config cdb t2p vbus_mv)))"

definition drv_statics :: "bytes option \<Rightarrow> drv_state" where
  "drv_statics blob =
     \<lparr>drv_cfg = \<lparr>dc_mode = 0, dc_pwm_freq_hz = 0, dc_analog_freq_hz = 0, dc_min_on_time_us = 0,
        dc_crossover_pct = 0, dc_power_mode = 0, dc_poe_cap_pct = 0, dc_lin_enable = 0\<rparr>,
      drv_started = False, drv_nvs_ok = False, drv_blob = blob\<rparr>"

definition dmx_cfg_statics :: "bytes option \<Rightarrow> dmx_cfg_state" where
  "dmx_cfg_statics blob =
     \<lparr>xs_cfg = \<lparr>xc_layer_enabled = 0, xc_proto_mask = 0, xc_artnet_port_address = 0, xc_sacn_universe = 0,
        xc_dmx_address = 0, xc_personality = 0, xc_merge_mode = 0, xc_loss_behavior = 0, xc_loss_level = 0,
        xc_loss_timeout_ms = 0, xc_smoothing_ms = 0, xc_allow_artaddress = 0\<rparr>,
      xs_cfg_changed = False, xs_started = False, xs_nvs_ok = False, xs_blob = blob\<rparr>"

text \<open>A full or outdated partition is erased as a whole by the first module that opens it.\<close>

definition nvs_erases :: "nvs_outcome \<Rightarrow> bool" where
  "nvs_erases o' \<longleftrightarrow> nv_init o' = NVS_NO_FREE_PAGES \<or> nv_init o' = NVS_NEW_VERSION_FOUND"

text \<open>\<open>app_main\<close> up to \<open>tps2378_wait_ready\<close>.\<close>

definition app_main_init :: "boot_env \<Rightarrow> status_leds_state \<Rightarrow> system option" where
  "app_main_init b leds0 =
     (let leds = status_leds_init (fst (be_led_gpio b)) (snd (be_led_gpio b)) (be_led_task b)
            \<lparr>blue_active_high = STATUS_LED_BLUE_ACTIVE_HIGH, red_active_high = STATUS_LED_RED_ACTIVE_HIGH\<rparr> leds0;
          img = confirm_app_if_pending_verify (be_img_known b) (be_img_mark b) (be_img b);
          hv = hv9910_init (be_hv_queue b) (be_hv_task b)
            \<lparr>pwmd_pin = 32, ld_pin = 33, pwmd_invert = HV9910_PWMD_INVERT, ld_invert = HV9910_LD_INVERT\<rparr>
            hv9910_statics;
          (drv, hv) = driver_config_start (be_nvs_drv b) (drv_statics (be_blob_drv b), hv);
          blob_dv = (if nvs_erases (be_nvs_drv b) then None else be_blob_dv b);
          blob_xs = (if nvs_erases (be_nvs_drv b) then None else be_blob_xs b);
          dv = devid_init (be_efuse b) (be_nvs_dv b)
            \<lparr>model_prefix = DEVID_MODEL_PREFIX, factory_default_secret = ADMIN_DEFAULT_SECRET\<rparr> (devid_statics blob_dv);
          drv = (if nvs_erases (be_nvs_dv b) then drv\<lparr>drv_blob := None\<rparr> else drv);
          blob_xs = (if nvs_erases (be_nvs_dv b) then None else blob_xs);
          vs = voltage_sense_init (be_cali b)
            \<lparr>vled_p_channel = 6, vled_n_channel = 7, divider_ratio = VLED_DIVIDER_RATIO\<rparr>
      in case tps2378_init (be_tps_group b) (be_tps_task b)
               \<lparr>tc_vbus_min_mv = VBUS_MIN_MV, tc_vbus_hysteresis_mv = VBUS_HYSTERESIS_MV\<rparr> (be_first_samples b) of
           None \<Rightarrow> None
         | Some tps \<Rightarrow> Some
             \<lparr>sy_fw = \<lparr>fw_hv = hv, fw_drv = drv, fw_tps = tps, fw_pm = pm_statics_init, fw_vs = vs,
                fw_eth = \<lparr>et_got_ip = False, et_ip_info = \<lparr>ip_addr = 0, ip_netmask = 0, ip_gw = 0\<rparr>\<rparr>,
                fw_dv = dv, fw_xs = dmx_cfg_statics blob_xs, fw_mg = dmx_merge_statics,
                fw_nonces = nonce_pool_init, fw_rate = rate_table_init, fw_ota = ota_zero,
                fw_boot = None, fw_restart = False, fw_sent = []\<rparr>,
              sy_leds = leds, sy_img = img, sy_powered = False, sy_dmx = None, sy_admin = False\<rparr>)"

text \<open>The part of the firmware the DMX task works on, and writing it back.\<close>

definition node_of :: "firmware \<Rightarrow> dmx_node" where
  "node_of fw = \<lparr>dn_xs = fw_xs fw, dn_mg = fw_mg fw, dn_dv = fw_dv fw, dn_sent = fw_sent fw\<rparr>"

definition with_node :: "dmx_node \<Rightarrow> firmware \<Rightarrow> firmware" where
  "with_node n fw = fw\<lparr>fw_xs := dn_xs n, fw_mg := dn_mg n, fw_dv := dn_dv n, fw_sent := dn_sent n\<rparr>"

text \<open>\<open>app_main\<close> after \<open>tps2378_wait_ready\<close>, with the start of the two network tasks.\<close>

definition app_main_power :: "boot_env \<Rightarrow> system \<Rightarrow> system" where
  "app_main_power b s =
     (let fw = sy_fw s;
          (pm, hv) = power_manager_start (be_pm_lock b) (be_pm_timer b) (fw_tps fw) (fw_drv fw) (fw_pm fw, fw_hv fw);
          fw = fw\<lparr>fw_pm := pm, fw_hv := hv\<rparr>;
          s = s\<lparr>sy_fw := fw, sy_powered := True\<rparr>;
          (netif_init, loop_create, reg_eth, reg_ip) = be_eth_calls b;
          (eth_err, objs, delays) = eth_bringup netif_init loop_create reg_eth reg_ip (be_eth_attempts b)
      in if eth_err = ESP_OK then
           let erased = (be_dmx_lock b \<and> nvs_erases (be_nvs_xs b));
               fw = (if erased then fw\<lparr>fw_drv := (fw_drv fw)\<lparr>drv_blob := None\<rparr>, fw_dv := (fw_dv fw)\<lparr>dv_blob := None\<rparr>\<rparr> else fw);
               n = dmx_input_start (be_dmx_lock b) (be_dmx_task b) (be_nvs_xs b) (node_of fw);
               dmx = (if xs_started (dn_xs n)
                      then dmx_input_task_start (be_artnet_open b) (be_sacn_open b) (fw_eth fw) (be_now b)
                             \<lparr>sc_joined_universe = 0, sc_groups = []\<rparr> n
                      else None);
               admin = (be_admin_task b \<and>
                 admin_channel_task_start (fst (be_admin_start b)) (fst (snd (be_admin_start b))) (snd (snd (be_admin_start b))))
           in s\<lparr>sy_fw := with_node n fw, sy_dmx := dmx, sy_admin := admin\<rparr>
         else s)"

section \<open>Events\<close>

datatype event =
    EV_DRIVER u32                                          \<comment> \<open>\<open>hv9910_task\<close>, at a tick count\<close>
  | EV_MONITOR int int int                                 \<comment> \<open>\<open>poe_monitor_task\<close>: CDB, T2P, VBUS\<close>
  | EV_SETTLE                                              \<comment> \<open>the settle timer expires\<close>
  | EV_MAIN boot_env                                       \<comment> \<open>\<open>app_main\<close> continues\<close>
  | EV_ADMIN admin_env "(bytes \<times> sockaddr_in) option"      \<comment> \<open>\<open>admin_channel_task\<close>\<close>
  | EV_DMX task_input                                      \<comment> \<open>\<open>dmx_input_task\<close>\<close>
  | EV_LEDS                                                \<comment> \<open>\<open>status_leds_task\<close>\<close>
  | EV_ETH eth_event
  | EV_GOT_IP ip_info

definition dmx_iteration :: "task_input \<Rightarrow> dmx_task \<Rightarrow> system \<Rightarrow> system" where
  "dmx_iteration i t s =
     (let fw = sy_fw s;
          (t, hv) = dmx_input_iterate i (fw_tps fw) (fw_pm fw) (t\<lparr>tk_node := node_of fw\<rparr>, fw_hv fw)
      in s\<lparr>sy_fw := (with_node (tk_node t) fw)\<lparr>fw_hv := hv\<rparr>, sy_dmx := Some t\<rparr>)"

text \<open>
  \<open>esp_restart\<close> does not return to the loop of the admin task: a round whose handler calls it is
  the last one, and the run answers no further packet. The other tasks may still be scheduled until
  the reset takes effect; the next life of the device is a new \<open>app_main_init\<close>.
\<close>

definition admin_iteration :: "admin_env \<Rightarrow> (bytes \<times> sockaddr_in) option \<Rightarrow> system \<Rightarrow> system" where
  "admin_iteration e received s =
     (let fw = admin_channel_iterate e received (sy_fw s)
      in s\<lparr>sy_fw := fw, sy_admin := \<not> fw_restart fw\<rparr>)"

lemma admin_iteration_simps [simp]:
  "sy_fw (admin_iteration e received s) = admin_channel_iterate e received (sy_fw s)"
  "sy_admin (admin_iteration e received s) \<longleftrightarrow> \<not> fw_restart (admin_channel_iterate e received (sy_fw s))"
  "sy_leds (admin_iteration e received s) = sy_leds s" "sy_img (admin_iteration e received s) = sy_img s"
  "sy_powered (admin_iteration e received s) = sy_powered s" "sy_dmx (admin_iteration e received s) = sy_dmx s"
  by (simp_all add: admin_iteration_def Let_def)

text \<open>One event; \<open>None\<close> when it cannot occur in the state.\<close>

fun system_exec :: "(rat \<Rightarrow> rat \<Rightarrow> rat) \<Rightarrow> u32 \<Rightarrow> event \<Rightarrow> system \<Rightarrow> system option" where
  "system_exec powf hz (EV_DRIVER now) s =
     (let fw = sy_fw s
      in if \<not> hv_task_ready (fw_hv fw) then None
         else Some (s\<lparr>sy_fw := fw\<lparr>fw_hv := hv9910_task_step powf hz now (fw_hv fw)\<rparr>\<rparr>))"
| "system_exec powf hz (EV_MONITOR cdb t2p mv) s =
     (let fw = sy_fw s; (tps, pm, hv) = monitor_tick cdb t2p mv (fw_drv fw) (fw_tps fw, fw_pm fw, fw_hv fw)
      in Some (s\<lparr>sy_fw := fw\<lparr>fw_tps := tps, fw_pm := pm, fw_hv := hv\<rparr>\<rparr>))"
| "system_exec powf hz EV_SETTLE s =
     (let fw = sy_fw s
      in if pm_settle_timer (fw_pm fw) \<noteq> TIMER_RUNNING then None
         else
           let (pm, hv) = settle_cb (fw_tps fw) (fw_drv fw) (fw_pm fw, fw_hv fw)
           in Some (s\<lparr>sy_fw := fw\<lparr>fw_pm := pm, fw_hv := hv\<rparr>\<rparr>))"
| "system_exec powf hz (EV_MAIN b) s =
     (if sy_powered s \<or> \<not> tps2378_wait_ready (fw_tps (sy_fw s)) then None else Some (app_main_power b s))"
| "system_exec powf hz (EV_ADMIN e received) s =
     (if \<not> sy_admin s then None else Some (admin_iteration e received s))"
| "system_exec powf hz (EV_DMX i) s =
     (case sy_dmx s of None \<Rightarrow> None | Some t \<Rightarrow> Some (dmx_iteration i t s))"
| "system_exec powf hz EV_LEDS s =
     (if \<not> sl_task_running (sy_leds s) then None
      else Some (s\<lparr>sy_leds := status_leds_step (Some (power_manager_indicator_ok (fw_pm (sy_fw s))))
                      (Some (hv9910_is_enabled (fw_hv (sy_fw s)))) (sy_leds s)\<rparr>))"
| "system_exec powf hz (EV_ETH ev) s =
     Some (s\<lparr>sy_fw := (sy_fw s)\<lparr>fw_eth := eth_event_handler ev (fw_eth (sy_fw s))\<rparr>\<rparr>)"
| "system_exec powf hz (EV_GOT_IP info) s =
     Some (s\<lparr>sy_fw := (sy_fw s)\<lparr>fw_eth := got_ip_event_handler info (fw_eth (sy_fw s))\<rparr>\<rparr>)"

fun system_run :: "(rat \<Rightarrow> rat \<Rightarrow> rat) \<Rightarrow> u32 \<Rightarrow> event list \<Rightarrow> system \<Rightarrow> system option" where
  "system_run powf hz [] s = Some s"
| "system_run powf hz (ev # evs) s =
     (case system_exec powf hz ev s of None \<Rightarrow> None | Some s' \<Rightarrow> system_run powf hz evs s')"

section \<open>Reachable states\<close>

inductive system_reachable :: "(rat \<Rightarrow> rat \<Rightarrow> rat) \<Rightarrow> u32 \<Rightarrow> system \<Rightarrow> bool" for powf hz where
  boot: "app_main_init b leds0 = Some s \<Longrightarrow> system_reachable powf hz s"
| event: "system_reachable powf hz s \<Longrightarrow> system_exec powf hz ev s = Some s' \<Longrightarrow> system_reachable powf hz s'"


end
