(* ===== verification/System_Invariant.thy ===== *)
theory System_Invariant
  imports Firmware_System
begin

text \<open>
  The invariant of the whole firmware: what every module's state satisfies in every reachable
  state of the system, proved event by event from the modules' own lemmas.
\<close>

section \<open>Admin packets\<close>

text \<open>The four ways a packet ends, as a rule.\<close>

lemma handle_packet_by:
  assumes "P (counted e src fw)" and "\<And>hdr. P (handle_info e hdr src (counted e src fw))"
    and "P ((counted e src fw)\<lparr>fw_dv := snd (devid_get_serial (ae_efuse e) (fw_dv fw))\<rparr>)"
    and "\<And>hdr. P (admitted e hdr src fw)"
    and "\<And>hdr. executed e buf src fw = Some hdr \<Longrightarrow>
      P (dispatch_packet e hdr buf (payload_part hdr buf) src (admitted e hdr src fw))"
  shows "P (handle_packet e buf src fw)"
  using assms by (auto simp: handle_packet_unfold executed_Some split: option.split)

lemma info_frame [simp]:
  fixes e hdr src fw
  defines "r \<equiv> handle_info e hdr src fw"
  shows "fw_hv r = fw_hv fw" "fw_drv r = fw_drv fw" "fw_tps r = fw_tps fw" "fw_pm r = fw_pm fw"
    "fw_xs r = fw_xs fw" "fw_mg r = fw_mg fw" "fw_nonces r = fw_nonces fw" "fw_ota r = fw_ota fw"
    "fw_boot r = fw_boot fw" "fw_secret r = fw_secret fw"
  by (simp_all add: r_def handle_info_def split_def Let_def fw_secret_def devid_get_admin_secret_def
        devid_get_mac_def compute_mac_def)

definition drv_good :: "drv_state \<Rightarrow> bool" where
  "drv_good s \<longleftrightarrow> drv_started s \<and> drv_config_valid (drv_cfg s)"

lemma config_set_good: "drv_good s \<Longrightarrow> drv_good (fst (snd (driver_config_set o' cfg (s, hv))))"
  by (simp add: drv_good_def driver_config_set_def Let_def drv_sanitize_valid)

definition xs_good :: "dmx_cfg_state \<Rightarrow> bool" where
  "xs_good s \<longleftrightarrow> (xs_started s \<longrightarrow> dmx_config_valid (xs_cfg s))"

lemma xs_set_good: "xs_good s \<Longrightarrow> xs_good (snd (dmx_input_set_config o' cfg s))"
  by (simp add: xs_good_def dmx_input_set_config_def Let_def dmx_sanitize_valid)

lemma xs_set_started [simp]: "xs_started (snd (dmx_input_set_config o' cfg s)) = xs_started s"
  by (simp add: dmx_input_set_config_def Let_def dmx_config_save_def)

lemma dispatch_drv: "drv_good (fw_drv fw) \<Longrightarrow> drv_good (fw_drv (dispatch_packet e hdr buf payload src fw))"
proof (rule dispatch_by_handler, goal_cases)
  case 16
  then show ?case
    using config_set_good [of "fw_drv fw" "ae_nvs e" _ "fw_hv fw"]
    by (auto simp: handle_driver_set_config_def Let_def split_def split: option.split)
qed (simp_all add: handler_defs Let_def split_def drv_good_def split: option.split)

lemma dispatch_xs:
  "xs_good (fw_xs fw) \<Longrightarrow> xs_good (fw_xs (dispatch_packet e hdr buf payload src fw))"
  "xs_started (fw_xs (dispatch_packet e hdr buf payload src fw)) = xs_started (fw_xs fw)"
proof -
  show "xs_good (fw_xs fw) \<Longrightarrow> xs_good (fw_xs (dispatch_packet e hdr buf payload src fw))"
  proof (rule dispatch_by_handler, goal_cases)
    case 14
    then show ?case
      by (auto simp: handle_dmx_set_config_def Let_def split_def xs_set_good split: option.split)
  qed (simp_all add: handler_defs Let_def split_def xs_good_def split: option.split)
  show "xs_started (fw_xs (dispatch_packet e hdr buf payload src fw)) = xs_started (fw_xs fw)"
    by (rule dispatch_by_handler) (simp_all add: handler_defs Let_def split_def split: option.split)
qed

lemma dispatch_secret_length:
  "length (fw_secret fw) = DEVID_SECRET_LEN \<Longrightarrow>
   length (fw_secret (dispatch_packet e hdr buf payload src fw)) = DEVID_SECRET_LEN"
proof (rule dispatch_by_handler, goal_cases)
  case 12
  then show ?case
    by (auto simp: handle_change_secret_def Let_def split_def fw_secret_def devid_get_admin_secret_def
          devid_set_admin_secret_def split: option.split)
qed (simp_all add: handler_defs Let_def split_def fw_secret_def devid_get_admin_secret_def split: option.split)

section \<open>The invariant\<close>

definition firmware_ok :: "(rat \<Rightarrow> rat \<Rightarrow> rat) \<Rightarrow> u32 \<Rightarrow> firmware \<Rightarrow> bool" where
  "firmware_ok powf hz fw \<longleftrightarrow>
     hv_reachable powf hz (fw_hv fw) \<and> tps_coherent (fw_tps fw) \<and> drv_good (fw_drv fw) \<and> ota_ok (fw_ota fw)
   \<and> length (fw_nonces fw) = NONCE_POOL_SIZE \<and> length (fw_secret fw) = DEVID_SECRET_LEN
   \<and> xs_good (fw_xs fw) \<and> table_ok (fw_mg fw)"

definition system_ok :: "(rat \<Rightarrow> rat \<Rightarrow> rat) \<Rightarrow> u32 \<Rightarrow> system \<Rightarrow> bool" where
  "system_ok powf hz s \<longleftrightarrow> firmware_ok powf hz (sy_fw s)
     \<and> (sy_dmx s \<noteq> None \<longrightarrow> xs_started (fw_xs (sy_fw s)))
     \<and> (\<not> sy_powered s \<longrightarrow> sy_dmx s = None \<and> \<not> sy_admin s \<and> \<not> pm_lock (fw_pm (sy_fw s)))"

lemma firmware_ok_dispatch:
  assumes "firmware_ok powf hz fw"
  shows "firmware_ok powf hz (dispatch_packet e hdr buf payload src fw)"
  using assms dispatch_inputs [of fw e hdr buf payload src] dispatch_steps [of powf hz fw e hdr buf payload src]
  by (auto simp: firmware_ok_def same_inputs_def dispatch_drv dispatch_xs dispatch_secret_length dispatch_ota_ok
        dispatch_nonces intro: hv_steps_reachable)

lemma length_spend: "length (snd (spend e hdr src fw)) = length (fw_nonces fw)"
  by (simp add: spend_def)

lemma firmware_ok_packet: "firmware_ok powf hz fw \<Longrightarrow> firmware_ok powf hz (handle_packet e buf src fw)"
proof (rule handle_packet_by, goal_cases)
  case 1 then show ?case by (simp add: firmware_ok_def counted_def fw_secret_def)
next
  case (2 hdr) then show ?case by (simp add: firmware_ok_def) (simp add: counted_def fw_secret_def)
next
  case 3 then show ?case by (simp add: firmware_ok_def counted_def fw_secret_def)
next
  case (4 hdr) then show ?case by (simp add: firmware_ok_def length_spend)
next
  case (5 hdr)
  then have "firmware_ok powf hz (admitted e hdr src fw)" by (simp add: firmware_ok_def length_spend)
  then show ?case by (rule firmware_ok_dispatch)
qed

lemma firmware_ok_admin: "firmware_ok powf hz fw \<Longrightarrow> firmware_ok powf hz (admin_channel_iterate e received fw)"
  by (auto simp: admin_channel_iterate_def Let_def firmware_ok_packet split: option.split)

text \<open>Receiving a packet never touches what the monitor, the policy start or the DMX task own.\<close>

lemma packet_frame:
  "fw_tps (handle_packet e buf src fw) = fw_tps fw" "fw_mg (handle_packet e buf src fw) = fw_mg fw"
  "xs_started (fw_xs (handle_packet e buf src fw)) = xs_started (fw_xs fw)"
proof -
  have *: "fw_tps (handle_packet e buf src fw) = fw_tps fw \<and> fw_mg (handle_packet e buf src fw) = fw_mg fw
      \<and> xs_started (fw_xs (handle_packet e buf src fw)) = xs_started (fw_xs fw)"
    by (rule handle_packet_by)
       (use dispatch_inputs in \<open>auto simp: same_inputs_def dispatch_xs\<close>)
  then show "fw_tps (handle_packet e buf src fw) = fw_tps fw" "fw_mg (handle_packet e buf src fw) = fw_mg fw"
    "xs_started (fw_xs (handle_packet e buf src fw)) = xs_started (fw_xs fw)" by simp_all
qed

lemma admin_frame:
  "fw_tps (admin_channel_iterate e received fw) = fw_tps fw"
  "xs_started (fw_xs (admin_channel_iterate e received fw)) = xs_started (fw_xs fw)"
  by (auto simp: admin_channel_iterate_def Let_def packet_frame split: option.split)

section \<open>The DMX task\<close>

lemma artnet_handle_dv:
  "dv_active_secret (dn_dv (dmx_artnet_handle e buf ip port n)) = dv_active_secret (dn_dv n)"
  "xs_started (dn_xs (dmx_artnet_handle e buf ip port n)) = xs_started (dn_xs n)"
  by (auto simp: dmx_artnet_handle_def handle_address_def send_poll_reply_def Let_def split_def
        devid_get_mac_def compute_mac_def devid_get_serial_def compute_serial_def split: option.split)

lemma sacn_handle_dv:
  "dv_active_secret (dn_dv (dmx_sacn_handle e buf ip n)) = dv_active_secret (dn_dv n)"
  "dn_xs (dmx_sacn_handle e buf ip n) = dn_xs n"
  by (simp_all add: dmx_sacn_handle_def Let_def split: option.split)

lemma iterate_frame:
  fixes i tps pm t hv
  defines "n \<equiv> tk_node (fst (dmx_input_iterate i tps pm (t, hv)))"
  shows "dv_active_secret (dn_dv n) = dv_active_secret (dn_dv (tk_node t))"
    and "xs_started (dn_xs n) = xs_started (dn_xs (tk_node t))"
proof -
  have c: "dv_active_secret (dn_dv (tk_node (task_config_change i t))) = dv_active_secret (dn_dv (tk_node t))"
      "xs_started (dn_xs (tk_node (task_config_change i t))) = xs_started (dn_xs (tk_node t))" for t
    by (simp_all add: task_config_change_def Let_def)
  have j: "tk_node (task_rejoin i t) = tk_node t" for t by (simp add: task_rejoin_def Let_def)
  have r: "dv_active_secret (dn_dv (tk_node (task_receive i t))) = dv_active_secret (dn_dv (tk_node t))"
      "xs_started (dn_xs (tk_node (task_receive i t))) = xs_started (dn_xs (tk_node t))" for t
    by (simp_all add: task_receive_def Let_def artnet_handle_dv sacn_handle_dv split: option.split prod.split)
  show "dv_active_secret (dn_dv n) = dv_active_secret (dn_dv (tk_node t))"
    and "xs_started (dn_xs n) = xs_started (dn_xs (tk_node t))"
    by (simp_all add: n_def dmx_input_iterate_def task_actuate_def Let_def split_def c j r)
qed

lemma firmware_ok_dmx:
  assumes "firmware_ok powf hz (sy_fw s)" and "xs_started (fw_xs (sy_fw s))"
  shows "firmware_ok powf hz (sy_fw (dmx_iteration i t s))" and "xs_started (fw_xs (sy_fw (dmx_iteration i t s)))"
proof -
  let ?fw = "sy_fw s" and ?t = "t\<lparr>tk_node := node_of (sy_fw s)\<rparr>"
  have t: "task_ok ?t" using assms by (simp add: task_ok_def node_of_def firmware_ok_def xs_good_def)
  let ?r = "dmx_input_iterate i (fw_tps ?fw) (fw_pm ?fw) (?t, fw_hv ?fw)"
  have ok: "task_ok (fst ?r)" by (rule iterate_ok [OF t])
  have hv: "hv_reachable powf hz (snd ?r)"
    using assms(1) iterate_steps hv_steps_reachable unfolding firmware_ok_def by blast
  note f = iterate_frame [of i "fw_tps ?fw" "fw_pm ?fw" ?t "fw_hv ?fw"]
  show "firmware_ok powf hz (sy_fw (dmx_iteration i t s))"
    using assms ok hv f
    by (simp add: dmx_iteration_def Let_def split_def firmware_ok_def with_node_def task_ok_def xs_good_def node_of_def
          fw_secret_def devid_get_admin_secret_def)
  show "xs_started (fw_xs (sy_fw (dmx_iteration i t s)))"
    using assms f by (simp add: dmx_iteration_def Let_def split_def with_node_def node_of_def)
qed

section \<open>Boot and events\<close>

lemma boot_ok:
  assumes "app_main_init b leds0 = Some s"
  shows "system_ok powf hz s"
proof -
  let ?c = "\<lparr>pwmd_pin = 32, ld_pin = 33, pwmd_invert = HV9910_PWMD_INVERT, ld_invert = HV9910_LD_INVERT\<rparr>"
  let ?hv = "hv9910_init (be_hv_queue b) (be_hv_task b) ?c hv9910_statics"
  let ?d = "driver_config_start (be_nvs_drv b) (drv_statics (be_blob_drv b), ?hv)"
  have hv: "hv_reachable powf hz (snd ?d)"
    by (rule hv_steps_reachable [OF config_start_steps hv_reachable.init])
  have drv: "drv_good (fst ?d)"
    by (simp add: driver_config_start_def drv_statics_def drv_good_def Let_def drv_load_valid)
  have secret: "length (dv_active_secret (devid_init ef o'
      \<lparr>model_prefix = DEVID_MODEL_PREFIX, factory_default_secret = ADMIN_DEFAULT_SECRET\<rparr> (devid_statics blob))) = DEVID_SECRET_LEN"
    for ef o' blob
    by (rule active_secret_length) (simp add: ADMIN_DEFAULT_SECRET_def fw_const)
  have table: "table_ok dmx_merge_statics"
    by (simp add: table_ok_def dmx_merge_statics_def dmx_source_zero_def list_all_iff)
  obtain tps where tps: "tps2378_init (be_tps_group b) (be_tps_task b)
      \<lparr>tc_vbus_min_mv = VBUS_MIN_MV, tc_vbus_hysteresis_mv = VBUS_HYSTERESIS_MV\<rparr> (be_first_samples b) = Some tps"
    using assms by (auto simp: app_main_init_def Let_def split_def split: option.splits)
  have mon: "tps_coherent tps"
    using tps by (auto simp: tps2378_init_def split_def monitor_start_coherent split: if_splits)
  show ?thesis
    using assms hv drv secret table mon
    by (auto simp: app_main_init_def tps Let_def split_def system_ok_def firmware_ok_def drv_good_def xs_good_def
          dmx_cfg_statics_def pm_statics_init_def nonce_pool_init_def fw_secret_def devid_get_admin_secret_def)
qed

lemma firmware_ok_drv: "firmware_ok powf hz fw \<Longrightarrow> firmware_ok powf hz (fw\<lparr>fw_drv := (fw_drv fw)\<lparr>drv_blob := b\<rparr>\<rparr>)"
  and firmware_ok_dv: "firmware_ok powf hz fw \<Longrightarrow> firmware_ok powf hz (fw\<lparr>fw_dv := (fw_dv fw)\<lparr>dv_blob := b\<rparr>\<rparr>)"
  by (simp_all add: firmware_ok_def drv_good_def fw_secret_def devid_get_admin_secret_def)

lemma dmx_start_ok:
  assumes "firmware_ok powf hz fw"
  shows "firmware_ok powf hz (with_node (dmx_input_start l tk o' (node_of fw)) fw)"
  using assms
  by (auto simp: dmx_input_start_def Let_def with_node_def node_of_def firmware_ok_def xs_good_def
        fw_secret_def devid_get_admin_secret_def dmx_load_ok)

lemma main_ok:
  assumes "system_ok powf hz s"
  shows "system_ok powf hz (app_main_power b s)"
proof -
  let ?fw = "sy_fw s"
  let ?st = "power_manager_start (be_pm_lock b) (be_pm_timer b) (fw_tps ?fw) (fw_drv ?fw) (fw_pm ?fw, fw_hv ?fw)"
  let ?fw1 = "?fw\<lparr>fw_pm := fst ?st, fw_hv := snd ?st\<rparr>"
  let ?fw2 = "if be_dmx_lock b \<and> nvs_erases (be_nvs_xs b)
    then ?fw1\<lparr>fw_drv := (fw_drv ?fw1)\<lparr>drv_blob := None\<rparr>, fw_dv := (fw_dv ?fw1)\<lparr>dv_blob := None\<rparr>\<rparr> else ?fw1"
  have "hv_reachable powf hz (snd ?st)"
    using assms start_steps hv_steps_reachable unfolding system_ok_def firmware_ok_def by blast
  then have fw1: "firmware_ok powf hz ?fw1"
    using assms by (simp add: system_ok_def firmware_ok_def fw_secret_def)
  then have "firmware_ok powf hz ?fw2"
    using firmware_ok_dv [OF firmware_ok_drv, of powf hz ?fw1 None None] by simp
  then have fw3: "firmware_ok powf hz (with_node (dmx_input_start (be_dmx_lock b) (be_dmx_task b) (be_nvs_xs b)
      (node_of ?fw2)) ?fw2)"
    by (rule dmx_start_ok)
  show ?thesis
    using fw1 fw3 assms
    by (auto simp: app_main_power_def Let_def split_def system_ok_def with_node_def split: if_splits)
qed

lemma evaluate_lock [simp]: "pm_lock (fst (evaluate tps drv (s, hv))) = pm_lock s"
  by (auto simp: evaluate_def Let_def split_def split: option.split)

lemma event_lock [simp]: "pm_lock (fst (pm_on_event tps drv ev st)) = pm_lock (fst st)"
  by (cases st; cases ev)
     (simp_all add: power_manager_tps_ready_def power_manager_tps_lost_def power_manager_tps_source_changed_def
        locked_evaluate_def)

lemma events_lock [simp]: "pm_lock (fst (fold (pm_on_event tps drv) evs st)) = pm_lock (fst st)"
  by (induction evs arbitrary: st) simp_all

lemma monitor_tick_parts:
  "fst (monitor_tick cdb t2p mv drv (tps, s, hv)) = fst (poe_monitor_step cdb t2p mv tps)"
  "pm_lock (fst (snd (monitor_tick cdb t2p mv drv (tps, s, hv)))) = pm_lock s"
  by (simp_all add: monitor_tick_def split_def Let_def)

lemma monitor_ok:
  assumes "system_ok powf hz s" and "system_exec powf hz (EV_MONITOR cdb t2p mv) s = Some s'"
  shows "system_ok powf hz s'"
proof -
  obtain tps pm hv where tick: "monitor_tick cdb t2p mv (fw_drv (sy_fw s))
      (fw_tps (sy_fw s), fw_pm (sy_fw s), fw_hv (sy_fw s)) = (tps, pm, hv)" by (metis prod_cases3)
  have "hv_reachable powf hz hv"
    using assms(1) monitor.reachable [of powf hz "fw_hv (sy_fw s)" cdb t2p mv "fw_drv (sy_fw s)" "fw_tps (sy_fw s)"
        "fw_pm (sy_fw s)"] by (simp add: system_ok_def firmware_ok_def tick)
  moreover have "tps_coherent tps" "pm_lock pm = pm_lock (fw_pm (sy_fw s))"
    using monitor_tick_parts [of cdb t2p mv "fw_drv (sy_fw s)" "fw_tps (sy_fw s)" "fw_pm (sy_fw s)" "fw_hv (sy_fw s)"]
      monitor_step_coherent assms(1) by (simp_all add: tick system_ok_def firmware_ok_def)
  moreover have "s' = s\<lparr>sy_fw := (sy_fw s)\<lparr>fw_tps := tps, fw_pm := pm, fw_hv := hv\<rparr>\<rparr>"
    using assms(2) by (simp add: tick Let_def)
  ultimately show ?thesis using assms(1) by (simp add: system_ok_def firmware_ok_def fw_secret_def)
qed

lemma exec_ok:
  assumes "system_ok powf hz s" and "system_exec powf hz ev s = Some s'"
  shows "system_ok powf hz s'"
proof (cases ev)
  case (EV_DRIVER now)
  then show ?thesis
    using assms
    by (auto simp: Let_def system_ok_def firmware_ok_def fw_secret_def hv_step.task intro: hv_reachable.step
          split: if_splits)
next
  case (EV_MONITOR cdb t2p mv)
  then show ?thesis using assms monitor_ok by blast
next
  case EV_SETTLE
  have "hv_reachable powf hz (snd (settle_cb (fw_tps (sy_fw s)) (fw_drv (sy_fw s)) (fw_pm (sy_fw s), fw_hv (sy_fw s))))"
    using assms(1) settle.reachable unfolding system_ok_def firmware_ok_def by blast
  then show ?thesis
    using assms EV_SETTLE
    by (auto simp: Let_def split_def system_ok_def firmware_ok_def fw_secret_def settle_cb_def split: if_splits)
next
  case (EV_MAIN b)
  then show ?thesis using assms by (auto intro: main_ok split: if_splits)
next
  case (EV_ADMIN e received)
  then show ?thesis
    using assms by (auto simp: system_ok_def firmware_ok_admin admin_frame split: if_splits)
next
  case (EV_DMX i)
  then obtain t where t: "sy_dmx s = Some t" "s' = dmx_iteration i t s" using assms(2) by (auto split: option.splits)
  then show ?thesis
    using assms(1) firmware_ok_dmx [of powf hz s i t]
    by (auto simp: system_ok_def) (simp_all add: dmx_iteration_def Let_def split_def)
next
  case EV_LEDS
  then show ?thesis using assms by (auto simp: system_ok_def split: if_splits)
next
  case (EV_ETH ev')
  then show ?thesis using assms by (auto simp: system_ok_def firmware_ok_def fw_secret_def)
next
  case (EV_GOT_IP info)
  then show ?thesis using assms by (auto simp: system_ok_def firmware_ok_def fw_secret_def)
qed

lemma reachable_ok: "system_reachable powf hz s \<Longrightarrow> system_ok powf hz s"
  by (induction rule: system_reachable.induct) (auto intro: boot_ok exec_ok)

lemma run_reachable: "system_reachable powf hz s \<Longrightarrow> system_run powf hz evs s = Some s' \<Longrightarrow> system_reachable powf hz s'"
  by (induction evs arbitrary: s) (auto intro: system_reachable.event split: option.splits)

end
