(* ===== verification/Admin_Responses.thy ===== *)
theory Admin_Responses
  imports Admin_Handlers
begin

text \<open>
  What the admin channel sends: every packet it assembles is one its own parser accepts, and
  every handler answers with exactly one such packet to the requester.
\<close>

section \<open>Assembled packets are well-formed\<close>

text \<open>Documented behaviour of the crypto library: an HMAC-SHA-256 has 32 bytes.\<close>

definition hmac_is_32 :: "crypto \<Rightarrow> bool" where
  "hmac_is_32 c \<longleftrightarrow> (\<forall>k m. length (cr_hmac c k m) = ADMIN_HMAC_LEN)"

definition header_of :: "string \<Rightarrow> u8 \<Rightarrow> bytes \<Rightarrow> bytes \<Rightarrow> parsed_header" where
  "header_of serial type n payload =
     \<lparr>ph_magic = ADMIN_PROTO_MAGIC, ph_version = ADMIN_PROTO_VERSION, ph_type = type,
      ph_serial = padded_serial serial, ph_nonce = n, ph_payload_len = of_nat (length payload)\<rparr>"

lemma header_of_simps [simp]:
  "ph_magic (header_of serial type n payload) = ADMIN_PROTO_MAGIC"
  "ph_version (header_of serial type n payload) = ADMIN_PROTO_VERSION"
  "ph_type (header_of serial type n payload) = type"
  "ph_serial (header_of serial type n payload) = padded_serial serial"
  "ph_nonce (header_of serial type n payload) = n"
  "ph_payload_len (header_of serial type n payload) = of_nat (length payload)"
  by (simp_all add: header_of_def)

definition mac_of :: "crypto \<Rightarrow> bool \<Rightarrow> bytes option \<Rightarrow> bytes \<Rightarrow> bytes" where
  "mac_of c ok key body = (case key of
     None \<Rightarrow> replicate ADMIN_HMAC_LEN 0
   | Some k \<Rightarrow> (case hmac_compute c ok k body of Some m \<Rightarrow> m | None \<Rightarrow> replicate ADMIN_HMAC_LEN 0))"

lemma packet_bytes_split:
  "packet_bytes c ok serial type nonce payload key =
     packet_body serial type nonce payload @ mac_of c ok key (packet_body serial type nonce payload)"
  by (simp add: packet_bytes_def mac_of_def Let_def)

lemma length_mac_of: "hmac_is_32 c \<Longrightarrow> length (mac_of c ok key body) = 32"
  by (simp add: mac_of_def hmac_compute_def hmac_is_32_def fw_const split: option.split)

lemma packet_body_None: "packet_body serial type None payload = packet_body serial type (Some (replicate 16 0)) payload"
  by (simp add: packet_body_def fw_const)

text \<open>The parts of an assembled packet, as the receiving side cuts them.\<close>

lemma packet_parts:
  fixes c ok serial type n payload key
  defines "buf \<equiv> packet_bytes c ok serial type (Some n) payload key"
    and "hdr \<equiv> header_of serial type n payload"
  assumes "hmac_is_32 c" and "length n = 16" and "length payload \<le> ADMIN_MAX_PAYLOAD"
  shows "well_formed buf = Some hdr"
    and "covered_part hdr buf = packet_body serial type (Some n) payload"
    and "mac_part hdr buf = mac_of c ok key (packet_body serial type (Some n) payload)"
    and "payload_part hdr buf = payload"
    and "length buf = 80 + length payload"
proof -
  let ?b = "packet_body serial type (Some n) payload"
  have buf: "buf = ?b @ mac_of c ok key ?b" by (simp add: buf_def packet_bytes_split)
  have len: "length ?b = ADMIN_HEADER_WIRE_SIZE + length payload"
    using assms(4) by (intro packet_body_length) simp
  have mac: "length (mac_of c ok key ?b) = ADMIN_HMAC_LEN" using length_mac_of [OF assms(3)] by (simp add: fw_const)
  have pl: "unat (ph_payload_len hdr) = length payload" using assms(5) by (simp add: hdr_def unat_payload_len)
  have parse: "parse_header buf = Some hdr"
    unfolding buf using parse_packet_body [OF assms(4,5)] by (simp add: hdr_def header_of_def)
  show "well_formed buf = Some hdr"
    using assms(5) len mac by (simp add: well_formed_def parse pl) (simp add: buf hdr_def)
  show "covered_part hdr buf = ?b" "mac_part hdr buf = mac_of c ok key ?b"
    by (simp_all add: covered_part_def mac_part_def pl buf len)
  have "payload = drop ADMIN_HEADER_WIRE_SIZE ?b"
    using assms(4) by (simp add: packet_body_def fw_const put_u32_be_def put_u16_be_def)
  then show "payload_part hdr buf = payload"
    using len by (simp add: payload_part_def pl slice_def buf)
  show "length buf = 80 + length payload" using len mac by (simp add: buf fw_const)
qed

section \<open>One answer per command\<close>

text \<open>
  The last datagram sent answers the command: it goes to the requester, carries the response
  type or the error type, echoes the nonce (or carries the new one), and is signed under the
  secret in force.
\<close>

definition answered ::
  "admin_env \<Rightarrow> parsed_header \<Rightarrow> sockaddr_in \<Rightarrow> datagram list \<Rightarrow> firmware \<Rightarrow> bool" where
  "answered e hdr src sent r \<longleftrightarrow>
     (\<exists>serial t n payload. fw_sent r = sent @ [\<lparr>dg_dst = src,
          dg_data = packet_bytes (ae_crypto e) (ae_compute_ok e) serial t (Some n) payload (Some (fw_secret r))\<rparr>]
      \<and> t \<in> {ph_type hdr OR 0x80, ADMIN_TYPE_ERR_RESP} \<and> length payload \<le> 84
      \<and> (if ph_type hdr = ADMIN_TYPE_CHALLENGE then ae_random e = Some n else n = ph_nonce hdr))"

lemma answered_send:
  assumes "fw_sent fw = sent" and "key = fw_secret fw" and "t \<in> {ph_type hdr OR 0x80, ADMIN_TYPE_ERR_RESP}"
    and "length payload \<le> 84" and "if ph_type hdr = ADMIN_TYPE_CHALLENGE then ae_random e = Some n else n = ph_nonce hdr"
  shows "answered e hdr src sent (send_packet e src t (Some n) payload (Some key) fw)"
  unfolding answered_def using assms
  by (intro exI [of _ "fst (devid_get_serial (ae_efuse e) (fw_dv fw))"] exI [of _ t] exI [of _ n] exI [of _ payload])
     (simp add: send_packet_sent)

lemma secret_frame [simp]:
  "fw_secret (fw\<lparr>fw_hv := hv\<rparr>) = fw_secret fw" "fw_secret (fw\<lparr>fw_pm := pm\<rparr>) = fw_secret fw"
  "fw_secret (fw\<lparr>fw_drv := drv\<rparr>) = fw_secret fw" "fw_secret (fw\<lparr>fw_xs := xs\<rparr>) = fw_secret fw"
  "fw_secret (fw\<lparr>fw_nonces := pool\<rparr>) = fw_secret fw" "fw_secret (fw\<lparr>fw_ota := s\<rparr>) = fw_secret fw"
  "fw_secret (fw\<lparr>fw_boot := b\<rparr>) = fw_secret fw" "fw_secret (fw\<lparr>fw_restart := c\<rparr>) = fw_secret fw"
  by (simp_all add: fw_secret_def)

lemma answered_after [simp]:
  "answered e hdr src sent (r\<lparr>fw_hv := hv\<rparr>) = answered e hdr src sent r"
  "answered e hdr src sent (r\<lparr>fw_restart := b\<rparr>) = answered e hdr src sent r"
  "answered e hdr src sent (nvs_erase r) = answered e hdr src sent r"
  by (simp_all add: answered_def) (simp add: nvs_erase_def fw_secret_def devid_get_admin_secret_def)

lemma driver_pack_small: "length (driver_config_pack c) \<le> 84"
  by (simp add: drv_pack_length fw_const)

lemma dmx_pack_small: "length (dmx_config_pack c) \<le> 84"
  by (simp add: dmx_pack_length fw_const)

lemma challenge_answered:
  assumes "ph_type hdr = ADMIN_TYPE_CHALLENGE"
  shows "fw_sent (handle_challenge e hdr src fw) = fw_sent fw
       \<or> answered e hdr src (fw_sent fw) (handle_challenge e hdr src fw)"
proof (cases "ae_random e")
  case None
  then show ?thesis by (simp add: handle_challenge_def nonce_issue_def)
next
  case (Some n)
  let ?p = "snd (nonce_issue (ae_now e) (htonl (sin_addr src)) (Some n) (fw_nonces fw))"
  have "handle_challenge e hdr src fw = send_packet e src ADMIN_TYPE_CHALLENGE_RESP (Some n) [] (Some (fw_secret fw))
      (fw\<lparr>fw_nonces := ?p\<rparr>)"
    using Some by (simp add: handle_challenge_def nonce_issue_def Let_def)
  then have "answered e hdr src (fw_sent fw) (handle_challenge e hdr src fw)"
    using assms Some by (simp only:) (rule answered_send, simp_all add: fw_const)
  then show ?thesis ..
qed

lemmas answer_small = driver_pack_small dmx_pack_small

lemma ota_answered:
  "ph_type hdr = ADMIN_TYPE_OTA_BEGIN \<Longrightarrow> answered e hdr src (fw_sent fw) (handle_ota_begin e hdr payload src fw)"
  "ph_type hdr = ADMIN_TYPE_OTA_CHUNK \<Longrightarrow> answered e hdr src (fw_sent fw) (handle_ota_chunk e hdr payload src fw)"
  "ph_type hdr = ADMIN_TYPE_OTA_END \<Longrightarrow> answered e hdr src (fw_sent fw) (handle_ota_end e hdr src fw)"
  "ph_type hdr = ADMIN_TYPE_OTA_ABORT \<Longrightarrow> answered e hdr src (fw_sent fw) (handle_ota_abort e hdr src fw)"
  by (simp_all add: ota_handler_defs Let_def answered_send fw_const split: option.split)

lemma light_answered:
  "ph_type hdr = ADMIN_TYPE_ON \<Longrightarrow> answered e hdr src (fw_sent fw) (handle_on e hdr payload src fw)"
  "ph_type hdr = ADMIN_TYPE_OFF \<Longrightarrow> answered e hdr src (fw_sent fw) (handle_off e hdr payload src fw)"
  "ph_type hdr = ADMIN_TYPE_DIM \<Longrightarrow> answered e hdr src (fw_sent fw) (handle_dim e hdr payload src fw)"
  "ph_type hdr = ADMIN_TYPE_IDENTIFY \<Longrightarrow> answered e hdr src (fw_sent fw) (handle_identify e hdr src fw)"
  by (simp_all add: light_handler_defs Let_def answered_send fw_const)

lemma device_answered:
  "ph_type hdr = ADMIN_TYPE_REBOOT \<Longrightarrow> answered e hdr src (fw_sent fw) (handle_reboot e hdr src fw)"
  "ph_type hdr = ADMIN_TYPE_FACTORY_RESET \<Longrightarrow> answered e hdr src (fw_sent fw) (handle_factory_reset e hdr src fw)"
  "ph_type hdr = ADMIN_TYPE_CHANGE_SECRET \<Longrightarrow>
     answered e hdr src (fw_sent fw) (handle_change_secret e hdr payload src rh fw)"
  by (simp_all add: handle_reboot_def handle_factory_reset_def handle_change_secret_def Let_def split_def
        answered_send fw_const split: option.split)

lemma config_answered:
  "ph_type hdr = ADMIN_TYPE_DMX_GET_CONFIG \<Longrightarrow> answered e hdr src (fw_sent fw) (handle_dmx_get_config e hdr src fw)"
  "ph_type hdr = ADMIN_TYPE_DMX_SET_CONFIG \<Longrightarrow>
     answered e hdr src (fw_sent fw) (handle_dmx_set_config e hdr payload src fw)"
  "ph_type hdr = ADMIN_TYPE_DRIVER_GET_CONFIG \<Longrightarrow>
     answered e hdr src (fw_sent fw) (handle_driver_get_config e hdr src fw)"
  "ph_type hdr = ADMIN_TYPE_DRIVER_SET_CONFIG \<Longrightarrow>
     answered e hdr src (fw_sent fw) (handle_driver_set_config e hdr payload src fw)"
  by (simp_all add: query_handler_defs config_handler_defs Let_def split_def answered_send answer_small
        ADMIN_TYPE_DMX_GET_CONFIG_def ADMIN_TYPE_DMX_GET_CONFIG_RESP_def ADMIN_TYPE_DMX_SET_CONFIG_def
        ADMIN_TYPE_DMX_SET_CONFIG_RESP_def ADMIN_TYPE_DRIVER_GET_CONFIG_def ADMIN_TYPE_DRIVER_GET_CONFIG_RESP_def
        ADMIN_TYPE_DRIVER_SET_CONFIG_def ADMIN_TYPE_DRIVER_SET_CONFIG_RESP_def ADMIN_TYPE_CHALLENGE_def
        split: option.split)

lemma dispatch_answered:
  "fw_sent (dispatch_packet e hdr buf payload src fw) = fw_sent fw
   \<or> answered e hdr src (fw_sent fw) (dispatch_packet e hdr buf payload src fw)"
  by (rule dispatch_by_handler)
     (simp_all add: challenge_answered light_answered device_answered config_answered ota_answered answered_send)

lemma info_answer:
  "fw_sent (handle_info e hdr src fw) = fw_sent fw @ [\<lparr>dg_dst = src,
     dg_data = packet_bytes (ae_crypto e) (ae_compute_ok e)
       (fst (devid_get_serial (ae_efuse e) (snd (devid_get_mac (ae_efuse e) (fw_dv fw)))))
       ADMIN_TYPE_INFO_RESP None
       (info_payload e (fst (devid_get_mac (ae_efuse e) (fw_dv fw)))
          (fw\<lparr>fw_dv := snd (devid_get_mac (ae_efuse e) (fw_dv fw))\<rparr>)) None\<rparr>]"
  by (simp add: handle_info_def split_def Let_def send_packet_sent)

lemma info_payload_small: "length (info_payload e mac fw) \<le> 84"
  by (simp add: info_payload_def Let_def split: option.split)

text \<open>Every other handler, by the same argument.\<close>


end
