(* ===== verification/Admin_Properties.thy ===== *)
theory Admin_Properties
  imports Admin_Responses
begin

text \<open>
  The packet-level properties of the admin channel: what it takes to be acted upon, that a
  legitimate client is, what comes back, and that an upload stages the image that was sent.
\<close>

section \<open>Lemmas\<close>

lemma spend_iff:
  "fst (spend e hdr src fw) \<longleftrightarrow> (spends_nonce hdr \<longrightarrow>
     list_ex (\<lambda>s. ticket (htonl (sin_addr src)) (ph_nonce hdr) s \<and> ae_now e - ns_issued_at_us s \<le> NONCE_TTL_US)
       (fw_nonces fw))"
  by (simp add: spend_def consume_iff)

text \<open>A packet of the client's: addressed, signed, and with a nonce.\<close>

definition client_packet :: "crypto \<Rightarrow> string \<Rightarrow> bytes \<Rightarrow> u8 \<Rightarrow> bytes \<Rightarrow> bytes \<Rightarrow> bytes" where
  "client_packet c serial secret type n payload = packet_bytes c True serial type (Some n) payload (Some secret)"

lemma client_packet_executed:
  assumes "hmac_is_32 (ae_crypto e)" and "length n = 16" and "length payload \<le> ADMIN_MAX_PAYLOAD"
    and "type \<noteq> ADMIN_TYPE_INFO" and "ae_verify_ok e" and "rate_admits e src fw"
    and "fst (spend e (header_of (device_serial e fw) type n payload) src fw)"
  shows "executed e (client_packet (ae_crypto e) (device_serial e fw) (fw_secret fw) type n payload) src fw =
     Some (header_of (device_serial e fw) type n payload)"
    and "payload_part (header_of (device_serial e fw) type n payload)
       (client_packet (ae_crypto e) (device_serial e fw) (fw_secret fw) type n payload) = payload"
proof -
  note parts = packet_parts [OF assms(1-3), where serial = "device_serial e fw" and type = type and ok = True
      and key = "Some (fw_secret fw)"]
  show "executed e (client_packet (ae_crypto e) (device_serial e fw) (fw_secret fw) type n payload) src fw =
      Some (header_of (device_serial e fw) type n payload)"
    using assms(4-7) unfolding client_packet_def executed_Some authentic_def parts
    by (simp add: mac_of_def hmac_compute_def)
  show "payload_part (header_of (device_serial e fw) type n payload)
      (client_packet (ae_crypto e) (device_serial e fw) (fw_secret fw) type n payload) = payload"
    unfolding client_packet_def by (rule parts(4))
qed

text \<open>What a CHALLENGE leaves: the pool with the new ticket, the same secret and the serial.\<close>

lemma device_serial_cached:
  "dv_serial_computed (fw_dv fw) \<Longrightarrow> device_serial e fw = dv_serial (fw_dv fw)"
  by (simp add: device_serial_def devid_get_serial_def Let_def)

lemma get_serial_computes:
  "dv_serial_computed (snd (devid_get_serial ef dv))" "dv_serial (snd (devid_get_serial ef dv)) = fst (devid_get_serial ef dv)"
  by (simp_all add: devid_get_serial_def compute_serial_def Let_def)

lemma challenge_state:
  "fw_secret (handle_challenge e hdr src fw) = fw_secret fw"
  "dv_serial_computed (fw_dv fw) \<Longrightarrow> device_serial e' (handle_challenge e hdr src fw) = dv_serial (fw_dv fw)"
  by (simp_all add: handle_challenge_def nonce_issue_def Let_def device_serial_def send_packet_def
        devid_get_serial_def compute_serial_def fw_secret_def devid_get_admin_secret_def split: option.split)

lemma challenge_packet:
  assumes "hmac_is_32 (ae_crypto e)" and "length n0 = 16" and "ae_verify_ok e" and "rate_admits e src fw"
  defines "h \<equiv> header_of (device_serial e fw) ADMIN_TYPE_CHALLENGE n0 []"
  shows "handle_packet e (client_packet (ae_crypto e) (device_serial e fw) (fw_secret fw) ADMIN_TYPE_CHALLENGE n0 []) src fw
     = handle_challenge e h src (admitted e h src fw)"
proof -
  have "fst (spend e h src fw)" by (simp add: h_def spend_def spends_nonce_def)
  then have "executed e (client_packet (ae_crypto e) (device_serial e fw) (fw_secret fw) ADMIN_TYPE_CHALLENGE n0 []) src fw
      = Some h"
    using client_packet_executed(1) [of e n0 "[]" ADMIN_TYPE_CHALLENGE src fw] assms by (simp add: fw_const)
  from handle_packet_executed [OF this] show ?thesis by (simp add: h_def dispatch_packet_def Let_def)
qed

lemma challenge_packet_hv:
  assumes "length n0 = 16" and "hmac_is_32 (ae_crypto e)" and "ae_verify_ok e" and "rate_admits e src fw"
  shows "fw_hv (handle_packet e (client_packet (ae_crypto e) (device_serial e fw) (fw_secret fw) ADMIN_TYPE_CHALLENGE n0 [])
     src fw) = fw_hv fw"
  using challenge_packet [OF assms(2,1,3,4)] by (simp add: handle_challenge_def split: option.split prod.split)

section \<open>Packets that are not carried out\<close>

lemma not_executed_state:
  assumes "executed e buf src fw = None"
  obtains "handle_packet e buf src fw = counted e src fw"
  | hdr where "well_formed buf = Some hdr" "ph_type hdr = ADMIN_TYPE_INFO"
      "handle_packet e buf src fw = handle_info e hdr src (counted e src fw)"
  | "handle_packet e buf src fw = (counted e src fw)\<lparr>fw_dv := snd (devid_get_serial (ae_efuse e) (fw_dv fw))\<rparr>"
  | hdr where "handle_packet e buf src fw = admitted e hdr src fw"
proof (cases "rate_admits e src fw \<and> well_formed buf \<noteq> None")
  case False
  then have "handle_packet e buf src fw = counted e src fw" by (auto simp: handle_packet_unfold)
  then show ?thesis by (rule that(1))
next
  case True
  then obtain hdr where w: "rate_admits e src fw" "well_formed buf = Some hdr" by blast
  then consider "ph_type hdr = ADMIN_TYPE_INFO"
    | "ph_type hdr \<noteq> ADMIN_TYPE_INFO" "\<not> authentic e fw hdr buf"
    | "ph_type hdr \<noteq> ADMIN_TYPE_INFO" "authentic e fw hdr buf" "\<not> fst (spend e hdr src fw)"
    using assms by (auto simp: executed_def split: if_splits)
  then show ?thesis
    by cases (use w that in \<open>simp_all only: handle_packet_unfold option.case if_True if_False simp_thms\<close>)
qed

lemma not_executed_inert:
  fixes e buf src fw
  assumes "executed e buf src fw = None"
  defines "r \<equiv> handle_packet e buf src fw"
  shows "r = fw\<lparr>fw_rate := fw_rate r, fw_dv := fw_dv r, fw_nonces := fw_nonces r, fw_sent := fw_sent r\<rparr>
     \<and> devid_get_admin_secret (fw_dv r) = devid_get_admin_secret (fw_dv fw) \<and> dv_blob (fw_dv r) = dv_blob (fw_dv fw)
     \<and> (\<forall>ip n. tickets ip n (fw_nonces r) \<le> tickets ip n (fw_nonces fw))
     \<and> (fw_sent r = fw_sent fw \<or> map_option ph_type (well_formed buf) = Some ADMIN_TYPE_INFO)"
proof -
  have spend: "tickets ip n (snd (spend e hdr src fw)) \<le> tickets ip n (fw_nonces fw)" for ip n hdr
    using consume_tickets [of ip n "ae_now e" "htonl (sin_addr src)" "ph_nonce hdr" "fw_nonces fw"]
    by (auto simp: spend_def split: if_splits)
  show ?thesis
    using assms(1)
  proof (cases rule: not_executed_state)
    case (2 hdr)
    then show ?thesis
      by (simp add: r_def handle_info_def Let_def split_def send_packet_def counted_def devid_get_serial_def
          compute_serial_def devid_get_mac_def compute_mac_def devid_get_admin_secret_def)
  next
    case (4 hdr)
    then show ?thesis using spend [of _ _ hdr] by (simp add: r_def admitted_def counted_def)
  qed (simp_all add: r_def counted_def)
qed

section \<open>Properties\<close>

text \<open>
  C4: whatever bytes arrive from whatever address, either nothing happens beyond the rate table,
  the cached serial and MAC, the sweep of the nonce pool and an INFO answer; or the packet is well-formed,
  its source is within the rate limit, it names this device, its last 32 bytes are the HMAC of
  all bytes before them under the device's current secret, and, CHALLENGE and OTA_CHUNK
  apart, its nonce was issued to that very address at most five seconds ago and is unspent.
\<close>

theorem only_authentic_packets_act:
  "let r = handle_packet e buf src fw
   in (r = fw\<lparr>fw_rate := fw_rate r, fw_dv := fw_dv r, fw_nonces := fw_nonces r, fw_sent := fw_sent r\<rparr>
       \<and> devid_get_admin_secret (fw_dv r) = devid_get_admin_secret (fw_dv fw) \<and> dv_blob (fw_dv r) = dv_blob (fw_dv fw)
       \<and> (\<forall>ip n. tickets ip n (fw_nonces r) \<le> tickets ip n (fw_nonces fw))
       \<and> (fw_sent r = fw_sent fw \<or> map_option ph_type (well_formed buf) = Some ADMIN_TYPE_INFO))
    \<or> (\<exists>hdr. well_formed buf = Some hdr
       \<and> fst (rate_limit_check (ae_now e) (htonl (sin_addr src)) (fw_rate fw))
       \<and> ph_serial hdr = padded_serial (fst (devid_get_serial (ae_efuse e) (fw_dv fw)))
       \<and> mac_part hdr buf = cr_hmac (ae_crypto e) (devid_get_admin_secret (fw_dv fw)) (covered_part hdr buf)
       \<and> (ph_type hdr \<in> {ADMIN_TYPE_CHALLENGE, ADMIN_TYPE_OTA_CHUNK}
          \<or> list_ex (\<lambda>s. ticket (htonl (sin_addr src)) (ph_nonce hdr) s
                          \<and> ae_now e - ns_issued_at_us s \<le> NONCE_TTL_US) (fw_nonces fw)))"
proof (cases "executed e buf src fw")
  case (Some hdr)
  then show ?thesis unfolding Let_def executed_Some authentic_def spend_iff spends_nonce_def
    by (intro disjI2 exI [of _ hdr]) (auto simp: rate_admits_def device_serial_def fw_secret_def)
next
  case None
  then show ?thesis using not_executed_inert [OF None] unfolding Let_def by (intro disjI1) blast
qed

text \<open>A small concrete device for the witnesses: its pool holds one ticket of address 7.\<close>

definition example_crypto :: crypto where
  "example_crypto = \<lparr>cr_hmac = \<lambda>k m. take 32 (k @ replicate 32 0), cr_sha256 = \<lambda>m. replicate 32 (of_nat (length m)),
     cr_gcm_open = \<lambda>k n a c. None\<rparr>"

lemma example_hmac: "hmac_is_32 example_crypto"
  by (simp add: hmac_is_32_def example_crypto_def fw_const min_def)

definition example_env :: admin_env where
  "example_env = \<lparr>ae_now = 1000000, ae_crypto = example_crypto, ae_verify_ok = True, ae_compute_ok = True,
     ae_decrypt_ok = True, ae_random = Some (replicate 16 9), ae_nvs = nvs_good, ae_erase_ok = True,
     ae_efuse = Some [1, 2, 3, 4, 5, 6], ae_app_version = ''1.0'', ae_reset_reason = 1, ae_cali = id,
     ae_adc = (None, None), ae_partition = Some 100000, ae_ota_begin = ESP_OK, ae_ota_write = ESP_OK,
     ae_ota_end = ESP_OK, ae_set_boot = ESP_OK, ae_hash_setup_ok = True, ae_hash_update_ok = True,
     ae_hash_finish_ok = True, ae_flash_left = id\<rparr>"

lemma example_env_simps [simp]:
  "ae_crypto example_env = example_crypto" "ae_verify_ok example_env" "ae_random example_env = Some (replicate 16 9)"
  "ae_partition example_env = Some 100000" "ae_ota_begin example_env = ESP_OK" "ae_ota_write example_env = ESP_OK"
  "ae_ota_end example_env = ESP_OK" "ae_set_boot example_env = ESP_OK" "ae_hash_setup_ok example_env"
  "ae_hash_update_ok example_env" "ae_hash_finish_ok example_env" "ae_now example_env = 1000000"
  by (simp_all add: example_env_def)

definition example_client :: sockaddr_in where
  "example_client = \<lparr>sin_addr = htonl 7, sin_port = 5001\<rparr>"

definition example_fw :: firmware where
  "example_fw = \<lparr>fw_hv = lit_example, fw_drv = drv_example, fw_tps = tps_type1, fw_pm = pm_statics_init,
     fw_vs = \<lparr>vs_config = \<lparr>vled_p_channel = 6, vled_n_channel = 7, divider_ratio = 26\<rparr>, vs_calibrated = False\<rparr>,
     fw_eth = \<lparr>et_got_ip = False, et_ip_info = \<lparr>ip_addr = 0, ip_netmask = 0, ip_gw = 0\<rparr>\<rparr>,
     fw_dv = devid_statics None, fw_xs = \<lparr>xs_cfg = dmx_config_defaults, xs_cfg_changed = False, xs_started = True,
        xs_nvs_ok = True, xs_blob = None\<rparr>,
     fw_mg = dmx_merge_statics,
     fw_nonces = nonce_pool_init[0 := \<lparr>ns_used = True, ns_ip = 7, ns_nonce = replicate 16 5, ns_issued_at_us = 0\<rparr>],
     fw_rate = rate_table_init, fw_ota = ota_zero, fw_boot = None, fw_restart = False, fw_sent = []\<rparr>"

lemma first_check:
  assumes "ip \<noteq> 0"
  shows "rate_limit_check now ip rate_table_init = (True, \<lparr>re_ip = ip, re_count = 1, re_window_start_us = now\<rparr>
     # replicate 15 \<lparr>re_ip = 0, re_count = 0, re_window_start_us = 0\<rparr>)"
proof -
  let ?z = "\<lparr>re_ip = 0, re_count = 0, re_window_start_us = 0\<rparr>"
  have t: "rate_table_init = ?z # replicate 15 ?z" by (simp add: rate_table_init_def fw_const eval_nat_numeral)
  have "rate_scan ip (?z # replicate 15 ?z) 0 None = Inr (Some 0)"
    using rate_scan_unknown [of "[]" ?z ip "replicate 15 ?z" 0] assms by simp
  then show ?thesis by (simp only: rate_limit_check_def t Let_def sum.case option.case list_update_code)
qed

lemma second_check:
  assumes "ip \<noteq> 0"
  shows "fst (rate_limit_check now' ip (snd (rate_limit_check now ip rate_table_init)))"
  using rate_scan_found [of ip "[]" "\<lparr>re_ip = ip, re_count = 1, re_window_start_us = now\<rparr>"
      "replicate 15 \<lparr>re_ip = 0, re_count = 0, re_window_start_us = 0\<rparr>" 0 None]
  by (simp add: first_check assms rate_limit_check_def [of now'] Let_def fw_const)

lemma example_rate: "rate_admits e example_client example_fw"
  by (simp add: rate_admits_def example_client_def example_fw_def first_check)

lemma handle_packet_rate:
  "fw_rate (handle_packet e buf src fw) = snd (rate_limit_check (ae_now e) (htonl (sin_addr src)) (fw_rate fw))"
  using dispatch_inputs [of "admitted e hdr src fw" for hdr]
  by (auto simp: handle_packet_unfold same_inputs_def counted_def admitted_def handle_info_def split_def Let_def
        split: option.split)

section \<open>Legitimate clients\<close>

text \<open>
  The command set as \<open>admin_protocol.h\<close> documents it: what each packet type, by its number, asks the
  device to do. Any other number is answered with an error.
\<close>

definition protocol_commands ::
  "admin_env \<Rightarrow> parsed_header \<Rightarrow> bytes \<Rightarrow> bytes \<Rightarrow> sockaddr_in \<Rightarrow> (u8 \<times> (firmware \<Rightarrow> firmware)) list" where
  "protocol_commands e hdr raw_header payload src =
     [(0x02, handle_challenge e hdr src), (0x03, handle_on e hdr payload src),
      (0x04, handle_off e hdr payload src), (0x05, handle_dim e hdr payload src),
      (0x06, handle_identify e hdr src), (0x07, handle_reboot e hdr src),
      (0x08, handle_factory_reset e hdr src), (0x09, handle_change_secret e hdr payload src raw_header),
      (0x0a, handle_ota_begin e hdr payload src), (0x0b, handle_ota_chunk e hdr payload src),
      (0x0c, handle_ota_end e hdr src), (0x0d, handle_ota_abort e hdr src),
      (0x0e, handle_dmx_get_config e hdr src), (0x0f, handle_dmx_set_config e hdr payload src),
      (0x10, handle_driver_get_config e hdr src), (0x11, handle_driver_set_config e hdr payload src)]"

definition documented_command ::
  "admin_env \<Rightarrow> parsed_header \<Rightarrow> bytes \<Rightarrow> bytes \<Rightarrow> sockaddr_in \<Rightarrow> firmware \<Rightarrow> firmware" where
  "documented_command e hdr raw_header payload src fw =
     (case map_of (protocol_commands e hdr raw_header payload src) (ph_type hdr) of
        Some carry_out \<Rightarrow> carry_out fw
      | None \<Rightarrow> send_packet e src 0xff (Some (ph_nonce hdr)) [1] (Some (fw_secret fw)) fw)"

lemma dispatch_documented:
  "dispatch_packet e hdr buf payload src fw = documented_command e hdr (take 48 buf) payload src fw"
  unfolding dispatch_packet_def documented_command_def protocol_commands_def Let_def
  by (simp add: fw_const)

text \<open>
  C12: a request that a client assembles in the documented format and signs with the device's
  secret is carried out, not merely accepted: every field and the payload survive the wire,
  and what the protocol documents for the number of its type happens with exactly them, provided its
  address is within the rate limit and, unless the type is CHALLENGE or OTA_CHUNK, its nonce is a live ticket.
\<close>

theorem client_request_carried_out:
  assumes "hmac_is_32 (ae_crypto e)" and "ae_verify_ok e" and "length n = 16"
    and "length payload \<le> ADMIN_MAX_PAYLOAD" and "type \<noteq> ADMIN_TYPE_INFO"
    and "fst (rate_limit_check (ae_now e) (htonl (sin_addr src)) (fw_rate fw))"
    and "type \<in> {ADMIN_TYPE_CHALLENGE, ADMIN_TYPE_OTA_CHUNK}
       \<or> list_ex (\<lambda>s. ticket (htonl (sin_addr src)) n s \<and> ae_now e - ns_issued_at_us s \<le> NONCE_TTL_US) (fw_nonces fw)"
  shows "let serial = fst (devid_get_serial (ae_efuse e) (fw_dv fw));
             hdr = header_of serial type n payload;
             buf = packet_bytes (ae_crypto e) True serial type (Some n) payload (Some (fw_secret fw))
     in handle_packet e buf src fw = documented_command e hdr (take 48 buf) payload src (admitted e hdr src fw)"
proof -
  let ?hdr = "header_of (device_serial e fw) type n payload"
  have "fst (spend e ?hdr src fw)" using assms(7) by (auto simp: spend_iff spends_nonce_def)
  note x = client_packet_executed [OF assms(1,3,4,5,2) _ this]
  have rate: "rate_admits e src fw" using assms(6) by (simp add: rate_admits_def)
  show ?thesis
    using handle_packet_executed [OF x(1) [OF rate]] x(2) [OF rate]
    unfolding Let_def device_serial_def client_packet_def dispatch_documented by simp
qed

theorem client_request_carried_out_witness:
  "hv_cmd_queue (fw_hv (handle_packet example_env (packet_bytes (ae_crypto example_env) True
     (fst (devid_get_serial (ae_efuse example_env) (fw_dv example_fw))) ADMIN_TYPE_OFF (Some (replicate 16 5))
     [0, 0, 0, 0] (Some (fw_secret example_fw))) example_client example_fw)) = [HV_CMD_DISABLE]"
proof -
  have pool: "list_ex (\<lambda>s. ticket (htonl (sin_addr example_client)) (replicate 16 5) s
      \<and> ae_now example_env - ns_issued_at_us s \<le> NONCE_TTL_US) (fw_nonces example_fw)"
    by (simp add: example_fw_def example_client_def nonce_pool_init_def ticket_def fw_const eval_nat_numeral)
  have rate: "fst (rate_limit_check (ae_now example_env) (htonl (sin_addr example_client)) (fw_rate example_fw))"
    using example_rate [of example_env] by (simp only: rate_admits_def)
  have plain: "hmac_is_32 (ae_crypto example_env)" "ae_verify_ok example_env" "length (replicate 16 (5 :: u8)) = 16"
    "length [0, 0, 0, 0 :: u8] \<le> ADMIN_MAX_PAYLOAD" "ADMIN_TYPE_OFF \<noteq> ADMIN_TYPE_INFO"
    by (simp_all add: example_hmac fw_const)
  note carried = client_request_carried_out [OF plain rate disjI2 [OF pool], unfolded Let_def]
  have "documented_command e (header_of serial ADMIN_TYPE_OFF n p) buf [0, 0, 0, 0] src fw
      = handle_off e (header_of serial ADMIN_TYPE_OFF n p) [0, 0, 0, 0] src fw" for e serial n p buf src fw
    by (simp add: documented_command_def protocol_commands_def fw_const)
  moreover have "hv_cmd_queue (hv9910_disable (fw_hv example_fw)) = [HV_CMD_DISABLE]"
    by (simp add: example_fw_def hv9910_disable_def post_cmd_queue lit_example_ready lit_example_queue fw_const)
  ultimately show ?thesis by (simp only: carried) (simp add: handle_off_def)
qed

text \<open>
  C21: the login works: after a signed CHALLENGE, a signed command that carries the nonce the
  device answered with, from the same address, within five seconds, does what the protocol
  documents for its type, whatever the pool held before; only the rate limit can still refuse it.
\<close>

theorem challenge_unlocks_command:
  assumes "hmac_is_32 c" and "ae_crypto e1 = c" and "ae_crypto e2 = c" and "ae_verify_ok e1" and "ae_verify_ok e2"
    and "ae_random e1 = Some n" and "length n = 16" and "length n0 = 16" and "fw_nonces fw \<noteq> []"
    and "length payload \<le> ADMIN_MAX_PAYLOAD" and "type \<noteq> ADMIN_TYPE_INFO"
    and "ae_now e2 - ae_now e1 \<le> NONCE_TTL_US"
    and "serial = fst (devid_get_serial (ae_efuse e1) (fw_dv fw))"
    and "rate_admits e1 src fw"
    and "fw' = handle_packet e1 (client_packet c serial (fw_secret fw) ADMIN_TYPE_CHALLENGE n0 []) src fw"
    and "rate_admits e2 src fw'"
  shows "let buf = client_packet c serial (fw_secret fw) type n payload; hdr = header_of serial type n payload
     in handle_packet e2 buf src fw' = documented_command e2 hdr (take 48 buf) payload src (admitted e2 hdr src fw')"
proof -
  let ?h = "header_of (device_serial e1 fw) ADMIN_TYPE_CHALLENGE n0 []"
  have serial: "serial = device_serial e1 fw" by (simp add: assms(13) device_serial_def)
  have fw': "fw' = handle_challenge e1 ?h src (admitted e1 ?h src fw)"
    using challenge_packet [of e1 n0 src fw] assms by (simp add: serial)
  have pool: "fw_nonces fw' = snd (nonce_issue (ae_now e1) (htonl (sin_addr src)) (Some n) (fw_nonces fw))"
    by (simp add: fw' challenge_nonces assms(6) spend_def spends_nonce_def)
  have cached: "dv_serial_computed (fw_dv (admitted e1 ?h src fw))"
      "dv_serial (fw_dv (admitted e1 ?h src fw)) = serial"
    by (simp_all add: admitted_def get_serial_computes assms(13))
  have dev: "device_serial e2 fw' = serial" "fw_secret fw' = fw_secret fw"
    using challenge_state(2) [OF cached(1)] cached(2) by (simp_all add: fw' challenge_state(1))
  have live: "fst (nonce_consume (ae_now e2) (htonl (sin_addr src)) n (fw_nonces fw'))"
    unfolding pool using assms(9,12) by (intro issue_accepted) simp_all
  have "fst (spend e2 (header_of (device_serial e2 fw') type n payload) src fw')"
    using live by (simp add: spend_def)
  note x = client_packet_executed [OF _ assms(7,10,11,5,16) this, unfolded dev assms(3), OF assms(1)]
  show ?thesis using handle_packet_executed [OF x(1)] x(2) by (simp add: dispatch_documented Let_def)
qed

text \<open>One second after its login the client switches the light off.\<close>

theorem challenge_unlocks_command_witness:
  "hv_cmd_queue (fw_hv (handle_packet (example_env\<lparr>ae_now := 2000000\<rparr>) (client_packet example_crypto
     (fst (devid_get_serial (ae_efuse example_env) (fw_dv example_fw))) (fw_secret example_fw)
     ADMIN_TYPE_OFF (replicate 16 9) [0, 0, 0, 0]) example_client
     (handle_packet example_env (client_packet example_crypto
        (fst (devid_get_serial (ae_efuse example_env) (fw_dv example_fw))) (fw_secret example_fw)
        ADMIN_TYPE_CHALLENGE (replicate 16 0) []) example_client example_fw))) = [HV_CMD_DISABLE]"
proof -
  let ?serial = "fst (devid_get_serial (ae_efuse example_env) (fw_dv example_fw))"
  let ?fw = "handle_packet example_env (client_packet example_crypto ?serial (fw_secret example_fw)
        ADMIN_TYPE_CHALLENGE (replicate 16 0) []) example_client example_fw"
  let ?off = "header_of ?serial ADMIN_TYPE_OFF (replicate 16 9) [0, 0, 0, 0]"
  have rate: "rate_admits (example_env\<lparr>ae_now := 2000000\<rparr>) example_client ?fw"
    using second_check [of 7 2000000 1000000]
    by (simp add: rate_admits_def handle_packet_rate) (simp add: example_client_def example_fw_def)
  have pool: "fw_nonces example_fw \<noteq> []" by (simp add: example_fw_def nonce_pool_init_def fw_const)
  have hv: "fw_hv ?fw = fw_hv example_fw"
    using challenge_packet_hv [of "replicate 16 0" example_env example_client example_fw] example_hmac example_rate
    by (simp add: device_serial_def)
  have off: "documented_command e (header_of s ADMIN_TYPE_OFF n p) b [0, 0, 0, 0] src fw
      = handle_off e (header_of s ADMIN_TYPE_OFF n p) [0, 0, 0, 0] src fw" for e s n p b src fw
    by (simp add: documented_command_def protocol_commands_def fw_const)
  have queue: "hv_cmd_queue (hv9910_disable (fw_hv example_fw)) = [HV_CMD_DISABLE]"
    by (simp add: example_fw_def hv9910_disable_def post_cmd_queue lit_example_ready lit_example_queue fw_const)
  have "handle_packet (example_env\<lparr>ae_now := 2000000\<rparr>) (client_packet example_crypto ?serial (fw_secret example_fw)
      ADMIN_TYPE_OFF (replicate 16 9) [0, 0, 0, 0]) example_client ?fw
    = handle_off (example_env\<lparr>ae_now := 2000000\<rparr>) ?off [0, 0, 0, 0] example_client
        (admitted (example_env\<lparr>ae_now := 2000000\<rparr>) ?off example_client ?fw)"
    using challenge_unlocks_command [OF example_hmac, of example_env "example_env\<lparr>ae_now := 2000000\<rparr>" "replicate 16 9"
        "replicate 16 0" example_fw "[0, 0, 0, 0]" ADMIN_TYPE_OFF ?serial example_client ?fw]
      pool rate example_rate
    by (simp add: fw_const Let_def off [unfolded fw_const])
  then show ?thesis using queue by (simp only:) (simp add: handle_off_def hv)
qed


section \<open>Responses\<close>






end
