(* ===== verification/Admin_Upload.thy ===== *)
theory Admin_Upload
  imports Admin_Properties
begin

text \<open>
  A firmware upload from begin to end: the sender cuts the image into chunks and sends them
  over UDP, which may lose, repeat and reorder them; the device writes each chunk once, in order.
\<close>

section \<open>The sender\<close>

text \<open>The payload of chunk \<open>i\<close>: its offset in the image, and its bytes.\<close>

definition chunk_offset :: "bytes list \<Rightarrow> nat \<Rightarrow> nat" where
  "chunk_offset datas i = length (concat (take i datas))"

definition chunk_payload :: "bytes list \<Rightarrow> nat \<Rightarrow> bytes" where
  "chunk_payload datas i = put_u32_be (of_nat (chunk_offset datas i)) @ datas ! i"

text \<open>The device receives chunks by number, each with the outcomes of its platform calls.\<close>

fun receive_chunks ::
  "bytes list \<Rightarrow> parsed_header \<Rightarrow> sockaddr_in \<Rightarrow> (admin_env \<times> nat) list \<Rightarrow> firmware \<Rightarrow> firmware" where
  "receive_chunks datas hdr src [] fw = fw"
| "receive_chunks datas hdr src ((e, i) # rest) fw =
     receive_chunks datas hdr src rest (handle_ota_chunk e hdr (chunk_payload datas i) src fw)"

text \<open>The number of the chunk the device waits for next.\<close>

fun next_chunk :: "nat \<Rightarrow> nat list \<Rightarrow> nat" where
  "next_chunk j [] = j"
| "next_chunk j (i # rest) = next_chunk (if i = j then Suc j else j) rest"

lemma next_chunk_done: "list_all (\<lambda>i. i < n) is \<Longrightarrow> next_chunk n is = n"
  by (induction "is") auto

lemma next_chunk_bound: "j \<le> n \<Longrightarrow> list_all (\<lambda>i. i < n) is \<Longrightarrow> next_chunk j is \<le> n"
  by (induction "is" arbitrary: j) auto

lemma next_chunk_complete:
  "list_all (\<lambda>i. i < n) is \<Longrightarrow> j \<le> n \<Longrightarrow> subseq [j..<n] is \<Longrightarrow> next_chunk j is = n"
proof (induction "is" arbitrary: j)
  case Nil
  then show ?case by (cases "j < n") (simp_all add: upt_conv_Cons)
next
  case (Cons i rest)
  show ?case
  proof (cases "j = n")
    case True
    then show ?thesis using next_chunk_done [OF Cons.prems(1)] by simp
  next
    case False
    then have up: "[j..<n] = j # [Suc j..<n]" using Cons.prems(2) by (simp add: upt_conv_Cons)
    show ?thesis
    proof (cases "i = j")
      case True
      have "subseq [Suc j..<n] rest" using Cons.prems(3) True unfolding up by simp
      moreover have "Suc j \<le> n" using False Cons.prems(2) by simp
      ultimately show ?thesis using Cons.IH [of "Suc j"] Cons.prems(1) True by simp
    next
      case other: False
      then have "subseq [j..<n] rest" using Cons.prems(3) unfolding up by simp
      then show ?thesis using Cons.IH [of j] Cons.prems(1,2) other by simp
    qed
  qed
qed

lemma next_chunk_ge: "j \<le> next_chunk j is"
  by (induction "is" arbitrary: j) (simp_all, metis Suc_leD)

lemma next_chunk_subseq: "subseq [j..<next_chunk j is] is"
proof (induction "is" arbitrary: j)
  case (Cons i rest)
  show ?case
  proof (cases "i = j")
    case True
    have "[j..<next_chunk (Suc j) rest] = j # [Suc j..<next_chunk (Suc j) rest]"
      using next_chunk_ge [of "Suc j" rest] by (simp add: upt_conv_Cons Suc_le_lessD)
    then show ?thesis using Cons.IH [of "Suc j"] True by simp
  next
    case False
    then show ?thesis using Cons.IH [of j] by (simp add: list_emb_Cons)
  qed
qed simp

text \<open>All chunks are written exactly when they arrive in order among whatever else arrives.\<close>

lemma next_chunk_iff:
  "list_all (\<lambda>i. i < n) is \<Longrightarrow> next_chunk 0 is = n \<longleftrightarrow> subseq [0..<n] is"
  using next_chunk_complete [of n "is" 0] next_chunk_subseq [of 0 "is"] by auto

section \<open>The session while an upload is under way\<close>

definition uploading :: "bytes list \<Rightarrow> bytes \<Rightarrow> nat \<Rightarrow> firmware \<Rightarrow> bool" where
  "uploading datas digest j fw \<longleftrightarrow>
     (let s = fw_ota fw; written = concat (take j datas)
      in os_in_progress s \<and> os_total_size s = of_nat (length (concat datas))
       \<and> os_bytes_written s = of_nat (length written) \<and> os_image s = written \<and> os_hash_op s = Some written
       \<and> os_sha256_expected s = digest)"

lemma unat_length: "n < 2 ^ 32 \<Longrightarrow> unat (of_nat n :: u32) = n"
  by (simp add: unsigned_of_nat take_bit_nat_eq_self)

lemma take_Suc_concat: "i < length datas \<Longrightarrow> concat (take (Suc i) datas) = concat (take i datas) @ datas ! i"
  by (simp add: take_Suc_conv_app_nth)

lemma chunk_offset_end: "i < length datas \<Longrightarrow> chunk_offset datas i + length (datas ! i) \<le> length (concat datas)"
proof -
  assume i: "i < length datas"
  have "length (concat (take (Suc i) datas)) \<le> length (concat datas)"
    using arg_cong [OF append_take_drop_id [of "Suc i" datas], of concat]
    by (metis concat_append le_add1 length_append)
  then show ?thesis using i by (simp add: take_Suc_concat chunk_offset_def)
qed

text \<open>With no empty chunk, offsets are in the order of the numbers.\<close>

lemma chunk_offset_less:
  assumes "[] \<notin> set datas" and "i < j" and "j \<le> length datas"
  shows "chunk_offset datas i < chunk_offset datas j"
proof -
  obtain k where j: "j = Suc (i + k)" using less_imp_Suc_add [OF assms(2)] by blast
  have "datas ! i \<noteq> []" using assms by (metis less_le_trans nth_mem)
  then have "chunk_offset datas i < chunk_offset datas (Suc i)"
    using assms by (simp add: chunk_offset_def take_Suc_concat)
  also have "chunk_offset datas (Suc i) \<le> chunk_offset datas j"
    using take_add [of "Suc i" k datas] by (simp add: j chunk_offset_def)
  finally show ?thesis .
qed

lemma receive_one:
  assumes up: "uploading datas digest j fw" and small: "length (concat datas) < 2 ^ 32"
    and nonempty: "[] \<notin> set datas" and i: "i < length datas" and j: "j \<le> length datas"
    and e: "ae_ota_write e = ESP_OK" "ae_hash_update_ok e"
  shows "uploading datas digest (if i = j then Suc j else j) (handle_ota_chunk e hdr (chunk_payload datas i) src fw)"
proof -
  let ?s = "fw_ota fw" and ?o = "chunk_offset datas" and ?p = "chunk_payload datas i"
  have s: "os_in_progress ?s" "os_total_size ?s = of_nat (length (concat datas))" "os_bytes_written ?s = of_nat (?o j)"
      "os_image ?s = concat (take j datas)" "os_hash_op ?s = Some (concat (take j datas))" "os_sha256_expected ?s = digest"
    using up by (simp_all add: uploading_def Let_def chunk_offset_def)
  have last: "?o j \<le> length (concat datas)"
    using arg_cong [OF append_take_drop_id [of j datas], of concat]
    by (metis chunk_offset_def concat_append le_add1 length_append)
  have fit: "?o i + length (datas ! i) \<le> length (concat datas)" by (rule chunk_offset_end [OF i])
  have off: "get_u32_be ?p 0 = of_nat (?o i)" by (simp add: chunk_payload_def get_u32_be_0)
  have data: "drop 4 ?p = datas ! i" "\<not> length ?p < 4" by (simp_all add: chunk_payload_def)
  have u: "unat (of_nat (?o i) :: u32) = ?o i" "unat (of_nat (?o j) :: u32) = ?o j"
    "unat (of_nat (length (concat datas)) :: u32) = length (concat datas)"
    using fit last small by (intro unat_length; linarith)+
  note guard = handle_ota_chunk_def send_ota_chunk_resp_def Let_def off data s word_less_unat u
  consider "i < j" | "i = j" | "j < i" by linarith
  then show ?thesis
  proof cases
    case 1
    then have "?o i < ?o j" using chunk_offset_less [OF nonempty _ j] by blast
    then have "fw_ota (handle_ota_chunk e hdr ?p src fw) = ?s" by (simp add: guard)
    then show ?thesis using 1 up by (simp add: uploading_def)
  next
    case 2
    then have ji: "j = i" by simp
    have room: "\<not> length (concat datas) < ?o i + length (datas ! i)" using fit by simp
    have "of_nat (?o i) + of_nat (length (datas ! i)) = (of_nat (?o (Suc i)) :: u32)"
      using i by (simp add: chunk_offset_def take_Suc_concat)
    then have "fw_ota (handle_ota_chunk e hdr ?p src fw) = ?s\<lparr>os_image := concat (take (Suc i) datas),
        os_hash_op := Some (concat (take (Suc i) datas)), os_bytes_written := of_nat (?o (Suc i)),
        os_last_activity_us := ae_now e\<rparr>"
      using e room i by (simp add: guard ji take_Suc_concat)
    then show ?thesis using s by (simp add: uploading_def Let_def ji chunk_offset_def)
  next
    case 3
    then have "?o j < ?o i" using chunk_offset_less [OF nonempty, of j i] i by simp
    then have "\<not> ?o i < ?o j" "(of_nat (?o i) :: u32) \<noteq> of_nat (?o j)" using u by (simp, metis less_irrefl)
    then have "fw_ota (handle_ota_chunk e hdr ?p src fw) = ?s" by (simp add: guard)
    then show ?thesis using 3 up by (simp add: uploading_def)
  qed
qed

lemma receive_all:
  assumes "uploading datas digest j fw" and "length (concat datas) < 2 ^ 32" and "[] \<notin> set datas"
    and "j \<le> length datas" and "list_all (\<lambda>(e, i). i < length datas \<and> ae_ota_write e = ESP_OK \<and> ae_hash_update_ok e) arrivals"
  shows "uploading datas digest (next_chunk j (map snd arrivals)) (receive_chunks datas hdr src arrivals fw)"
  using assms
proof (induction arrivals arbitrary: j fw)
  case (Cons a arrivals)
  obtain e i where a: "a = (e, i)" by (cases a)
  have "uploading datas digest (if i = j then Suc j else j) (handle_ota_chunk e hdr (chunk_payload datas i) src fw)"
    using Cons.prems by (intro receive_one) (auto simp: a)
  from Cons.IH [OF this] show ?case using Cons.prems by (simp add: a split: if_splits)
qed simp

text \<open>Where a session starts and ends.\<close>

lemma begin_uploading:
  fixes e hdr src fw datas digest
  assumes "\<not> os_in_progress (fw_ota fw) \<or> OTA_IDLE_TIMEOUT_US \<le> ae_now e - os_last_activity_us (fw_ota fw)"
    and "ae_partition e = Some psize" and "of_nat (length (concat datas)) \<le> psize"
    and "0 < length (concat datas)" and "length (concat datas) < 2 ^ 32"
    and "ae_ota_begin e = ESP_OK" and "ae_hash_setup_ok e" and "length digest = 32"
  defines "r \<equiv> handle_ota_begin e hdr (put_u32_be (of_nat (length (concat datas))) @ digest) src fw"
  shows "uploading datas digest 0 r" and "fw_boot r = map_option (\<lambda>_. []) (fw_boot fw)"
proof -
  let ?n = "of_nat (length (concat datas)) :: u32"
  have "unat ?n = length (concat datas)" by (rule unat_length [OF assms(5)])
  then have "?n \<noteq> 0" using assms(4) by (metis less_numeral_extra(3) unat_0)
  moreover have "slice 4 32 (put_u32_be ?n @ digest) = digest" using assms(8) by (simp add: slice_def)
  ultimately show "uploading datas digest 0 r" "fw_boot r = map_option (\<lambda>_. []) (fw_boot fw)"
    using assms(1-8)
    by (auto simp: r_def handle_ota_begin_def ota_reset_def Let_def get_u32_be_0 uploading_def ota_zero_def fw_const
          not_less)
qed

lemma end_stages:
  assumes "uploading datas digest (length datas) fw" and "digest = cr_sha256 (ae_crypto e) (concat datas)"
    and "length digest = 32" and "ae_hash_finish_ok e" and "ae_ota_end e = ESP_OK" and "ae_set_boot e = ESP_OK"
  shows "fw_boot (handle_ota_end e hdr src fw) = Some (concat datas)"
  using assms by (simp add: handle_ota_end_def Let_def uploading_def fw_const)

lemma end_clears: "fw_ota (handle_ota_end e hdr src fw) = (if os_in_progress (fw_ota fw) then ota_zero else fw_ota fw)"
  by (auto simp: handle_ota_end_def ota_reset_def Let_def split: option.split)

text \<open>
  What the upload makes of the update partition when it is already selected for the next boot:
  it follows the image of the session, empty at first, and every chunk is appended to both.
\<close>

definition slot_follows :: "bytes option \<Rightarrow> firmware \<Rightarrow> bool" where
  "slot_follows selected fw \<longleftrightarrow> fw_boot fw = map_option (\<lambda>_. os_image (fw_ota fw)) selected"

lemma chunk_follows:
  "slot_follows selected fw \<Longrightarrow> ae_ota_write e = ESP_OK \<Longrightarrow> slot_follows selected (handle_ota_chunk e hdr payload src fw)"
  by (cases selected)
     (simp_all add: slot_follows_def handle_ota_chunk_def send_ota_chunk_resp_def Let_def)

lemma receive_follows:
  "slot_follows selected fw \<Longrightarrow> list_all (\<lambda>(e, i). ae_ota_write e = ESP_OK) arrivals \<Longrightarrow>
   slot_follows selected (receive_chunks datas hdr src arrivals fw)"
  by (induction datas hdr src arrivals fw rule: receive_chunks.induct) (simp_all add: chunk_follows)

lemma unfinished_upload_rejected:
  assumes "uploading datas digest j fw" and "j < length datas" and "[] \<notin> set datas" and "length (concat datas) < 2 ^ 32"
  shows "fw_boot (handle_ota_end e hdr src fw) = fw_boot fw" and "fw_ota (handle_ota_end e hdr src fw) = ota_zero"
proof -
  have "chunk_offset datas j < chunk_offset datas (length datas)" using chunk_offset_less assms(2,3) by blast
  then have "length (concat (take j datas)) < length (concat datas)" by (simp add: chunk_offset_def)
  then have "(of_nat (length (concat (take j datas))) :: u32) \<noteq> of_nat (length (concat datas))"
    using unat_length assms(4) by (metis less_irrefl less_trans)
  then show "fw_boot (handle_ota_end e hdr src fw) = fw_boot fw" "fw_ota (handle_ota_end e hdr src fw) = ota_zero"
    using assms(1) by (simp_all add: handle_ota_end_def ota_reset_def Let_def uploading_def)
qed

section \<open>Property\<close>

text \<open>
  C20: an upload stages the image that was sent, and nothing else: whatever chunks the
  network repeats or reorders, OTA_END stages the concatenation of the chunks if they all arrived
  in order among what arrived. Otherwise OTA_END selects nothing; but if an earlier update is
  already staged, it has been overwritten: the partition selected for the next boot holds the
  part of the new image that did arrive, which nobody has verified.
\<close>

theorem upload_stages_image:
  assumes "\<not> os_in_progress (fw_ota fw) \<or> OTA_IDLE_TIMEOUT_US \<le> ae_now eb - os_last_activity_us (fw_ota fw)"
    and "ae_partition eb = Some psize" and "of_nat (length (concat datas)) \<le> psize"
    and "datas \<noteq> []" and "[] \<notin> set datas" and "length (concat datas) < 2 ^ 32"
    and "ae_ota_begin eb = ESP_OK" and "ae_hash_setup_ok eb"
    and "length (cr_sha256 (ae_crypto ee) (concat datas)) = 32"
    and "list_all (\<lambda>(e, i). i < length datas \<and> ae_ota_write e = ESP_OK \<and> ae_hash_update_ok e) arrivals"
    and "ae_hash_finish_ok ee" and "ae_ota_end ee = ESP_OK" and "ae_set_boot ee = ESP_OK"
  shows "let begun = handle_ota_begin eb hb (put_u32_be (of_nat (length (concat datas)))
               @ cr_sha256 (ae_crypto ee) (concat datas)) src fw;
             ended = handle_ota_end ee he src (receive_chunks datas hc src arrivals begun)
     in fw_boot ended = (if subseq [0..<length datas] (map snd arrivals) then Some (concat datas)
          else map_option (\<lambda>_. concat (take (next_chunk 0 (map snd arrivals)) datas)) (fw_boot fw))
      \<and> fw_ota ended = ota_zero"
proof -
  let ?digest = "cr_sha256 (ae_crypto ee) (concat datas)"
  let ?begun = "handle_ota_begin eb hb (put_u32_be (of_nat (length (concat datas))) @ ?digest) src fw"
  let ?received = "receive_chunks datas hc src arrivals ?begun"
  have "0 < length (concat datas)" using assms(4,5) by (cases datas) auto
  then have begun: "uploading datas ?digest 0 ?begun" using assms by (intro begin_uploading(1))
  then have up: "uploading datas ?digest (next_chunk 0 (map snd arrivals)) ?received"
    using assms by (intro receive_all) simp_all
  have numbers: "list_all (\<lambda>i. i < length datas) (map snd arrivals)" using assms(10) by (auto simp: list_all_iff)
  have "slot_follows (fw_boot fw) ?begun"
    using begin_uploading(2) [OF assms(1-3) _ assms(6-9)] begun \<open>0 < length (concat datas)\<close>
    by (simp add: slot_follows_def uploading_def Let_def)
  moreover have "list_all (\<lambda>(e, i). ae_ota_write e = ESP_OK) arrivals" using assms(10) by (auto simp: list_all_iff)
  ultimately have "slot_follows (fw_boot fw) ?received" by (rule receive_follows)
  then have boot: "fw_boot ?received = map_option (\<lambda>_. concat (take (next_chunk 0 (map snd arrivals)) datas)) (fw_boot fw)"
    using up by (simp add: slot_follows_def uploading_def Let_def)
  show ?thesis
  proof (cases "subseq [0..<length datas] (map snd arrivals)")
    case True
    then have "uploading datas ?digest (length datas) ?received" using up next_chunk_iff [OF numbers] by simp
    moreover have "fw_ota (handle_ota_end ee he src ?received) = ota_zero"
      using up by (simp add: end_clears uploading_def Let_def)
    ultimately show ?thesis using True end_stages [OF _ refl assms(9,11-13)] unfolding Let_def by simp
  next
    case False
    then have "next_chunk 0 (map snd arrivals) < length datas"
      using next_chunk_iff [OF numbers] next_chunk_bound [OF _ numbers, of 0] by fastforce
    then show ?thesis
      using False unfinished_upload_rejected [OF up _ assms(5,6)] boot unfolding Let_def by simp
  qed
qed

text \<open>
  Two chunks; the second comes early, then both arrive, the first one twice. On a device that
  has already staged an image, an upload that loses its second chunk leaves a partial one selected.
\<close>

theorem upload_stages_image_witness:
  "\<forall>he hb hc src. fw_boot (handle_ota_end example_env he src (receive_chunks [[1, 2], [3]] hc src [(example_env, 0)]
      (handle_ota_begin example_env hb (put_u32_be 3 @ replicate 32 3) src (example_fw\<lparr>fw_boot := Some [7, 7, 7, 7]\<rparr>))))
        = Some [1, 2]
     \<and> fw_boot (handle_ota_end example_env he src (receive_chunks [[1, 2], [3]] hc src
      [(example_env, 1), (example_env, 0), (example_env, 0), (example_env, 1)]
      (handle_ota_begin example_env hb (put_u32_be 3 @ replicate 32 3) src example_fw))) = Some [1, 2, 3]"
proof (intro allI)
  fix he hb hc :: parsed_header and src
  have sha: "cr_sha256 (ae_crypto example_env) (concat [[1, 2], [3]]) = replicate 32 3"
    by (simp add: example_crypto_def)
  have idle: "\<not> os_in_progress (fw_ota example_fw)" by (simp add: example_fw_def)
  have "fw_boot (handle_ota_end example_env he src (receive_chunks [[1, 2], [3]] hc src [(example_env, 0)]
      (handle_ota_begin example_env hb (put_u32_be 3 @ replicate 32 3) src (example_fw\<lparr>fw_boot := Some [7, 7, 7, 7]\<rparr>))))
        = Some [1, 2]"
    using upload_stages_image [of "example_fw\<lparr>fw_boot := Some [7, 7, 7, 7]\<rparr>" example_env 100000 "[[1, 2], [3]]" example_env
        "[(example_env, 0)]" hb src he hc]
      idle unfolding sha
    by (simp add: Let_def upt_rec)
  moreover have "fw_boot (handle_ota_end example_env he src (receive_chunks [[1, 2], [3]] hc src
      [(example_env, 1), (example_env, 0), (example_env, 0), (example_env, 1)]
      (handle_ota_begin example_env hb (put_u32_be 3 @ replicate 32 3) src example_fw))) = Some [1, 2, 3]"
    using upload_stages_image [of example_fw example_env 100000 "[[1, 2], [3]]" example_env
        "[(example_env, 1), (example_env, 0), (example_env, 0), (example_env, 1)]" hb src he hc]
      idle unfolding sha
    by (simp add: Let_def upt_rec)
  ultimately show "fw_boot (handle_ota_end example_env he src (receive_chunks [[1, 2], [3]] hc src [(example_env, 0)]
      (handle_ota_begin example_env hb (put_u32_be 3 @ replicate 32 3) src (example_fw\<lparr>fw_boot := Some [7, 7, 7, 7]\<rparr>))))
        = Some [1, 2]
     \<and> fw_boot (handle_ota_end example_env he src (receive_chunks [[1, 2], [3]] hc src
      [(example_env, 1), (example_env, 0), (example_env, 0), (example_env, 1)]
      (handle_ota_begin example_env hb (put_u32_be 3 @ replicate 32 3) src example_fw))) = Some [1, 2, 3]" ..
qed

end
