(* ===== verification/System_Example.thy ===== *)
theory System_Example
  imports System_Invariant Admin_Upload
begin

text \<open>
  A concrete device for the witnesses: booted, with power confirmed, its services running; and
  what a signed packet of its administrator does there, for sessions of several commands.
\<close>

section \<open>Boot and power-up\<close>

lemma unstarted_events: "\<not> pm_lock (fst st) \<Longrightarrow> fold (pm_on_event tps drv) evs st = st"
proof (induction evs)
  case (Cons ev evs)
  obtain s hv where st: "st = (s, hv)" by (cases st)
  have "pm_on_event tps drv ev st = st"
    using Cons.prems
    by (cases ev) (simp_all add: st power_manager_tps_ready_def power_manager_tps_lost_def
        power_manager_tps_source_changed_def locked_evaluate_def)
  then show ?case using Cons by simp
qed simp

lemma boot_tables:
  assumes "app_main_init b leds0 = Some s"
  shows "fw_nonces (sy_fw s) = nonce_pool_init" and "fw_rate (sy_fw s) = rate_table_init"
    and "fw_ota (sy_fw s) = ota_zero" and "fw_boot (sy_fw s) = None" and "\<not> fw_restart (sy_fw s)"
  using assms by (auto simp: app_main_init_def Let_def split_def split: option.splits)

definition boot_example :: boot_env where
  "boot_example = \<lparr>be_led_gpio = (True, True), be_led_task = True, be_img_known = True, be_img_mark = ESP_OK,
     be_img = ESP_OTA_IMG_PENDING_VERIFY, be_hv_queue = True, be_hv_task = True, be_nvs_drv = nvs_good,
     be_nvs_dv = nvs_good, be_nvs_xs = nvs_good, be_blob_drv = None, be_blob_dv = None, be_blob_xs = None,
     be_efuse = Some [1, 2, 3, 4, 5, 6], be_cali = False, be_tps_group = True, be_tps_task = True,
     be_first_samples = (1, 1, 48000), be_pm_lock = True, be_pm_timer = True, be_eth_calls = (0, 0, 0, 0),
     be_eth_attempts = \<lambda>n. \<lparr>ea_netif = True, ea_mac = True, ea_phy = True, ea_install = 0, ea_glue = True,
        ea_attach = 0, ea_start = 0\<rparr>,
     be_dmx_lock = True, be_dmx_task = True, be_artnet_open = (True, True), be_sacn_open = (True, True, True),
     be_admin_task = True, be_admin_start = (True, True, True), be_now = 0\<rparr>"

definition leds_example :: status_leds_state where
  "leds_example = \<lparr>sl_config = \<lparr>blue_active_high = False, red_active_high = False\<rparr>, sl_blue_level = 0,
     sl_red_level = 0, sl_task_running = False, sl_blink_phase = False\<rparr>"

definition system_booted :: system where
  "system_booted = the (app_main_init boot_example leds_example)"

lemma boot_example_boots: "app_main_init boot_example leds_example = Some system_booted"
  by (simp add: system_booted_def app_main_init_def boot_example_def tps2378_init_def Let_def split_def)

lemma booted_reachable: "system_reachable powf hz system_booted"
  by (rule system_reachable.boot [OF boot_example_boots])

lemma boot_values:
  assumes "app_main_init b leds0 = Some s"
  shows "\<not> sy_powered s" "fw_pm (sy_fw s) = pm_statics_init"
    "tps2378_init (be_tps_group b) (be_tps_task b)
       \<lparr>tc_vbus_min_mv = VBUS_MIN_MV, tc_vbus_hysteresis_mv = VBUS_HYSTERESIS_MV\<rparr> (be_first_samples b)
     = Some (fw_tps (sy_fw s))"
  using assms by (auto simp: app_main_init_def Let_def split_def split: option.splits)

lemma booted_values: "\<not> sy_powered system_booted" "\<not> pm_lock (fw_pm (sy_fw system_booted))"
  "fw_tps (sy_fw system_booted) = poe_monitor_start \<lparr>tc_vbus_min_mv = 40000, tc_vbus_hysteresis_mv = 2000\<rparr> 1 1 48000"
  using boot_values [OF boot_example_boots]
  by (simp_all add: pm_statics_init_def tps2378_init_def boot_example_def VBUS_MIN_MV_def VBUS_HYSTERESIS_MV_def)

text \<open>Before \<open>power_manager_start\<close> the monitor's callbacks do nothing, so its iterations only move its own state.\<close>

lemma unstarted_monitor:
  assumes "\<not> pm_lock (fw_pm (sy_fw s))"
  shows "system_run powf hz (map (\<lambda>(cdb, t2p, mv). EV_MONITOR cdb t2p mv) ins) s =
     Some (s\<lparr>sy_fw := (sy_fw s)\<lparr>fw_tps := poe_monitor_run ins (fw_tps (sy_fw s))\<rparr>\<rparr>)"
  using assms
proof (induction ins arbitrary: s)
  case (Cons i ins)
  obtain cdb t2p mv where i: "i = (cdb, t2p, mv)" by (cases i)
  have "system_exec powf hz (EV_MONITOR cdb t2p mv) s =
      Some (s\<lparr>sy_fw := (sy_fw s)\<lparr>fw_tps := fst (poe_monitor_step cdb t2p mv (fw_tps (sy_fw s)))\<rparr>\<rparr>)"
    using unstarted_events [of "(fw_pm (sy_fw s), fw_hv (sy_fw s))"] Cons.prems
    by (simp add: monitor_tick_def Let_def split_def)
  then show ?case using Cons by (simp add: i)
qed simp

definition system_powered :: system where
  "system_powered = app_main_power boot_example
     (system_booted\<lparr>sy_fw := (sy_fw system_booted)\<lparr>fw_tps := tps_type1\<rparr>\<rparr>)"

lemma run_append:
  "system_run powf hz (evs @ evs') s = (case system_run powf hz evs s of None \<Rightarrow> None | Some s' \<Rightarrow> system_run powf hz evs' s')"
  by (induction evs arbitrary: s) (simp_all split: option.split)

text \<open>Five samples of 48 V, so that with those of the start six agree; then \<open>app_main\<close> goes on.\<close>

definition power_events :: "event list" where
  "power_events = map (\<lambda>(cdb, t2p, mv). EV_MONITOR cdb t2p mv) (replicate 5 (1, 1, 48000)) @ [EV_MAIN boot_example]"

lemma powered_run: "system_run powf hz power_events system_booted = Some system_powered"
proof -
  let ?s = "system_booted\<lparr>sy_fw := (sy_fw system_booted)\<lparr>fw_tps := tps_type1\<rparr>\<rparr>"
  have five: "replicate 5 (1, 1, 48000) = [(1, 1, 48000), (1, 1, 48000), (1, 1, 48000), (1, 1, 48000), (1, 1, 48000 :: int)]"
    by (simp add: numeral_eq_Suc)
  have r: "system_run powf hz (map (\<lambda>(cdb, t2p, mv). EV_MONITOR cdb t2p mv) (replicate 5 (1, 1, 48000))) system_booted = Some ?s"
    by (simp only: unstarted_monitor [OF booted_values(2)] booted_values(3) tps_type1_def five)
  have "tps_coherent tps_type1" using monitor_run_start unfolding tps_type1_def by blast
  then have "tps2378_wait_ready (fw_tps (sy_fw ?s))"
    using tps_type1_values by (simp add: tps2378_wait_ready_def tps_coherent_def)
  then have "system_exec powf hz (EV_MAIN boot_example) ?s = Some system_powered"
    using booted_values(1) by (simp add: system_powered_def)
  then show ?thesis by (simp only: power_events_def run_append r option.case system_run.simps)
qed

lemma powered_reachable: "system_reachable powf hz system_powered"
proof (rule run_reachable)
  show "system_reachable powf hz system_booted" by (rule booted_reachable)
  show "system_run powf hz power_events system_booted = Some system_powered" by (rule powered_run)
qed

lemma powered_admin: "sy_admin system_powered"
proof -
  have "fst (eth_bringup 0 0 0 0 (be_eth_attempts boot_example)) = ESP_OK"
    by (simp add: eth_bringup_def eth_attempts.simps boot_example_def try_create_eth_def Let_def fw_const)
  then show ?thesis
    by (simp add: system_powered_def app_main_power_def Let_def split_def)
       (simp add: boot_example_def admin_channel_task_start_def)
qed

lemma powered_tables:
  "fw_nonces (sy_fw system_powered) = nonce_pool_init" "fw_rate (sy_fw system_powered) = rate_table_init"
  "fw_ota (sy_fw system_powered) = ota_zero" "fw_boot (sy_fw system_powered) = None"
  "\<not> fw_restart (sy_fw system_powered)"
  using boot_tables [OF boot_example_boots]
  by (simp_all add: system_powered_def app_main_power_def Let_def split_def with_node_def)

section \<open>Sessions of the administrator\<close>

text \<open>No handler but CHANGE_SECRET changes the key, and none the serial once computed.\<close>

lemma dispatch_secret:
  "ph_type hdr \<noteq> ADMIN_TYPE_CHANGE_SECRET \<Longrightarrow> fw_secret (dispatch_packet e hdr buf payload src fw) = fw_secret fw"
  by (rule dispatch_by_handler)
     (simp_all add: handler_defs Let_def split_def fw_secret_def devid_get_admin_secret_def split: option.split)

lemma dispatch_serial:
  "dv_serial_computed (fw_dv fw) \<Longrightarrow>
   dv_serial_computed (fw_dv (dispatch_packet e hdr buf payload src fw))
   \<and> dv_serial (fw_dv (dispatch_packet e hdr buf payload src fw)) = dv_serial (fw_dv fw)"
  by (rule dispatch_by_handler)
     (simp_all add: handler_defs Let_def split_def send_packet_def devid_get_serial_def devid_set_admin_secret_def
        split: option.split)

text \<open>No handler but those of REBOOT and FACTORY_RESET restarts the device.\<close>

lemma dispatch_restart:
  "ph_type hdr \<notin> {ADMIN_TYPE_REBOOT, ADMIN_TYPE_FACTORY_RESET} \<Longrightarrow>
   fw_restart (dispatch_packet e hdr buf payload src fw) = fw_restart fw"
  by (rule dispatch_by_handler)
     (simp_all add: handler_defs Let_def split_def split: option.split)

text \<open>After a restart was commanded, the run carries out no further packet.\<close>

lemma restart_ends_admin:
  "system_reachable powf hz s \<Longrightarrow> fw_restart (sy_fw s) \<Longrightarrow>
   sy_powered s \<and> system_exec powf hz (EV_ADMIN e received) s = None"
proof -
  have booted: "\<not> fw_restart (sy_fw s)" if "app_main_init b leds0 = Some s" for b leds0 s
    by (rule boot_tables(5) [OF that])
  have main: "fw_restart (sy_fw (app_main_power b s)) = fw_restart (sy_fw s)" for b s
    by (simp add: app_main_power_def Let_def split_def with_node_def)
  have "(fw_restart (sy_fw s) \<longrightarrow> sy_powered s \<and> \<not> sy_admin s) \<and> (sy_admin s \<longrightarrow> sy_powered s)" if "system_reachable powf hz s"
    using that
  proof (induction rule: system_reachable.induct)
    case (boot b leds0 s)
    then show ?case using booted reachable_ok [OF system_reachable.boot [OF boot]] by (auto simp: system_ok_def)
  next
    case (event s ev s')
    have "sy_powered (app_main_power b s)" for b s by (simp add: app_main_power_def Let_def split_def)
    then show ?case
      using event main
      by (cases ev) (auto simp: Let_def split_def dmx_iteration_def with_node_def split: if_splits option.splits)
  qed
  then show "system_reachable powf hz s \<Longrightarrow> fw_restart (sy_fw s) \<Longrightarrow>
    sy_powered s \<and> system_exec powf hz (EV_ADMIN e received) s = None" by simp
qed

text \<open>The command an event carries out, if any.\<close>

fun admin_command :: "event \<Rightarrow> system \<Rightarrow> (admin_env \<times> sockaddr_in \<times> parsed_header) option" where
  "admin_command (EV_ADMIN e (Some (datagram, src))) s =
     map_option (\<lambda>hdr. (e, src, hdr)) (executed e (take ADMIN_MAX_PACKET datagram) src (sy_fw s))"
| "admin_command _ s = None"

text \<open>A device on which the administrator's packets so far, all at one instant, have counted \<open>k\<close>.\<close>

definition session_serial :: string where
  "session_serial = device_serial example_env (sy_fw system_powered)"

definition session_secret :: bytes where
  "session_secret = fw_secret (sy_fw system_powered)"

definition session_rate :: "nat \<Rightarrow> rate_entry list" where
  "session_rate k = (if k = 0 then rate_table_init else \<lparr>re_ip = 7, re_count = int k, re_window_start_us = 1000000\<rparr>
     # replicate 15 \<lparr>re_ip = 0, re_count = 0, re_window_start_us = 0\<rparr>)"

definition in_session :: "nat \<Rightarrow> system \<Rightarrow> bool" where
  "in_session k s \<longleftrightarrow> sy_admin s \<and> \<not> fw_restart (sy_fw s) \<and> fw_secret (sy_fw s) = session_secret
     \<and> device_serial example_env (sy_fw s) = session_serial \<and> fw_nonces (sy_fw s) \<noteq> []
     \<and> fw_rate (sy_fw s) = session_rate k"

definition session_packet :: "u8 \<Rightarrow> bytes \<Rightarrow> bytes \<Rightarrow> bytes" where
  "session_packet type n payload = client_packet example_crypto session_serial session_secret type n payload"

definition session_event :: "u8 \<Rightarrow> bytes \<Rightarrow> bytes \<Rightarrow> event" where
  "session_event type n payload = EV_ADMIN example_env (Some (session_packet type n payload, example_client))"

lemma example_ip [simp]: "htonl (sin_addr example_client) = 7"
  by (simp add: example_client_def)

lemma session_rate_step:
  "k < 40 \<Longrightarrow> rate_limit_check 1000000 7 (session_rate k) = (True, session_rate (Suc k))"
proof (cases "k = 0")
  case True
  then show ?thesis by (simp add: session_rate_def first_check)
next
  case False
  assume "k < 40"
  then show ?thesis
    using False rate_scan_found [of 7 "[]" "\<lparr>re_ip = 7, re_count = int k, re_window_start_us = 1000000\<rparr>"
      "replicate 15 \<lparr>re_ip = 0, re_count = 0, re_window_start_us = 0\<rparr>" 0 None]
    by (simp add: session_rate_def rate_limit_check_def Let_def fw_const)
qed

text \<open>One signed packet whose nonce, if it needs one, is accepted.\<close>

lemma session_carried:
  fixes type n payload
  defines "hdr \<equiv> header_of session_serial type n payload"
  assumes "in_session k s" and "k < 40" and "length n = 16" and "length payload \<le> ADMIN_MAX_PAYLOAD"
    and "type \<noteq> ADMIN_TYPE_INFO" and "fst (spend example_env hdr example_client (sy_fw s))"
  shows "admin_command (session_event type n payload) s = Some (example_env, example_client, hdr)"
    and "admin_channel_iterate example_env (Some (session_packet type n payload, example_client)) (sy_fw s) =
       dispatch_packet example_env hdr (session_packet type n payload) payload example_client
         (admitted example_env hdr example_client (sy_fw s))"
    and "system_exec powf hz (session_event type n payload) s =
       Some (admin_iteration example_env (Some (session_packet type n payload, example_client)) s)"
proof -
  let ?fw = "sy_fw s" and ?p = "session_packet type n payload"
  have s: "sy_admin s" "fw_secret ?fw = session_secret" "device_serial example_env ?fw = session_serial"
      "fw_rate ?fw = session_rate k" using assms(2) by (simp_all add: in_session_def)
  have rate: "rate_admits example_env example_client ?fw"
    using session_rate_step [OF assms(3)] by (simp add: rate_admits_def s(4))
  have hmac: "hmac_is_32 (ae_crypto example_env)" by (simp add: example_hmac)
  have ver: "ae_verify_ok example_env" by simp
  have sp: "fst (spend example_env (header_of (device_serial example_env ?fw) type n payload) example_client ?fw)"
    using assms(7) by (simp add: s(3) hdr_def)
  note x = client_packet_executed [OF hmac assms(4-6) ver rate sp, unfolded s(2,3) example_env_simps,
      folded session_packet_def hdr_def]
  have len: "length ?p \<le> ADMIN_MAX_PACKET" "?p \<noteq> []" "ADMIN_MAX_PACKET \<noteq> 0"
    using well_formed_fields(3,4) [of ?p hdr] x(1) by (auto simp: executed_Some fw_const)
  have "take ADMIN_MAX_PACKET ?p = ?p" using len(1) by simp
  then show "admin_command (session_event type n payload) s = Some (example_env, example_client, hdr)"
    using x(1) by (simp add: session_event_def)
  show "admin_channel_iterate example_env (Some (?p, example_client)) ?fw =
      dispatch_packet example_env hdr ?p payload example_client (admitted example_env hdr example_client ?fw)"
    using len handle_packet_executed [OF x(1)] x(2) by (simp add: admin_channel_iterate_def Let_def)
  show "system_exec powf hz (session_event type n payload) s = Some (admin_iteration example_env (Some (?p, example_client)) s)"
    using s(1) by (simp add: session_event_def)
qed

lemma session_step:
  fixes type n payload
  defines "hdr \<equiv> header_of session_serial type n payload"
  assumes "in_session k s" and "k < 40" and "length n = 16" and "length payload \<le> ADMIN_MAX_PAYLOAD"
    and "type \<notin> {ADMIN_TYPE_INFO, ADMIN_TYPE_CHANGE_SECRET, ADMIN_TYPE_REBOOT, ADMIN_TYPE_FACTORY_RESET}"
    and "fst (spend example_env hdr example_client (sy_fw s))"
  shows "\<exists>s'. system_exec powf hz (session_event type n payload) s = Some s' \<and> in_session (Suc k) s'
     \<and> admin_command (session_event type n payload) s = Some (example_env, example_client, hdr)
     \<and> sy_fw s' = dispatch_packet example_env hdr (session_packet type n payload) payload example_client
         (admitted example_env hdr example_client (sy_fw s))"
proof -
  let ?fw = "sy_fw s" and ?p = "session_packet type n payload"
  let ?adm = "admitted example_env hdr example_client ?fw"
  let ?r = "dispatch_packet example_env hdr ?p payload example_client ?adm"
  let ?s' = "admin_iteration example_env (Some (?p, example_client)) s"
  have info: "type \<noteq> ADMIN_TYPE_INFO" using assms(6) by simp
  note carried = session_carried [OF assms(2-5) info, folded hdr_def, OF assms(7)]
  have s: "\<not> fw_restart ?fw" "fw_secret ?fw = session_secret" "device_serial example_env ?fw = session_serial"
      "fw_nonces ?fw \<noteq> []" "fw_rate ?fw = session_rate k" using assms(2) by (simp_all add: in_session_def)
  have dv: "dv_serial_computed (fw_dv ?adm)" "dv_serial (fw_dv ?adm) = session_serial"
    using s(3) by (simp_all add: admitted_def get_serial_computes device_serial_def)
  have key: "fw_secret ?r = session_secret" using dispatch_secret [of hdr] assms(6) s(2) by (simp add: hdr_def)
  have serial: "device_serial example_env ?r = session_serial"
    using dispatch_serial [OF dv(1), of example_env hdr ?p payload example_client] dv(2) device_serial_cached by metis
  have "length (fw_nonces ?r) = length (fw_nonces ?fw)" by (simp add: dispatch_nonces length_spend)
  then have pool: "fw_nonces ?r \<noteq> []" using s(4) by (metis length_0_conv)
  have up: "\<not> fw_restart ?r" using dispatch_restart [of hdr] assms(6) s(1) by (simp add: hdr_def)
  have "fw_rate ?r = fw_rate ?adm"
    using dispatch_inputs [of ?adm example_env hdr ?p payload example_client] by (simp only: same_inputs_def)
  also have "\<dots> = session_rate (Suc k)"
    using session_rate_step [OF assms(3)] by (simp add: counted_def s(5))
  finally have "in_session (Suc k) ?s'"
    using up key serial pool by (simp add: in_session_def carried(2))
  then show ?thesis using carried by (intro exI [of _ ?s']) simp
qed

text \<open>Whatever the state, a packet of the administrator is read as the command it was made for.\<close>

lemma session_packet_header:
  assumes "admin_command (session_event type n payload) s = Some (e, src, hdr)"
    and "length n = 16" and "length payload \<le> ADMIN_MAX_PAYLOAD"
  shows "hdr = header_of session_serial type n payload"
proof -
  let ?p = "session_packet type n payload"
  have wf: "well_formed ?p = Some (header_of session_serial type n payload)"
    unfolding session_packet_def client_packet_def by (rule packet_parts(1) [OF example_hmac assms(2,3)])
  have "length ?p \<le> ADMIN_MAX_PACKET" using well_formed_fields(3,4) [OF wf] by (simp add: fw_const)
  then show ?thesis using assms(1) wf by (auto simp: session_event_def executed_Some)
qed

lemma session_payload:
  assumes "length n = 16" and "length payload \<le> ADMIN_MAX_PAYLOAD"
  shows "payload_part (header_of session_serial type n payload) (take ADMIN_MAX_PACKET (session_packet type n payload)) = payload"
proof -
  have "well_formed (session_packet type n payload) = Some (header_of session_serial type n payload)"
    unfolding session_packet_def client_packet_def by (rule packet_parts(1) [OF example_hmac assms])
  then have "length (session_packet type n payload) \<le> ADMIN_MAX_PACKET"
    using well_formed_fields(3,4) [of "session_packet type n payload"] by (simp add: fw_const)
  then show ?thesis
    unfolding session_packet_def client_packet_def by (simp add: packet_parts(4) [OF example_hmac assms])
qed

lemma session_start: "in_session 0 system_powered"
proof -
  have "nonce_pool_init \<noteq> []" by (simp add: nonce_pool_init_def fw_const)
  then show ?thesis
    unfolding in_session_def session_secret_def session_serial_def session_rate_def powered_tables
    using powered_admin powered_tables(5) by (simp only: refl if_True simp_thms)
qed

text \<open>A login leaves a ticket for the nonce issued.\<close>

definition session_nonce :: bytes where
  "session_nonce = replicate 16 9"

definition holds_ticket :: "system \<Rightarrow> bool" where
  "holds_ticket s \<longleftrightarrow> fst (nonce_consume 1000000 7 session_nonce (fw_nonces (sy_fw s)))"

abbreviation session_login :: event where
  "session_login \<equiv> session_event ADMIN_TYPE_CHALLENGE (replicate 16 0) []"

lemma session_login_ok:
  assumes "in_session k s" and "k < 40"
  shows "\<exists>s'. system_exec powf hz session_login s = Some s' \<and> in_session (Suc k) s' \<and> holds_ticket s'
     \<and> admin_command session_login s
         = Some (example_env, example_client, header_of session_serial ADMIN_TYPE_CHALLENGE (replicate 16 0) [])
     \<and> fw_ota (sy_fw s') = fw_ota (sy_fw s) \<and> fw_boot (sy_fw s') = fw_boot (sy_fw s)"
proof -
  let ?h = "header_of session_serial ADMIN_TYPE_CHALLENGE (replicate 16 0) []"
  have sp: "fst (spend example_env ?h example_client (sy_fw s))" by (simp add: spend_def spends_nonce_def)
  have types: "ADMIN_TYPE_CHALLENGE \<notin> {ADMIN_TYPE_INFO, ADMIN_TYPE_CHANGE_SECRET, ADMIN_TYPE_REBOOT, ADMIN_TYPE_FACTORY_RESET}"
    "length (replicate 16 (0 :: u8)) = 16" "length ([] :: bytes) \<le> ADMIN_MAX_PAYLOAD"
    by (simp_all add: fw_const)
  obtain s' where s': "system_exec powf hz session_login s = Some s'" "in_session (Suc k) s'"
      "admin_command session_login s = Some (example_env, example_client, ?h)"
      "sy_fw s' = dispatch_packet example_env ?h (session_packet ADMIN_TYPE_CHALLENGE (replicate 16 0) []) [] example_client
         (admitted example_env ?h example_client (sy_fw s))"
    using session_step [OF assms types(2,3,1) sp] by blast
  have r: "sy_fw s' = handle_challenge example_env ?h example_client (admitted example_env ?h example_client (sy_fw s))"
    by (simp add: s'(4) dispatch_packet_def Let_def)
  have "fw_nonces (sy_fw s') = snd (nonce_issue 1000000 7 (Some session_nonce) (fw_nonces (sy_fw s)))"
    by (simp add: r challenge_nonces spend_def spends_nonce_def session_nonce_def)
  moreover have "fw_nonces (sy_fw s) \<noteq> []" using assms(1) by (simp add: in_session_def)
  ultimately have "holds_ticket s'" by (simp add: holds_ticket_def issue_accepted fw_const)
  moreover have "fw_ota (sy_fw s') = fw_ota (sy_fw s)" "fw_boot (sy_fw s') = fw_boot (sy_fw s)" by (simp_all add: r)
  ultimately show ?thesis using s'(1-3) by blast
qed

text \<open>A command with the nonce of the last login.\<close>

lemma session_command_ok:
  assumes "in_session k s" and "k < 40" and "holds_ticket s" and "length payload \<le> ADMIN_MAX_PAYLOAD"
    and "type \<notin> {ADMIN_TYPE_INFO, ADMIN_TYPE_CHANGE_SECRET, ADMIN_TYPE_REBOOT, ADMIN_TYPE_FACTORY_RESET}"
  defines "hdr \<equiv> header_of session_serial type session_nonce payload"
  shows "\<exists>s'. system_exec powf hz (session_event type session_nonce payload) s = Some s' \<and> in_session (Suc k) s'
     \<and> admin_command (session_event type session_nonce payload) s = Some (example_env, example_client, hdr)
     \<and> sy_fw s' = dispatch_packet example_env hdr (session_packet type session_nonce payload) payload example_client
         (admitted example_env hdr example_client (sy_fw s))"
proof -
  have "fst (spend example_env hdr example_client (sy_fw s))"
    using assms(3) by (simp add: spend_def holds_ticket_def hdr_def)
  then show ?thesis
    using session_step [OF assms(1,2) _ assms(4,5), of session_nonce]
    by (simp add: hdr_def session_nonce_def)
qed

lemma dispatch_ota:
  "ph_type hdr = ADMIN_TYPE_OTA_BEGIN \<Longrightarrow> dispatch_packet e hdr buf payload src fw = handle_ota_begin e hdr payload src fw"
  "ph_type hdr = ADMIN_TYPE_OTA_CHUNK \<Longrightarrow> dispatch_packet e hdr buf payload src fw = handle_ota_chunk e hdr payload src fw"
  "ph_type hdr = ADMIN_TYPE_OTA_END \<Longrightarrow> dispatch_packet e hdr buf payload src fw = handle_ota_end e hdr src fw"
  by (simp_all add: dispatch_packet_def Let_def fw_const)

text \<open>
  An update of three bytes in one chunk: login, OTA_BEGIN, OTA_CHUNK, login; the state before OTA_END.
\<close>

definition session_image :: bytes where
  "session_image = [1, 2, 3]"

definition session_digest :: bytes where
  "session_digest = replicate 32 3"

lemma session_uploaded:
  "\<exists>s. system_reachable powf hz s \<and> in_session 4 s \<and> holds_ticket s \<and> fw_boot (sy_fw s) = None
     \<and> uploading [session_image] session_digest 1 (sy_fw s)"
proof -
  let ?b = "put_u32_be 3 @ session_digest" and ?c = "chunk_payload [session_image] 0"
  have len: "length ?b \<le> ADMIN_MAX_PAYLOAD" "length ?c \<le> ADMIN_MAX_PAYLOAD"
    by (simp_all add: session_digest_def session_image_def chunk_payload_def fw_const)
  have types: "ADMIN_TYPE_OTA_CHUNK \<notin> {ADMIN_TYPE_INFO, ADMIN_TYPE_CHANGE_SECRET, ADMIN_TYPE_REBOOT, ADMIN_TYPE_FACTORY_RESET}" "length session_nonce = 16"
    "ADMIN_TYPE_OTA_BEGIN \<notin> {ADMIN_TYPE_INFO, ADMIN_TYPE_CHANGE_SECRET, ADMIN_TYPE_REBOOT, ADMIN_TYPE_FACTORY_RESET}"
    by (simp_all add: fw_const session_nonce_def)
  have k: "0 < (40 :: nat)" "1 < (40 :: nat)" "2 < (40 :: nat)" "3 < (40 :: nat)"
    "Suc 0 = 1" "Suc 1 = 2" "Suc 2 = 3" "Suc 3 = 4" by simp_all
  obtain s1 where s1: "system_exec powf hz session_login system_powered = Some s1" "in_session 1 s1" "holds_ticket s1"
      "fw_ota (sy_fw s1) = ota_zero" "fw_boot (sy_fw s1) = None"
    using session_login_ok [OF session_start k(1), of powf hz] unfolding powered_tables k by blast
  let ?hb = "header_of session_serial ADMIN_TYPE_OTA_BEGIN session_nonce ?b"
  obtain s2 where s2: "system_exec powf hz (session_event ADMIN_TYPE_OTA_BEGIN session_nonce ?b) s1 = Some s2"
      "in_session 2 s2" "sy_fw s2 = handle_ota_begin example_env ?hb ?b example_client (admitted example_env ?hb example_client (sy_fw s1))"
    using session_command_ok [OF s1(2) k(2) s1(3) len(1) types(3), of powf hz]
    unfolding dispatch_ota(1) [OF header_of_simps(3)] k by blast
  have n: "length session_image = 3" "session_image \<noteq> []" by (simp_all add: session_image_def)
  have up2: "uploading [session_image] session_digest 0 (sy_fw s2)"
    unfolding s2(3) using begin_uploading [of "admitted example_env ?hb example_client (sy_fw s1)" example_env 100000
        "[session_image]" session_digest ?hb example_client] s1(4)
    by (simp add: n session_digest_def)
  let ?hc = "header_of session_serial ADMIN_TYPE_OTA_CHUNK session_nonce ?c"
  have sp: "fst (spend example_env ?hc example_client (sy_fw s2))" by (simp add: spend_def spends_nonce_def)
  obtain s3 where s3: "system_exec powf hz (session_event ADMIN_TYPE_OTA_CHUNK session_nonce ?c) s2 = Some s3"
      "in_session 3 s3" "sy_fw s3 = handle_ota_chunk example_env ?hc ?c example_client (admitted example_env ?hc example_client (sy_fw s2))"
    using session_step [OF s2(2) k(3) types(2) len(2) types(1) sp, of powf hz]
    unfolding dispatch_ota(2) [OF header_of_simps(3)] k by blast
  have "uploading [session_image] session_digest 0 (admitted example_env ?hc example_client (sy_fw s2))"
    using up2 by (simp add: uploading_def)
  then have up3: "uploading [session_image] session_digest 1 (sy_fw s3)"
    unfolding s3(3) using receive_one [of "[session_image]" session_digest 0 _ 0 example_env ?hc example_client]
    by (simp add: n) (simp add: session_image_def)
  have boot3: "fw_boot (sy_fw s3) = None" by (simp add: s3(3) s2(3) s1(5))
  obtain s4 where s4: "system_exec powf hz session_login s3 = Some s4" "in_session 4 s4" "holds_ticket s4"
      "fw_ota (sy_fw s4) = fw_ota (sy_fw s3)" "fw_boot (sy_fw s4) = None"
    using session_login_ok [OF s3(2) k(4), of powf hz] unfolding boot3 k by blast
  have "system_reachable powf hz s4"
    by (rule system_reachable.event [OF system_reachable.event [OF system_reachable.event
          [OF system_reachable.event [OF powered_reachable s1(1)] s2(1)] s3(1)] s4(1)])
  moreover have "uploading [session_image] session_digest 1 (sy_fw s4)" using up3 s4(4) by (simp add: uploading_def)
  ultimately show ?thesis using s4 by blast
qed

end
