(* ===== verification/System_Properties.thy ===== *)
theory System_Properties
  imports System_Example
begin

text \<open>
  Properties of the whole firmware over its reachable states and runs: the invariant, darkness
  before and without power, single use of nonces, and what may become the next boot image.
\<close>

section \<open>Before power is confirmed\<close>

fun applies_dimming :: "hv_cmd \<Rightarrow> bool" where
  "applies_dimming (HV_CMD_APPLY_DIMMING d) = True"
| "applies_dimming _ = False"

text \<open>The driver before \<open>power_manager_start\<close>: at level zero, with configuration pushes queued at most.\<close>

definition hv_idle :: "hv_state \<Rightarrow> bool" where
  "hv_idle hv \<longleftrightarrow> hv_level_q hv = 0 \<and> \<not> hv_enabled hv \<and> hv_pending hv = PENDING_NONE
     \<and> list_all applies_dimming (hv_cmd_queue hv)"

lemma applies_dimmingD: "applies_dimming c \<Longrightarrow> \<exists>d. c = HV_CMD_APPLY_DIMMING d"
  by (cases c) simp_all

lemma idle_apply_dimming:
  "hv_level_q s = 0 \<Longrightarrow> hv_pending s = PENDING_NONE \<Longrightarrow>
   hv_level_q (hv_do_apply_dimming powf d s) = 0 \<and> \<not> hv_enabled (hv_do_apply_dimming powf d s)
   \<and> hv_pending (hv_do_apply_dimming powf d s) = PENDING_NONE"
  by (simp add: hv_do_apply_dimming_def Let_def apply_level_output)
     (simp add: recompute_derived_def reconfigure_ledc_def Let_def ledc_start_if_needed_def)

lemma idle_step: "hv_idle hv \<Longrightarrow> hv_idle (hv9910_task_step powf hz now hv)"
proof (cases "hv_cmd_queue hv")
  case Nil
  then show "hv_idle hv \<Longrightarrow> hv_idle (hv9910_task_step powf hz now hv)"
    by (simp add: hv_idle_def hv9910_task_step_def xQueueReceive_def)
next
  case (Cons c cs)
  assume idle: "hv_idle hv"
  then obtain d where c: "c = HV_CMD_APPLY_DIMMING d" using Cons applies_dimmingD by (auto simp: hv_idle_def)
  have "hv_cmd_queue (hv9910_task_step powf hz now hv) = cs" by (simp add: task_step_queue Cons)
  then show ?thesis
    using idle idle_apply_dimming [of "hv\<lparr>hv_cmd_queue := cs, hv_pending := PENDING_NONE\<rparr>" powf d] Cons
    unfolding hv_idle_def by (simp add: task_step_head [OF Cons] c)
qed

lemma idle_init: "hv_idle (hv9910_init q t c hv9910_statics)"
  by (simp add: hv_idle_def hv9910_init_def hv9910_statics_def recompute_derived_def Let_def)

lemma idle_config: "hv_idle hv \<Longrightarrow> hv_idle (snd (driver_config_start o' (drv, hv)))"
  by (auto simp: driver_config_start_def Let_def apply_to_hv9910_def hv9910_set_dimming_def hv_idle_def
        post_cmd_def xQueueSend_def split: option.split)

definition idle_until_power :: "system \<Rightarrow> bool" where
  "idle_until_power s \<longleftrightarrow> (\<not> sy_powered s \<longrightarrow> hv_idle (fw_hv (sy_fw s)) \<and> fw_pm (sy_fw s) = pm_statics_init
     \<and> \<not> sy_admin s \<and> sy_dmx s = None)"

lemma idle_boot: "app_main_init b leds0 = Some s \<Longrightarrow> idle_until_power s"
  using idle_config [OF idle_init]
  by (auto simp: app_main_init_def Let_def split_def idle_until_power_def split: option.splits)

lemma main_powered: "sy_powered (app_main_power b s)"
  by (simp add: app_main_power_def Let_def split_def)

lemma idle_exec:
  assumes "idle_until_power s" and "system_exec powf hz ev s = Some s'"
  shows "idle_until_power s'"
proof (cases "sy_powered s")
  case True
  then have "sy_powered s'"
    using assms(2) by (cases ev) (auto simp: Let_def split_def main_powered dmx_iteration_def split: if_splits option.splits)
  then show ?thesis by (simp add: idle_until_power_def)
next
  case False
  then have idle: "hv_idle (fw_hv (sy_fw s))" "fw_pm (sy_fw s) = pm_statics_init" "\<not> sy_admin s" "sy_dmx s = None"
    using assms(1) by (simp_all add: idle_until_power_def)
  then show ?thesis
  proof (cases ev)
    case (EV_DRIVER now)
    then show ?thesis using idle assms(2) by (auto simp: Let_def idle_until_power_def idle_step split: if_splits)
  next
    case (EV_MONITOR cdb t2p mv)
    have "snd (monitor_tick cdb t2p mv (fw_drv (sy_fw s)) (fw_tps (sy_fw s), fw_pm (sy_fw s), fw_hv (sy_fw s)))
        = (fw_pm (sy_fw s), fw_hv (sy_fw s))"
      using unstarted_events idle(2) by (simp add: monitor_tick_def split_def Let_def pm_statics_init_def)
    then show ?thesis
      using idle assms(2) EV_MONITOR by (auto simp: Let_def split_def idle_until_power_def)
  next
    case EV_SETTLE
    then show ?thesis using idle assms(2) by (simp add: Let_def pm_statics_init_def)
  next
    case (EV_MAIN b)
    then show ?thesis using assms(2) by (auto simp: idle_until_power_def main_powered split: if_splits)
  qed (use idle assms(2) in \<open>auto simp: idle_until_power_def split: if_splits\<close>)
qed

lemma reachable_idle: "system_reachable powf hz s \<Longrightarrow> idle_until_power s"
  by (induction rule: system_reachable.induct) (auto intro: idle_boot idle_exec)

section \<open>Without power\<close>

text \<open>The one event that lights without power: a DMX tick on which the loss level applies.\<close>

fun loss_event :: "event \<Rightarrow> system \<Rightarrow> bool" where
  "loss_event (EV_DMX i) s =
     (case sy_dmx s of
        None \<Rightarrow> False
      | Some t \<Rightarrow>
          let t = task_receive i (task_rejoin i (task_config_change i (t\<lparr>tk_node := node_of (sy_fw s)\<rparr>)))
          in tk_next_tick_us t \<le> ti_now i
             \<and> loss_edge (ti_now i) (dmx_cfg_snapshot (dn_xs (tk_node t))) (fw_pm (sy_fw s)) (dn_mg (tk_node t)))"
| "loss_event _ s = False"

text \<open>A run in which the monitor never reports power and no loss level applies.\<close>

fun unpowered_run :: "(rat \<Rightarrow> rat \<Rightarrow> rat) \<Rightarrow> u32 \<Rightarrow> event list \<Rightarrow> system \<Rightarrow> bool" where
  "unpowered_run powf hz [] s = True"
| "unpowered_run powf hz (ev # evs) s =
     (case system_exec powf hz ev s of
        None \<Rightarrow> False
      | Some s' \<Rightarrow> \<not> tps2378_is_ready (fw_tps (sy_fw s')) \<and> \<not> loss_event ev s \<and> unpowered_run powf hz evs s')"

lemma latched_step: "latched hv \<Longrightarrow> latched (hv9910_task_step powf hz now hv)"
  by (cases "hv_cmd_queue hv") (auto simp: latched_def task_step_keeps_cut task_step_queue)

lemma packet_unpowered:
  assumes "\<not> ts_is_ready (fw_tps fw)" and "latched (fw_hv fw)"
  shows "latched (fw_hv (admin_channel_iterate e received fw))"
proof -
  have "latched (fw_hv (handle_packet e buf src fw))" for buf src
  proof (rule handle_packet_by)
    fix hdr
    let ?fw = "admitted e hdr src fw"
    have same: "?fw\<lparr>fw_hv := fw_hv ?fw\<rparr> = ?fw" by (rule firmware.equality) simp_all
    show "latched (fw_hv (dispatch_packet e hdr buf (payload_part hdr buf) src ?fw))"
      using admin.stays_latched [of ?fw "fw_hv ?fw" e hdr buf "payload_part hdr buf" src] assms
      by (simp only: same) simp
  qed (use assms in simp_all)
  then show ?thesis using assms(2) by (auto simp: admin_channel_iterate_def Let_def split: option.split)
qed

lemma main_tps: "fw_tps (sy_fw (app_main_power b s)) = fw_tps (sy_fw s)"
  by (simp add: app_main_power_def Let_def split_def with_node_def)

lemma exec_unpowered:
  assumes "system_ok powf hz s" and "latched (fw_hv (sy_fw s))" and "system_exec powf hz ev s = Some s'"
    and "\<not> ts_is_ready (fw_tps (sy_fw s'))" and "\<not> loss_event ev s"
  shows "latched (fw_hv (sy_fw s'))"
proof (cases ev)
  case (EV_DRIVER now)
  then show ?thesis using assms(2,3) by (auto simp: Let_def latched_step split: if_splits)
next
  case (EV_MONITOR cdb t2p mv)
  let ?r = "monitor_tick cdb t2p mv (fw_drv (sy_fw s)) (fw_tps (sy_fw s), fw_pm (sy_fw s), fw_hv (sy_fw s))"
  have s': "fw_tps (sy_fw s') = fst ?r" "fw_hv (sy_fw s') = snd (snd ?r)"
    using assms(3) EV_MONITOR by (auto simp: Let_def split_def)
  then show ?thesis
    using assms(4) monitor.stays_latched [OF _ assms(2)] by (simp add: monitor_tick_parts)
next
  case EV_SETTLE
  let ?r = "settle_cb (fw_tps (sy_fw s)) (fw_drv (sy_fw s)) (fw_pm (sy_fw s), fw_hv (sy_fw s))"
  have "fw_tps (sy_fw s') = fw_tps (sy_fw s)" "fw_hv (sy_fw s') = snd ?r"
    using assms(3) EV_SETTLE by (auto simp: Let_def split_def split: if_splits)
  then show ?thesis using assms(4) settle.stays_latched [OF _ assms(2)] by simp
next
  case (EV_MAIN b)
  then have "ts_is_ready (fw_tps (sy_fw s'))"
    using assms(1,3) by (auto simp: main_tps system_ok_def firmware_ok_def tps_coherent_def tps2378_wait_ready_def
        split: if_splits)
  then show ?thesis using assms(4) by simp
next
  case (EV_ADMIN e received)
  then have "sy_fw s' = admin_channel_iterate e received (sy_fw s)" using assms(3) by (auto split: if_splits)
  then show ?thesis
    using assms(2,4) packet_unpowered [of "sy_fw s" e received] by (auto simp: admin_frame)
next
  case (EV_DMX i)
  then obtain t where t: "sy_dmx s = Some t" "s' = dmx_iteration i t s" using assms(3) by (auto split: option.splits)
  let ?t = "task_receive i (task_rejoin i (task_config_change i (t\<lparr>tk_node := node_of (sy_fw s)\<rparr>)))"
  have tps: "\<not> ts_is_ready (fw_tps (sy_fw s))"
    using assms(4) by (simp add: t(2) dmx_iteration_def Let_def split_def with_node_def)
  have "latched (snd (task_actuate i (fw_tps (sy_fw s)) (fw_pm (sy_fw s)) (?t, fw_hv (sy_fw s))))"
    using assms(2,5) EV_DMX t(1) tps
    by (auto simp: task_actuate_def Let_def split_def intro: merge.stays_latched)
  then show ?thesis
    by (simp add: t(2) dmx_iteration_def Let_def split_def dmx_input_iterate_def)
qed (use assms(2,3) in \<open>auto split: if_splits\<close>)

lemma run_unpowered:
  assumes "system_ok powf hz s" and "latched (fw_hv (sy_fw s))"
    and "system_run powf hz evs s = Some s'" and "unpowered_run powf hz evs s"
  shows "system_ok powf hz s' \<and> latched (fw_hv (sy_fw s'))"
  using assms
proof (induction evs arbitrary: s)
  case (Cons ev evs)
  then obtain s1 where s1: "system_exec powf hz ev s = Some s1" by (auto split: option.splits)
  have "latched (fw_hv (sy_fw s1))"
    using Cons.prems s1 by (intro exec_unpowered [OF Cons.prems(1,2) s1]) (auto simp: tps2378_is_ready_def)
  then show ?case using Cons s1 exec_ok [OF Cons.prems(1) s1] by auto
qed simp

section \<open>Nonces\<close>

text \<open>
  The tickets an event issues (a CHALLENGE carried out) and spends (a command that passes all
  checks and needs one): client address and nonce.
\<close>

definition granted :: "admin_env \<Rightarrow> sockaddr_in \<Rightarrow> parsed_header \<Rightarrow> (u32 \<times> bytes) list" where
  "granted e src hdr =
     (if ph_type hdr = ADMIN_TYPE_CHALLENGE
      then (case ae_random e of Some n \<Rightarrow> [(htonl (sin_addr src), n)] | None \<Rightarrow> []) else [])"

definition used :: "sockaddr_in \<Rightarrow> parsed_header \<Rightarrow> (u32 \<times> bytes) list" where
  "used src hdr = (if spends_nonce hdr then [(htonl (sin_addr src), ph_nonce hdr)] else [])"

definition issued_by :: "event \<Rightarrow> system \<Rightarrow> (u32 \<times> bytes) list" where
  "issued_by ev s = (case admin_command ev s of Some (e, src, hdr) \<Rightarrow> granted e src hdr | None \<Rightarrow> [])"

definition spent_by :: "event \<Rightarrow> system \<Rightarrow> (u32 \<times> bytes) list" where
  "spent_by ev s = (case admin_command ev s of Some (e, src, hdr) \<Rightarrow> used src hdr | None \<Rightarrow> [])"

text \<open>
  What a packet did is read off the states before and after it. Beyond bookkeeping (the rate
  table, the nonce pool, the cached serial and MAC) a command has an effect as soon as anything else
  differs: the driver's queue, a configuration, the key, the storage, the update session, a datagram sent.
  \<open>acted_by\<close> is the ticket carried by a packet that had one, for the types that need a ticket.
\<close>

definition only_bookkeeping :: "firmware \<Rightarrow> firmware \<Rightarrow> bool" where
  "only_bookkeeping fw r \<longleftrightarrow> r = fw\<lparr>fw_rate := fw_rate r, fw_dv := fw_dv r, fw_nonces := fw_nonces r\<rparr>
     \<and> devid_get_admin_secret (fw_dv r) = devid_get_admin_secret (fw_dv fw) \<and> dv_blob (fw_dv r) = dv_blob (fw_dv fw)"

fun acted_by :: "event \<Rightarrow> system \<Rightarrow> system \<Rightarrow> (u32 \<times> bytes) list" where
  "acted_by (EV_ADMIN e (Some (datagram, src))) s s' =
     (case well_formed (take ADMIN_MAX_PACKET datagram) of
        None \<Rightarrow> []
      | Some hdr \<Rightarrow>
          if ph_type hdr \<in> {ADMIN_TYPE_INFO, ADMIN_TYPE_CHALLENGE, ADMIN_TYPE_OTA_CHUNK}
             \<or> only_bookkeeping (sy_fw s) (sy_fw s')
          then [] else [(htonl (sin_addr src), ph_nonce hdr)])"
| "acted_by _ s s' = []"

text \<open>Runs from an empty pool, with all tickets issued so far and those of the packets that had an effect.\<close>

inductive nonce_trace :: "(rat \<Rightarrow> rat \<Rightarrow> rat) \<Rightarrow> u32 \<Rightarrow> system \<Rightarrow> (u32 \<times> bytes) list \<Rightarrow> (u32 \<times> bytes) list \<Rightarrow> bool"
  for powf hz where
  start: "fw_nonces (sy_fw s) = nonce_pool_init \<Longrightarrow> nonce_trace powf hz s [] []"
| event: "nonce_trace powf hz s issued acted \<Longrightarrow> system_exec powf hz ev s = Some s' \<Longrightarrow>
     nonce_trace powf hz s' (issued @ issued_by ev s) (acted @ acted_by ev s s')"

text \<open>A packet has an effect only if it passes the checks, and then it spends its ticket.\<close>

lemma packet_acts:
  assumes "executed e buf src fw = None" and "map_option ph_type (well_formed buf) \<noteq> Some ADMIN_TYPE_INFO"
  shows "only_bookkeeping fw (handle_packet e buf src fw)"
  using not_executed_inert [OF assms(1)] assms(2) unfolding only_bookkeeping_def by auto

lemma acted_spent:
  assumes "system_exec powf hz ev s = Some s'"
  shows "acted_by ev s s' \<in> {[], spent_by ev s}"
proof (cases "(ev, s, s')" rule: acted_by.cases)
  case (1 e datagram src t t')
  let ?buf = "take ADMIN_MAX_PACKET datagram"
  have s': "sy_fw s' = (if ?buf = [] then sy_fw s else handle_packet e ?buf src (sy_fw s))"
    using assms 1 by (auto simp: admin_channel_iterate_def Let_def split: if_splits)
  show ?thesis
  proof (cases "executed e ?buf src (sy_fw s)")
    case (Some hdr)
    then have "well_formed ?buf = Some hdr" by (simp add: executed_Some)
    then show ?thesis using 1 Some by (simp add: spent_by_def used_def spends_nonce_def)
  next
    case None
    have "only_bookkeeping (sy_fw s) (sy_fw s')"
      if "map_option ph_type (well_formed ?buf) \<noteq> Some ADMIN_TYPE_INFO"
      using packet_acts [OF None that] by (cases "?buf = []") (simp_all only: s' if_True if_False, simp add: only_bookkeeping_def)
    then show ?thesis using 1 by (auto split: option.split)
  qed
qed simp_all

text \<open>A packet carried out is one step of the pool's history, or none; any other leaves it as it was.\<close>

lemma packet_history:
  assumes "pool.history (fw_nonces fw) is sp"
  shows "pool.history (fw_nonces (handle_packet e buf src fw))
     (is @ (case executed e buf src fw of Some hdr \<Rightarrow> granted e src hdr | None \<Rightarrow> []))
     (sp @ (case executed e buf src fw of Some hdr \<Rightarrow> used src hdr | None \<Rightarrow> []))"
proof (cases "executed e buf src fw")
  case (Some hdr)
  let ?ip = "htonl (sin_addr src)"
  have ok: "fst (spend e hdr src fw)" using Some by (simp add: executed_Some)
  have pool: "fw_nonces (handle_packet e buf src fw) = (if ph_type hdr = ADMIN_TYPE_CHALLENGE
      then snd (nonce_issue (ae_now e) ?ip (ae_random e) (snd (spend e hdr src fw))) else snd (spend e hdr src fw))"
    by (simp add: handle_packet_executed [OF Some] dispatch_nonces)
  show ?thesis
  proof (cases "spends_nonce hdr")
    case True
    then show ?thesis
      using pool ok Some pool.history.spent [OF assms, of "ae_now e" "(?ip, ph_nonce hdr)"]
      by (simp add: spend_def used_def granted_def spends_nonce_def)
  next
    case False
    then have same: "snd (spend e hdr src fw) = fw_nonces fw" by (simp add: spend_def)
    show ?thesis
      using pool False Some assms pool.history.issued [OF assms, of "ae_now e" "(?ip, n)" for n]
      by (cases "ae_random e") (auto simp: same used_def granted_def nonce_issue_def)
  qed
next
  case None
  have refused: "pool.history (snd (spend e hdr src fw)) is sp" if "\<not> fst (spend e hdr src fw)" for hdr
    using that assms pool.history.refused [OF assms, of "ae_now e" "(htonl (sin_addr src), ph_nonce hdr)"]
    by (simp add: spend_def split: if_splits)
  have "pool.history (fw_nonces (handle_packet e buf src fw)) is sp"
    using assms refused None
    by (auto simp: handle_packet_unfold executed_def split: option.splits if_splits)
  then show ?thesis by (simp add: None)
qed

lemma exec_history:
  assumes "system_exec powf hz ev s = Some s'" and "pool.history (fw_nonces (sy_fw s)) is sp"
  shows "pool.history (fw_nonces (sy_fw s')) (is @ issued_by ev s) (sp @ spent_by ev s)"
proof (cases "\<exists>e datagram src. ev = EV_ADMIN e (Some (datagram, src))")
  case True
  then obtain e datagram src where ev: "ev = EV_ADMIN e (Some (datagram, src))" by blast
  let ?buf = "take ADMIN_MAX_PACKET datagram"
  have s': "sy_fw s' = (if ?buf = [] then sy_fw s else handle_packet e ?buf src (sy_fw s))"
    using assms(1) ev by (auto simp: admin_channel_iterate_def Let_def split: if_splits)
  have by_cmd: "issued_by ev s = (case executed e ?buf src (sy_fw s) of Some hdr \<Rightarrow> granted e src hdr | None \<Rightarrow> [])"
    "spent_by ev s = (case executed e ?buf src (sy_fw s) of Some hdr \<Rightarrow> used src hdr | None \<Rightarrow> [])"
    by (simp_all only: issued_by_def spent_by_def ev admin_command.simps) (simp_all split: option.split)
  show ?thesis
  proof (cases "?buf = []")
    case True
    then have "executed e ?buf src (sy_fw s) = None"
      unfolding True by (simp add: executed_def well_formed_def parse_header_def fw_const)
    moreover have "sy_fw s' = sy_fw s" using s' by (simp only: True if_True simp_thms)
    ultimately show ?thesis using assms(2) by (simp add: by_cmd)
  next
    case False
    then have "sy_fw s' = handle_packet e ?buf src (sy_fw s)" using s' by (simp only: if_False)
    then show ?thesis using packet_history [OF assms(2), of e ?buf src] by (simp only: by_cmd)
  qed
next
  case False
  then have "admin_command ev s = None" by (cases "(ev, s)" rule: admin_command.cases) auto
  moreover have "fw_nonces (sy_fw s') = fw_nonces (sy_fw s)"
    using assms(1) False
    by (cases ev) (auto simp: Let_def split_def app_main_power_def dmx_iteration_def with_node_def
        admin_channel_iterate_def split: if_splits option.splits)
  ultimately show ?thesis using assms(2) by (simp add: issued_by_def spent_by_def)
qed

lemma trace_history:
  "nonce_trace powf hz s issued acted \<Longrightarrow>
   \<exists>spent. pool.history (fw_nonces (sy_fw s)) issued spent \<and> mset acted \<subseteq># mset spent"
proof (induction rule: nonce_trace.induct)
  case (start s)
  then have "pool.history (fw_nonces (sy_fw s)) [] []" by (simp add: pool.history.start)
  then show ?case by (intro exI conjI) simp_all
next
  case (event s issued acted ev s')
  then obtain spent where h: "pool.history (fw_nonces (sy_fw s)) issued spent" "mset acted \<subseteq># mset spent" by blast
  have "mset (acted_by ev s s') \<subseteq># mset (spent_by ev s)" using acted_spent [OF event(2)] by auto
  then have "mset (acted @ acted_by ev s s') \<subseteq># mset (spent @ spent_by ev s)"
    using h(2) by (simp add: subset_mset.add_mono)
  then show ?case using exec_history [OF event(2) h(1)] by blast
qed

lemma distinct_submset: "mset xs \<subseteq># mset ys \<Longrightarrow> distinct ys \<Longrightarrow> distinct xs"
proof (induction xs)
  case (Cons x xs)
  have "x \<notin> set xs"
  proof
    assume "x \<in> set xs"
    then have "2 \<le> count (mset (x # xs)) x" by (simp flip: count_greater_eq_one_iff)
    also have "\<dots> \<le> count (mset ys) x" by (rule mset_subset_eq_count [OF Cons.prems(1)])
    also have "\<dots> \<le> 1" using Cons.prems(2) by (simp add: distinct_count_atmost_1)
    finally show False by simp
  qed
  moreover have "mset xs \<subseteq># mset ys" using Cons.prems(1) by (simp add: mset_subset_eq_insertD subset_mset.less_imp_le)
  ultimately show ?case using Cons by simp
qed simp

section \<open>The boot image\<close>

text \<open>
  How a command changes the partition selected for the next boot: OTA_END selects it, with what
  the session has received; OTA_BEGIN and OTA_CHUNK of a further update write to it once selected.
\<close>

definition boot_change :: "admin_env \<Rightarrow> parsed_header \<Rightarrow> ota_state \<Rightarrow> bytes option \<Rightarrow> bytes option \<Rightarrow> bool" where
  "boot_change e hdr ota boot boot' \<longleftrightarrow>
     ph_type hdr = ADMIN_TYPE_OTA_END \<and> boot' = Some (os_image ota) \<and> os_in_progress ota
       \<and> length (os_image ota) = unat (os_total_size ota)
       \<and> cr_sha256 (ae_crypto e) (os_image ota) = os_sha256_expected ota
     \<or> (\<exists>image. boot = Some image
         \<and> (ph_type hdr = ADMIN_TYPE_OTA_BEGIN \<and> boot' \<in> {Some [], Some (ae_flash_left e image)}
            \<or> ph_type hdr = ADMIN_TYPE_OTA_CHUNK \<and> boot' \<in> {Some (ae_flash_left e image)} \<union> range (\<lambda>data. Some (image @ data))))"

lemma dispatch_boot_change:
  fixes e hdr buf payload src fw
  assumes "ota_ok (fw_ota fw)"
  defines "r \<equiv> dispatch_packet e hdr buf payload src fw"
  shows "fw_boot r = fw_boot fw \<or> boot_change e hdr (fw_ota fw) (fw_boot fw) (fw_boot r)"
proof -
  consider "ph_type hdr = ADMIN_TYPE_OTA_BEGIN" | "ph_type hdr = ADMIN_TYPE_OTA_CHUNK" | "ph_type hdr = ADMIN_TYPE_OTA_END"
    | "ph_type hdr \<notin> {ADMIN_TYPE_OTA_BEGIN, ADMIN_TYPE_OTA_CHUNK, ADMIN_TYPE_OTA_END}" by blast
  then show ?thesis
  proof cases
    case 1
    then show ?thesis
      using begin_boot [of e hdr payload src fw]
      by (cases "fw_boot fw") (auto simp: r_def dispatch_ota(1) boot_change_def)
  next
    case 2
    then show ?thesis
      using chunk_boot [of payload e hdr src fw]
      by (cases "fw_boot fw") (auto simp: r_def dispatch_ota(2) boot_change_def)
  next
    case 3
    then show ?thesis using end_boot [OF assms(1), of e hdr src] by (auto simp: r_def dispatch_ota(3) boot_change_def)
  next
    case 4
    then show ?thesis by (simp add: r_def dispatch_boot)
  qed
qed

lemma packet_boot:
  assumes "ota_ok (fw_ota fw)"
  shows "fw_boot (handle_packet e buf src fw) = fw_boot fw
    \<or> (\<exists>hdr. executed e buf src fw = Some hdr
        \<and> boot_change e hdr (fw_ota fw) (fw_boot fw) (fw_boot (handle_packet e buf src fw)))"
proof (rule handle_packet_by)
  fix hdr
  assume ex: "executed e buf src fw = Some hdr"
  let ?r = "dispatch_packet e hdr buf (payload_part hdr buf) src (admitted e hdr src fw)"
  show "fw_boot ?r = fw_boot fw
    \<or> (\<exists>hdr. executed e buf src fw = Some hdr \<and> boot_change e hdr (fw_ota fw) (fw_boot fw) (fw_boot ?r))"
    using dispatch_boot_change [of "admitted e hdr src fw" e hdr buf "payload_part hdr buf" src] assms ex by auto
qed simp_all

section \<open>Properties\<close>

text \<open>
  C7: in every state the firmware reaches, whatever arrives from the network, the sensors and
  the clock in whatever order: the driver's invariant holds, the monitor's flags agree, the configurations in
  force are valid ones, the merge table keeps its shape, the OTA session accounts for exactly
  the bytes it wrote, the nonce pool has eight slots and the admin key 32 bytes; and no network task
  runs before power has been confirmed.
\<close>

theorem system_invariant:
  assumes "system_reachable powf hz s"
  shows "hv_inv (fw_hv (sy_fw s)) \<and> tps_coherent (fw_tps (sy_fw s))
     \<and> driver_config_get (fw_drv (sy_fw s)) = Some (drv_cfg (fw_drv (sy_fw s))) \<and> drv_config_valid (drv_cfg (fw_drv (sy_fw s)))
     \<and> (case sy_dmx s of None \<Rightarrow> True | Some t \<Rightarrow> dmx_config_valid (xs_cfg (fw_xs (sy_fw s))))
     \<and> table_ok (fw_mg (sy_fw s)) \<and> ota_ok (fw_ota (sy_fw s)) \<and> length (fw_nonces (sy_fw s)) = 8
     \<and> length (devid_get_admin_secret (fw_dv (sy_fw s))) = 32
     \<and> (sy_powered s \<or> sy_dmx s = None \<and> \<not> sy_admin s)"
  using reachable_ok [OF assms]
  by (auto simp: system_ok_def firmware_ok_def drv_good_def driver_config_get_def xs_good_def
        fw_secret_def fw_const intro: reachable_inv split: option.split)

theorem system_invariant_witness:
  "hv_inv (fw_hv (sy_fw system_powered)) \<and> length (devid_get_admin_secret (fw_dv (sy_fw system_powered))) = 32"
  using system_invariant [OF powered_reachable [of "\<lambda>p e. p" 100]] by blast

text \<open>
  C1: after power-up the LED stays dark until the monitor has confirmed power: in every
  reachable state in which \<open>app_main\<close> still waits, both duties are zero, the level is zero, and nothing that
  could light it is queued; and \<open>app_main\<close> goes on only in a state where power is confirmed.
\<close>

theorem dark_until_power_confirmed:
  assumes "system_reachable powf hz s" and "\<not> sy_powered s"
  shows "hv_dark (fw_hv (sy_fw s)) \<and> hv_level_q (fw_hv (sy_fw s)) = 0
     \<and> \<not> list_ex relights (hv_cmd_queue (fw_hv (sy_fw s)))
     \<and> (case system_exec powf hz ev s of None \<Rightarrow> True
        | Some s' \<Rightarrow> \<not> sy_powered s' \<or> tps2378_is_ready (fw_tps (sy_fw s)))"
proof -
  have idle: "hv_idle (fw_hv (sy_fw s))"
    using reachable_idle [OF assms(1)] assms(2) by (simp add: idle_until_power_def)
  have ok: "hv_inv (fw_hv (sy_fw s))" "tps_coherent (fw_tps (sy_fw s))"
    using reachable_ok [OF assms(1)] by (auto simp: system_ok_def firmware_ok_def intro: reachable_inv)
  have none: "\<not> list_ex relights (hv_cmd_queue (fw_hv (sy_fw s)))"
    using idle by (auto simp: hv_idle_def list_all_iff list_ex_iff dest!: applies_dimmingD bspec)
  have step: "\<not> sy_powered s' \<or> tps2378_is_ready (fw_tps (sy_fw s))" if "system_exec powf hz ev s = Some s'" for s'
    using that assms(2) ok(2)
    by (cases ev) (auto simp: Let_def split_def dmx_iteration_def tps_coherent_def tps2378_wait_ready_def
        tps2378_is_ready_def split: if_splits option.splits)
  show ?thesis
    using idle ok(1) none step
    by (auto simp: hv_idle_def hv_dark_def hv_inv_def hv_output_def split: option.split)
qed

theorem dark_until_power_confirmed_witness: "hv_dark (fw_hv (sy_fw system_booted))"
  using dark_until_power_confirmed [OF booted_reachable [of "\<lambda>p e. p" 100] booted_values(1)] by blast

text \<open>
  C2: without power nothing the network, the policy, the timer or the driver does lights the
  LED: once the power-cut latch is set with no relighting command queued, then through any
  run during which the monitor reports no power and no DMX loss level applies, however
  many admin commands are carried out, the LED stays dark and the latch set.
\<close>

theorem no_light_without_power:
  assumes "system_ok powf hz s" and "hv_power_cut (fw_hv (sy_fw s))"
    and "\<not> list_ex relights (hv_cmd_queue (fw_hv (sy_fw s)))"
    and "system_run powf hz evs s = Some s'" and "unpowered_run powf hz evs s"
  shows "hv_dark (fw_hv (sy_fw s')) \<and> hv_power_cut (fw_hv (sy_fw s'))"
proof -
  have "system_ok powf hz s'" "latched (fw_hv (sy_fw s'))"
    using run_unpowered [OF assms(1) _ assms(4,5)] assms(2,3) by (simp_all add: latched_def)
  then show ?thesis
    by (auto simp: system_ok_def firmware_ok_def latched_def intro: inv_cut_dark reachable_inv)
qed

definition system_cut :: system where
  "system_cut = system_powered\<lparr>sy_fw := (sy_fw system_powered)\<lparr>fw_hv := cut_example,
     fw_tps := poe_monitor_start \<lparr>tc_vbus_min_mv = 40000, tc_vbus_hysteresis_mv = 2000\<rparr> 0 1 0\<rparr>\<rparr>"

lemma system_cut_ok: "system_ok (\<lambda>p e. p) 100 system_cut"
  using reachable_ok [OF powered_reachable [of "\<lambda>p e. p" 100]] cut_example_reachable
  by (auto simp: system_ok_def firmware_ok_def system_cut_def fw_secret_def monitor_start_coherent)

theorem no_light_without_power_witness:
  "\<exists>s'. system_run (\<lambda>p e. p) 100 [EV_DRIVER 10, EV_ADMIN example_env (Some ([1, 2, 3], example_client)), EV_DRIVER 20]
     system_cut = Some s' \<and> hv_dark (fw_hv (sy_fw s'))"
proof -
  let ?evs = "[EV_DRIVER 10, EV_ADMIN example_env (Some ([1, 2, 3], example_client)), EV_DRIVER 20]"
  have ready: "hv_task_ready cut_example"
    by (simp add: cut_example_def hv9910_set_dim_def hv9910_emergency_disable_def lit_example_ready)
  have cut: "fw_hv (sy_fw system_cut) = cut_example" "sy_admin system_cut"
    "\<not> ts_is_ready (fw_tps (sy_fw system_cut))"
    using powered_admin by (simp_all add: system_cut_def poe_monitor_start_def)
  let ?s1 = "system_cut\<lparr>sy_fw := (sy_fw system_cut)\<lparr>fw_hv := hv9910_task_step (\<lambda>p e. p) 100 10 cut_example\<rparr>\<rparr>"
  let ?s2 = "admin_iteration example_env (Some ([1, 2, 3], example_client)) ?s1"
  have hv2: "fw_hv (sy_fw ?s2) = hv9910_task_step (\<lambda>p e. p) 100 10 cut_example"
  proof -
    have none: "parse_header [1, 2, 3] = None" by (simp add: parse_header_def fw_const)
    then show ?thesis
      by (simp add: admin_channel_iterate_def Let_def fw_const handle_packet_unfold well_formed_def none)
  qed
  let ?s3 = "?s2\<lparr>sy_fw := (sy_fw ?s2)\<lparr>fw_hv := hv9910_task_step (\<lambda>p e. p) 100 20 (fw_hv (sy_fw ?s2))\<rparr>\<rparr>"
  have e1: "system_exec (\<lambda>p e. p) 100 (EV_DRIVER 10) system_cut = Some ?s1" using cut ready by (simp add: Let_def)
  have e2: "system_exec (\<lambda>p e. p) 100 (EV_ADMIN example_env (Some ([1, 2, 3], example_client))) ?s1 = Some ?s2"
    using cut by simp
  have e3: "system_exec (\<lambda>p e. p) 100 (EV_DRIVER 20) ?s2 = Some ?s3"
    using ready by (simp only: system_exec.simps Let_def hv2) (simp add: hv2)
  have run: "system_run (\<lambda>p e. p) 100 ?evs system_cut = Some ?s3"
    by (simp only: system_run.simps e1 e2 e3 option.case)
  have "unpowered_run (\<lambda>p e. p) 100 ?evs system_cut"
    by (simp only: unpowered_run.simps e1 e2 e3 option.case)
       (simp add: tps2378_is_ready_def cut admin_frame)
  from no_light_without_power [OF system_cut_ok _ _ run this]
  have "hv_dark (fw_hv (sy_fw ?s3))" using cut cut_example_values by simp
  with run show ?thesis by (intro exI [of _ ?s3] conjI)
qed

text \<open>
  C5: a nonce authorises one command: over any run from an empty pool, and under any
  interleaving with the other tasks, the packets of the nonce-protected types that have any effect at
  all (on the light, a setting, the key, the storage, the update session, or by an answer) carry a
  sub-multiset of the tickets issued by CHALLENGE; so a replayed one has no effect unless the
  random generator issued the same nonce to the same address twice. INFO, CHALLENGE and
  OTA_CHUNK are not protected this way: they spend no nonce.
\<close>

theorem nonce_single_use:
  assumes "nonce_trace powf hz s issued acted"
  shows "mset acted \<subseteq># mset issued \<and> (distinct acted \<or> \<not> distinct issued)"
proof -
  obtain spent where h: "pool.history (fw_nonces (sy_fw s)) issued spent" "mset acted \<subseteq># mset spent"
    using trace_history [OF assms] by blast
  then have "mset acted \<subseteq># mset issued" using pool.spent_within [OF h(1)] by (blast intro: subset_mset.order_trans)
  then show ?thesis using distinct_submset by blast
qed

text \<open>On the example device: a login, the OFF it authorises, and the same OFF packet again.\<close>

theorem nonce_single_use_witness:
  "\<exists>s1 s2 s3. system_exec (\<lambda>p e. p) 100 session_login system_powered = Some s1
     \<and> issued_by session_login system_powered = [(7, session_nonce)]
     \<and> system_exec (\<lambda>p e. p) 100 (session_event ADMIN_TYPE_OFF session_nonce [0, 0, 0, 0]) s1 = Some s2
     \<and> acted_by (session_event ADMIN_TYPE_OFF session_nonce [0, 0, 0, 0]) s1 s2 = [(7, session_nonce)]
     \<and> system_exec (\<lambda>p e. p) 100 (session_event ADMIN_TYPE_OFF session_nonce [0, 0, 0, 0]) s2 = Some s3
     \<and> acted_by (session_event ADMIN_TYPE_OFF session_nonce [0, 0, 0, 0]) s2 s3 = []"
proof -
  let ?f = "\<lambda>p e :: rat. p" and ?off = "session_event ADMIN_TYPE_OFF session_nonce [0, 0, 0, 0]"
  have small: "length [0, 0, 0, 0 :: u8] \<le> ADMIN_MAX_PAYLOAD" "ADMIN_TYPE_OFF \<notin>
      {ADMIN_TYPE_INFO, ADMIN_TYPE_CHANGE_SECRET, ADMIN_TYPE_REBOOT, ADMIN_TYPE_FACTORY_RESET}"
    "0 < (40 :: nat)" "Suc 0 < (40 :: nat)" by (simp_all add: fw_const)
  obtain s1 where s1: "system_exec ?f 100 session_login system_powered = Some s1" "in_session (Suc 0) s1" "holds_ticket s1"
      "admin_command session_login system_powered
         = Some (example_env, example_client, header_of session_serial ADMIN_TYPE_CHALLENGE (replicate 16 0) [])"
    using session_login_ok [OF session_start small(3), of ?f 100] by blast
  obtain s2 where s2: "system_exec ?f 100 ?off s1 = Some s2" "in_session (Suc (Suc 0)) s2"
      "admin_command ?off s1
         = Some (example_env, example_client, header_of session_serial ADMIN_TYPE_OFF session_nonce [0, 0, 0, 0])"
      "sy_fw s2 = dispatch_packet example_env (header_of session_serial ADMIN_TYPE_OFF session_nonce [0, 0, 0, 0])
         (session_packet ADMIN_TYPE_OFF session_nonce [0, 0, 0, 0]) [0, 0, 0, 0] example_client
         (admitted example_env (header_of session_serial ADMIN_TYPE_OFF session_nonce [0, 0, 0, 0]) example_client (sy_fw s1))"
    using session_command_ok [OF s1(2) small(4) s1(3) small(1,2), of ?f 100] by blast
  obtain s3 where s3: "system_exec ?f 100 ?off s2 = Some s3"
    using s2(2) by (simp add: in_session_def session_event_def)
  let ?h = "header_of session_serial ADMIN_TYPE_OFF session_nonce [0, 0, 0, 0]"
  have off: "ADMIN_TYPE_OFF \<notin> {ADMIN_TYPE_INFO, ADMIN_TYPE_CHALLENGE, ADMIN_TYPE_OTA_CHUNK}"
    "length session_nonce = 16" by (simp_all add: fw_const session_nonce_def)
  have wf: "well_formed (take ADMIN_MAX_PACKET (session_packet ADMIN_TYPE_OFF session_nonce [0, 0, 0, 0])) = Some ?h"
    using s2(3) by (auto simp: session_event_def executed_Some)
  have "issued_by session_login system_powered = [(7, session_nonce)]"
    by (simp add: issued_by_def s1(4) granted_def session_nonce_def)
  moreover have "acted_by session_login system_powered s1 = []"
    using s1(4) by (auto simp: session_event_def executed_Some)
  ultimately have first: "issued_by session_login system_powered = [(7, session_nonce)]"
    "acted_by session_login system_powered s1 = []" by blast+
  have second: "issued_by ?off s1 = []" "issued_by ?off s2 = []"
    using off session_packet_header [of ADMIN_TYPE_OFF session_nonce "[0, 0, 0, 0]" s2] small(1)
    by (auto simp: issued_by_def s2(3) granted_def split: option.split)
  have "length (fw_sent (sy_fw s2)) = Suc (length (fw_sent (sy_fw s1)))"
    by (simp add: s2(4) dispatch_packet_def Let_def handle_off_def send_packet_sent fw_const)
  then have "sy_fw s2 \<noteq> (sy_fw s1)\<lparr>fw_rate := a, fw_dv := b, fw_nonces := c\<rparr>" for a b c
    by (auto dest: arg_cong [where f = fw_sent])
  then have acted: "acted_by ?off s1 s2 = [(7, session_nonce)]"
    using off wf by (simp add: session_event_def only_bookkeeping_def)
  note trace = nonce_trace.event [OF nonce_trace.event [OF nonce_trace.event [OF nonce_trace.start
        [OF powered_tables(1)] s1(1)] s2(1)] s3]
  from nonce_single_use [OF trace] have "mset ([(7, session_nonce)] @ acted_by ?off s2 s3) \<subseteq># mset [(7, session_nonce)]"
    by (simp only: first second acted append_Nil append_Nil2)
  then have "acted_by ?off s2 s3 = []" using size_mset_mono by fastforce
  then show ?thesis using s1(1) s2(1) s3 first(1) acted by blast
qed

text \<open>
  C6: the update partition is selected for the next boot in no other way than by an OTA_END that
  is carried out (well-formed, addressed, signed, with a live nonce), in a session that has received
  exactly the announced number of bytes, whose SHA-256 is the announced one; what is staged is then
  exactly those bytes. Once it is selected, its contents change in one further way: an OTA_BEGIN that
  is carried out erases it and the OTA_CHUNKs carried out after it append to it, unverified, because
  the next update goes to the same partition.
\<close>

theorem only_verified_image_staged:
  assumes "system_reachable powf hz s" and "system_exec powf hz ev s = Some s'"
  shows "fw_boot (sy_fw s') = fw_boot (sy_fw s)
    \<or> (\<exists>e src hdr. admin_command ev s = Some (e, src, hdr)
        \<and> boot_change e hdr (fw_ota (sy_fw s)) (fw_boot (sy_fw s)) (fw_boot (sy_fw s')))"
proof (cases "\<exists>e datagram src. ev = EV_ADMIN e (Some (datagram, src))")
  case True
  then obtain e datagram src where ev: "ev = EV_ADMIN e (Some (datagram, src))" by blast
  let ?buf = "take ADMIN_MAX_PACKET datagram"
  have s': "sy_fw s' = (if ?buf = [] then sy_fw s else handle_packet e ?buf src (sy_fw s))"
    using assms(2) ev by (auto simp: admin_channel_iterate_def Let_def split: if_splits)
  have "ota_ok (fw_ota (sy_fw s))" using reachable_ok [OF assms(1)] by (simp add: system_ok_def firmware_ok_def)
  note boot = packet_boot [OF this, of e ?buf src]
  show ?thesis
  proof (cases "?buf = []")
    case True
    then have "sy_fw s' = sy_fw s" unfolding s' by (rule if_P)
    then show ?thesis by simp
  next
    case False
    then have r: "sy_fw s' = handle_packet e ?buf src (sy_fw s)" unfolding s' by (rule if_not_P)
    have "admin_command ev s = Some (e, src, hdr)" if "executed e ?buf src (sy_fw s) = Some hdr" for hdr
      using that by (simp only: ev admin_command.simps option.map)
    then show ?thesis using boot unfolding r by blast
  qed
next
  case False
  then show ?thesis
    using assms(2)
    by (cases ev) (auto simp: Let_def split_def app_main_power_def dmx_iteration_def with_node_def
        admin_channel_iterate_def split: if_splits option.splits)
qed

text \<open>On the example device: an update of three bytes, at its OTA_END.\<close>

theorem only_verified_image_staged_witness:
  "\<exists>s s'. system_reachable (\<lambda>p e. p) 100 s \<and> fw_boot (sy_fw s) = None
     \<and> system_exec (\<lambda>p e. p) 100 (session_event ADMIN_TYPE_OTA_END session_nonce []) s = Some s'
     \<and> fw_boot (sy_fw s') = Some [1, 2, 3]
     \<and> length [1, 2, 3 :: u8] = unat (os_total_size (fw_ota (sy_fw s)))
     \<and> cr_sha256 example_crypto [1, 2, 3] = os_sha256_expected (fw_ota (sy_fw s))"
proof -
  let ?f = "\<lambda>p e :: rat. p" and ?fin = "session_event ADMIN_TYPE_OTA_END session_nonce []"
  let ?h = "header_of session_serial ADMIN_TYPE_OTA_END session_nonce []"
  obtain s where s: "system_reachable ?f 100 s" "in_session 4 s" "holds_ticket s" "fw_boot (sy_fw s) = None"
      "uploading [session_image] session_digest 1 (sy_fw s)"
    using session_uploaded [of ?f 100] by blast
  have small: "length ([] :: bytes) \<le> ADMIN_MAX_PAYLOAD"
    "ADMIN_TYPE_OTA_END \<notin> {ADMIN_TYPE_INFO, ADMIN_TYPE_CHANGE_SECRET, ADMIN_TYPE_REBOOT, ADMIN_TYPE_FACTORY_RESET}"
    "4 < (40 :: nat)" by (simp_all add: fw_const)
  obtain s' where s': "system_exec ?f 100 ?fin s = Some s'" "admin_command ?fin s = Some (example_env, example_client, ?h)"
      "sy_fw s' = handle_ota_end example_env ?h example_client (admitted example_env ?h example_client (sy_fw s))"
    using session_command_ok [OF s(2) small(3) s(3) small(1,2), of ?f 100]
    unfolding dispatch_ota(3) [OF header_of_simps(3)] by blast
  have "uploading [session_image] session_digest (length [session_image]) (admitted example_env ?h example_client (sy_fw s))"
    using s(5) by (simp add: uploading_def)
  from end_stages [OF this, of example_env] have boot: "fw_boot (sy_fw s') = Some [1, 2, 3]"
    by (simp add: s'(3) session_digest_def session_image_def example_crypto_def)
  from only_verified_image_staged [OF s(1) s'(1)] show ?thesis
    using s(1,4) s'(1,2) boot by (auto simp: boot_change_def)
qed

end
