(* ===== verification/Driver_Limits.thy ===== *)
theory Driver_Limits
  imports HV9910_Properties
begin

text \<open>
  How far the two limits the power policy sets on the LED driver bind it: the power cap
  (\<open>hv9910_set_output_scale\<close>) and the power-cut latch (\<open>hv9910_emergency_disable\<close>). The cap
  scales the level before the curve; behind it the burst floor may lengthen a PWMD burst and
  HYBRID dimming may work below its knee. The latch binds what is posted after it, not
  what the queue held before.
\<close>

section \<open>The curve under a level\<close>

text \<open>The light a mode can be forced up to whatever the level: its burst floor or its knee.\<close>

definition mode_floor :: "u8 \<Rightarrow> u32 \<Rightarrow> u32 \<Rightarrow> nat" where
  "mode_floor mode c m =
     (if mode = HV9910_DIM_ANALOG then 0 else if mode = HV9910_DIM_PWM then unat m else unat c)"

lemma snap_le: "unat (fst (snap_pwmd d m)) \<le> max (unat d) (unat m)"
  "unat (fst (snap_pwmd d m)) \<le> 2 * unat d + 1"
  by (auto simp: snap_pwmd_def word_le_unat)

lemma light_raw_bounds:
  assumes "l \<le> HV9910_Q_ONE" "c \<noteq> 0" "c \<le> HV9910_Q_ONE" "m \<le> HV9910_Q_ONE"
  shows "light_output (raw_out mode l c m) \<le> 65536 * max (unat l) (mode_floor mode c m)"
    and "light_output (raw_out mode l c m) \<le> 65536 * (2 * (unat l + 1))"
proof -
  have c: "unat c \<le> 65536" using assms(3) by (simp add: word_le_unat)
  consider (analog) "mode = HV9910_DIM_ANALOG" | (pwm) "mode \<noteq> HV9910_DIM_ANALOG" "mode = HV9910_DIM_PWM"
    | (knee) "mode \<noteq> HV9910_DIM_ANALOG" "mode \<noteq> HV9910_DIM_PWM" "c \<le> l"
    | (burst) "mode \<noteq> HV9910_DIM_ANALOG" "mode \<noteq> HV9910_DIM_PWM" "\<not> c \<le> l"
    by blast
  then have "light_output (raw_out mode l c m) \<le> 65536 * max (unat l) (mode_floor mode c m)
      \<and> light_output (raw_out mode l c m) \<le> 65536 * (2 * (unat l + 1))"
  proof cases
    case pwm
    then show ?thesis
      using snap_le [of l m] by (simp add: raw_out_def light_output_def mode_floor_def)
  next
    case burst
    let ?q = "q_div l c" and ?d = "fst (snap_pwmd (q_div l c) m)"
    have q: "?q \<le> HV9910_Q_ONE" "2 * unat c * unat ?q \<le> 2 * (unat l * 65536) + unat c"
      using unat_q_div(2) [OF assms(2)] q_div_error(2) [OF assms(2)] burst(3) by simp_all
    have "unat ?d \<le> 65536" using snap_le(1) [of ?q m] q(1) assms(4) by (simp add: word_le_unat max_def split: if_splits)
    then have "unat c * unat ?d \<le> unat c * 65536" by (rule mult_le_mono2)
    moreover have "unat c * unat ?d \<le> unat c * (2 * unat ?q + 1)" using snap_le(2) by (rule mult_le_mono2)
    then have "unat c * unat ?d \<le> 65536 * (2 * (unat l + 1))" using q(2) c by (simp add: algebra_simps)
    moreover have "unat c * 65536 \<le> 65536 * max (unat l) (unat c)" by simp
    ultimately have "unat c * unat ?d \<le> 65536 * max (unat l) (unat c)"
        "unat c * unat ?d \<le> 65536 * (2 * (unat l + 1))" by linarith+
    then show ?thesis
      using burst by (simp add: raw_out_def light_output_def mode_floor_def)
  qed (simp_all add: raw_out_def light_output_def)
  then show "light_output (raw_out mode l c m) \<le> 65536 * max (unat l) (mode_floor mode c m)"
    "light_output (raw_out mode l c m) \<le> 65536 * (2 * (unat l + 1))" by simp_all
qed

section \<open>The driver under a cap\<close>

text \<open>What the driver asks for before linearisation pre-distorts the LD reference.\<close>

definition setpoint :: "hv_state \<Rightarrow> curve_out" where
  "setpoint s = rendered (\<lambda>p e. 0) (hv_level_q s) (s\<lparr>hv_lin_enable := False\<rparr>)"

lemma rendered_setpoint:
  "rendered powf (hv_level_q s) s =
     (let out = setpoint s in if hv_lin_enable s then out\<lparr>ld_duty_q := linearize_ld powf (ld_duty_q out)\<rparr> else out)"
  by (cases "mul_q (hv_level_q s) (hv_output_scale_q s) = 0")
     (simp_all add: rendered_def setpoint_def curve_eval_raw Let_def linearize_ld_def)

lemma setpoint_bounds:
  assumes "hv_inv s"
  shows "light_output (setpoint s)
     \<le> 65536 * max (unat (hv_output_scale_q s)) (mode_floor (dm_mode (hv_dimming s)) (knee (hv_crossover_q s)) (hv_min_on_frac_q s))"
    and "light_output (setpoint s) \<le> 65536 * (2 * (unat (hv_output_scale_q s) + 1))"
proof -
  let ?e = "mul_q (hv_level_q s) (hv_output_scale_q s)" and ?m = "hv_min_on_frac_q s"
  have inv: "hv_level_q s \<le> HV9910_Q_ONE" "hv_output_scale_q s \<le> HV9910_Q_ONE" "dim_ok (hv_dimming s)"
      "recompute_derived s = s" using assms by (simp_all add: hv_inv_def hv_settings_def)
  have e: "unat ?e \<le> unat (hv_output_scale_q s)" "?e \<le> HV9910_Q_ONE"
    using mul_q_le [OF inv(1,2)] inv(2) by (auto simp: word_le_unat)
  have m: "?m \<le> HV9910_Q_ONE" using recompute_min_on(2) [OF inv(3)] inv(4) by simp
  note b = light_raw_bounds [OF e(2) knee_range m, of "dm_mode (hv_dimming s)" "hv_crossover_q s"]
  have out: "light_output (setpoint s) = (if ?e = 0 then 0
      else light_output (raw_out (dm_mode (hv_dimming s)) ?e (knee (hv_crossover_q s)) ?m))"
    using e(2) m by (simp add: setpoint_def rendered_def curve_eval_raw Let_def light_output_def)
  show "light_output (setpoint s) \<le> 65536 * max (unat (hv_output_scale_q s))
      (mode_floor (dm_mode (hv_dimming s)) (knee (hv_crossover_q s)) ?m)"
    "light_output (setpoint s) \<le> 65536 * (2 * (unat (hv_output_scale_q s) + 1))"
    using b e(1) by (auto simp: out max_def split: if_splits)
qed

lemma crossover_in_range:
  assumes "hv_inv s"
  shows "knee (hv_crossover_q s) = hv_crossover_q s"
proof -
  have "hv_crossover_q (recompute_derived s) = hv_crossover_q s" and d: "dim_ok (hv_dimming s)"
    using assms by (simp_all add: hv_inv_def hv_settings_def)
  then have q: "hv_crossover_q s = (ucast (dm_crossover_pct (hv_dimming s)) * HV9910_Q_ONE) div 100"
    by (simp add: recompute_derived_def Let_def)
  have p: "dm_crossover_pct (hv_dimming s) \<le> 100" "10 \<le> unat (dm_crossover_pct (hv_dimming s))"
    using dim_ok_unat(7,8) [OF d] by (simp_all add: word_le_unat)
  then have "unat (hv_crossover_q s) = unat (dm_crossover_pct (hv_dimming s)) * 65536 div 100"
    unfolding q by (intro unat_pct_scaled)
  moreover have "10 * 65536 div 100 \<le> unat (dm_crossover_pct (hv_dimming s)) * 65536 div 100"
    using p(2) by (intro div_le_mono mult_le_mono1)
  ultimately have "hv_crossover_q s \<noteq> 0" by (auto simp: unat_eq_0 [symmetric])
  moreover have "hv_crossover_q s \<le> HV9910_Q_ONE" unfolding q using p(1) by (rule pct_scaled_le)
  ultimately show ?thesis by (auto simp: knee_def dest: leD)
qed

section \<open>Properties\<close>

text \<open>
  C23: in every reachable state the light asked for, before linearisation pre-distorts the LD
  reference, is within the cap, unless the cap lies below the burst floor of PWM dimming or the
  knee of HYBRID dimming; even then it is at most twice the cap, up to rounding.
\<close>

theorem cap_bounds_output:
  assumes "hv_reachable powf tick_hz s" and "hv_ledc_started s"
  shows "\<exists>ld pwmd. ledc_ld_duty s = scale_duty (if hv_lin_enable s then linearize_ld powf ld else ld) (hv_ld_full s)
     \<and> ledc_pwmd_duty s = scale_duty pwmd (hv_pwmd_full s)
     \<and> unat ld * unat pwmd \<le> 65536 * max (unat (hv_output_scale_q s))
          (mode_floor (dm_mode (hv_dimming s)) (hv_crossover_q s) (hv_min_on_frac_q s))
     \<and> unat ld * unat pwmd \<le> 65536 * (2 * (unat (hv_output_scale_q s) + 1))"
proof (cases "want_lit (rendered powf (hv_level_q s) s) \<and> \<not> hv_power_cut s")
  case True
  have inv: "hv_inv s" by (rule reachable_inv [OF assms(1)])
  have "ledc_ld_duty s = scale_duty (ld_duty_q (rendered powf (hv_level_q s) s)) (hv_ld_full s)"
    "ledc_pwmd_duty s = scale_duty (pwmd_duty_q (rendered powf (hv_level_q s) s)) (hv_pwmd_full s)"
    using reachable_follows [OF assms(1)] assms(2) True by (simp_all add: hv_follows_def Let_def)
  then show ?thesis
    using setpoint_bounds [OF inv] unfolding crossover_in_range [OF inv]
    by (intro exI [of _ "ld_duty_q (setpoint s)"] exI [of _ "pwmd_duty_q (setpoint s)"])
       (simp add: rendered_setpoint Let_def light_output_def)
next
  case False
  then have "ledc_ld_duty s = 0" "ledc_pwmd_duty s = 0"
    using reachable_follows [OF assms(1)] assms(2) by (simp_all only: hv_follows_def Let_def False if_False)
  moreover have "scale_duty 0 full = 0" for full using mul_q_zero by (simp add: mul_q_scale)
  ultimately show ?thesis by (intro exI [of _ 0]) (simp add: linearize_ld_def)
qed

theorem cap_bounds_output_witness:
  "\<exists>ld pwmd. ledc_ld_duty lit_example = scale_duty ld (hv_ld_full lit_example)
     \<and> ledc_pwmd_duty lit_example = scale_duty pwmd (hv_pwmd_full lit_example)"
  using cap_bounds_output [OF lit_example_reachable lit_example_started] by blast

text \<open>
  C24: the cap does not hold in PWM dimming with the longest burst the configuration
  allows: at 5 kHz and 200 us a burst fills the period, so any cap from 50 percent up,
  the default of 51 percent included, leaves both channels at full duty, while the driver
  reports the cap as in force.
\<close>

theorem cap_exceeded_by_burst_floor:
  fixes powf tick_hz t1 t2 t3
  assumes "hv_task_ready s" and "hv_cmd_queue s = []" and "dim_ok d" and "dm_mode d = HV9910_DIM_PWM"
    and "dm_pwm_freq_hz d = 5000" and "dm_min_on_time_us d = 200" and "50 \<le> cap" and "cap \<le> 100"
  defines "t \<equiv> fold (hv9910_task_step powf tick_hz) [t1, t2, t3]
    (hv9910_enable_at 100 (hv9910_set_output_scale cap (hv9910_set_dimming (Some d) s)))"
  shows "hv9910_get_output_scale_pct t = cap \<and> ledc_pwmd_duty t = hv_pwmd_full t \<and> ledc_ld_duty t = hv_ld_full t"
proof -
  let ?p = "hv9910_enable_at 100 (hv9910_set_output_scale cap (hv9910_set_dimming (Some d) s))"
  define q where "q = (ucast cap * HV9910_Q_ONE) div 100"
  have q: "unat q = unat cap * 65536 div 100" "q \<le> HV9910_Q_ONE"
    unfolding q_def using assms(8) by (rule unat_pct_scaled, rule pct_scaled_le)
  have "50 * 65536 div 100 \<le> unat cap * 65536 div 100"
    using assms(7) by (intro div_le_mono mult_le_mono1) (simp add: word_le_unat)
  then have half: "drop_bit 1 HV9910_Q_ONE \<le> q" by (simp add: word_le_unat q(1) fw_const)
  have queue: "hv_cmd_queue ?p = [HV_CMD_APPLY_DIMMING d, HV_CMD_SET_SCALE cap, HV_CMD_ENABLE 100]"
    using assms(1,2) by (simp add: hv_api_defs Let_def post_cmd_queue fw_const)
  have range: "cap \<noteq> 0" "\<not> 100 < cap" using assms(7,8) by auto
  define s2 where "s2 = hv9910_task_step powf tick_hz t2 (hv9910_task_step powf tick_hz t1 ?p)"
  have s2: "hv_cmd_queue s2 = [HV_CMD_ENABLE 100]" "hv_output_scale_q s2 = q" "hv_dimming s2 = d"
      "hv_min_on_frac_q s2 = HV9910_Q_ONE" "hv_ledc_started s2"
    using assms(5,6) range
    by (simp_all add: s2_def task_step_head queue task_step_queue hv_do_set_scale_def hv_do_apply_dimming_def
          recompute_derived_def reconfigure_ledc_def Let_def q_def fw_const)
  have t: "t = apply_level powf HV9910_Q_ONE (s2\<lparr>hv_cmd_queue := [], hv_pending := PENDING_NONE, hv_desired_on := True,
      hv_power_cut := False, hv_last_nonzero_percent := 100\<rparr>)"
    by (simp add: t_def s2_def [symmetric] task_step_head s2(1) hv_do_enable_def hv_do_set_dim_def pct_to_q_100)
  have "mul_q HV9910_Q_ONE q = q" by (simp add: mul_q_scale)
  moreover have "snap_pwmd q HV9910_Q_ONE = (HV9910_Q_ONE, True)"
    using half q(2) by (auto simp: snap_pwmd_def fw_const)
  moreover have "q \<noteq> 0" using half by (auto simp: fw_const)
  ultimately have out: "want_lit (rendered powf HV9910_Q_ONE s2)"
      "pwmd_duty_q (rendered powf HV9910_Q_ONE s2) = HV9910_Q_ONE" "ld_duty_q (rendered powf HV9910_Q_ONE s2) = HV9910_Q_ONE"
    using assms(4) q(2)
    by (simp_all add: rendered_def s2 curve_eval_raw raw_out_def linearize_ld_def Let_def fw_const)
  have r: "rendered powf HV9910_Q_ONE (s2\<lparr>hv_cmd_queue := [], hv_pending := PENDING_NONE, hv_desired_on := True,
      hv_power_cut := False, hv_last_nonzero_percent := 100\<rparr>) = rendered powf HV9910_Q_ONE s2"
    by (rule rendered_cong) simp_all
  have "percent_of_q q = cap" unfolding q_def using assms(8) by (rule percent_roundtrip)
  then show ?thesis
    using out by (simp add: t apply_level_output r hv9910_get_output_scale_pct_def s2(2))
qed

definition burst_dimming :: hv9910_dimming where
  "burst_dimming = \<lparr>dm_mode = HV9910_DIM_PWM, dm_pwm_freq_hz = 5000, dm_analog_freq_hz = 60000,
     dm_min_on_time_us = 200, dm_crossover_pct = 20, dm_lin_enable = 1\<rparr>"

theorem cap_exceeded_by_burst_floor_witness:
  "let t = fold (hv9910_task_step (\<lambda>p e. p) 100) [7, 8, 9]
       (hv9910_enable_at 100 (hv9910_set_output_scale 51 (hv9910_set_dimming (Some burst_dimming) lit_example)))
   in hv9910_get_output_scale_pct t = 51 \<and> ledc_pwmd_duty t = hv_pwmd_full t \<and> ledc_ld_duty t = hv_ld_full t"
proof -
  have "dim_ok burst_dimming" by (simp add: dim_ok_def burst_dimming_def fw_const)
  then show ?thesis
    using cap_exceeded_by_burst_floor [OF lit_example_ready lit_example_queue, of burst_dimming 51 "\<lambda>p e. p" 100 7 8 9]
    by (simp add: burst_dimming_def)
qed

text \<open>
  C25: the power cut does not reach behind it. An ENABLE that waits in the queue when power is
  lost is taken after the emergency-off and undoes it: two iterations later the latch is
  clear, the level is the one asked for and the LED is lit if that level is visible.
\<close>

theorem queued_enable_outlives_cut:
  assumes "hv_task_ready s" and "hv_cmd_queue s = HV_CMD_ENABLE p # cs" and "length cs < CMD_QUEUE_LEN - 1"
  shows "let cut = hv9910_task_step powf tick_hz t1 (hv9910_emergency_disable s);
             t = hv9910_task_step powf tick_hz t2 cut
     in hv_power_cut cut \<and> \<not> hv_enabled cut
        \<and> \<not> hv_power_cut t \<and> hv_level_q t = pct_to_q p \<and> hv_enabled t = want_lit (rendered powf (pct_to_q p) t)"
proof -
  let ?cut = "hv9910_task_step powf tick_hz t1 (hv9910_emergency_disable s)"
  have "hv_cmd_queue (hv9910_emergency_disable s) = HV_CMD_EMERGENCY_OFF # HV_CMD_ENABLE p # cs"
    using assms by (simp add: hv9910_emergency_disable_def post_cmd_front_queue fw_const)
  then have cut: "hv_power_cut ?cut" "\<not> hv_enabled ?cut" "hv_cmd_queue ?cut = HV_CMD_ENABLE p # cs"
    by (simp_all add: task_step_queue) (simp_all add: task_step_head emergency_off_state)
  obtain u where t: "hv9910_task_step powf tick_hz t2 ?cut = apply_level powf (pct_to_q p) u" "\<not> hv_power_cut u"
  proof -
    have "pct_to_q (if 100 < p then 100 else p) = pct_to_q p" by (simp add: pct_to_q_def)
    then show ?thesis using that by (simp add: task_step_head cut(3) hv_do_enable_def hv_do_set_dim_def Let_def)
  qed
  show ?thesis by (simp only: Let_def t(1)) (simp add: cut t(2) apply_level_output)
qed

lemma post_scale [simp]: "hv_output_scale_q (post_cmd c front s) = hv_output_scale_q s"
  by (simp add: post_cmd_eq)

text \<open>Full level without a cap is visible in every mode.\<close>

lemma full_level_lit:
  assumes "hv_output_scale_q s = HV9910_Q_ONE"
  shows "want_lit (rendered powf HV9910_Q_ONE s)"
proof -
  have nz: "HV9910_Q_ONE \<noteq> 0" by (simp add: fw_const)
  then have "snd (snap_pwmd HV9910_Q_ONE (clamp_q m))" for m by (simp add: snap_pwmd_def word_gt_0)
  moreover have "knee c \<le> HV9910_Q_ONE" for c by (rule knee_range)
  moreover note nz
  ultimately show ?thesis
    by (simp add: rendered_def assms curve_eval_raw raw_out_def Let_def)
qed

theorem queued_enable_outlives_cut_witness:
  "hv_enabled (hv9910_task_step (\<lambda>p e. p) 100 9 (hv9910_task_step (\<lambda>p e. p) 100 8
     (hv9910_emergency_disable (hv9910_enable_at 100 lit_example))))"
proof -
  let ?s = "hv9910_enable_at 100 lit_example"
  let ?cut = "hv9910_task_step (\<lambda>p e. p) 100 8 (hv9910_emergency_disable ?s)"
  let ?t = "hv9910_task_step (\<lambda>p e. p) 100 9 ?cut"
  have s: "hv_task_ready ?s" "hv_cmd_queue ?s = [HV_CMD_ENABLE 100]"
    using lit_example_ready by (simp_all add: hv9910_enable_at_def post_cmd_queue lit_example_queue fw_const)
  then have e: "hv_cmd_queue (hv9910_emergency_disable ?s) = [HV_CMD_EMERGENCY_OFF, HV_CMD_ENABLE 100]"
    by (simp add: hv9910_emergency_disable_def post_cmd_front_queue fw_const)
  then have "hv_cmd_queue ?cut = [HV_CMD_ENABLE 100]" by (simp add: task_step_queue)
  then have "hv_output_scale_q ?t = hv_output_scale_q ?cut"
    by (simp add: task_step_head hv_do_enable_def hv_do_set_dim_def Let_def)
  also have "\<dots> = hv_output_scale_q lit_example"
    unfolding task_step_head [OF e]
    by (simp add: hv_do_emergency_off_def Let_def hv9910_emergency_disable_def hv9910_enable_at_def)
  also have "\<dots> = HV9910_Q_ONE"
    by (simp add: lit_example_def hv_api_defs post_cmd_def hv9910_init_def xQueueSend_def Let_def task_step_head fw_const
        hv_do_enable_def hv_do_set_dim_def recompute_derived_def)
  finally have "want_lit (rendered (\<lambda>p e. p) HV9910_Q_ONE ?t)" by (rule full_level_lit)
  then show ?thesis
    using queued_enable_outlives_cut [OF s, of "\<lambda>p e. p" 100 8 9] by (simp add: Let_def pct_to_q_100 fw_const)
qed

end
