(* ===== verification/Driver_Traffic.thy ===== *)
theory Driver_Traffic
  imports System_Invariant
begin

text \<open>
  What every task but the driver's own does to the policy's statics and the driver's queue, as
  an interface: a relation kept by posting a command and by an evaluation of the policy is kept
  by every event of the system in which the driver does not run.
\<close>

text \<open>The driver's API functions other than the cap and the emergency-off post one of these.\<close>

fun no_scale :: "hv_cmd \<Rightarrow> bool" where
  "no_scale (HV_CMD_SET_SCALE p) = False"
| "no_scale _ = True"

abbreviation policy_driver :: "firmware \<Rightarrow> pm_statics \<times> hv_state" where
  "policy_driver fw \<equiv> (fw_pm fw, fw_hv fw)"

lemma system_pm_coherent: "system_ok powf hz s \<Longrightarrow> pm_coherent (fw_tps (sy_fw s)) (fw_drv (sy_fw s))"
  by (simp add: system_ok_def firmware_ok_def tps_coherent_def drv_good_def pm_coherent_def)

lemma system_run_ok: "system_ok powf hz s \<Longrightarrow> system_run powf hz evs s = Some s' \<Longrightarrow> system_ok powf hz s'"
  by (induction evs arbitrary: s) (auto intro: exec_ok split: option.splits)

locale driver_traffic =
  fixes moves :: "pm_statics \<times> hv_state \<Rightarrow> pm_statics \<times> hv_state \<Rightarrow> bool"
  assumes stay [simp]: "moves st st"
    and follow: "moves st st1 \<Longrightarrow> moves st1 st2 \<Longrightarrow> moves st st2"
    and posted: "no_scale c \<Longrightarrow> moves (s, hv) (s, post_cmd c False hv)"
    and fields: "pm_state s' = pm_state s \<Longrightarrow> pm_scale_pct s' = pm_scale_pct s \<Longrightarrow> moves (s, hv) (s', hv)"
    and evaluated: "pm_coherent tps drv \<Longrightarrow> moves (s, hv) (evaluate tps drv (s, hv))"
begin

lemma calls_move [simp]:
  "moves (s, hv) (s, hv9910_enable_at p hv)" "moves (s, hv) (s, hv9910_enable hv)"
  "moves (s, hv) (s, hv9910_disable hv)" "moves (s, hv) (s, hv9910_set_dim p hv)"
  "moves (s, hv) (s, hv9910_identify hv)" "moves (s, hv) (s, hv9910_set_pending b p hv)"
  "moves (s, hv) (s, apply_to_hv9910 drv hv)"
  by (simp_all add: hv9910_enable_at_def hv9910_enable_def hv9910_disable_def hv9910_set_dim_def hv9910_identify_def
      hv9910_set_pending_def hv9910_set_dimming_def apply_to_hv9910_def posted Let_def)

lemma locked_moves: "pm_coherent tps drv \<Longrightarrow> moves (s, hv) (locked_evaluate tps drv (s, hv))"
  by (simp add: locked_evaluate_def evaluated)

lemma event_moves: "pm_coherent tps drv \<Longrightarrow> moves st (pm_on_event tps drv ev st)"
proof -
  assume pm: "pm_coherent tps drv"
  obtain s hv where st: "st = (s, hv)" by (cases st)
  have "moves (s, hv) (s\<lparr>pm_first_ready_seen := False\<rparr>, hv)" by (rule fields) simp_all
  from follow [OF this evaluated [OF pm]] show ?thesis
    by (cases ev) (simp_all add: st power_manager_tps_ready_def power_manager_tps_lost_def
        power_manager_tps_source_changed_def locked_moves [OF pm])
qed

lemma events_moves: "pm_coherent tps drv \<Longrightarrow> moves st (fold (pm_on_event tps drv) evs st)"
proof (induction evs arbitrary: st)
  case (Cons ev evs)
  then show ?case using follow [OF event_moves Cons.IH] by simp
qed simp

lemma settle_moves: "pm_coherent tps drv \<Longrightarrow> moves (s, hv) (settle_cb tps drv (s, hv))"
proof -
  assume pm: "pm_coherent tps drv"
  have "moves (s, hv) (s\<lparr>pm_settle_timer := TIMER_STOPPED\<rparr>, hv)" by (rule fields) simp_all
  then show ?thesis using follow [OF _ evaluated [OF pm]] by (auto simp: settle_cb_def Let_def)
qed

lemma start_moves: "pm_coherent tps drv \<Longrightarrow> moves (s, hv) (power_manager_start l tm tps drv (s, hv))"
proof -
  assume pm: "pm_coherent tps drv"
  have "moves (s, hv) (s\<lparr>pm_lock := l, pm_settle_timer := t, pm_started := True\<rparr>, hv)" for t
    by (rule fields) simp_all
  then show ?thesis using follow [OF _ locked_moves [OF pm]] by (auto simp: power_manager_start_def)
qed

lemma dispatch_moves:
  assumes "pm_coherent (fw_tps fw) (fw_drv fw)"
  shows "moves (policy_driver fw) (policy_driver (dispatch_packet e hdr buf payload src fw))"
proof (rule dispatch_by_handler, goal_cases)
  case 16
  have "moves (s, hv) (locked_evaluate (fw_tps fw) (fst (snd (driver_config_set (ae_nvs e) cfg (fw_drv fw, hv))))
      (s, snd (snd (driver_config_set (ae_nvs e) cfg (fw_drv fw, hv)))))" for s hv cfg
  proof (rule follow)
    show "moves (s, hv) (s, snd (snd (driver_config_set (ae_nvs e) cfg (fw_drv fw, hv))))"
      by (simp add: driver_config_set_def Let_def)
    show "moves (s, snd (snd (driver_config_set (ae_nvs e) cfg (fw_drv fw, hv))))
        (locked_evaluate (fw_tps fw) (fst (snd (driver_config_set (ae_nvs e) cfg (fw_drv fw, hv))))
           (s, snd (snd (driver_config_set (ae_nvs e) cfg (fw_drv fw, hv)))))"
      using assms by (intro locked_moves) (simp add: pm_coherent_def driver_config_set_def Let_def)
  qed
  moreover have "moves (s, hv) (s, snd (snd (driver_config_set o' cfg (drv, hv))))" for s hv o' cfg drv
    by (simp add: driver_config_set_def Let_def)
  ultimately show ?case
    by (simp add: handle_driver_set_config_def Let_def split_def power_manager_reeval_def split: option.split)
qed (simp_all add: handler_defs Let_def split_def split: option.split)

lemma packet_moves:
  assumes "pm_coherent (fw_tps fw) (fw_drv fw)"
  shows "moves (policy_driver fw) (policy_driver (handle_packet e buf src fw))"
proof (rule handle_packet_by)
  fix hdr
  show "moves (policy_driver fw) (policy_driver
      (dispatch_packet e hdr buf (payload_part hdr buf) src (admitted e hdr src fw)))"
    using dispatch_moves [of "admitted e hdr src fw" e hdr buf "payload_part hdr buf" src] assms by simp
qed simp_all

lemma tick_moves: "moves (s, hv) (s, snd (merge_tick now cfg tps pm (m, hv)))"
  by (simp add: tick_driver apply_loss_def)

lemma iterate_moves: "moves (s, hv) (s, snd (dmx_input_iterate i tps pm (t, hv)))"
  by (simp add: dmx_input_iterate_def task_actuate_def Let_def split_def tick_moves)

lemma main_moves:
  assumes "system_ok powf hz s"
  shows "moves (policy_driver (sy_fw s)) (policy_driver (sy_fw (app_main_power b s)))"
proof -
  let ?fw = "sy_fw s"
  let ?st = "power_manager_start (be_pm_lock b) (be_pm_timer b) (fw_tps ?fw) (fw_drv ?fw) (fw_pm ?fw, fw_hv ?fw)"
  have "policy_driver (sy_fw (app_main_power b s)) = ?st"
    by (simp add: app_main_power_def Let_def split_def with_node_def)
  then show ?thesis using start_moves [OF system_pm_coherent [OF assms]] by simp
qed

lemma exec_moves:
  assumes "system_ok powf hz s" and "system_exec powf hz ev s = Some s'" and "\<And>now. ev \<noteq> EV_DRIVER now"
  shows "moves (policy_driver (sy_fw s)) (policy_driver (sy_fw s'))"
proof (cases ev)
  note pm = system_pm_coherent [OF assms(1)]
  case (EV_MONITOR cdb t2p mv)
  have "tps_coherent (fst (poe_monitor_step cdb t2p mv (fw_tps (sy_fw s))))"
    using assms(1) by (intro monitor_step_coherent) (simp add: system_ok_def firmware_ok_def)
  then have "pm_coherent (fst (poe_monitor_step cdb t2p mv (fw_tps (sy_fw s)))) (fw_drv (sy_fw s))"
    using pm by (simp add: pm_coherent_def tps_coherent_def)
  from events_moves [OF this] show ?thesis
    using assms(2) EV_MONITOR by (auto simp: Let_def split_def monitor_tick_def)
next
  note pm = system_pm_coherent [OF assms(1)]
  case EV_SETTLE
  then show ?thesis using assms(2) settle_moves [OF pm] by (auto simp: Let_def split_def split: if_splits)
next
  case (EV_MAIN b)
  then show ?thesis using assms(2) main_moves [OF assms(1)] by (auto split: if_splits)
next
  case (EV_ADMIN e received)
  then show ?thesis
    using assms(2) packet_moves [OF system_pm_coherent [OF assms(1)]]
    by (auto simp: admin_channel_iterate_def Let_def split: if_splits option.splits)
next
  case (EV_DMX i)
  then show ?thesis
    using assms(2) iterate_moves
    by (auto simp: dmx_iteration_def Let_def split_def with_node_def split: option.splits)
qed (use assms(2,3) in \<open>auto split: if_splits\<close>)

lemma run_moves:
  assumes "system_ok powf hz s" and "system_run powf hz evs s = Some s'" and "\<forall>ev\<in>set evs. \<forall>now. ev \<noteq> EV_DRIVER now"
  shows "moves (policy_driver (sy_fw s)) (policy_driver (sy_fw s'))"
  using assms
proof (induction evs arbitrary: s)
  case (Cons ev evs)
  then obtain s1 where s1: "system_exec powf hz ev s = Some s1" "system_run powf hz evs s1 = Some s'"
    by (auto split: option.splits)
  have "moves (policy_driver (sy_fw s)) (policy_driver (sy_fw s1))"
    using Cons.prems(3) by (intro exec_moves [OF Cons.prems(1) s1(1)]) auto
  then show ?case using follow Cons.IH [OF exec_ok [OF Cons.prems(1) s1(1)] s1(2)] Cons.prems(3) by auto
qed simp

end

end
