(* ===== verification/Policy_In_Force.thy ===== *)
theory Policy_In_Force
  imports System_Example Driver_Traffic
begin

text \<open>
  The power policy over whole runs: what \<open>power_manager.c\<close> publishes is always the policy of
  the present source and configuration, and the cap it decides is the one the LED driver
  works under as soon as its queue is drained.
\<close>

section \<open>What the policy publishes\<close>

definition published :: "tps_state \<Rightarrow> drv_state \<Rightarrow> pm_statics \<Rightarrow> bool" where
  "published tps drv s \<longleftrightarrow> (pm_state s, pm_scale_pct s) = power_policy (ts_source tps) (drv_cfg drv)"

definition policy_current :: "firmware \<Rightarrow> bool" where
  "policy_current fw \<longleftrightarrow> (pm_lock (fw_pm fw) \<longrightarrow> published (fw_tps fw) (fw_drv fw) (fw_pm fw))"

lemma evaluate_publishes:
  assumes "pm_coherent tps drv"
  shows "published tps drv (fst (evaluate tps drv (s, hv)))"
proof -
  obtain st scale where pol: "power_policy (ts_source tps) (drv_cfg drv) = (st, scale)" by fastforce
  show ?thesis by (simp add: published_def evaluate_coherent [OF assms assms] pol Let_def)
qed

lemma event_publishes:
  "pm_coherent tps drv \<Longrightarrow> pm_lock (fst st) \<Longrightarrow> published tps drv (fst (pm_on_event tps drv ev st))"
  by (cases st; cases ev)
     (simp_all add: power_manager_tps_ready_def power_manager_tps_lost_def power_manager_tps_source_changed_def
        locked_evaluate_def evaluate_publishes)

lemma events_publish:
  "pm_coherent tps drv \<Longrightarrow> pm_lock (fst st) \<Longrightarrow> evs \<noteq> [] \<or> published tps drv (fst st) \<Longrightarrow>
   published tps drv (fst (fold (pm_on_event tps drv) evs st))"
  by (induction evs arbitrary: st) (simp_all add: event_publishes)

lemma monitor_publishes:
  fixes cdb t2p mv drv tps s hv
  assumes "tps_coherent tps" and "drv_started drv" and "pm_lock s" and "published tps drv s"
  defines "r \<equiv> monitor_tick cdb t2p mv drv (tps, s, hv)"
  shows "published (fst r) drv (fst (snd r))"
proof -
  let ?t = "fst (poe_monitor_step cdb t2p mv tps)" and ?evs = "snd (poe_monitor_step cdb t2p mv tps)"
  have coh: "tps_coherent ?t" by (rule monitor_step_coherent [OF assms(1)])
  then have pm: "pm_coherent ?t drv" using assms(2) by (simp add: pm_coherent_def tps_coherent_def)
  have "?evs \<noteq> [] \<or> ts_source ?t = ts_source tps"
    using monitor_step_events [OF assms(1), of cdb t2p mv] by auto
  then have "?evs \<noteq> [] \<or> published ?t drv s" using assms(4) by (auto simp: published_def)
  then show ?thesis
    using events_publish [OF pm, of "(s, hv)"] assms(3) by (simp add: r_def monitor_tick_def split_def Let_def)
qed

lemma locked_publishes:
  "pm_coherent tps drv \<Longrightarrow> pm_lock (fst (locked_evaluate tps drv (s, hv))) \<longrightarrow>
   published tps drv (fst (locked_evaluate tps drv (s, hv)))"
  by (simp add: locked_evaluate_def evaluate_publishes)

lemma policy_kept:
  "policy_current fw \<Longrightarrow> fw_pm r = fw_pm fw \<Longrightarrow> ts_source (fw_tps r) = ts_source (fw_tps fw) \<Longrightarrow>
   drv_cfg (fw_drv r) = drv_cfg (fw_drv fw) \<Longrightarrow> policy_current r"
  by (simp add: policy_current_def published_def)

lemma dispatch_current:
  assumes "policy_current fw" and "pm_coherent (fw_tps fw) (fw_drv fw)"
  shows "policy_current (dispatch_packet e hdr buf payload src fw)"
proof (rule dispatch_by_handler, goal_cases)
  case 16
  have "pm_coherent (fw_tps fw) (fst (snd (driver_config_set (ae_nvs e) cfg (fw_drv fw, fw_hv fw))))" for cfg
    using assms(2) by (simp add: pm_coherent_def driver_config_set_def Let_def)
  from locked_publishes [OF this] show ?case
    using assms
    by (auto simp: handle_driver_set_config_def Let_def split_def policy_current_def power_manager_reeval_def
        driver_config_set_def pm_coherent_def split: option.split)
qed (simp_all add: handler_defs Let_def split_def policy_kept [OF assms(1)] split: option.split)

lemma packet_current:
  assumes "policy_current fw" and "pm_coherent (fw_tps fw) (fw_drv fw)"
  shows "policy_current (handle_packet e buf src fw)"
  by (rule handle_packet_by)
     (use assms in \<open>simp_all add: policy_kept [OF assms(1)] dispatch_current\<close>)

lemma main_current:
  assumes "system_ok powf hz s" and "policy_current (sy_fw s)"
  shows "policy_current (sy_fw (app_main_power b s))"
proof -
  let ?fw = "sy_fw s"
  let ?st = "power_manager_start (be_pm_lock b) (be_pm_timer b) (fw_tps ?fw) (fw_drv ?fw) (fw_pm ?fw, fw_hv ?fw)"
  have "policy_current (?fw\<lparr>fw_pm := fst ?st, fw_hv := snd ?st\<rparr>)"
    using locked_publishes [OF system_pm_coherent [OF assms(1)]] assms(2)
    by (simp add: power_manager_start_def policy_current_def)
  then show ?thesis
    by (simp add: app_main_power_def Let_def split_def with_node_def policy_current_def published_def)
qed

lemma exec_current:
  assumes "system_ok powf hz s" and "policy_current (sy_fw s)" and "system_exec powf hz ev s = Some s'"
  shows "policy_current (sy_fw s')"
proof (cases ev)
  case (EV_DRIVER now)
  then show ?thesis using assms(3) by (auto simp: Let_def intro: policy_kept [OF assms(2)] split: if_splits)
next
  case (EV_MONITOR cdb t2p mv)
  then show ?thesis
    using assms monitor_publishes [of "fw_tps (sy_fw s)" "fw_drv (sy_fw s)" "fw_pm (sy_fw s)" cdb t2p mv "fw_hv (sy_fw s)"]
      monitor_tick_parts(2) [of cdb t2p mv "fw_drv (sy_fw s)" "fw_tps (sy_fw s)" "fw_pm (sy_fw s)" "fw_hv (sy_fw s)"]
    by (auto simp: Let_def split_def policy_current_def system_ok_def firmware_ok_def drv_good_def)
next
  case EV_SETTLE
  then show ?thesis
    using assms evaluate_publishes [OF system_pm_coherent [OF assms(1)]]
    by (auto simp: Let_def split_def policy_current_def settle_cb_def published_def split: if_splits)
next
  case (EV_MAIN b)
  then show ?thesis using assms by (auto intro: main_current split: if_splits)
next
  case (EV_ADMIN e received)
  then show ?thesis
    using assms packet_current system_pm_coherent [OF assms(1)]
    by (auto simp: admin_channel_iterate_def Let_def split: if_splits option.splits)
next
  case (EV_DMX i)
  then show ?thesis
    using assms(3)
    by (auto simp: dmx_iteration_def Let_def split_def with_node_def intro: policy_kept [OF assms(2)] split: option.splits)
next
  case EV_LEDS
  then show ?thesis using assms by (auto split: if_splits)
next
  case (EV_ETH ev')
  then show ?thesis using assms(3) by (auto intro: policy_kept [OF assms(2)])
next
  case (EV_GOT_IP info)
  then show ?thesis using assms(3) by (auto intro: policy_kept [OF assms(2)])
qed

lemma boot_current: "app_main_init b leds0 = Some s \<Longrightarrow> policy_current (sy_fw s)"
  by (auto simp: app_main_init_def Let_def split_def policy_current_def pm_statics_init_def split: option.splits)

lemma reachable_current: "system_reachable powf hz s \<Longrightarrow> policy_current (sy_fw s)"
  by (induction rule: system_reachable.induct) (auto intro: boot_current exec_current reachable_ok)

section \<open>The cap in the driver's queue\<close>

definition scale_q :: "u8 \<Rightarrow> u32" where
  "scale_q p =
     (let percent = (if p < 1 then 1 else p); percent = (if 100 < percent then 100 else percent)
      in (ucast percent * HV9910_Q_ONE) div 100)"

fun cap_after_cmd :: "hv_cmd \<Rightarrow> u32 \<Rightarrow> u32" where
  "cap_after_cmd (HV_CMD_SET_SCALE p) q = scale_q p"
| "cap_after_cmd _ q = q"

text \<open>The cap once everything queued has been carried out.\<close>

definition coming_cap :: "hv_state \<Rightarrow> u32" where
  "coming_cap hv = fold cap_after_cmd (hv_cmd_queue hv) (hv_output_scale_q hv)"

lemma identify_scale [simp]: "hv_output_scale_q (do_identify_step powf hz now s) = hv_output_scale_q s"
  by (simp add: do_identify_step_def Let_def)

lemma dispatch_scale: "hv_output_scale_q (dispatch_cmd powf hz now c s) = cap_after_cmd c (hv_output_scale_q s)"
  by (cases c)
     (simp_all add: hv_do_enable_def hv_do_set_dim_def hv_do_disable_def hv_do_identify_def hv_do_emergency_off_def
        hv_do_apply_dimming_def hv_do_set_scale_def recompute_derived_def reconfigure_ledc_def Let_def scale_q_def)

lemma step_cap: "coming_cap (hv9910_task_step powf hz now s) = coming_cap s"
proof (cases "hv_cmd_queue s")
  case Nil
  then show ?thesis
    by (simp add: coming_cap_def task_step_queue)
       (simp add: hv9910_task_step_def xQueueReceive_def fire_pending_action_def split: pending_action.split)
next
  case (Cons c cs)
  then show ?thesis
    by (simp add: coming_cap_def task_step_queue) (simp add: task_step_head dispatch_scale del: dispatch_cmd.simps)
qed

text \<open>
  What a client of the driver does to the coming cap, seen from the queue it leaves: as long as
  that queue is not full, every command it posted found room. \<open>fits\<close> says that the
  published scale is the cap to come whenever the policy lets the LED light.
\<close>

definition fits :: "pm_statics \<times> hv_state \<Rightarrow> bool" where
  "fits st \<longleftrightarrow> hv_task_ready (snd st)
     \<and> (\<not> policy_dark (pm_state (fst st)) \<longrightarrow> coming_cap (snd st) = scale_q (pm_scale_pct (fst st)))"

definition cap_step :: "pm_statics \<times> hv_state \<Rightarrow> pm_statics \<times> hv_state \<Rightarrow> bool" where
  "cap_step st st' \<longleftrightarrow> (let n = length (hv_cmd_queue (snd st)); n' = length (hv_cmd_queue (snd st'))
     in n \<le> CMD_QUEUE_LEN \<longrightarrow> n \<le> n' \<and> n' \<le> CMD_QUEUE_LEN \<and> (n' < CMD_QUEUE_LEN \<longrightarrow> fits st \<longrightarrow> fits st'))"

lemma cap_step_refl [simp]: "cap_step st st"
  by (simp add: cap_step_def)

lemma cap_step_trans: "cap_step a b \<Longrightarrow> cap_step b c \<Longrightarrow> cap_step a c"
  by (auto simp: cap_step_def Let_def)

lemma coming_cap_post:
  assumes "length (hv_cmd_queue hv) < CMD_QUEUE_LEN" and "hv_task_ready hv"
  shows "coming_cap (post_cmd c False hv) = cap_after_cmd c (coming_cap hv)"
    and "coming_cap (post_cmd HV_CMD_EMERGENCY_OFF True hv) = coming_cap hv"
  using assms by (simp_all add: coming_cap_def post_cmd_queue post_cmd_front_queue) (simp_all add: post_cmd_eq)

lemma post_not_ready: "\<not> hv_task_ready hv \<Longrightarrow> post_cmd c front hv = hv"
  by (simp add: post_cmd_eq)

lemma post_length:
  assumes "length (hv_cmd_queue hv) \<le> CMD_QUEUE_LEN"
  shows "length (hv_cmd_queue (post_cmd c front hv)) =
     (if hv_task_ready hv \<and> length (hv_cmd_queue hv) < CMD_QUEUE_LEN then Suc (length (hv_cmd_queue hv))
      else length (hv_cmd_queue hv))"
proof (cases front)
  case True
  have "0 < CMD_QUEUE_LEN" by (simp add: fw_const)
  then show ?thesis
    using assms True by (cases "hv_task_ready hv") (auto simp: post_cmd_front_queue post_not_ready)
next
  case False
  then show ?thesis by (cases "hv_task_ready hv") (simp_all add: post_cmd_queue post_not_ready)
qed

lemma no_scale_cap [simp]: "no_scale c \<Longrightarrow> cap_after_cmd c q = q"
  by (cases c) simp_all

lemma cap_step_post: "no_scale c \<Longrightarrow> cap_step (s, hv) (s, post_cmd c False hv)"
  using post_length [of hv c False] coming_cap_post(1) [of hv c]
  by (cases "hv_task_ready hv") (auto simp: cap_step_def fits_def Let_def post_not_ready split: if_splits)

lemma cap_step_emergency: "cap_step (s, hv) (s, hv9910_emergency_disable hv)"
  using post_length [of hv HV_CMD_EMERGENCY_OFF True] coming_cap_post(2) [of hv]
  by (cases "hv_task_ready hv") (auto simp: cap_step_def fits_def Let_def post_not_ready hv9910_emergency_disable_def
       split: if_splits)

text \<open>An evaluation posts the scale it publishes.\<close>

lemma cap_step_scale:
  assumes "pm_scale_pct s' = p"
  shows "cap_step (s, hv) (s', hv9910_set_output_scale p hv)"
  using assms post_length [of hv "HV_CMD_SET_SCALE p" False] coming_cap_post(1) [of hv "HV_CMD_SET_SCALE p"]
  by (cases "hv_task_ready hv")
     (auto simp: cap_step_def fits_def Let_def post_not_ready hv9910_set_output_scale_def split: if_splits)

lemma cap_step_dark:
  assumes "policy_dark (pm_state s')" and "cap_step (s, hv) (s, hv')" and "hv_task_ready hv' = hv_task_ready hv"
  shows "cap_step (s, hv) (s', hv')"
  using assms by (auto simp: cap_step_def fits_def Let_def)

lemma cap_step_same:
  "cap_step (s, hv) (s1, hv1) \<Longrightarrow> pm_state s2 = pm_state s1 \<Longrightarrow> pm_scale_pct s2 = pm_scale_pct s1 \<Longrightarrow>
   cap_step (s, hv) (s2, hv1)"
  by (simp add: cap_step_def fits_def)

lemma evaluate_cap:
  assumes "pm_coherent tps drv"
  shows "cap_step (s, hv) (evaluate tps drv (s, hv))"
proof -
  obtain st scale where pol: "power_policy (ts_source tps) (drv_cfg drv) = (st, scale)" by fastforce
  let ?s1 = "s\<lparr>pm_budget_cw := budget_cw_for (ts_source tps), pm_state := st, pm_scale_pct := scale\<rparr>"
  let ?hv1 = "hv9910_set_output_scale scale hv"
  have dark: "cap_step (s, hv) (?s1, hv9910_emergency_disable hv)" if "policy_dark st"
    using that by (intro cap_step_dark [OF _ cap_step_emergency]) (simp_all add: hv9910_emergency_disable_def)
  have scaled: "cap_step (s, hv) (s', ?hv1)" if "pm_scale_pct s' = scale" for s'
    using that by (rule cap_step_scale)
  have lit: "cap_step (s, hv) (s', hv9910_enable ?hv1)" if "pm_scale_pct s' = scale" for s'
    by (rule cap_step_trans [OF scaled [OF that]])
       (simp add: hv9910_enable_def hv9910_enable_at_def cap_step_post Let_def)
  show ?thesis
    unfolding evaluate_coherent [OF assms assms] pol Let_def prod.case
    by (intro if_by [where P = "cap_step (s, hv)"] dark scaled lit) simp_all
qed

interpretation capped: driver_traffic cap_step
  by unfold_locales (simp, rule cap_step_trans, assumption+, rule cap_step_post, assumption,
      (rule cap_step_same [OF cap_step_refl], assumption+), rule evaluate_cap, assumption)

section \<open>Events\<close>

lemma system_queue: "system_ok powf hz s \<Longrightarrow> length (hv_cmd_queue (fw_hv (sy_fw s))) \<le> CMD_QUEUE_LEN"
  using reachable_inv by (auto simp: system_ok_def firmware_ok_def hv_inv_def)

lemma exec_cap:
  assumes "system_ok powf hz s" and "system_exec powf hz ev s = Some s'"
    and "length (hv_cmd_queue (fw_hv (sy_fw s'))) < CMD_QUEUE_LEN" and "fits (policy_driver (sy_fw s))"
  shows "fits (policy_driver (sy_fw s'))"
proof (cases "\<exists>now. ev = EV_DRIVER now")
  case True
  then show ?thesis using assms(2,4) by (auto simp: Let_def fits_def step_cap split: if_splits)
next
  case False
  then have "cap_step (policy_driver (sy_fw s)) (policy_driver (sy_fw s'))"
    by (intro capped.exec_moves [OF assms(1,2)]) blast
  then show ?thesis using assms(3,4) system_queue [OF assms(1)] by (simp add: cap_step_def Let_def)
qed

text \<open>A run on which the driver keeps up: after no event is its queue full.\<close>

fun roomy_run :: "(rat \<Rightarrow> rat \<Rightarrow> rat) \<Rightarrow> u32 \<Rightarrow> event list \<Rightarrow> system \<Rightarrow> bool" where
  "roomy_run powf hz [] s = True"
| "roomy_run powf hz (ev # evs) s =
     (case system_exec powf hz ev s of
        None \<Rightarrow> False
      | Some s' \<Rightarrow> length (hv_cmd_queue (fw_hv (sy_fw s'))) < CMD_QUEUE_LEN \<and> roomy_run powf hz evs s')"

lemma run_cap:
  assumes "system_ok powf hz s" and "fits (policy_driver (sy_fw s))"
    and "system_run powf hz evs s = Some s'" and "roomy_run powf hz evs s"
  shows "fits (policy_driver (sy_fw s'))"
  using assms
proof (induction evs arbitrary: s)
  case (Cons ev evs)
  then obtain s1 where s1: "system_exec powf hz ev s = Some s1" by (auto split: option.splits)
  then show ?case using Cons exec_ok [OF Cons.prems(1) s1] exec_cap [OF Cons.prems(1) s1] by auto
qed simp

text \<open>Without the driver the queue only grows, so it had room throughout if it has at the end.\<close>

lemma growing_run:
  assumes "system_ok powf hz s" and "system_run powf hz evs s = Some s'" and "\<forall>ev\<in>set evs. \<forall>now. ev \<noteq> EV_DRIVER now"
    and "length (hv_cmd_queue (fw_hv (sy_fw s'))) < CMD_QUEUE_LEN"
  shows "roomy_run powf hz evs s \<and> length (hv_cmd_queue (fw_hv (sy_fw s))) < CMD_QUEUE_LEN"
  using assms
proof (induction evs arbitrary: s)
  case (Cons ev evs)
  then obtain s1 where s1: "system_exec powf hz ev s = Some s1" by (auto split: option.splits)
  have "cap_step (policy_driver (sy_fw s)) (policy_driver (sy_fw s1))"
    using Cons.prems(3) by (intro capped.exec_moves [OF Cons.prems(1) s1]) auto
  then have "length (hv_cmd_queue (fw_hv (sy_fw s))) \<le> length (hv_cmd_queue (fw_hv (sy_fw s1)))"
    using system_queue [OF Cons.prems(1)] by (simp add: cap_step_def Let_def)
  moreover have "roomy_run powf hz evs s1 \<and> length (hv_cmd_queue (fw_hv (sy_fw s1))) < CMD_QUEUE_LEN"
    using Cons.prems s1 by (intro Cons.IH exec_ok [OF Cons.prems(1) s1]) auto
  ultimately show ?case using s1 by simp
qed simp

lemma roomy_append:
  "roomy_run powf hz (evs @ evs') s =
     (roomy_run powf hz evs s \<and>
      (case system_run powf hz evs s of None \<Rightarrow> False | Some s' \<Rightarrow> roomy_run powf hz evs' s'))"
  by (induction evs arbitrary: s) (auto split: option.splits)

lemma boot_fits:
  assumes "app_main_init b leds0 = Some s" and "be_hv_queue b" and "be_hv_task b"
  shows "fits (policy_driver (sy_fw s))"
  using assms
  by (auto simp: app_main_init_def Let_def split_def fits_def pm_statics_init_def policy_dark_def driver_config_start_def
        drv_statics_def apply_to_hv9910_def hv9910_set_dimming_def hv9910_init_def split: option.splits)

lemma policy_scale_range:
  assumes "drv_config_valid cfg"
  shows "\<not> snd (power_policy src cfg) < 1" and "snd (power_policy src cfg) \<le> 100"
proof -
  have cap: "10 \<le> dc_poe_cap_pct cfg" "dc_poe_cap_pct cfg \<le> 100" using assms by (simp_all add: drv_config_valid_def)
  have "(1 :: u8) \<le> dc_poe_cap_pct cfg" by (rule order.trans [OF _ cap(1)]) simp
  then have low: "\<not> dc_poe_cap_pct cfg < 1" by (rule leD)
  have "snd (power_policy src cfg) \<in> {dc_poe_cap_pct cfg, 100}" by (cases src) (simp_all add: power_policy_def)
  then consider "snd (power_policy src cfg) = dc_poe_cap_pct cfg" | "snd (power_policy src cfg) = 100" by blast
  then have "\<not> snd (power_policy src cfg) < 1 \<and> snd (power_policy src cfg) \<le> 100"
  proof cases
    case 1
    show ?thesis unfolding 1 using low cap(2) by blast
  next
    case 2
    show ?thesis unfolding 2 by simp
  qed
  then show "\<not> snd (power_policy src cfg) < 1" and "snd (power_policy src cfg) \<le> 100" by blast+
qed

lemma scale_q_percent:
  assumes "\<not> p < 1" and "p \<le> 100"
  shows "scale_q p = (ucast p * HV9910_Q_ONE) div 100"
proof -
  have "\<not> 100 < p" using assms(2) by (simp add: not_less)
  then show ?thesis using assms(1) by (simp only: scale_q_def Let_def if_False)
qed

section \<open>Properties\<close>

text \<open>
  C18: once the power manager runs, in every reachable state of the firmware what it publishes
  is the policy of the present power class and the present configuration: no sequence of
  source changes, timer expiries, configuration changes and other events leaves it behind.
\<close>

theorem policy_always_current:
  assumes "system_reachable powf hz s" and "pm_lock (fw_pm (sy_fw s))"
  shows "(power_manager_get_state (fw_pm (sy_fw s)), power_manager_effective_scale_pct (fw_pm (sy_fw s)))
     = power_policy (tps2378_get_source (fw_tps (sy_fw s))) (drv_cfg (fw_drv (sy_fw s)))"
  using reachable_current [OF assms(1)] assms(2)
  by (simp add: policy_current_def published_def power_manager_get_state_def power_manager_effective_scale_pct_def
        tps2378_get_source_def)

lemma init_example:
  fixes cfg
  defines "hv \<equiv> hv9910_init True True cfg hv9910_statics"
  shows "hv_task_ready hv" and "hv_cmd_queue hv = []" and "\<not> hv_desired_on hv"
  by (simp_all add: hv_def hv9910_init_def hv9910_statics_def Let_def)

lemma start_example:
  assumes "hv_task_ready hv" and "hv_cmd_queue hv = []" and "\<not> hv_desired_on hv"
  defines "r \<equiv> driver_config_start nvs_good (drv_statics None, hv)"
  shows "drv_cfg (fst r) = drv_config_defaults" and "drv_started (fst r)" and "hv_task_ready (snd r)"
    and "length (hv_cmd_queue (snd r)) = 1" and "\<not> hv_desired_on (snd r)"
proof -
  show "drv_cfg (fst r) = drv_config_defaults" "drv_started (fst r)"
    by (simp_all add: r_def driver_config_start_def drv_statics_def drv_load_cfg nvs_open_sequence_def
        nvs_good_def drvfmt.load_def nvs_get_blob_def Let_def)
  show "hv_task_ready (snd r)" "\<not> hv_desired_on (snd r)" "length (hv_cmd_queue (snd r)) = 1"
    using assms by (simp_all add: r_def driver_config_start_def drv_statics_def apply_to_hv9910_def
        hv9910_set_dimming_def post_cmd_queue fw_const Let_def)
qed

lemma booted_driver:
  shows "drv_cfg (fw_drv (sy_fw system_booted)) = drv_config_defaults" and "drv_started (fw_drv (sy_fw system_booted))"
    and "hv_task_ready (fw_hv (sy_fw system_booted))" and "length (hv_cmd_queue (fw_hv (sy_fw system_booted))) = 1"
    and "\<not> hv_desired_on (fw_hv (sy_fw system_booted))"
  by (simp_all add: system_booted_def app_main_init_def boot_example_def tps2378_init_def Let_def split_def
      start_example init_example)

lemma powered_driver:
  "(fw_pm (sy_fw system_powered), fw_hv (sy_fw system_powered)) =
     locked_evaluate tps_type1 (fw_drv (sy_fw system_booted))
       (pm_statics_init\<lparr>pm_lock := True, pm_settle_timer := TIMER_STOPPED, pm_started := True\<rparr>, fw_hv (sy_fw system_booted))"
  by (simp add: system_powered_def app_main_power_def Let_def split_def with_node_def boot_values [OF boot_example_boots])
     (simp add: boot_example_def power_manager_start_def pm_statics_init_def)

lemma evaluate_ready:
  "pm_coherent tps drv \<Longrightarrow> hv_task_ready (snd (evaluate tps drv (s, hv))) = hv_task_ready hv"
  by (simp add: evaluate_coherent [OF _ _] hv9910_set_output_scale_def hv9910_enable_def hv9910_enable_at_def
      hv9910_emergency_disable_def Let_def split_def)

lemma powered_policy:
  shows "pm_lock (fw_pm (sy_fw system_powered))" and "ts_source (fw_tps (sy_fw system_powered)) = TPS2378_SOURCE_TYPE1"
    and "drv_cfg (fw_drv (sy_fw system_powered)) = drv_config_defaults"
    and "length (hv_cmd_queue (fw_hv (sy_fw system_powered))) = 2"
    and "hv_task_ready (fw_hv (sy_fw system_powered))"
    and "power_policy TPS2378_SOURCE_TYPE1 drv_config_defaults = (POWER_MANAGER_ACTIVE_CAPPED, 51)"
proof -
  let ?drv = "fw_drv (sy_fw system_booted)" and ?hv = "fw_hv (sy_fw system_booted)"
  let ?pm = "pm_statics_init\<lparr>pm_lock := True, pm_settle_timer := TIMER_STOPPED, pm_started := True\<rparr>"
  note pw = powered_driver [unfolded prod_eq_iff fst_conv snd_conv]
  show pol: "power_policy TPS2378_SOURCE_TYPE1 drv_config_defaults = (POWER_MANAGER_ACTIVE_CAPPED, 51)"
    by (simp add: power_policy_def drv_config_defaults_def fw_const)
  show "pm_lock (fw_pm (sy_fw system_powered))" using pw by (simp add: locked_evaluate_def)
  have tps: "fw_tps (sy_fw system_powered) = tps_type1"
    by (simp add: system_powered_def app_main_power_def Let_def split_def with_node_def)
  then show "ts_source (fw_tps (sy_fw system_powered)) = TPS2378_SOURCE_TYPE1" by (simp add: tps_type1_values)
  show "drv_cfg (fw_drv (sy_fw system_powered)) = drv_config_defaults"
    using booted_driver(1) by (simp add: system_powered_def app_main_power_def Let_def split_def with_node_def)
  have coh: "pm_coherent tps_type1 ?drv" using booted_driver(2) by (simp add: pm_coherent_def tps_type1_values)
  have "length (hv_cmd_queue ?hv) + 2 \<le> CMD_QUEUE_LEN" using booted_driver(4) by (simp add: fw_const)
  show "hv_task_ready (fw_hv (sy_fw system_powered))"
    using pw booted_driver(3) by (simp add: locked_evaluate_def evaluate_ready [OF coh])
  from evaluate_commands [OF coh booted_driver(3) \<open>length _ + 2 \<le> _\<close>, of ?pm] pol
  show "length (hv_cmd_queue (fw_hv (sy_fw system_powered))) = 2"
    using pw booted_driver(1,4,5) by (simp add: locked_evaluate_def tps_type1_values policy_dark_def)
qed

theorem policy_always_current_witness:
  "power_manager_get_state (fw_pm (sy_fw system_powered)) = POWER_MANAGER_ACTIVE_CAPPED
   \<and> power_manager_effective_scale_pct (fw_pm (sy_fw system_powered)) = 51"
  using policy_always_current [OF powered_reachable powered_policy(1)] powered_policy(2,3,6)
  by (simp add: tps2378_get_source_def)

text \<open>
  C8: the power cap reaches the LED driver. On a device whose driver task was created, after any
  run in which the driver's queue never fills up, whenever that queue is drained and the policy
  allows light, the driver works under exactly the cap the policy prescribes for the present
  power class and configuration.
\<close>

theorem cap_in_force:
  assumes "app_main_init b leds0 = Some s0" and "be_hv_queue b" and "be_hv_task b"
    and "system_run powf hz evs s0 = Some s" and "roomy_run powf hz evs s0"
    and "pm_lock (fw_pm (sy_fw s))" and "hv_cmd_queue (fw_hv (sy_fw s)) = []"
    and "\<not> policy_dark (fst (power_policy (ts_source (fw_tps (sy_fw s))) (drv_cfg (fw_drv (sy_fw s)))))"
  shows "hv9910_get_output_scale_pct (fw_hv (sy_fw s))
     = snd (power_policy (ts_source (fw_tps (sy_fw s))) (drv_cfg (fw_drv (sy_fw s))))"
proof -
  let ?p = "snd (power_policy (ts_source (fw_tps (sy_fw s))) (drv_cfg (fw_drv (sy_fw s))))"
  have reach: "system_reachable powf hz s"
    by (rule run_reachable [OF system_reachable.boot [OF assms(1)] assms(4)])
  have pub: "pm_state (fw_pm (sy_fw s)) = fst (power_policy (ts_source (fw_tps (sy_fw s))) (drv_cfg (fw_drv (sy_fw s))))"
    "pm_scale_pct (fw_pm (sy_fw s)) = ?p"
    using reachable_current [OF reach] assms(6) by (auto simp: policy_current_def published_def prod_eq_iff)
  have "fits (policy_driver (sy_fw s))"
    by (rule run_cap [OF boot_ok [OF assms(1)] boot_fits [OF assms(1-3)] assms(4,5)])
  then have q: "hv_output_scale_q (fw_hv (sy_fw s)) = scale_q ?p"
    using assms(7,8) pub by (simp add: fits_def coming_cap_def)
  have "drv_config_valid (drv_cfg (fw_drv (sy_fw s)))"
    using reachable_ok [OF reach] by (simp add: system_ok_def firmware_ok_def drv_good_def)
  note r = policy_scale_range [OF this, of "ts_source (fw_tps (sy_fw s))"]
  show ?thesis by (simp add: hv9910_get_output_scale_pct_def q scale_q_percent [OF r] percent_roundtrip [OF r(2)])
qed

text \<open>The example device after start-up, once its driver has carried out the two commands queued for it.\<close>

definition drained_events :: "event list" where
  "drained_events = power_events @ [EV_DRIVER 1, EV_DRIVER 2]"

lemma drained_run:
  assumes "system_run powf hz [EV_DRIVER 1, EV_DRIVER 2] system_powered = Some s"
  shows "system_run powf hz drained_events system_booted = Some s" and "roomy_run powf hz drained_events system_booted"
    and "hv_cmd_queue (fw_hv (sy_fw s)) = []"
    and "fw_pm (sy_fw s) = fw_pm (sy_fw system_powered)" and "fw_tps (sy_fw s) = fw_tps (sy_fw system_powered)"
    and "fw_drv (sy_fw s) = fw_drv (sy_fw system_powered)"
proof -
  have len: "length (hv_cmd_queue (fw_hv (sy_fw system_powered))) < CMD_QUEUE_LEN"
    by (simp add: powered_policy(4) fw_const)
  have nd: "\<forall>ev\<in>set power_events. \<forall>now. ev \<noteq> EV_DRIVER now" by (auto simp: power_events_def)
  have roomy: "roomy_run powf hz power_events system_booted"
    using growing_run [OF boot_ok [OF boot_example_boots] powered_run nd len] by simp
  obtain c c' where q: "hv_cmd_queue (fw_hv (sy_fw system_powered)) = [c, c']"
    using powered_policy(4) by (auto simp: length_Suc_conv numeral_2_eq_2)
  show "system_run powf hz drained_events system_booted = Some s"
    using assms by (simp only: drained_events_def run_append powered_run option.case)
  have "roomy_run powf hz [EV_DRIVER 1, EV_DRIVER 2] system_powered"
    using assms len by (auto simp: Let_def task_step_queue q fw_const split: if_splits)
  then show "roomy_run powf hz drained_events system_booted"
    using roomy by (simp only: drained_events_def roomy_append powered_run option.case simp_thms)
  show "hv_cmd_queue (fw_hv (sy_fw s)) = []" "fw_pm (sy_fw s) = fw_pm (sy_fw system_powered)"
    "fw_tps (sy_fw s) = fw_tps (sy_fw system_powered)" "fw_drv (sy_fw s) = fw_drv (sy_fw system_powered)"
    using assms by (auto simp: Let_def task_step_queue q split: if_splits)
qed

theorem cap_in_force_witness:
  "\<exists>s. system_run (\<lambda>x y. x) 1000 drained_events system_booted = Some s \<and> hv9910_get_output_scale_pct (fw_hv (sy_fw s)) = 51"
proof -
  obtain s where s: "system_run (\<lambda>x y. x) 1000 [EV_DRIVER 1, EV_DRIVER 2] system_powered = Some s"
    by (simp add: Let_def powered_policy(5))
  note d = drained_run [OF s]
  have "hv9910_get_output_scale_pct (fw_hv (sy_fw s))
     = snd (power_policy (ts_source (fw_tps (sy_fw s))) (drv_cfg (fw_drv (sy_fw s))))"
    by (rule cap_in_force [OF boot_example_boots _ _ d(1,2) _ d(3)])
       (simp_all add: d powered_policy policy_dark_def, simp_all add: boot_example_def)
  then show ?thesis using d powered_policy by auto
qed

end
