(* ===== verification/Light_Path.thy ===== *)
theory Light_Path
  imports System_Example DMX_Task_Properties
begin

text \<open>
  From the wire to the LED: a lighting frame through the parser, the merge engine, the
  actuation tick, the driver's queue and its task to the duties of the two LEDC channels.
\<close>

section \<open>The first frame of a source\<close>

lemma map_idle: "list_all (\<lambda>s. \<not> sr_in_use s) srcs \<Longrightarrow> prune_sources now timeout srcs = srcs"
  by (auto simp: prune_sources_def list_all_iff intro: map_idI)

text \<open>What a frame says for the patch: the level of the patched slots, in percent.\<close>

definition frame_percent :: "dmx_input_config \<Rightarrow> dmx_frame \<Rightarrow> u8" where
  "frame_percent cfg f =
     (let i = unat (xc_dmx_address cfg - 1)
      in level_to_percent cfg (fr_slots f ! i) (if dmx_channels cfg = 2 then fr_slots f ! (i + 1) else 0))"

text \<open>With no live source the frame becomes the only one, and its slots the merged level.\<close>

lemma first_frame_merged:
  assumes "list_all (\<lambda>s. \<not> sr_in_use s) (mg_sources m)" and "mg_sources m \<noteq> []" and "\<not> fr_terminated f"
    and "unat (xc_dmx_address cfg - 1) + dmx_channels cfg \<le> unat (fr_nslots f)" and "0 \<le> now"
  defines "m' \<equiv> dmx_merge_submit now cfg f m"
  shows "live_sources now cfg m' \<noteq> []"
    and "merged_percent now cfg m' = frame_percent cfg f"
    and "mg_last_applied_pct m' = mg_last_applied_pct m" and "mg_last_actuate_us m' = mg_last_actuate_us m"
proof -
  let ?ch = "if xc_personality cfg = DMX_PERSONALITY_2CH_16BIT then 2 else 1 :: u32"
  let ?hi = "fr_slots f ! unat (xc_dmx_address cfg - 1)"
  let ?lo = "if dmx_channels cfg = 2 then fr_slots f ! (unat (xc_dmx_address cfg - 1) + 1) else 0"
  obtain x rest where src: "mg_sources m = x # rest" using assms(2) by (cases "mg_sources m") auto
  have idle: "\<not> sr_in_use x" "list_all (\<lambda>s. \<not> sr_in_use s) rest" using assms(1) by (simp_all add: src)
  have "unat (ucast (xc_dmx_address cfg - 1) + ?ch) = unat (xc_dmx_address cfg - 1) + dmx_channels cfg"
    using u16_lt [of "xc_dmx_address cfg - 1"] by (subst unat_add_small) (auto simp: dmx_channels_def)
  then have len: "\<not> (ucast (fr_nslots f) :: u32) < ucast (xc_dmx_address cfg - 1) + ?ch"
    using assms(4) by (simp add: word_less_unat)
  have slot: "source_slot (fr_source_id f) (mg_sources m) = 0" using idle(1) by (simp add: source_slot_def src)
  obtain s where s: "mg_sources m' = s # rest" "sr_in_use s" "sr_last_seen_us s = now" "sr_arrived_seq_us s = now"
      "sr_ch0 s = ?hi" "sr_ch1 s = ?lo"
    using len assms(3) idle(1) slot
    by (simp add: m'_def dmx_merge_submit_def Let_def src dmx_channels_def)
  have live: "live_sources now cfg m' = [s]"
    using s(1-3) map_idle [OF idle(2)] idle(2)
    by (auto simp: live_sources_def list_all_iff filter_empty_conv) (simp add: prune_sources_def)
  then show "live_sources now cfg m' \<noteq> []" by simp
  have win: "winning_sources now cfg m' = [s]"
    by (simp add: winning_sources_def live best_priority_def word_gt_0)
  have "merge_level cfg [s] = (?hi, ?lo)"
  proof (cases "xc_merge_mode cfg = DMX_MERGE_LTP")
    case True
    then show ?thesis using s(4-6) assms(5) by (simp add: merge_level_def ltp_step_eq)
  next
    case False
    have "?hi = 0 \<and> ?lo = 0" if "unat ?hi * 256 + unat ?lo = 0" using that by (simp add: unat_eq_0)
    then show ?thesis
      using False s(5,6) join_bytes [of ?hi ?lo, where 'a = 16]
      by (auto simp: merge_level_def htp_step_def Let_def word_less_unat)
  qed
  then show "merged_percent now cfg m' = frame_percent cfg f"
    by (simp add: merged_percent_def win frame_percent_def Let_def)
  show "mg_last_applied_pct m' = mg_last_applied_pct m" "mg_last_actuate_us m' = mg_last_actuate_us m"
    by (simp_all add: m'_def dmx_merge_submit_def Let_def)
qed

section \<open>One iteration of the task\<close>

text \<open>The iteration hands the merge engine exactly one frame, at the time of its tick.\<close>

definition delivers :: "task_input \<Rightarrow> dmx_task \<Rightarrow> dmx_frame \<Rightarrow> bool" where
  "delivers i t f \<longleftrightarrow>
     (let t = task_rejoin i (task_config_change i t); n = tk_node t
      in task_receive i t =
           t\<lparr>tk_node := n\<lparr>dn_mg := dmx_merge_submit (ti_now i) (dmx_cfg_snapshot (dn_xs n)) f (dn_mg n)\<rparr>\<rparr>)"

lemma iterate_prelude:
  assumes "\<not> xs_cfg_changed (dn_xs (tk_node t))"
  shows "tk_node (task_rejoin i (task_config_change i t)) = tk_node t"
    and "tk_artnet_sock (task_rejoin i (task_config_change i t)) = tk_artnet_sock t"
    and "tk_sacn_sock (task_rejoin i (task_config_change i t)) = tk_sacn_sock t"
    and "tk_next_tick_us (task_rejoin i (task_config_change i t)) = tk_next_tick_us t"
  using assms by (simp_all add: task_rejoin_def task_config_change_def Let_def)

lemma artnet_delivers:
  assumes "ti_artnet i = Some (buf, ip, port, ti_now i)" and "ti_sacn i = None" and "length buf \<le> RX_BUF_SIZE"
    and "tk_artnet_sock t" and "\<not> xs_cfg_changed (dn_xs (tk_node t))"
    and "artnet_parse_common buf = Some ARTNET_OP_DMX" and "artnet_frame (xs_cfg (dn_xs (tk_node t))) buf ip = Some f"
  shows "delivers i t f"
proof -
  have "buf \<noteq> []" "RX_BUF_SIZE \<noteq> 0" using artnet_frame_SomeE(1) [OF assms(7)] by (auto simp: fw_const)
  then show ?thesis
    using assms iterate_prelude [OF assms(5), of i]
    by (simp add: delivers_def task_receive_def task_rx_env_def dmx_artnet_handle_def handle_dmx_def
          dmx_cfg_snapshot_def Let_def)
qed

lemma sacn_delivers:
  assumes "ti_artnet i = None" and "ti_sacn i = Some (buf, ip, port, ti_now i)" and "length buf \<le> RX_BUF_SIZE"
    and "tk_sacn_sock t" and "\<not> xs_cfg_changed (dn_xs (tk_node t))"
    and "sacn_frame (xs_cfg (dn_xs (tk_node t))) buf ip = Some f"
  shows "delivers i t f"
proof -
  have "buf \<noteq> []" "RX_BUF_SIZE \<noteq> 0" using sacn_frame_SomeE(1) [OF assms(6)] by (auto simp: fw_const)
  then show ?thesis
    using assms iterate_prelude [OF assms(5), of i]
    by (simp add: delivers_def task_receive_def task_rx_env_def dmx_sacn_handle_def dmx_cfg_snapshot_def Let_def)
qed

text \<open>The iteration that receives the first frame of a silent universe at its actuation tick.\<close>

lemma first_frame_actuates:
  fixes i tps pm t hv
  defines "cfg \<equiv> xs_cfg (dn_xs (tk_node t))" and "m \<equiv> dn_mg (tk_node t)"
  assumes "delivers i t f" and "\<not> fr_terminated f"
    and "unat (xc_dmx_address cfg - 1) + dmx_channels cfg \<le> unat (fr_nslots f)"
    and "\<not> xs_cfg_changed (dn_xs (tk_node t))" and "tk_next_tick_us t \<le> ti_now i"
    and "list_all (\<lambda>s. \<not> sr_in_use s) (mg_sources m)" and "mg_sources m \<noteq> []"
    and "mg_last_applied_pct m < 0" and "22000 \<le> ti_now i - mg_last_actuate_us m" and "0 \<le> ti_now i"
    and "tps2378_is_ready tps" and "power_manager_output_allowed pm"
  shows "snd (dmx_input_iterate i tps pm (t, hv)) =
     (let pct = frame_percent cfg f
      in if hv9910_is_enabled hv then hv9910_set_dim pct hv
         else if 0 < pct then hv9910_enable_at pct hv else hv)"
proof -
  define m1 where "m1 = dmx_merge_submit (ti_now i) cfg f m"
  note r = first_frame_merged [OF assms(8,9,4,5,12), folded m1_def]
  have n: "dn_mg (tk_node (task_receive i (task_rejoin i (task_config_change i t)))) = m1"
      "dn_xs (tk_node (task_receive i (task_rejoin i (task_config_change i t)))) = dn_xs (tk_node t)"
      "tk_next_tick_us (task_receive i (task_rejoin i (task_config_change i t))) = tk_next_tick_us t"
    using assms(3) iterate_prelude [OF assms(6), of i]
    by (simp_all add: delivers_def Let_def dmx_cfg_snapshot_def m1_def m_def cfg_def)
  have "int (unat p) \<noteq> mg_last_applied_pct m" for p :: u8 using assms(10) by linarith
  then have "tick_actuates (ti_now i) cfg tps pm m1"
    using r(1,3,4) assms(11,13,14) by (simp add: tick_actuates_def del: of_nat_unat)
  then show ?thesis
    using assms(7) r(1,2)
    by (simp add: dmx_input_iterate_def task_actuate_def n Let_def split_def tick_driver dmx_cfg_snapshot_def
          cfg_def [symmetric])
qed

section \<open>The LED driver\<close>

text \<open>The LED shows a level: on if the curve makes it visible, with the curve's duties on both channels.\<close>

definition shows_level :: "(rat \<Rightarrow> rat \<Rightarrow> rat) \<Rightarrow> u32 \<Rightarrow> hv_state \<Rightarrow> bool" where
  "shows_level powf l s \<longleftrightarrow>
     (let out = rendered powf l s
      in hv_enabled s = want_lit out
         \<and> ledc_ld_duty s = (if want_lit out then scale_duty (ld_duty_q out) (hv_ld_full s) else 0)
         \<and> ledc_pwmd_duty s = (if want_lit out then scale_duty (pwmd_duty_q out) (hv_pwmd_full s) else 0))"

lemma apply_shows: "\<not> hv_power_cut s \<Longrightarrow> shows_level powf l (apply_level powf l s)"
  by (simp add: shows_level_def apply_level_output Let_def)

text \<open>A command posted to the idle driver is what its next iteration carries out.\<close>

lemma post_then_step:
  assumes "hv_task_ready s" and "hv_cmd_queue s = []"
  shows "hv9910_task_step powf hz now (post_cmd c False s) =
     dispatch_cmd powf hz now c (s\<lparr>hv_cmd_queue := [], hv_pending := PENDING_NONE\<rparr>)"
proof -
  have "post_cmd c False s = s\<lparr>hv_cmd_queue := [c]\<rparr>"
    using assms rtos.items_post [of c "[]"] by (simp add: post_cmd_eq fw_const)
  then show ?thesis by (simp add: task_step_head)
qed

text \<open>What the next iteration of the driver makes of the command the tick posted.\<close>

lemma level_command_shows:
  fixes powf hz now pct hv
  defines "hv1 \<equiv> (if hv9910_is_enabled hv then hv9910_set_dim pct hv
      else if 0 < pct then hv9910_enable_at pct hv else hv)"
  assumes "hv_inv hv" and "hv_task_ready hv" and "hv_cmd_queue hv = []" and "hv_pending hv = PENDING_NONE" and "pct \<le> 100"
  shows "shows_level powf (pct_to_q pct) (hv9910_task_step powf hz now hv1)"
proof -
  have cap: "\<not> 100 < pct" using assms(6) by (simp add: not_less)
  consider (on) "hv_enabled hv" | (off) "\<not> hv_enabled hv" "0 < pct" | (dark) "\<not> hv_enabled hv" "pct = 0"
    by (auto simp: word_gt_0)
  then show ?thesis
  proof cases
    case on
    then have "\<not> hv_power_cut hv" using assms(2) by (simp add: hv_inv_def hv_output_def)
    then show ?thesis
      using on assms(3,4) cap
      by (simp add: hv1_def hv9910_is_enabled_def hv9910_set_dim_def post_then_step hv_do_set_dim_def apply_shows)
  next
    case off
    then show ?thesis
      using assms(3,4) cap
      by (simp add: hv1_def hv9910_is_enabled_def hv9910_enable_at_def post_then_step hv_do_enable_def hv_do_set_dim_def
          apply_shows)
  next
    case dark
    then have "hv9910_task_step powf hz now hv1 = hv"
      using assms(4,5) by (simp add: hv1_def hv9910_is_enabled_def hv9910_task_step_def xQueueReceive_def)
    then show ?thesis using dark assms(2) by (auto simp: shows_level_def hv_inv_def hv_output_def)
  qed
qed

section \<open>From a frame to the light\<close>

text \<open>
  The device is in operation, its layer without a live source and due for a tick, and the
  driver's task has nothing left to do.
\<close>

definition driver_idle :: "hv_state \<Rightarrow> bool" where
  "driver_idle hv \<longleftrightarrow> hv_task_ready hv \<and> hv_cmd_queue hv = [] \<and> hv_pending hv = PENDING_NONE"

definition awaits_frame :: "task_input \<Rightarrow> dmx_task \<Rightarrow> firmware \<Rightarrow> bool" where
  "awaits_frame i t fw \<longleftrightarrow>
     \<not> xs_cfg_changed (fw_xs fw) \<and> tk_next_tick_us t \<le> ti_now i
     \<and> list_all (\<lambda>s. \<not> sr_in_use s) (mg_sources (fw_mg fw))
     \<and> mg_last_applied_pct (fw_mg fw) < 0 \<and> mg_last_actuate_us (fw_mg fw) + 22000 \<le> ti_now i \<and> 0 \<le> ti_now i
     \<and> tps2378_is_ready (fw_tps fw) \<and> power_manager_output_allowed (fw_pm fw)
     \<and> driver_idle (fw_hv fw)"

lemma delivered_frame_lights:
  fixes s i t
  defines "fw \<equiv> sy_fw s"
  defines "cfg \<equiv> xs_cfg (fw_xs fw)"
  assumes "system_ok powf hz s" and "sy_dmx s = Some t" and "awaits_frame i t fw"
    and "delivers i (t\<lparr>tk_node := node_of fw\<rparr>) f" and "\<not> fr_terminated f"
    and "unat (xc_dmx_address cfg - 1) + dmx_channels cfg \<le> unat (fr_nslots f)"
  shows "\<exists>s'. system_run powf hz [EV_DMX i, EV_DRIVER now] s = Some s'
     \<and> shows_level powf (pct_to_q (frame_percent cfg f)) (fw_hv (sy_fw s'))"
proof -
  let ?t = "t\<lparr>tk_node := node_of fw\<rparr>" and ?pct = "frame_percent cfg f"
  let ?hv1 = "if hv9910_is_enabled (fw_hv fw) then hv9910_set_dim ?pct (fw_hv fw)
      else if 0 < ?pct then hv9910_enable_at ?pct (fw_hv fw) else fw_hv fw"
  have ok: "hv_inv (fw_hv fw)" "mg_sources (fw_mg fw) \<noteq> []"
    using assms(3) reachable_inv by (auto simp: system_ok_def firmware_ok_def table_ok_def fw_def fw_const)
  have node: "xs_cfg (dn_xs (tk_node ?t)) = cfg" "dn_mg (tk_node ?t) = fw_mg fw" "dn_xs (tk_node ?t) = fw_xs fw"
    by (simp_all add: node_of_def cfg_def)
  have idle: "hv_task_ready (fw_hv fw)" "hv_cmd_queue (fw_hv fw) = []" "hv_pending (fw_hv fw) = PENDING_NONE"
    using assms(5) by (simp_all add: awaits_frame_def driver_idle_def)
  have "snd (dmx_input_iterate i (fw_tps fw) (fw_pm fw) (?t, fw_hv fw)) = ?hv1"
    using first_frame_actuates [where t = ?t and i = i and tps = "fw_tps fw" and pm = "fw_pm fw" and hv = "fw_hv fw" and f = f]
      assms(5-8) node ok(2) by (simp add: awaits_frame_def Let_def)
  then obtain s1 where s1: "system_exec powf hz (EV_DMX i) s = Some s1" "fw_hv (sy_fw s1) = ?hv1"
    using assms(4) by (simp add: dmx_iteration_def fw_def split_def Let_def)
  have ready: "hv_task_ready ?hv1" using idle(1) by (simp add: hv9910_set_dim_def hv9910_enable_at_def)
  have "?pct \<le> 100" by (simp add: frame_percent_def Let_def level_to_percent_le)
  then have "shows_level powf (pct_to_q ?pct) (hv9910_task_step powf hz now ?hv1)"
    using level_command_shows ok(1) idle by blast
  then show ?thesis using s1 ready by (simp add: Let_def)
qed

section \<open>Properties\<close>

text \<open>What a datagram with its slots at offset \<open>off\<close> says for the patch, in percent.\<close>

definition datagram_percent :: "nat \<Rightarrow> dmx_input_config \<Rightarrow> bytes \<Rightarrow> u8" where
  "datagram_percent off cfg buf =
     (let i = off + unat (xc_dmx_address cfg - 1)
      in level_to_percent cfg (buf ! i) (if dmx_channels cfg = 2 then buf ! (i + 1) else 0))"

lemma datagram_frame:
  assumes "fr_slots f = drop off buf" and "off \<le> length buf"
  shows "frame_percent cfg f = datagram_percent off cfg buf"
  using assms by (simp add: frame_percent_def datagram_percent_def Let_def add.assoc)

text \<open>
  C9: the light follows the console. When an ArtDmx frame for the configured universe reaches
  a powered device whose layer has no live source, the DMX iteration that receives it at its
  actuation tick and the next iteration of the driver task leave the LED showing exactly the
  level of the patched slots, under the current cap and dimming configuration. The device is
  quiescent (\<open>awaits_frame\<close>): the tick and the actuation interval are due, no configuration
  change is pending, the layer has applied no level since its last source fell silent, power is
  confirmed and the policy allows light, and the driver has nothing queued or scheduled.
\<close>

theorem artdmx_frame_lights:
  fixes s i t
  defines "fw \<equiv> sy_fw s"
  defines "cfg \<equiv> xs_cfg (fw_xs fw)"
  assumes "system_ok powf hz s" and "sy_dmx s = Some t" and "awaits_frame i t fw"
    and "ti_artnet i = Some (buf, ip, port, ti_now i)" and "ti_sacn i = None" and "length buf \<le> RX_BUF_SIZE"
    and "tk_artnet_sock t" and "artnet_parse_common buf = Some ARTNET_OP_DMX" and "artnet_frame cfg buf ip = Some f"
    and "unat (xc_dmx_address cfg - 1) + dmx_channels cfg \<le> unat (fr_nslots f)"
  shows "\<exists>s'. system_run powf hz [EV_DMX i, EV_DRIVER now] s = Some s'
     \<and> shows_level powf (pct_to_q (datagram_percent ARTNET_DMX_HDR_LEN cfg buf)) (fw_hv (sy_fw s'))"
proof -
  have "delivers i (t\<lparr>tk_node := node_of fw\<rparr>) f"
    using assms(5-11) by (intro artnet_delivers) (simp_all add: node_of_def cfg_def awaits_frame_def)
  moreover have "frame_percent cfg f = datagram_percent ARTNET_DMX_HDR_LEN cfg buf" "\<not> fr_terminated f"
    using artnet_frame_SomeE(1,6) [OF assms(11)] by (simp_all add: datagram_frame)
  ultimately show ?thesis
    using delivered_frame_lights [OF assms(3,4)] assms(5,12) unfolding cfg_def fw_def by metis
qed

text \<open>The example device in operation, lit at half level, with an Art-Net patch and a silent universe.\<close>

definition stage_device :: system where
  "stage_device = system_powered\<lparr>sy_fw := (sy_fw system_powered)\<lparr>fw_hv := lit_example, fw_tps := tps_type1,
     fw_pm := example_pm, fw_mg := drop_all_sources dmx_merge_statics,
     fw_xs := \<lparr>xs_cfg = artnet_patch, xs_cfg_changed = False, xs_started = True, xs_nvs_ok = False, xs_blob = None\<rparr>\<rparr>,
     sy_dmx := Some example_task\<rparr>"

lemma stage_device_ok: "system_ok (\<lambda>p e. p) 100 stage_device"
proof -
  have "system_ok (\<lambda>p e. p) 100 system_powered" by (rule reachable_ok [OF powered_reachable])
  moreover have "dmx_config_valid artnet_patch"
    by (simp add: artnet_patch_def dmx_config_defaults_def dmx_config_valid_def dmx_channels_def fw_const)
  moreover have "tps_coherent tps_type1" using monitor_run_start unfolding tps_type1_def by blast
  moreover have "sy_powered system_powered" by (simp add: system_powered_def app_main_power_def Let_def split_def)
  ultimately show ?thesis
    using lit_example_reachable
    by (simp add: system_ok_def firmware_ok_def stage_device_def fw_secret_def xs_good_def)
qed

lemma lit_example_idle: "driver_idle lit_example"
proof -
  have "hv_pending lit_example = PENDING_NONE"
    by (simp add: lit_example_def hv_api_defs post_cmd_def hv9910_init_def xQueueSend_def Let_def task_step_head fw_const
        hv_do_enable_def hv_do_set_dim_def)
  then show ?thesis using lit_example_ready lit_example_queue by (simp add: driver_idle_def)
qed

lemma stage_device_awaits:
  assumes "ti_now i = 30000"
  shows "awaits_frame i example_task (sy_fw stage_device\<lparr>fw_xs := (fw_xs (sy_fw stage_device))\<lparr>xs_cfg := cfg\<rparr>\<rparr>)"
  using assms lit_example_idle
  by (simp add: awaits_frame_def stage_device_def example_task_def drop_all_sources_def dmx_source_zero_def
        dmx_merge_statics_def tps2378_is_ready_def tps_type1_values power_manager_output_allowed_def example_pm_def
        pm_statics_init_def fw_const list_all_iff)

theorem artdmx_frame_lights_witness:
  "\<exists>s'. system_run (\<lambda>p e. p) 100 [EV_DMX (example_input 30000), EV_DRIVER 20] stage_device = Some s'
     \<and> shows_level (\<lambda>p e. p) (pct_to_q 50) (fw_hv (sy_fw s'))"
proof -
  have pct: "datagram_percent ARTNET_DMX_HDR_LEN artnet_patch example_artdmx = 50" unfolding artnet_patch_def by code_simp
  have "artnet_parse_common example_artdmx = Some ARTNET_OP_DMX" by code_simp
  moreover have "unat (xc_dmx_address artnet_patch - 1) + dmx_channels artnet_patch \<le> 2"
    by (simp add: artnet_patch_def dmx_config_defaults_def dmx_channels_def fw_const)
  moreover have "length example_artdmx \<le> RX_BUF_SIZE" by code_simp
  moreover have cfg: "xs_cfg (fw_xs (sy_fw stage_device)) = artnet_patch" "sy_dmx stage_device = Some example_task"
    by (simp_all add: stage_device_def)
  ultimately show ?thesis
    using artdmx_frame_lights [OF stage_device_ok, where t = example_task and i = "example_input 30000" and now = 20
        and buf = example_artdmx and ip = 7 and port = 6454 and f = "the (artnet_frame artnet_patch example_artdmx 7)"]
      stage_device_awaits [of "example_input 30000" artnet_patch] example_artdmx_frame
    by (simp add: cfg pct example_input_def del: system_run.simps) (simp add: stage_device_def example_task_def del: system_run.simps)
qed

text \<open>
  C10: the same for a streaming-ACN console: a data packet for the configured universe that is
  no preview and does not end its stream lights the LED at the level of the patched slots,
  whatever its priority and its sequence number, since a source without a history has nothing to
  be out of sequence with. The device is quiescent as in the property before.
\<close>

theorem sacn_frame_lights:
  fixes s i t
  defines "fw \<equiv> sy_fw s"
  defines "cfg \<equiv> xs_cfg (fw_xs fw)"
  assumes "system_ok powf hz s" and "sy_dmx s = Some t" and "awaits_frame i t fw"
    and "ti_artnet i = None" and "ti_sacn i = Some (buf, ip, port, ti_now i)" and "length buf \<le> RX_BUF_SIZE"
    and "tk_sacn_sock t" and "sacn_frame cfg buf ip = Some f" and "\<not> fr_terminated f"
    and "unat (xc_dmx_address cfg - 1) + dmx_channels cfg \<le> unat (fr_nslots f)"
  shows "\<exists>s'. system_run powf hz [EV_DMX i, EV_DRIVER now] s = Some s'
     \<and> shows_level powf (pct_to_q (datagram_percent (SACN_OFF_PROP_VALUES + 1) cfg buf)) (fw_hv (sy_fw s'))"
proof -
  have "delivers i (t\<lparr>tk_node := node_of fw\<rparr>) f"
    using assms(5-10) by (intro sacn_delivers) (simp_all add: node_of_def cfg_def awaits_frame_def)
  moreover have "SACN_OFF_PROP_VALUES + 1 \<le> length buf" using sacn_frame_SomeE(1) [OF assms(10)] by (simp add: fw_const)
  then have "frame_percent cfg f = datagram_percent (SACN_OFF_PROP_VALUES + 1) cfg buf"
    using sacn_frame_SomeE(6) [OF assms(10)] by (simp add: datagram_frame)
  ultimately show ?thesis
    using delivered_frame_lights [OF assms(3,4)] assms(5,11,12) unfolding cfg_def fw_def by metis
qed

text \<open>A data packet with one slot, at half level, and the device with its universe patched.\<close>

definition example_sacn :: bytes where
  "example_sacn = [0, 0x10, 0, 0] @ ACN_PACKET_ID @ [0x70, 0x6f, 0, 0, 0, 4] @ replicate 16 5
     @ [0x70, 0x59, 0, 0, 0, 2] @ replicate 64 0 @ [100, 0, 0, 7, 0, 0, 3]
     @ [0x70, 0x0c, 2, 0xa1, 0, 0, 0, 1, 0, 2, 0, 0x80]"

definition sacn_patch :: dmx_input_config where
  "sacn_patch = dmx_config_defaults\<lparr>xc_layer_enabled := 1, xc_sacn_universe := 3\<rparr>"

definition sacn_device :: system where
  "sacn_device = stage_device\<lparr>sy_fw := (sy_fw stage_device)\<lparr>fw_xs := (fw_xs (sy_fw stage_device))\<lparr>xs_cfg := sacn_patch\<rparr>\<rparr>,
     sy_dmx := Some (example_task\<lparr>tk_sacn_sock := True\<rparr>)\<rparr>"

definition sacn_input :: task_input where
  "sacn_input = (example_input 30000)\<lparr>ti_artnet := None, ti_sacn := Some (example_sacn, 7, 5568, 30000)\<rparr>"

lemma sacn_device_ok: "system_ok (\<lambda>p e. p) 100 sacn_device"
proof -
  have "dmx_config_valid sacn_patch"
    by (simp add: sacn_patch_def dmx_config_defaults_def dmx_config_valid_def dmx_channels_def fw_const)
  then show ?thesis
    using stage_device_ok
    by (simp add: system_ok_def firmware_ok_def sacn_device_def stage_device_def fw_secret_def xs_good_def)
qed

theorem sacn_frame_lights_witness:
  "\<exists>s'. system_run (\<lambda>p e. p) 100 [EV_DMX sacn_input, EV_DRIVER 20] sacn_device = Some s'
     \<and> shows_level (\<lambda>p e. p) (pct_to_q 50) (fw_hv (sy_fw s'))"
proof -
  let ?f = "the (sacn_frame sacn_patch example_sacn 7)"
  have pct: "datagram_percent (SACN_OFF_PROP_VALUES + 1) sacn_patch example_sacn = 50" by code_simp
  have "sacn_frame sacn_patch example_sacn 7 \<noteq> None" by code_simp
  then have "sacn_frame sacn_patch example_sacn 7 = Some ?f" by auto
  moreover have "\<not> fr_terminated ?f" "fr_nslots ?f = 1" "length example_sacn \<le> RX_BUF_SIZE" by code_simp+
  moreover have "unat (xc_dmx_address sacn_patch - 1) + dmx_channels sacn_patch = 1" by code_simp
  moreover have "awaits_frame sacn_input (example_task\<lparr>tk_sacn_sock := True\<rparr>) (sy_fw sacn_device)"
    using stage_device_awaits [of sacn_input sacn_patch]
    by (simp add: sacn_input_def example_input_def sacn_device_def awaits_frame_def)
  moreover have cfg: "xs_cfg (fw_xs (sy_fw sacn_device)) = sacn_patch"
      "sy_dmx sacn_device = Some (example_task\<lparr>tk_sacn_sock := True\<rparr>)"
    by (simp_all add: sacn_device_def)
  ultimately show ?thesis
    using sacn_frame_lights [OF sacn_device_ok, where t = "example_task\<lparr>tk_sacn_sock := True\<rparr>" and i = sacn_input
        and now = 20 and buf = example_sacn and ip = 7 and port = 5568 and f = ?f]
    by (simp add: cfg pct [simplified] sacn_input_def example_input_def del: system_run.simps)
qed

text \<open>
  C13: a DIM command acts on the light. A packet the admin channel carries out, asking for
  \<open>p\<close> percent, is followed at the driver's next iteration by an LED that shows exactly
  that level when power is confirmed and output allowed, or when \<open>p\<close> is zero; otherwise the
  outputs stay as they are and the level is remembered for the moment power returns. The driver has
  nothing queued when the packet arrives, so that the command is the next it takes.
\<close>

theorem dim_command_lights:
  fixes s e src datagram
  defines "fw \<equiv> sy_fw s" and "buf \<equiv> take ADMIN_MAX_PACKET datagram"
  assumes "sy_admin s" and "executed e buf src fw = Some hdr" and "ph_type hdr = ADMIN_TYPE_DIM"
    and "payload_part hdr buf = [p, r3, r2, r1, r0]" and "p \<le> 100"
    and "hv_task_ready (fw_hv fw)" and "hv_cmd_queue (fw_hv fw) = []"
  shows "\<exists>s'. system_run powf hz [EV_ADMIN e (Some (datagram, src)), EV_DRIVER now] s = Some s'
     \<and> (let hv' = fw_hv (sy_fw s')
        in if p = 0 \<or> tps2378_is_ready (fw_tps fw) \<and> power_manager_output_allowed (fw_pm fw)
           then shows_level powf (pct_to_q p) hv'
           else ledc_pwmd_duty hv' = ledc_pwmd_duty (fw_hv fw) \<and> ledc_ld_duty hv' = ledc_ld_duty (fw_hv fw)
              \<and> hv_last_nonzero_percent hv' = p \<and> hv9910_pending_on hv')"
proof -
  let ?fw1 = "handle_dim e hdr [p, r3, r2, r1, r0] src (admitted e hdr src fw)"
  have "buf \<noteq> []" using well_formed_fields(3) [of buf hdr] assms(4) by (auto simp: executed_Some)
  then have fw1: "admin_channel_iterate e (Some (datagram, src)) fw = ?fw1"
    using assms(5,6) handle_packet_executed [OF assms(4)]
    by (simp add: admin_channel_iterate_def Let_def dispatch_packet_def fw_const fw_def buf_def)
  let ?s1 = "admin_iteration e (Some (datagram, src)) s"
  have e1: "system_exec powf hz (EV_ADMIN e (Some (datagram, src))) s = Some ?s1" using assms(3) by simp
  have s1: "sy_fw ?s1 = ?fw1" using fw1 by (simp add: fw_def)
  have cap: "\<not> 100 < p" using assms(7) by (simp add: not_less)
  define hv1 where "hv1 = (if p = 0 then hv9910_disable (fw_hv fw)
    else if \<not> tps2378_is_ready (fw_tps fw) \<or> \<not> power_manager_output_allowed (fw_pm fw)
    then hv9910_set_pending True p (fw_hv fw) else hv9910_enable_at p (fw_hv fw))"
  have hv1: "fw_hv ?fw1 = hv1" using cap by (simp add: handle_dim_def Let_def hv1_def)
  then have ready: "hv_task_ready (fw_hv ?fw1)"
    using assms(8) by (simp add: hv1_def hv9910_disable_def hv9910_set_pending_def hv9910_enable_at_def)
  let ?s' = "?s1\<lparr>sy_fw := ?fw1\<lparr>fw_hv := hv9910_task_step powf hz now hv1\<rparr>\<rparr>"
  have e2: "system_exec powf hz (EV_DRIVER now) ?s1 = Some ?s'"
    using ready by (simp add: Let_def hv1 s1 del: admin_iteration_simps(1))
  have run: "system_run powf hz [EV_ADMIN e (Some (datagram, src)), EV_DRIVER now] s = Some ?s'"
    by (simp only: system_run.simps e1 e2 option.case)
  have zero: "shows_level powf 0 (apply_level powf 0 u)" for u
    by (simp add: shows_level_def apply_level_output Let_def)
  have "if p = 0 \<or> tps2378_is_ready (fw_tps fw) \<and> power_manager_output_allowed (fw_pm fw)
      then shows_level powf (pct_to_q p) (hv9910_task_step powf hz now hv1)
      else let hv' = hv9910_task_step powf hz now hv1
           in ledc_pwmd_duty hv' = ledc_pwmd_duty (fw_hv fw) \<and> ledc_ld_duty hv' = ledc_ld_duty (fw_hv fw)
              \<and> hv_last_nonzero_percent hv' = p \<and> hv9910_pending_on hv'"
    using assms(8,9) cap
    by (auto simp: hv1_def hv9910_disable_def hv9910_set_pending_def hv9910_enable_at_def post_then_step
        hv_do_disable_def hv_do_enable_def hv_do_set_dim_def apply_shows zero hv9910_pending_on_def Let_def word_gt_0)
  then show ?thesis using run by (auto simp: Let_def)
qed

lemma stage_session: "in_session 0 stage_device"
  using session_start [unfolded in_session_def]
  by (simp add: in_session_def stage_device_def fw_secret_def device_serial_def)

lemma stage_login:
  "\<exists>s1. system_exec powf hz session_login stage_device = Some s1 \<and> in_session 1 s1 \<and> holds_ticket s1
     \<and> fw_hv (sy_fw s1) = lit_example \<and> fw_tps (sy_fw s1) = tps_type1 \<and> fw_pm (sy_fw s1) = example_pm"
proof -
  let ?h = "header_of session_serial ADMIN_TYPE_CHALLENGE (replicate 16 0) []"
  have sp: "fst (spend example_env ?h example_client (sy_fw stage_device))" by (simp add: spend_def spends_nonce_def)
  have types: "ADMIN_TYPE_CHALLENGE \<notin> {ADMIN_TYPE_INFO, ADMIN_TYPE_CHANGE_SECRET, ADMIN_TYPE_REBOOT, ADMIN_TYPE_FACTORY_RESET}"
    "length (replicate 16 (0 :: u8)) = 16" "length ([] :: bytes) \<le> ADMIN_MAX_PAYLOAD" "0 < (40 :: nat)" "Suc 0 = 1"
    by (simp_all add: fw_const)
  obtain s1 where s1: "system_exec powf hz session_login stage_device = Some s1" "in_session 1 s1" "holds_ticket s1"
    using session_login_ok [OF stage_session types(4), of powf hz] unfolding types(5) by blast
  have "sy_fw s1 = handle_challenge example_env ?h example_client (admitted example_env ?h example_client (sy_fw stage_device))"
    using session_step [OF stage_session types(4,2,3,1) sp, of powf hz] s1(1) by (auto simp: dispatch_packet_def Let_def)
  then have "fw_hv (sy_fw s1) = fw_hv (sy_fw stage_device)" "fw_tps (sy_fw s1) = fw_tps (sy_fw stage_device)"
      "fw_pm (sy_fw s1) = fw_pm (sy_fw stage_device)"
    by (simp_all add: handle_challenge_def Let_def split: option.split prod.split)
  then show ?thesis using s1 by (simp add: stage_device_def)
qed

theorem dim_command_lights_witness:
  "\<exists>s1 s'. system_exec (\<lambda>p e. p) 100 session_login stage_device = Some s1
     \<and> system_run (\<lambda>p e. p) 100 [session_event ADMIN_TYPE_DIM session_nonce [30, 0, 0, 0, 0], EV_DRIVER 20] s1 = Some s'
     \<and> shows_level (\<lambda>p e. p) (pct_to_q 30) (fw_hv (sy_fw s'))"
proof -
  let ?t = ADMIN_TYPE_DIM and ?p = "[30, 0, 0, 0, 0] :: bytes"
  let ?h = "header_of session_serial ?t session_nonce ?p" and ?d = "session_packet ADMIN_TYPE_DIM session_nonce [30, 0, 0, 0, 0]"
  obtain s1 where s1: "system_exec (\<lambda>p e. p) 100 session_login stage_device = Some s1" "in_session 1 s1" "holds_ticket s1"
      "fw_hv (sy_fw s1) = lit_example" "fw_tps (sy_fw s1) = tps_type1" "fw_pm (sy_fw s1) = example_pm"
    using stage_login by blast
  have len: "length ?p \<le> ADMIN_MAX_PAYLOAD" "length session_nonce = 16" "1 < (40 :: nat)"
    "?t \<notin> {ADMIN_TYPE_INFO, ADMIN_TYPE_CHANGE_SECRET, ADMIN_TYPE_REBOOT, ADMIN_TYPE_FACTORY_RESET}" by (simp_all add: fw_const session_nonce_def)
  have "admin_command (session_event ?t session_nonce ?p) s1 = Some (example_env, example_client, ?h)"
    using session_command_ok [OF s1(2) len(3) s1(3) len(1,4), of "\<lambda>p e. p" 100] by blast
  then have x: "executed example_env (take ADMIN_MAX_PACKET ?d) example_client (sy_fw s1) = Some ?h"
    by (simp add: session_event_def)
  have "payload_part ?h (take ADMIN_MAX_PACKET ?d) = ?p" by (rule session_payload [OF len(2,1)])
  moreover have "sy_admin s1" using s1(2) by (simp add: in_session_def)
  ultimately have "\<exists>s'. system_run (\<lambda>p e. p) 100 [EV_ADMIN example_env (Some (?d, example_client)), EV_DRIVER 20] s1 = Some s'
      \<and> shows_level (\<lambda>p e. p) (pct_to_q 30) (fw_hv (sy_fw s'))"
    using dim_command_lights [of s1 example_env ?d example_client ?h 30 0 0 0 0 "\<lambda>p e. p" 100 20] x
      lit_example_ready lit_example_queue
    by (simp add: s1(4-6) tps2378_is_ready_def tps_type1_values power_manager_output_allowed_def example_pm_def
        pm_statics_init_def Let_def del: system_run.simps)
  then show ?thesis using s1(1) by (auto simp: session_event_def simp del: system_run.simps)
qed

end
