(* ===== verification/Power_Path.thy ===== *)
theory Power_Path
  imports Policy_In_Force Light_Path
begin

text \<open>
  Power events from the monitor's inputs to the LED: the loss of power is the next thing the
  driver acts on, whatever the other tasks do in between, and its return relights the LED at
  the level the network last asked for, under the cap of the new power class.
\<close>

section \<open>Loss\<close>

text \<open>The next command the driver takes is the emergency-off.\<close>

definition cut_next :: "hv_state \<Rightarrow> bool" where
  "cut_next hv \<longleftrightarrow> hv_task_ready hv \<and> length (hv_cmd_queue hv) \<le> CMD_QUEUE_LEN
     \<and> (case hv_cmd_queue hv of [] \<Rightarrow> False | c # cs \<Rightarrow> c = HV_CMD_EMERGENCY_OFF)"

lemma cut_next_post: "cut_next hv \<Longrightarrow> cut_next (post_cmd c False hv)"
  by (auto simp: cut_next_def post_cmd_queue split: list.splits)

lemma cut_next_emergency:
  assumes "hv_task_ready hv" and "length (hv_cmd_queue hv) \<le> CMD_QUEUE_LEN"
  shows "cut_next (hv9910_emergency_disable hv)"
proof -
  have "0 < CMD_QUEUE_LEN" by (simp add: fw_const)
  then show ?thesis
    using assms by (auto simp: cut_next_def hv9910_emergency_disable_def post_cmd_front_queue)
qed

lemma evaluate_cut_next:
  assumes "pm_coherent tps drv" and "cut_next hv"
  shows "cut_next (snd (evaluate tps drv (s, hv)))"
proof -
  have "cut_next (hv9910_emergency_disable hv)" using assms(2) by (intro cut_next_emergency) (simp_all add: cut_next_def)
  moreover have scaled: "cut_next (hv9910_set_output_scale p hv)" for p
    using assms(2) by (simp add: hv9910_set_output_scale_def cut_next_post)
  moreover have "cut_next (hv9910_enable (hv9910_set_output_scale p hv))" for p
    using scaled by (simp add: hv9910_enable_def hv9910_enable_at_def cut_next_post Let_def)
  ultimately show ?thesis by (simp add: evaluate_coherent [OF assms(1,1)] Let_def split_def)
qed

interpretation cutting: driver_traffic "\<lambda>st st'. cut_next (snd st) \<longrightarrow> cut_next (snd st')"
  by unfold_locales (simp_all add: cut_next_post evaluate_cut_next)

lemma cut_next_step:
  fixes now
  assumes "hv_reachable powf hz hv" and "cut_next hv"
  defines "t \<equiv> hv9910_task_step powf hz now hv"
  shows "hv_dark t" and "hv_power_cut t" and "hv_level_q t = 0" and "hv_pending t = PENDING_NONE"
proof -
  obtain cs where "hv_cmd_queue hv = HV_CMD_EMERGENCY_OFF # cs"
    using assms(2) by (auto simp: cut_next_def split: list.splits)
  then show cut: "hv_power_cut t" and "hv_level_q t = 0" and "hv_pending t = PENDING_NONE"
    by (simp_all add: t_def task_step_head emergency_off_state)
  have "hv_inv t" unfolding t_def by (rule task_step_inv [OF reachable_inv [OF assms(1)]])
  then show "hv_dark t" using cut by (rule inv_cut_dark)
qed

text \<open>Whether the driver's task exists is settled at boot.\<close>

interpretation alive: driver_traffic "\<lambda>st st'. hv_task_ready (snd st) \<longrightarrow> hv_task_ready (snd st')"
  by unfold_locales (simp_all add: evaluate_ready)

text \<open>The monitor's iteration in which power is lost.\<close>

lemma loss_cuts:
  fixes cdb t2p mv drv tps s hv
  assumes "tps_coherent tps" and "drv_started drv" and "pm_lock s" and "ts_is_ready tps"
    and "\<not> ts_is_ready (fst (poe_monitor_step cdb t2p mv tps))"
    and "hv_task_ready hv" and "length (hv_cmd_queue hv) \<le> CMD_QUEUE_LEN"
  shows "cut_next (snd (snd (monitor_tick cdb t2p mv drv (tps, s, hv))))"
proof -
  let ?t = "fst (poe_monitor_step cdb t2p mv tps)"
  have coh: "tps_coherent ?t" by (rule monitor_step_coherent [OF assms(1)])
  then have pm: "pm_coherent ?t drv" using assms(2) by (simp add: pm_coherent_def tps_coherent_def)
  have dark: "policy_dark (fst (power_policy (ts_source ?t) (drv_cfg drv)))"
    using coh assms(5) by (simp add: tps_coherent_def power_policy_def policy_dark_def)
  have "snd (evaluate ?t drv (p, hv)) = hv9910_emergency_disable hv" for p hv
    using dark by (simp add: evaluate_coherent [OF pm pm] Let_def split_def)
  then have "cut_next (snd (pm_on_event ?t drv ON_POWER_LOST (s, hv)))"
    using assms(3,6,7) by (simp add: power_manager_tps_lost_def locked_evaluate_def cut_next_emergency)
  then have "cut_next (snd (fold (pm_on_event ?t drv) [ON_SOURCE_CHANGED TPS2378_SOURCE_NONE]
      (pm_on_event ?t drv ON_POWER_LOST (s, hv))))"
    using cutting.events_moves [OF pm] by blast
  then show ?thesis
    using monitor_step_events [OF assms(1), of cdb t2p mv] assms(4,5)
    by (simp add: monitor_tick_def split_def Let_def)
qed

section \<open>Return\<close>

text \<open>What the driver's queue holds after the monitor's iteration in which power comes back.\<close>

lemma return_queue:
  fixes cdb t2p mv drv tps s hv
  defines "tps' \<equiv> fst (poe_monitor_step cdb t2p mv tps)"
  defines "cap \<equiv> snd (power_policy (ts_source tps') (drv_cfg drv))" and "p \<equiv> resume_level hv"
  assumes "tps_coherent tps" and "drv_started drv" and "pm_lock s" and "\<not> ts_is_ready tps" and "ts_is_ready tps'"
    and "\<not> policy_dark (fst (power_policy (ts_source tps') (drv_cfg drv)))"
    and "hv_task_ready hv" and "hv_cmd_queue hv = []" and "hv_desired_on hv"
  defines "r \<equiv> snd (snd (monitor_tick cdb t2p mv drv (tps, s, hv)))"
  shows "hv_task_ready r"
    and "hv_cmd_queue r = [HV_CMD_SET_SCALE cap, HV_CMD_SET_SCALE cap, HV_CMD_ENABLE p]
       \<or> hv_cmd_queue r = [HV_CMD_SET_SCALE cap, HV_CMD_ENABLE p, HV_CMD_SET_SCALE cap, HV_CMD_ENABLE p]"
proof -
  have coh: "tps_coherent tps'" unfolding tps'_def by (rule monitor_step_coherent [OF assms(4)])
  have pm: "pm_coherent tps' drv" using coh assms(5) by (simp add: pm_coherent_def tps_coherent_def)
  have ev: "snd (poe_monitor_step cdb t2p mv tps) = [ON_POWER_READY (ts_source tps'), ON_SOURCE_CHANGED (ts_source tps')]"
    using monitor_step_events [OF assms(4), of cdb t2p mv] assms(7,8) by (simp add: tps'_def)
  let ?one = "evaluate tps' drv (s, hv)" and ?two = "evaluate tps' drv (evaluate tps' drv (s, hv))"
  have lock: "pm_lock (fst ?one)" using assms(6) by simp
  have r: "r = snd ?two"
    using assms(6) lock
    by (cases ?one) (simp add: r_def monitor_tick_def split_def Let_def ev tps'_def [symmetric] power_manager_tps_ready_def
        power_manager_tps_source_changed_def locked_evaluate_def)
  have frame: "hv_desired_on (snd ?one)" "hv_task_ready (snd ?one)" "hv_last_nonzero_percent (snd ?one) = hv_last_nonzero_percent hv"
    "pm_first_ready_seen (fst ?one)"
    using assms(9,10,12)
    by (simp_all add: evaluate_coherent [OF pm pm] Let_def split_def evaluate_ready [OF pm] hv9910_set_output_scale_def
        hv9910_enable_def hv9910_enable_at_def)
  have q1: "hv_cmd_queue (snd ?one) = HV_CMD_SET_SCALE cap #
      (if pm_first_ready_seen s \<or> pm_settle_timer s \<noteq> TIMER_STOPPED then [HV_CMD_ENABLE p] else [])"
    using evaluate_commands [OF pm assms(10) _ assms(9), of s] assms(11,12) by (simp add: cap_def p_def fw_const)
  have "length (hv_cmd_queue (snd ?one)) + 2 \<le> CMD_QUEUE_LEN" by (simp add: q1 fw_const)
  from evaluate_commands [OF pm frame(2) this assms(9), of "fst ?one"]
  have "hv_cmd_queue r = hv_cmd_queue (snd ?one) @ [HV_CMD_SET_SCALE cap, HV_CMD_ENABLE p]"
    using frame by (simp add: r cap_def p_def resume_level_def)
  then show "hv_cmd_queue r = [HV_CMD_SET_SCALE cap, HV_CMD_SET_SCALE cap, HV_CMD_ENABLE p]
       \<or> hv_cmd_queue r = [HV_CMD_SET_SCALE cap, HV_CMD_ENABLE p, HV_CMD_SET_SCALE cap, HV_CMD_ENABLE p]"
    by (simp add: q1)
  show "hv_task_ready r"
    using frame(2) evaluate_ready [OF pm, of "fst ?one" "snd ?one"] by (simp add: r)
qed

lemma enable_step:
  fixes powf hz now
  assumes "hv_cmd_queue s = [HV_CMD_ENABLE p]" and "p \<le> 100"
  defines "t \<equiv> hv9910_task_step powf hz now s"
  shows "shows_level powf (pct_to_q p) t" and "hv_cmd_queue t = []" and "hv_pending t = PENDING_NONE"
proof -
  have "\<not> 100 < p" using assms(2) by (simp add: not_less)
  then show "shows_level powf (pct_to_q p) t"
    using assms(1) by (simp add: t_def task_step_head hv_do_enable_def hv_do_set_dim_def apply_shows)
  show "hv_cmd_queue t = []" using assms(1) by (simp add: t_def task_step_queue)
  show "hv_pending t = PENDING_NONE"
    using assms(1) by (simp add: t_def task_step_head hv_do_enable_def hv_do_set_dim_def)
qed

lemma unqueued_step: "hv_cmd_queue s = [] \<Longrightarrow> hv_pending s = PENDING_NONE \<Longrightarrow> hv9910_task_step powf hz now s = s"
  by (simp add: hv9910_task_step_def xQueueReceive_def)

text \<open>Four iterations of the driver carry out whichever of the two it is.\<close>

lemma return_shows:
  fixes powf hz t1 t2 t3 t4
  assumes "hv_cmd_queue r = [HV_CMD_SET_SCALE cap, HV_CMD_SET_SCALE cap, HV_CMD_ENABLE p]
       \<or> hv_cmd_queue r = [HV_CMD_SET_SCALE cap, HV_CMD_ENABLE p, HV_CMD_SET_SCALE cap, HV_CMD_ENABLE p]"
    and "p \<le> 100"
  defines "t \<equiv> fold (hv9910_task_step powf hz) [t1, t2, t3, t4] r"
  shows "shows_level powf (pct_to_q p) t" and "hv_output_scale_q t = scale_q cap"
proof -
  let ?st = "hv9910_task_step powf hz"
  have "coming_cap t = coming_cap r" by (simp add: t_def step_cap)
  then have coming: "coming_cap t = scale_q cap" using assms(1) by (auto simp: coming_cap_def [of r])
  have "shows_level powf (pct_to_q p) t \<and> hv_cmd_queue t = []"
    using assms(1)
  proof
    assume q: "hv_cmd_queue r = [HV_CMD_SET_SCALE cap, HV_CMD_SET_SCALE cap, HV_CMD_ENABLE p]"
    then have "hv_cmd_queue (?st t2 (?st t1 r)) = [HV_CMD_ENABLE p]" by (simp add: task_step_queue)
    note e = enable_step [OF this assms(2), of powf hz t3]
    have "t = ?st t3 (?st t2 (?st t1 r))" by (simp add: t_def unqueued_step [OF e(2,3)])
    then show ?thesis using e by simp
  next
    assume q: "hv_cmd_queue r = [HV_CMD_SET_SCALE cap, HV_CMD_ENABLE p, HV_CMD_SET_SCALE cap, HV_CMD_ENABLE p]"
    then have "hv_cmd_queue (?st t3 (?st t2 (?st t1 r))) = [HV_CMD_ENABLE p]" by (simp add: task_step_queue)
    note e = enable_step [OF this assms(2), of powf hz t4]
    then show ?thesis by (simp add: t_def)
  qed
  then show "shows_level powf (pct_to_q p) t" and "hv_output_scale_q t = scale_q cap"
    using coming by (simp_all add: coming_cap_def [of t])
qed

section \<open>Properties\<close>

text \<open>
  C3: the loss of power darkens the LED. In whatever state the monitor's iteration finds the
  power gone, and whatever every other task does before the driver's next iteration (further
  ON, DIM or IDENTIFY commands, DMX frames and configuration changes included), that iteration
  leaves both outputs at zero, the latch set, and no blink or level behind.
\<close>

theorem power_loss_darkens:
  assumes "system_ok powf hz s" and "pm_lock (fw_pm (sy_fw s))" and "hv_task_ready (fw_hv (sy_fw s))"
    and "ts_is_ready (fw_tps (sy_fw s))" and "\<not> ts_is_ready (fst (poe_monitor_step cdb t2p mv (fw_tps (sy_fw s))))"
    and "\<forall>ev\<in>set evs. \<forall>now. ev \<noteq> EV_DRIVER now"
    and "system_run powf hz (EV_MONITOR cdb t2p mv # evs @ [EV_DRIVER now]) s = Some s'"
  shows "hv_dark (fw_hv (sy_fw s')) \<and> hv_power_cut (fw_hv (sy_fw s')) \<and> hv_level_q (fw_hv (sy_fw s')) = 0
     \<and> hv_pending (fw_hv (sy_fw s')) = PENDING_NONE"
proof -
  obtain s1 s2 where s1: "system_exec powf hz (EV_MONITOR cdb t2p mv) s = Some s1"
    and s2: "system_run powf hz evs s1 = Some s2" and s': "system_exec powf hz (EV_DRIVER now) s2 = Some s'"
    using assms(7) unfolding append_Cons system_run.simps run_append by (auto split: option.splits)
  have "tps_coherent (fw_tps (sy_fw s))" "drv_started (fw_drv (sy_fw s))"
    using assms(1) by (simp_all add: system_ok_def firmware_ok_def drv_good_def)
  from loss_cuts [OF this assms(2,4,5,3) system_queue [OF assms(1)]]
  have "cut_next (fw_hv (sy_fw s1))" using s1 by (auto simp: Let_def split_def)
  then have cut: "cut_next (fw_hv (sy_fw s2))"
    using cutting.run_moves [OF exec_ok [OF assms(1) s1] s2 assms(6)] by simp
  have "system_ok powf hz s2" by (rule system_run_ok [OF exec_ok [OF assms(1) s1] s2])
  then have "hv_reachable powf hz (fw_hv (sy_fw s2))" by (simp add: system_ok_def firmware_ok_def)
  from cut_next_step [OF this cut] show ?thesis using s' by (auto simp: Let_def split: if_splits)
qed

text \<open>A lit device whose bus voltage has read zero five times.\<close>

definition tps_fading :: tps_state where
  "tps_fading = poe_monitor_run [(1, 1, 48000), (1, 1, 48000), (1, 1, 48000), (1, 1, 48000), (1, 1, 48000),
     (1, 1, 0), (1, 1, 0), (1, 1, 0), (1, 1, 0), (1, 1, 0)]
     (poe_monitor_start \<lparr>tc_vbus_min_mv = 40000, tc_vbus_hysteresis_mv = 2000\<rparr> 1 1 48000)"

lemma tps_fading_values:
  "tps_coherent tps_fading" "ts_is_ready tps_fading" "\<not> ts_is_ready (fst (poe_monitor_step 1 1 0 tps_fading))"
  using monitor_run_start unfolding tps_fading_def by (blast, code_simp+)

definition system_with :: "tps_state \<Rightarrow> hv_state \<Rightarrow> system" where
  "system_with tps hv = system_powered\<lparr>sy_fw := (sy_fw system_powered)\<lparr>fw_tps := tps, fw_hv := hv\<rparr>\<rparr>"

lemma system_with_ok:
  "tps_coherent tps \<Longrightarrow> hv_reachable powf hz hv \<Longrightarrow> system_ok powf hz (system_with tps hv)"
  using reachable_ok [OF powered_reachable [of powf hz]]
  by (auto simp: system_ok_def firmware_ok_def system_with_def fw_secret_def system_powered_def app_main_power_def Let_def split_def)

theorem power_loss_darkens_witness:
  "\<exists>s'. system_run (\<lambda>p e. p) 100 [EV_MONITOR 1 1 0, EV_MONITOR 1 1 0, EV_DRIVER 30] (system_with tps_fading lit_example) = Some s'
     \<and> hv_dark (fw_hv (sy_fw s'))"
proof -
  let ?s = "system_with tps_fading lit_example" and ?evs = "[EV_MONITOR 1 1 0, EV_MONITOR 1 1 0, EV_DRIVER 30]"
  have v: "pm_lock (fw_pm (sy_fw ?s))" "fw_hv (sy_fw ?s) = lit_example" "fw_tps (sy_fw ?s) = tps_fading"
    by (simp_all add: system_with_def powered_policy(1))
  have ok: "system_ok (\<lambda>p e. p) 100 ?s" by (rule system_with_ok [OF tps_fading_values(1) lit_example_reachable])
  obtain s2 where s2: "system_run (\<lambda>p e. p) 100 [EV_MONITOR 1 1 0, EV_MONITOR 1 1 0] ?s = Some s2"
    by (simp add: Let_def split_def)
  have "hv_task_ready (fw_hv (sy_fw s2))" using alive.run_moves [OF ok s2] v(2) lit_example_ready by simp
  then obtain s' where s': "system_run (\<lambda>p e. p) 100 ?evs ?s = Some s'"
    using s2 run_append [of "\<lambda>p e. p" 100 "[EV_MONITOR 1 1 0, EV_MONITOR 1 1 0]" "[EV_DRIVER 30]" ?s]
    by (simp add: Let_def del: system_run.simps(2)) (simp add: Let_def)
  from power_loss_darkens [OF ok v(1), of 1 1 0 "[EV_MONITOR 1 1 0]" 30 s'] s' show ?thesis
    using v tps_fading_values lit_example_ready by auto
qed

text \<open>
  C17: the return of power brings the light back. When the monitor's iteration finds power
  again, on a device whose light is wanted, whose policy allows light on the new power class and whose
  driver has nothing queued, four iterations of the driver later the LED shows the level the
  network last asked for (full if none), under the cap of the new power class. This happens at once:
  the settle timer, which the same iteration of the monitor starts when the loss has ended the previous
  session, in order to hold the light back for two seconds, is still running while the LED is already lit.
\<close>

theorem power_return_relights:
  fixes s cdb t2p mv
  defines "fw \<equiv> sy_fw s" and "tps \<equiv> fst (poe_monitor_step cdb t2p mv (fw_tps (sy_fw s)))"
  assumes "system_ok powf hz s" and "pm_lock (fw_pm fw)" and "\<not> ts_is_ready (fw_tps fw)" and "ts_is_ready tps"
    and "\<not> policy_dark (fst (power_policy (ts_source tps) (drv_cfg (fw_drv fw))))"
    and "hv_task_ready (fw_hv fw)" and "hv_cmd_queue (fw_hv fw) = []" and "hv_desired_on (fw_hv fw)"
  shows "\<exists>s'. system_run powf hz [EV_MONITOR cdb t2p mv, EV_DRIVER t1, EV_DRIVER t2, EV_DRIVER t3, EV_DRIVER t4] s = Some s'
     \<and> shows_level powf (pct_to_q (resume_level (fw_hv fw))) (fw_hv (sy_fw s'))
     \<and> hv9910_get_output_scale_pct (fw_hv (sy_fw s')) = snd (power_policy (ts_source tps) (drv_cfg (fw_drv fw)))
     \<and> (\<not> pm_first_ready_seen (fw_pm fw) \<and> pm_settle_timer (fw_pm fw) = TIMER_STOPPED \<longrightarrow>
          pm_settle_timer (fw_pm (sy_fw s')) = TIMER_RUNNING)"
proof -
  let ?tick = "monitor_tick cdb t2p mv (fw_drv fw) (fw_tps fw, fw_pm fw, fw_hv fw)"
  let ?s1 = "s\<lparr>sy_fw := fw\<lparr>fw_tps := fst ?tick, fw_pm := fst (snd ?tick), fw_hv := snd (snd ?tick)\<rparr>\<rparr>"
  let ?hv = "fold (hv9910_task_step powf hz) [t1, t2, t3, t4] (snd (snd ?tick))"
  have good: "tps_coherent (fw_tps fw)" "drv_started (fw_drv fw)" "drv_config_valid (drv_cfg (fw_drv fw))"
    using assms(3) by (simp_all add: fw_def system_ok_def firmware_ok_def drv_good_def)
  have tps: "tps = fst (poe_monitor_step cdb t2p mv (fw_tps fw))" by (simp add: tps_def fw_def)
  note rq = return_queue [OF good(1,2) assms(4,5) assms(6-10) [unfolded tps], folded tps]
  have "resume_level (fw_hv fw) \<le> 100" by (simp add: resume_level_def Let_def not_less)
  note shown = return_shows [OF rq(2) this, of powf hz t1 t2 t3 t4]
  note r = policy_scale_range [OF good(3), of "ts_source tps"]
  have "hv9910_get_output_scale_pct ?hv = snd (power_policy (ts_source tps) (drv_cfg (fw_drv fw)))"
    by (simp only: hv9910_get_output_scale_pct_def shown(2) scale_q_percent [OF r] percent_roundtrip [OF r(2)])
  moreover have "system_exec powf hz (EV_MONITOR cdb t2p mv) s = Some ?s1"
    by (simp add: fw_def Let_def split_def)
  moreover have "pm_settle_timer (fst (snd ?tick)) = TIMER_RUNNING"
    if "\<not> pm_first_ready_seen (fw_pm fw)" "pm_settle_timer (fw_pm fw) = TIMER_STOPPED"
    using settle_delay_bypassed [OF good(1) assms(5) assms(6) [unfolded tps] good(2) assms(7) [unfolded tps] assms(4)
        that assms(8-10)]
    by (simp add: Let_def split_def)
  ultimately show ?thesis using rq(1) shown(1) by (simp add: Let_def)
qed

text \<open>A device switched to 40 percent while it had no power.\<close>

definition waiting_hv :: hv_state where
  "waiting_hv = hv9910_task_step (\<lambda>p e. p) 100 8 (hv9910_set_pending True 40 lit_example)"

lemma waiting_hv_values:
  "hv_reachable (\<lambda>p e. p) 100 waiting_hv" "hv_task_ready waiting_hv" "hv_cmd_queue waiting_hv = []"
  "hv_desired_on waiting_hv" "hv_last_nonzero_percent waiting_hv = 40"
proof -
  show "hv_reachable (\<lambda>p e. p) 100 waiting_hv"
    unfolding waiting_hv_def
    by (rule hv_reachable.step [OF hv_reachable.step [OF lit_example_reachable hv_step.set_pending] hv_step.task])
  have "hv_cmd_queue (hv9910_set_pending True 40 lit_example) = [HV_CMD_SET_PENDING True 40]"
    by (simp add: hv9910_set_pending_def post_cmd_queue lit_example_ready lit_example_queue fw_const)
  then show "hv_task_ready waiting_hv" "hv_cmd_queue waiting_hv = []" "hv_desired_on waiting_hv"
    "hv_last_nonzero_percent waiting_hv = 40"
    by (simp_all add: waiting_hv_def task_step_head)
       (simp add: hv9910_set_pending_def lit_example_ready)
qed

definition system_after_loss :: system where
  "system_after_loss = (system_with blip_tps waiting_hv)\<lparr>sy_fw := (sy_fw (system_with blip_tps waiting_hv))
     \<lparr>fw_pm := (fw_pm (sy_fw system_powered))\<lparr>pm_first_ready_seen := False, pm_settle_timer := TIMER_STOPPED\<rparr>\<rparr>\<rparr>"

lemma system_after_loss_ok: "system_ok (\<lambda>p e. p) 100 system_after_loss"
  using system_with_ok [OF blip_tps_values(1) waiting_hv_values(1)]
  by (auto simp: system_ok_def firmware_ok_def system_after_loss_def system_with_def fw_secret_def)

theorem power_return_relights_witness:
  "\<exists>s'. system_run (\<lambda>p e. p) 100 [EV_MONITOR 1 1 48000, EV_DRIVER 10, EV_DRIVER 11, EV_DRIVER 12, EV_DRIVER 13]
       system_after_loss = Some s'
     \<and> shows_level (\<lambda>p e. p) (pct_to_q 40) (fw_hv (sy_fw s')) \<and> hv9910_get_output_scale_pct (fw_hv (sy_fw s')) = 51
     \<and> pm_settle_timer (fw_pm (sy_fw s')) = TIMER_RUNNING"
proof -
  let ?s = system_after_loss
  have v: "pm_lock (fw_pm (sy_fw ?s))" "fw_hv (sy_fw ?s) = waiting_hv" "fw_tps (sy_fw ?s) = blip_tps"
    "drv_cfg (fw_drv (sy_fw ?s)) = drv_config_defaults"
    "\<not> pm_first_ready_seen (fw_pm (sy_fw ?s))" "pm_settle_timer (fw_pm (sy_fw ?s)) = TIMER_STOPPED"
    by (simp_all add: system_after_loss_def system_with_def powered_policy(1,3))
  have "resume_level waiting_hv = 40" by (simp add: resume_level_def waiting_hv_values)
  moreover note power_return_relights [OF system_after_loss_ok, of 1 1 48000 10 11 12 13]
  ultimately show ?thesis
    using v blip_tps_values waiting_hv_values powered_policy(6) by (simp add: policy_dark_def del: system_run.simps)
qed

end
