(* ===== verification/Persistent_Settings.thy ===== *)
theory Persistent_Settings
  imports Driver_Config DMX_Config Device_Identity
begin

text \<open>
  What the three modules that own a stored blob (\<open>driver_config.c\<close>, \<open>dmx_input.c\<close>, \<open>devid.c\<close>) have
  in common across a restart: the value in force, the blob, and the value the next boot reads
  from the blob. The locale \<open>persistent_setting\<close> states the contract of their setters; what
  follows from it holds for any sequence of changes.
\<close>

section \<open>The contract\<close>

text \<open>
  \<open>written o'\<close>: the storage took the blob and reported so; \<open>lost o'\<close>: it reported a failure, and
  the old blob is still there. A failure after which the new blob is there all the same is neither.
\<close>

definition written :: "nvs_outcome \<Rightarrow> bool" where
  "written o' \<longleftrightarrow> nv_set o' \<and> nv_commit o'"

definition lost :: "nvs_outcome \<Rightarrow> bool" where
  "lost o' \<longleftrightarrow> \<not> written o' \<and> \<not> nv_lands o'"

locale persistent_setting =
  fixes in_force :: "'s \<Rightarrow> 'v" and blob :: "'s \<Rightarrow> bytes option" and opened :: "'s \<Rightarrow> bool"
    and restored :: "bytes option \<Rightarrow> 'v"
    and change :: "nvs_outcome \<Rightarrow> 'v \<Rightarrow> 's \<Rightarrow> 's" and admissible :: "'v \<Rightarrow> bool"
  assumes change_opened: "opened (change o' v s) = opened s"
    and change_written: "opened s \<Longrightarrow> written o' \<Longrightarrow> admissible v \<Longrightarrow> restored (blob s) = in_force s \<Longrightarrow>
          restored (blob (change o' v s)) = in_force (change o' v s)"
    and change_lost: "\<not> opened s \<or> lost o' \<Longrightarrow> blob (change o' v s) = blob s"
    and change_landed: "opened s \<Longrightarrow> nv_lands o' \<Longrightarrow> blob (change o' v s) = blob (change nvs_good v s)"
begin

definition settled :: "'s \<Rightarrow> bool" where
  "settled s \<longleftrightarrow> opened s \<and> restored (blob s) = in_force s"

lemma settled_change: "settled s \<Longrightarrow> written o' \<Longrightarrow> admissible v \<Longrightarrow> settled (change o' v s)"
  by (simp add: settled_def change_opened change_written)

lemma settled_changes:
  "settled s \<Longrightarrow> \<forall>(o', v)\<in>set changes. written o' \<and> admissible v \<Longrightarrow>
   settled (fold (\<lambda>(o', v). change o' v) changes s)"
  by (induction changes arbitrary: s) (auto simp: settled_change)

lemma settled_same:
  "in_force t = in_force s \<Longrightarrow> blob t = blob s \<Longrightarrow> opened t = opened s \<Longrightarrow> settled t = settled s"
  by (simp add: settled_def)

text \<open>A change the storage did not take is undone by the next boot.\<close>

lemma lost_change_reverts: "settled s \<Longrightarrow> lost o' \<Longrightarrow> restored (blob (change o' v s)) = in_force s"
  by (simp add: settled_def change_lost)

text \<open>One that reached the storage although a failure was reported is what the next boot reads.\<close>

lemma landed_change_stays:
  "settled s \<Longrightarrow> nv_lands o' \<Longrightarrow> admissible v \<Longrightarrow>
   restored (blob (change o' v s)) = in_force (change nvs_good v s)"
  by (simp add: settled_def change_landed change_written written_def nvs_good_def)

end

section \<open>What a boot with working storage reads\<close>

definition restored_driver :: "bytes option \<Rightarrow> driver_config" where
  "restored_driver blob = (case drvfmt.load blob of Some c \<Rightarrow> c | None \<Rightarrow> drv_config_defaults)"

definition restored_dmx :: "bytes option \<Rightarrow> dmx_input_config" where
  "restored_dmx blob = (case dmxfmt.load blob of Some c \<Rightarrow> c | None \<Rightarrow> dmx_config_defaults)"

definition restored_secret :: "bytes \<Rightarrow> bytes option \<Rightarrow> bytes" where
  "restored_secret factory_default blob =
     (case nvs_read_blob DEVID_SECRET_LEN blob of
        BLOB_OK b \<Rightarrow> if length b = DEVID_SECRET_LEN then b else factory_default
      | _ \<Rightarrow> factory_default)"

lemma good_open [simp]: "nvs_open_sequence nvs_good blob = (True, blob)"
  by (simp add: nvs_open_sequence_def nvs_good_def)

lemma good_written [simp]: "nvs_write nvs_good b blob = Some b" "written nvs_good"
  by (simp_all add: nvs_write_def written_def nvs_good_def)

lemma load_driver: "drv_cfg (drv_config_load nvs_good s) = restored_driver (drv_blob s)"
  by (simp add: drv_load_cfg restored_driver_def)

lemma load_dmx: "xs_cfg (dmx_config_load nvs_good s) = restored_dmx (xs_blob s)"
  by (simp add: dmx_load_cfg restored_dmx_def)

lemma init_secret:
  "dv_active_secret (devid_init efuse nvs_good config (devid_statics blob)) =
     restored_secret (factory_default_secret config) blob"
  by (simp add: devid_init_def devid_statics_def compute_serial_def restored_secret_def Let_def
        split: blob_read.split)

text \<open>The default configurations and the default secret are what an empty storage gives.\<close>

lemma restored_nothing:
  "restored_driver None = drv_config_defaults" "restored_dmx None = dmx_config_defaults"
  "restored_secret d None = d"
  by (simp_all add: restored_driver_def restored_dmx_def restored_secret_def drvfmt.load_def dmxfmt.load_def
        nvs_get_blob_def nvs_read_blob_def)

section \<open>The three modules\<close>

text \<open>Only the module's own state matters to it, so the driver handed to \<open>driver_config_set\<close> is arbitrary.\<close>

interpretation drvset: persistent_setting drv_cfg drv_blob drv_nvs_ok restored_driver
  "\<lambda>o' cfg s. fst (snd (driver_config_set o' cfg (s, hv)))" "\<lambda>_. True"
  for hv
  by unfold_locales
     (auto simp: driver_config_set_def drv_config_save_def nvs_write_def nvs_good_def written_def lost_def Let_def restored_driver_def
        drvfmt.load_sanitized)

interpretation dmxset: persistent_setting xs_cfg xs_blob xs_nvs_ok restored_dmx
  "\<lambda>o' cfg s. snd (dmx_input_set_config o' cfg s)" dmx_config_normal
  by unfold_locales
     (auto simp: dmx_input_set_config_def dmx_config_save_def nvs_write_def nvs_good_def written_def lost_def Let_def restored_dmx_def
        dmxfmt.load_sanitized)

interpretation keyset: persistent_setting dv_active_secret dv_blob dv_nvs_ok "restored_secret d"
  "\<lambda>o' key s. snd (devid_set_admin_secret o' key s)" "\<lambda>key. length key = DEVID_SECRET_LEN"
  for d
  by unfold_locales
     (auto simp: devid_set_admin_secret_def nvs_write_def nvs_good_def written_def lost_def Let_def restored_secret_def nvs_read_blob_def)

text \<open>After a boot with working storage the value in force is the stored one.\<close>

lemma driver_load_settled: "drvset.settled (drv_config_load nvs_good s)"
proof -
  have "drvset.settled (drv_config_load nvs_good s)" if "drvfmt.load (drv_blob s) = Some c" for c
    using that
    by (auto simp: drvset.settled_def drv_config_load_def restored_driver_def Let_def drvfmt.load_def split: option.splits)
  moreover have "drvset.settled (drv_config_load nvs_good s)" if "drvfmt.load (drv_blob s) = None"
    using that drvfmt.load_saved [of drv_config_defaults] drv_defaults_valid
    by (auto simp: drvset.settled_def drv_config_load_def restored_driver_def drv_config_save_def Let_def drvfmt.load_def
          split: option.splits)
  ultimately show ?thesis by (cases "drvfmt.load (drv_blob s)") simp_all
qed

lemma dmx_load_settled: "dmxset.settled (dmx_config_load nvs_good s)"
proof -
  have "dmxset.settled (dmx_config_load nvs_good s)" if "dmxfmt.load (xs_blob s) = Some c" for c
    using that
    by (auto simp: dmxset.settled_def dmx_config_load_def restored_dmx_def Let_def dmxfmt.load_def split: option.splits)
  moreover have "dmxset.settled (dmx_config_load nvs_good s)" if "dmxfmt.load (xs_blob s) = None"
    using that dmxfmt.load_saved [of dmx_config_defaults] dmx_defaults_ok
    by (auto simp: dmxset.settled_def dmx_config_load_def restored_dmx_def dmx_config_save_def Let_def dmxfmt.load_def
          split: option.splits)
  ultimately show ?thesis by (cases "dmxfmt.load (xs_blob s)") simp_all
qed

lemma secret_init_settled:
  assumes "length (factory_default_secret config) = DEVID_SECRET_LEN"
  shows "keyset.settled (factory_default_secret config) (devid_init efuse nvs_good config (devid_statics blob))"
  using assms
  by (auto simp: keyset.settled_def devid_init_def devid_statics_def compute_serial_def restored_secret_def
        nvs_read_blob_def Let_def split: option.split)

end
