(* ===== verification/System_Restart.thy ===== *)
theory System_Restart
  imports System_Properties Persistent_Settings
begin

text \<open>
  Restarts: the storage outlives the RAM, so the device that comes up next is
  \<open>app_main_init\<close> on the blobs the last run left. What the owner configured survives a power cut
  at any moment; a factory reset leaves the documented defaults.
\<close>

section \<open>The settings and their storage\<close>

definition settings_stored :: "firmware \<Rightarrow> bool" where
  "settings_stored fw \<longleftrightarrow> drvset.settled (fw_drv fw) \<and> keyset.settled ADMIN_DEFAULT_SECRET (fw_dv fw)
     \<and> (xs_started (fw_xs fw) \<longrightarrow> dmxset.settled (fw_xs fw) \<and> dmx_config_normal (xs_cfg (fw_xs fw)))"

lemma settings_kept:
  "settings_stored fw \<Longrightarrow> fw_drv r = fw_drv fw \<Longrightarrow> fw_xs r = fw_xs fw \<Longrightarrow>
   dv_active_secret (fw_dv r) = dv_active_secret (fw_dv fw) \<Longrightarrow> dv_blob (fw_dv r) = dv_blob (fw_dv fw) \<Longrightarrow>
   dv_nvs_ok (fw_dv r) = dv_nvs_ok (fw_dv fw) \<Longrightarrow> settings_stored r"
  by (simp add: settings_stored_def keyset.settled_def)

section \<open>Admin packets\<close>

text \<open>A change of the key, of the DMX or of the driver configuration is stored with it.\<close>

lemma dispatch_stored:
  assumes "settings_stored fw" and "written (ae_nvs e)"
    and "\<not> (ph_type hdr = ADMIN_TYPE_FACTORY_RESET \<and> ae_erase_ok e)"
  shows "settings_stored (dispatch_packet e hdr buf payload src fw)"
proof (rule dispatch_by_handler, goal_cases)
  case 11
  then show ?case
    using assms(2,3) by (auto simp: handle_factory_reset_def Let_def intro!: settings_kept [OF assms(1)])
next
  case 12
  have "keyset.settled ADMIN_DEFAULT_SECRET (snd (devid_set_admin_secret (ae_nvs e) k (fw_dv fw)))"
    if "length k = DEVID_SECRET_LEN" for k
    using keyset.settled_change [of ADMIN_DEFAULT_SECRET "fw_dv fw" "ae_nvs e" k] assms that
    by (simp add: settings_stored_def)
  then show ?case
    using assms by (auto simp: handle_change_secret_def Let_def split_def settings_stored_def keyset.settled_def
        split: option.split)
next
  case 14
  have "xs_started (fw_xs fw) \<Longrightarrow> dmxset.settled (snd (dmx_input_set_config (ae_nvs e) cfg (fw_xs fw)))
      \<and> dmx_config_normal (xs_cfg (snd (dmx_input_set_config (ae_nvs e) cfg (fw_xs fw))))"
    if "dmx_config_unpack payload = Some cfg" for cfg
    using dmxset.settled_change [of "fw_xs fw" "ae_nvs e" cfg] assms that
    by (auto simp: settings_stored_def dmx_input_set_config_def Let_def dmx_sanitize_normal dest: dmx_unpack_normal)
  then show ?case
    using assms by (auto simp: handle_dmx_set_config_def Let_def split_def settings_stored_def keyset.settled_def
        split: option.split)
next
  case 16
  have "drvset.settled (fst (snd (driver_config_set (ae_nvs e) cfg (fw_drv fw, fw_hv fw))))" for cfg
    using drvset.settled_change [of "fw_drv fw" "ae_nvs e" cfg] assms by (simp add: settings_stored_def)
  then show ?case
    using assms by (auto simp: handle_driver_set_config_def Let_def split_def settings_stored_def keyset.settled_def
        split: option.split)
qed (simp_all add: handler_defs Let_def split_def settings_kept [OF assms(1)] split: option.split)

lemma packet_stored:
  assumes "settings_stored fw" and "written (ae_nvs e)"
    and "\<And>hdr. executed e buf src fw = Some hdr \<Longrightarrow> \<not> (ph_type hdr = ADMIN_TYPE_FACTORY_RESET \<and> ae_erase_ok e)"
  shows "settings_stored (handle_packet e buf src fw)"
proof (rule handle_packet_by)
  have admitted: "settings_stored (admitted e hdr src fw)" for hdr
    by (rule settings_kept [OF assms(1)]) (simp_all add: admitted_def)
  then show "settings_stored (admitted e hdr src fw)" for hdr .
  show "settings_stored (dispatch_packet e hdr buf (payload_part hdr buf) src (admitted e hdr src fw))"
    if "executed e buf src fw = Some hdr" for hdr
    using that by (intro dispatch_stored admitted assms(2,3))
  show "settings_stored (handle_info e hdr src (counted e src fw))" for hdr
    by (rule settings_kept [OF assms(1)])
       (simp_all add: handle_info_def devid_get_mac_def compute_mac_def Let_def split_def)
qed (rule settings_kept [OF assms(1)], simp_all)+

text \<open>A packet carried out by this event that erases the storage.\<close>

definition wiped_by :: "event \<Rightarrow> system \<Rightarrow> bool" where
  "wiped_by ev s \<longleftrightarrow>
     (case admin_command ev s of
        None \<Rightarrow> False
      | Some (e, src, hdr) \<Rightarrow> ph_type hdr = ADMIN_TYPE_FACTORY_RESET \<and> ae_erase_ok e)"

lemma admin_stored:
  assumes "settings_stored (sy_fw s)" and "written (ae_nvs e)" and "\<not> wiped_by (EV_ADMIN e received) s"
  shows "settings_stored (admin_channel_iterate e received (sy_fw s))"
  using assms
  by (auto simp: admin_channel_iterate_def Let_def wiped_by_def intro!: packet_stored split: option.splits)

section \<open>The DMX task\<close>

definition node_stored :: "dmx_node \<Rightarrow> bool" where
  "node_stored n \<longleftrightarrow> keyset.settled ADMIN_DEFAULT_SECRET (dn_dv n)
     \<and> (xs_started (dn_xs n) \<longrightarrow> dmxset.settled (dn_xs n) \<and> dmx_config_normal (xs_cfg (dn_xs n)))"

lemma serial_mac_storage [simp]:
  "dv_active_secret (snd (devid_get_serial ef dv)) = dv_active_secret dv"
  "dv_blob (snd (devid_get_mac ef dv)) = dv_blob dv" "dv_nvs_ok (snd (devid_get_mac ef dv)) = dv_nvs_ok dv"
  "dv_active_secret (snd (devid_get_mac ef dv)) = dv_active_secret dv"
  by (simp_all add: devid_get_mac_def compute_mac_def devid_get_serial_def compute_serial_def Let_def)

lemma reply_stored: "node_stored n \<Longrightarrow> node_stored (send_poll_reply e fallback n)"
  by (simp add: node_stored_def send_poll_reply_def Let_def split_def keyset.settled_def)

text \<open>ArtAddress sets a configuration that differs from the present one in the port address only.\<close>

lemma address_stored:
  assumes "node_stored n" and "written (rx_nvs e)"
  shows "node_stored (handle_address e buf dst n)"
proof -
  define cfg where "cfg = (xs_cfg (dn_xs n))\<lparr>xc_artnet_port_address :=
    artaddress_port (xc_artnet_port_address (xs_cfg (dn_xs n))) buf\<rparr>"
  have *: "node_stored (m\<lparr>dn_xs := snd (dmx_input_set_config (rx_nvs e) cfg (dn_xs n))\<rparr>)" if "dn_dv m = dn_dv n" for m
    using assms that dmxset.settled_change [of "dn_xs n" "rx_nvs e" cfg] dmx_sanitize_normal [of cfg]
    by (auto simp: node_stored_def cfg_def dmx_config_normal_def dmx_input_set_config_def Let_def)
  have **: "node_stored (m\<lparr>dn_xs := dn_xs n\<rparr>)" if "dn_dv m = dn_dv n" for m
    using assms(1) that by (simp add: node_stored_def)
  show ?thesis
    using assms(1) * ** unfolding cfg_def
    by (auto simp: handle_address_def dmx_cfg_snapshot_def Let_def split_def intro!: reply_stored)
qed

lemma merge_stored [simp]: "node_stored (n\<lparr>dn_mg := m\<rparr>) = node_stored n"
  by (simp add: node_stored_def)

lemma artnet_stored: "node_stored n \<Longrightarrow> written (rx_nvs e) \<Longrightarrow> node_stored (dmx_artnet_handle e buf ip port n)"
  by (simp add: dmx_artnet_handle_def Let_def reply_stored address_stored split: option.split)

lemma sacn_stored: "node_stored n \<Longrightarrow> node_stored (dmx_sacn_handle e buf ip n)"
  by (simp add: dmx_sacn_handle_def Let_def split: option.split)

lemma iterate_stored:
  assumes "node_stored (tk_node t)" and "written (ti_nvs i)"
  shows "node_stored (tk_node (fst (dmx_input_iterate i tps pm (t, hv))))"
proof -
  have c: "node_stored (tk_node (task_config_change i t))" if "node_stored (tk_node t)" for t
    using that by (auto simp: task_config_change_def Let_def node_stored_def dmxset.settled_def)
  have j: "tk_node (task_rejoin i t) = tk_node t" for t by (simp add: task_rejoin_def Let_def)
  have r: "node_stored (tk_node (task_receive i t))" if "node_stored (tk_node t)" for t
    using that assms(2)
    by (auto simp: task_receive_def Let_def task_rx_env_def artnet_stored sacn_stored split: option.split prod.split)
  have "node_stored (tk_node (task_receive i (task_rejoin i (task_config_change i t))))"
    by (intro r) (simp add: j c assms(1))
  then show ?thesis
    by (auto simp: dmx_input_iterate_def task_actuate_def Let_def split_def node_stored_def)
qed

section \<open>Boot and events\<close>

text \<open>A boot on which every storage call of the three modules succeeds.\<close>

definition storage_good :: "boot_env \<Rightarrow> bool" where
  "storage_good b \<longleftrightarrow> be_nvs_drv b = nvs_good \<and> be_nvs_dv b = nvs_good \<and> be_nvs_xs b = nvs_good"

lemma not_erasing [simp]: "\<not> nvs_erases nvs_good"
  by (simp add: nvs_erases_def nvs_good_def)

text \<open>What such a boot finds in the storage is what it runs with.\<close>

lemma boot_restores:
  assumes "app_main_init b leds0 = Some s" and "storage_good b"
  shows "fw_secret (sy_fw s) = restored_secret ADMIN_DEFAULT_SECRET (be_blob_dv b)"
    and "driver_config_get (fw_drv (sy_fw s)) = Some (restored_driver (be_blob_drv b))"
    and "fw_xs (sy_fw s) = dmx_cfg_statics (be_blob_xs b)"
  using assms
  by (auto simp: app_main_init_def Let_def split_def storage_good_def fw_secret_def devid_get_admin_secret_def
        init_secret driver_config_start_def drv_statics_def driver_config_get_def load_driver split: option.splits)

lemma boot_stored:
  assumes "app_main_init b leds0 = Some s" and "storage_good b"
  shows "settings_stored (sy_fw s)"
proof -
  let ?c = "\<lparr>model_prefix = DEVID_MODEL_PREFIX, factory_default_secret = ADMIN_DEFAULT_SECRET\<rparr>"
  have "keyset.settled ADMIN_DEFAULT_SECRET (devid_init ef nvs_good ?c (devid_statics blob))" for ef blob
    using secret_init_settled [of ?c ef blob] by (simp add: ADMIN_DEFAULT_SECRET_def fw_const)
  moreover have "drvset.settled (s\<lparr>drv_started := True\<rparr>) = drvset.settled s" for s
    by (simp add: drvset.settled_def)
  ultimately show ?thesis
    using assms
    by (auto simp: app_main_init_def Let_def split_def storage_good_def driver_config_start_def drv_statics_def
          driver_load_settled settings_stored_def dmx_cfg_statics_def split: option.splits)
qed

lemma dmx_start_stored:
  assumes "settings_stored fw"
  shows "settings_stored (with_node (dmx_input_start l tk nvs_good (node_of fw)) fw)"
proof -
  have "dmxset.settled (s\<lparr>xs_started := x\<rparr>) = dmxset.settled s" for s x by (simp add: dmxset.settled_def)
  then show ?thesis
    using assms dmx_load_settled [of "fw_xs fw"] dmx_load_ok(2) [of nvs_good "fw_xs fw"]
    by (auto simp: settings_stored_def dmx_input_start_def with_node_def node_of_def Let_def)
qed

lemma main_stored:
  assumes "settings_stored (sy_fw s)" and "be_nvs_xs b = nvs_good"
  shows "settings_stored (sy_fw (app_main_power b s))"
proof -
  have same: "settings_stored ((sy_fw s)\<lparr>fw_pm := pm, fw_hv := hv\<rparr>)" for pm hv
    using assms(1) by (simp add: settings_stored_def)
  show ?thesis
    using same dmx_start_stored [OF same] assms(2) by (simp add: app_main_power_def Let_def split_def)
qed

text \<open>The storage takes what this event writes.\<close>

fun stores :: "event \<Rightarrow> bool" where
  "stores (EV_ADMIN e received) = written (ae_nvs e)"
| "stores (EV_DMX i) = written (ti_nvs i)"
| "stores (EV_MAIN b) = (be_nvs_xs b = nvs_good)"
| "stores _ = True"

lemma exec_stored:
  assumes "settings_stored (sy_fw s)" and "system_exec powf hz ev s = Some s'" and "stores ev" and "\<not> wiped_by ev s"
  shows "settings_stored (sy_fw s')"
proof (cases ev)
  case (EV_MAIN b)
  then show ?thesis using assms by (auto intro: main_stored split: if_splits)
next
  case (EV_ADMIN e received)
  then show ?thesis using assms by (auto intro: admin_stored split: if_splits)
next
  case (EV_DMX i)
  then obtain t where t: "s' = dmx_iteration i t s" using assms(2) by (auto split: option.splits)
  have "node_stored (node_of (sy_fw s))" using assms(1) by (simp add: node_stored_def node_of_def settings_stored_def)
  then have "node_stored (tk_node (fst (dmx_input_iterate i (fw_tps (sy_fw s)) (fw_pm (sy_fw s))
      (t\<lparr>tk_node := node_of (sy_fw s)\<rparr>, fw_hv (sy_fw s)))))"
    using assms(3) EV_DMX by (intro iterate_stored) simp_all
  then show ?thesis
    using assms(1) by (simp add: t dmx_iteration_def Let_def split_def with_node_def node_stored_def settings_stored_def)
qed (use assms in \<open>auto simp: Let_def split_def settings_stored_def split: if_splits\<close>)

text \<open>A run on which the storage works and no factory reset erases it.\<close>

fun stored_run :: "(rat \<Rightarrow> rat \<Rightarrow> rat) \<Rightarrow> u32 \<Rightarrow> event list \<Rightarrow> system \<Rightarrow> bool" where
  "stored_run powf hz [] s = True"
| "stored_run powf hz (ev # evs) s =
     (case system_exec powf hz ev s of
        None \<Rightarrow> False
      | Some s' \<Rightarrow> stores ev \<and> \<not> wiped_by ev s \<and> stored_run powf hz evs s')"

lemma run_stored:
  "settings_stored (sy_fw s) \<Longrightarrow> system_run powf hz evs s = Some s' \<Longrightarrow> stored_run powf hz evs s \<Longrightarrow>
   settings_stored (sy_fw s')"
  by (induction evs arbitrary: s) (auto intro: exec_stored split: option.splits)

text \<open>The next boot: whatever its calls do, it finds the blobs the run left.\<close>

definition next_boot :: "boot_env \<Rightarrow> system \<Rightarrow> boot_env" where
  "next_boot b s = b\<lparr>be_blob_drv := drv_blob (fw_drv (sy_fw s)), be_blob_dv := dv_blob (fw_dv (sy_fw s)),
     be_blob_xs := xs_blob (fw_xs (sy_fw s))\<rparr>"

text \<open>The DMX configuration a device is about to run with: the one the layer loads as it starts.\<close>

definition dmx_config_at_start :: "firmware \<Rightarrow> dmx_input_config option" where
  "dmx_config_at_start fw = dmx_input_get_config (dn_xs (dmx_input_start True True nvs_good (node_of fw)))"

lemma started_config:
  "\<not> xs_started (fw_xs fw) \<Longrightarrow> dmx_config_at_start fw = Some (restored_dmx (xs_blob (fw_xs fw)))"
  by (simp add: dmx_config_at_start_def dmx_input_start_def node_of_def Let_def dmx_input_get_config_def
        dmx_cfg_snapshot_def load_dmx)

lemma next_boot_restores:
  assumes "app_main_init (next_boot b s) leds = Some s'" and "storage_good b"
  shows "fw_secret (sy_fw s') = restored_secret ADMIN_DEFAULT_SECRET (dv_blob (fw_dv (sy_fw s)))"
    and "driver_config_get (fw_drv (sy_fw s')) = Some (restored_driver (drv_blob (fw_drv (sy_fw s))))"
    and "dmx_config_at_start (sy_fw s') = Some (restored_dmx (xs_blob (fw_xs (sy_fw s))))"
  using boot_restores [OF assms(1)] assms(2)
  by (simp_all add: storage_good_def next_boot_def started_config dmx_cfg_statics_def)

section \<open>Properties\<close>

text \<open>
  C11: what the owner configured survives a power cut at any moment. On a device booted with
  working storage, run through any sequence of events in which the storage takes what is written
  and no factory reset is carried out, the next boot comes up with the same admin secret and
  driver configuration, and its DMX layer with the same DMX configuration.
\<close>

theorem power_cycle_keeps_settings:
  assumes "app_main_init b leds = Some s0" and "storage_good b"
    and "system_run powf hz evs s0 = Some s" and "stored_run powf hz evs s0"
    and "app_main_init (next_boot b' s) leds' = Some s'" and "storage_good b'"
  shows "fw_secret (sy_fw s') = fw_secret (sy_fw s)
     \<and> driver_config_get (fw_drv (sy_fw s')) = driver_config_get (fw_drv (sy_fw s))
     \<and> (xs_started (fw_xs (sy_fw s)) \<longrightarrow> dmx_config_at_start (sy_fw s') = dmx_input_get_config (fw_xs (sy_fw s)))"
proof -
  have stored: "settings_stored (sy_fw s)" by (rule run_stored [OF boot_stored [OF assms(1,2)] assms(3,4)])
  have "drv_started (fw_drv (sy_fw s))"
    using reachable_ok [OF run_reachable [OF system_reachable.boot [OF assms(1)] assms(3)]]
    by (simp add: system_ok_def firmware_ok_def drv_good_def)
  then show ?thesis
    using next_boot_restores [OF assms(5,6)] stored
    by (simp add: settings_stored_def drvset.settled_def keyset.settled_def dmxset.settled_def driver_config_get_def
          dmx_input_get_config_def dmx_cfg_snapshot_def fw_secret_def devid_get_admin_secret_def)
qed

definition changed_config :: driver_config where
  "changed_config = drv_config_defaults\<lparr>dc_poe_cap_pct := 70\<rparr>"

text \<open>A session on the example device that sets a driver configuration.\<close>

definition config_events :: "event list" where
  "config_events = power_events @
     [session_login, session_event ADMIN_TYPE_DRIVER_SET_CONFIG session_nonce (driver_config_pack changed_config)]"

lemma stored_run_append:
  "stored_run powf hz (evs @ evs') s =
     (stored_run powf hz evs s \<and>
      (case system_run powf hz evs s of None \<Rightarrow> False | Some s' \<Rightarrow> stored_run powf hz evs' s'))"
  by (induction evs arbitrary: s) (auto split: option.splits)

lemma quiet_run_stored:
  "\<forall>ev\<in>set evs. stores ev \<and> (\<forall>s. admin_command ev s = None) \<Longrightarrow> system_run powf hz evs s = Some s' \<Longrightarrow>
   stored_run powf hz evs s"
  by (induction evs arbitrary: s) (auto simp: wiped_by_def split: option.splits)

lemma power_stored: "stored_run powf hz power_events system_booted"
proof (rule quiet_run_stored)
  show "system_run powf hz power_events system_booted = Some system_powered" by (rule powered_run)
qed (auto simp: power_events_def boot_example_def)

lemma config_run:
  "\<exists>s. system_run powf hz config_events system_booted = Some s \<and> stored_run powf hz config_events system_booted
     \<and> in_session 2 s \<and> driver_config_get (fw_drv (sy_fw s)) = Some changed_config"
proof -
  let ?p = "driver_config_pack changed_config" and ?t = ADMIN_TYPE_DRIVER_SET_CONFIG
  let ?h = "header_of session_serial ?t session_nonce ?p"
  have k: "0 < (40 :: nat)" "1 < (40 :: nat)" "Suc 0 = 1" "Suc 1 = 2" by simp_all
  have types: "length ?p \<le> ADMIN_MAX_PAYLOAD" "?t \<notin> {ADMIN_TYPE_INFO, ADMIN_TYPE_CHANGE_SECRET, ADMIN_TYPE_REBOOT, ADMIN_TYPE_FACTORY_RESET}"
    by (simp_all add: drv_pack_length fw_const)
  obtain s1 where s1: "system_exec powf hz session_login system_powered = Some s1" "in_session 1 s1" "holds_ticket s1"
      "admin_command session_login system_powered
         = Some (example_env, example_client, header_of session_serial ADMIN_TYPE_CHALLENGE (replicate 16 0) [])"
    using session_login_ok [OF session_start k(1), of powf hz] unfolding k by blast
  let ?adm = "admitted example_env ?h example_client (sy_fw s1)"
  obtain s2 where s2: "system_exec powf hz (session_event ?t session_nonce ?p) s1 = Some s2" "in_session 2 s2"
      "admin_command (session_event ?t session_nonce ?p) s1 = Some (example_env, example_client, ?h)"
      "sy_fw s2 = dispatch_packet example_env ?h (session_packet ?t session_nonce ?p) ?p example_client ?adm"
    using session_command_ok [OF s1(2) k(2) s1(3) types, of powf hz] unfolding k by blast
  have "drv_started (fw_drv (sy_fw s1))"
    using reachable_ok [OF system_reachable.event [OF powered_reachable s1(1)]]
    by (simp add: system_ok_def firmware_ok_def drv_good_def)
  moreover have "sy_fw s2 = handle_driver_set_config example_env ?h ?p example_client ?adm"
    by (simp add: s2(4) dispatch_packet_def Let_def fw_const)
  moreover have "fst (drv_config_sanitize changed_config) = changed_config"
    by (rule drv_sanitize_id)
       (simp add: changed_config_def drv_config_valid_def dim_ok_def drv_dimming_def drv_config_defaults_def fw_const)
  ultimately have "driver_config_get (fw_drv (sy_fw s2)) = Some changed_config"
    by (simp add: handle_driver_set_config_def drv_pack_length drv_unpack_pack driver_config_set_def Let_def split_def
          driver_config_get_def)
  moreover have "system_run powf hz config_events system_booted = Some s2"
    by (simp only: config_events_def run_append powered_run option.case system_run.simps s1(1) s2(1))
  moreover have "stored_run powf hz config_events system_booted"
    using power_stored s1(1,4) s2(1,3)
    by (simp add: config_events_def stored_run_append powered_run wiped_by_def session_event_def example_env_def fw_const
          del: system_exec.simps admin_command.simps)
  ultimately show ?thesis using s2(2) by blast
qed

lemma next_boot_example: "\<exists>s'. app_main_init (next_boot boot_example s) leds_example = Some s'"
  by (simp add: app_main_init_def next_boot_def boot_example_def tps2378_init_def Let_def split_def)

lemma boot_example_storage: "storage_good boot_example"
  by (simp add: storage_good_def boot_example_def)

theorem power_cycle_keeps_settings_witness:
  "\<exists>s s'. system_run (\<lambda>p e. p) 100 config_events system_booted = Some s
     \<and> app_main_init (next_boot boot_example s) leds_example = Some s'
     \<and> driver_config_get (fw_drv (sy_fw s')) = Some changed_config"
proof -
  obtain s where s: "system_run (\<lambda>p e. p) 100 config_events system_booted = Some s"
      "stored_run (\<lambda>p e. p) 100 config_events system_booted" "driver_config_get (fw_drv (sy_fw s)) = Some changed_config"
    using config_run by blast
  obtain s' where s': "app_main_init (next_boot boot_example s) leds_example = Some s'"
    using next_boot_example by blast
  from power_cycle_keeps_settings [OF boot_example_boots boot_example_storage s(1,2) s' boot_example_storage]
  show ?thesis using s s' by auto
qed

text \<open>
  C26: a FACTORY_RESET that is carried out is answered OK and restarts the device; the next
  boot has the documented default secret, driver configuration and DMX configuration. When the
  erase fails the answer is the same, and the next boot finds every blob as it was.
\<close>

theorem factory_reset_restores_defaults:
  assumes "executed e buf src fw = Some hdr" and "ph_type hdr = ADMIN_TYPE_FACTORY_RESET"
  defines "fw' \<equiv> handle_packet e buf src fw"
  shows "fw_restart fw'
     \<and> fw_sent fw' = fw_sent fw @ [\<lparr>dg_dst = src, dg_data = packet_bytes (ae_crypto e) (ae_compute_ok e)
          (device_serial e fw) ADMIN_TYPE_FACTORY_RESET_RESP (Some (ph_nonce hdr))
          [admin_status_value ADMIN_STATUS_OK] (Some (fw_secret fw))\<rparr>]
     \<and> (if ae_erase_ok e
        then \<forall>b leds s'. app_main_init (next_boot b (s\<lparr>sy_fw := fw'\<rparr>)) leds = Some s' \<and> storage_good b \<longrightarrow>
              fw_secret (sy_fw s') = ADMIN_DEFAULT_SECRET
            \<and> driver_config_get (fw_drv (sy_fw s')) = Some drv_config_defaults
            \<and> dmx_config_at_start (sy_fw s') = Some dmx_config_defaults
        else \<forall>b. next_boot b (s\<lparr>sy_fw := fw'\<rparr>) = next_boot b (s\<lparr>sy_fw := fw\<rparr>))"
proof -
  let ?fw = "admitted e hdr src fw"
  have fw': "fw' = handle_factory_reset e hdr src ?fw"
    using handle_packet_executed [OF assms(1)] assms(2) by (simp add: fw'_def dispatch_packet_def Let_def fw_const)
  have serial: "fst (devid_get_serial (ae_efuse e) (fw_dv ?fw)) = device_serial e fw"
    by (simp add: admitted_def device_serial_def) (simp add: devid_get_serial_def compute_serial_def Let_def)
  have sent: "fw_sent fw' = fw_sent fw @ [\<lparr>dg_dst = src, dg_data = packet_bytes (ae_crypto e) (ae_compute_ok e)
      (device_serial e fw) ADMIN_TYPE_FACTORY_RESET_RESP (Some (ph_nonce hdr))
      [admin_status_value ADMIN_STATUS_OK] (Some (fw_secret fw))\<rparr>]"
    using serial by (simp add: fw' handle_factory_reset_def nvs_erase_def Let_def send_packet_sent)
  have erased: "drv_blob (fw_drv fw') = None" "dv_blob (fw_dv fw') = None" "xs_blob (fw_xs fw') = None" if "ae_erase_ok e"
    using that by (simp_all add: fw' handle_factory_reset_def nvs_erase_def Let_def)
  have kept: "next_boot b (s\<lparr>sy_fw := fw'\<rparr>) = next_boot b (s\<lparr>sy_fw := fw\<rparr>)" if "\<not> ae_erase_ok e" for b
    using that by (simp add: next_boot_def fw' handle_factory_reset_def Let_def)
  have "fw_restart fw'" by (simp add: fw' handle_factory_reset_def Let_def)
  then show ?thesis
    using sent kept next_boot_restores erased by (auto simp: restored_nothing)
qed

theorem factory_reset_restores_defaults_witness:
  "\<exists>s1 s2 s3. system_run (\<lambda>p e. p) 100 (config_events @ [session_login]) system_booted = Some s1
     \<and> system_exec (\<lambda>p e. p) 100 (session_event ADMIN_TYPE_FACTORY_RESET session_nonce []) s1 = Some s2
     \<and> app_main_init (next_boot boot_example s2) leds_example = Some s3
     \<and> driver_config_get (fw_drv (sy_fw s3)) = Some drv_config_defaults"
proof -
  let ?t = ADMIN_TYPE_FACTORY_RESET
  let ?h = "header_of session_serial ?t session_nonce []"
  have k: "2 < (40 :: nat)" "3 < (40 :: nat)" "Suc 2 = 3" by simp_all
  have types: "length ([] :: bytes) \<le> ADMIN_MAX_PAYLOAD" "?t \<noteq> ADMIN_TYPE_INFO"
    by (simp_all add: fw_const)
  obtain s0 where s0: "system_run (\<lambda>p e. p) 100 config_events system_booted = Some s0" "in_session 2 s0"
    using config_run by blast
  obtain s1 where s1: "system_exec (\<lambda>p e. p) 100 session_login s0 = Some s1" "in_session 3 s1" "holds_ticket s1"
    using session_login_ok [OF s0(2) k(1), of "\<lambda>p e. p" 100] unfolding k by blast
  have run: "system_run (\<lambda>p e. p) 100 (config_events @ [session_login]) system_booted = Some s1"
    by (simp only: run_append s0(1) option.case system_run.simps s1(1))
  have sp: "fst (spend example_env ?h example_client (sy_fw s1))" using s1(3) by (simp add: spend_def holds_ticket_def)
  let ?d = "take ADMIN_MAX_PACKET (session_packet ?t session_nonce [])"
  obtain s2 where s2: "system_exec (\<lambda>p e. p) 100 (session_event ?t session_nonce []) s1 = Some s2"
      "admin_command (session_event ?t session_nonce []) s1 = Some (example_env, example_client, ?h)"
    using session_carried(1,3) [OF s1(2) k(2) _ types(1,2) sp] by (simp add: session_nonce_def)
  have x: "executed example_env ?d example_client (sy_fw s1) = Some ?h"
    using s2(2) by (simp add: session_event_def)
  then have "?d \<noteq> []" using well_formed_fields(3) by (fastforce simp: executed_Some)
  then have "sy_fw s2 = handle_packet example_env ?d example_client (sy_fw s1)"
    using s2(1) by (auto simp: session_event_def admin_channel_iterate_def Let_def split: if_splits)
  then have "next_boot boot_example s2 = next_boot boot_example (s1\<lparr>sy_fw := handle_packet example_env ?d example_client (sy_fw s1)\<rparr>)"
    by (simp add: next_boot_def)
  moreover obtain s3 where s3: "app_main_init (next_boot boot_example s2) leds_example = Some s3"
    using next_boot_example by blast
  ultimately have "driver_config_get (fw_drv (sy_fw s3)) = Some drv_config_defaults"
    using factory_reset_restores_defaults [OF x header_of_simps(3), of s1] boot_example_storage
    by (simp add: example_env_def)
  then show ?thesis using run s2(1) s3 by blast
qed

text \<open>
  C28: a DMX configuration the storage does not take is acknowledged all the same: it is
  answered OK and in force at once, but the next boot runs with the configuration before it, unless
  the write that reported the failure reached the storage all the same. The
  interface documents that \<open>dmx_input_set_config\<close> returns true if accepted and persisted.
\<close>

theorem lost_config_acknowledged:
  fixes e hdr src
  assumes "settings_stored fw" and "xs_started (fw_xs fw)" and "\<not> written (ae_nvs e)"
    and "dmx_config_unpack payload = Some cfg"
  defines "fw' \<equiv> handle_dmx_set_config e hdr payload src fw"
  shows "fw_sent fw' = fw_sent fw @ [\<lparr>dg_dst = src, dg_data = packet_bytes (ae_crypto e) (ae_compute_ok e)
          (device_serial e fw) ADMIN_TYPE_DMX_SET_CONFIG_RESP (Some (ph_nonce hdr))
          [admin_status_value ADMIN_STATUS_OK] (Some (fw_secret fw))\<rparr>]
     \<and> dmx_input_get_config (fw_xs fw') = Some (fst (dmx_config_sanitize cfg))
     \<and> (\<forall>b leds s'. app_main_init (next_boot b (s\<lparr>sy_fw := fw'\<rparr>)) leds = Some s' \<and> storage_good b \<longrightarrow>
          dmx_config_at_start (sy_fw s') =
            (if nv_lands (ae_nvs e) then Some (fst (dmx_config_sanitize cfg))
             else dmx_input_get_config (fw_xs fw)))"
proof -
  let ?xs = "snd (dmx_input_set_config (ae_nvs e) cfg (fw_xs fw))"
  have len: "length payload = DMX_CFG_WIRE_SIZE"
    using assms(4) by (simp add: dmx_config_unpack_def split: if_splits)
  have fw': "fw' = send_packet e src ADMIN_TYPE_DMX_SET_CONFIG_RESP (Some (ph_nonce hdr))
      [admin_status_value ADMIN_STATUS_OK] (Some (fw_secret fw)) (fw\<lparr>fw_xs := ?xs\<rparr>)"
    using assms(2,4) by (simp add: fw'_def handle_dmx_set_config_def len Let_def split_def dmx_input_set_config_def)
  have "restored_dmx (xs_blob (fw_xs fw')) =
      (if nv_lands (ae_nvs e) then fst (dmx_config_sanitize cfg) else xs_cfg (fw_xs fw))"
    using dmxset.lost_change_reverts [of "fw_xs fw" "ae_nvs e" cfg] dmx_unpack_normal [OF assms(4)]
      dmxset.landed_change_stays [of "fw_xs fw" "ae_nvs e" cfg] assms(1-3)
    by (simp add: settings_stored_def fw' lost_def) (simp add: dmx_input_set_config_def Let_def)
  then have later: "dmx_config_at_start (sy_fw s') =
      (if nv_lands (ae_nvs e) then Some (fst (dmx_config_sanitize cfg)) else dmx_input_get_config (fw_xs fw))"
    if "app_main_init (next_boot b (s\<lparr>sy_fw := fw'\<rparr>)) leds = Some s'" "storage_good b" for b leds s'
    using next_boot_restores(3) [OF that] assms(2) by (simp add: dmx_input_get_config_def dmx_cfg_snapshot_def)
  moreover have "dmx_input_get_config (fw_xs fw') = Some (fst (dmx_config_sanitize cfg))"
    using assms(2) by (simp add: fw' dmx_input_get_config_def dmx_input_set_config_def dmx_cfg_snapshot_def Let_def)
  moreover have "fw_sent fw' = fw_sent fw @ [\<lparr>dg_dst = src, dg_data = packet_bytes (ae_crypto e) (ae_compute_ok e)
      (device_serial e fw) ADMIN_TYPE_DMX_SET_CONFIG_RESP (Some (ph_nonce hdr))
      [admin_status_value ADMIN_STATUS_OK] (Some (fw_secret fw))\<rparr>]"
    by (simp add: fw' send_packet_sent device_serial_def)
  ultimately show ?thesis by blast
qed

lemma powered_dmx: "xs_started (fw_xs (sy_fw system_powered))"
proof -
  have "fst (eth_bringup 0 0 0 0 (be_eth_attempts boot_example)) = ESP_OK"
    by (simp add: eth_bringup_def eth_attempts.simps boot_example_def try_create_eth_def Let_def fw_const)
  then show ?thesis
    by (simp add: system_powered_def app_main_power_def Let_def split_def with_node_def)
       (simp add: boot_example_def dmx_input_start_def Let_def)
qed

theorem lost_config_acknowledged_witness:
  "\<exists>s'. app_main_init (next_boot boot_example (system_powered\<lparr>sy_fw := handle_dmx_set_config
       (example_env\<lparr>ae_nvs := nvs_good\<lparr>nv_commit := False\<rparr>\<rparr>) (header_of session_serial ADMIN_TYPE_DMX_SET_CONFIG [] [])
       (dmx_config_pack dmx_config_defaults) example_client (sy_fw system_powered)\<rparr>)) leds_example = Some s'
     \<and> dmx_config_at_start (sy_fw s') = dmx_input_get_config (fw_xs (sy_fw system_powered))"
proof -
  let ?e = "example_env\<lparr>ae_nvs := nvs_good\<lparr>nv_commit := False\<rparr>\<rparr>"
  let ?h = "header_of session_serial ADMIN_TYPE_DMX_SET_CONFIG [] []"
  have "settings_stored (sy_fw system_powered)"
    by (rule run_stored [OF boot_stored [OF boot_example_boots boot_example_storage] powered_run power_stored])
  moreover have "\<not> written (ae_nvs ?e)" by (simp add: written_def)
  moreover have "dmx_config_unpack (dmx_config_pack dmx_config_defaults) = Some dmx_config_defaults"
    by (rule dmx_unpack_pack [OF dmx_defaults_ok(2)])
  moreover have "\<not> nv_lands (ae_nvs ?e)" by (simp add: nvs_good_def)
  ultimately have "\<forall>b leds s'. app_main_init (next_boot b (system_powered\<lparr>sy_fw := handle_dmx_set_config ?e ?h
      (dmx_config_pack dmx_config_defaults) example_client (sy_fw system_powered)\<rparr>)) leds = Some s' \<and> storage_good b \<longrightarrow>
      dmx_config_at_start (sy_fw s') = dmx_input_get_config (fw_xs (sy_fw system_powered))"
    using lost_config_acknowledged [OF _ powered_dmx, of ?e "dmx_config_pack dmx_config_defaults" dmx_config_defaults
        ?h example_client system_powered] by simp
  then show ?thesis using next_boot_example boot_example_storage by blast
qed

end
