(* ===== verification/Signal_Loss.thy ===== *)
theory Signal_Loss
  imports Light_Path
begin

text \<open>
  When the lighting network falls silent: the watchdog of \<open>merge_tick\<close> (dmx_input.c) followed
  through the driver's queue and task to the LED, and that it acts only once.
\<close>

section \<open>Iterations without a datagram\<close>

definition silent :: "task_input \<Rightarrow> bool" where
  "silent i \<longleftrightarrow> ti_artnet i = None \<and> ti_sacn i = None"

text \<open>Such an iteration changes at most the merge engine and the driver, by its tick.\<close>

lemma silent_iteration:
  fixes i t tps pm hv
  assumes "silent i" and "\<not> xs_cfg_changed (dn_xs (tk_node t))"
  defines "r \<equiv> (if tk_next_tick_us t \<le> ti_now i
      then merge_tick (ti_now i) (xs_cfg (dn_xs (tk_node t))) tps pm (dn_mg (tk_node t), hv)
      else (dn_mg (tk_node t), hv))"
  shows "tk_node (fst (dmx_input_iterate i tps pm (t, hv))) = (tk_node t)\<lparr>dn_mg := fst r\<rparr>"
    and "snd (dmx_input_iterate i tps pm (t, hv)) = snd r"
  using assms(1,2) iterate_prelude [OF assms(2), of i]
  by (simp_all add: dmx_input_iterate_def task_actuate_def task_receive_def silent_def r_def Let_def split_def
        dmx_cfg_snapshot_def)

lemma silent_event:
  assumes "silent i" and "\<not> xs_cfg_changed (fw_xs (sy_fw s))" and "sy_dmx s = Some t"
  defines "r \<equiv> (if tk_next_tick_us t \<le> ti_now i
      then merge_tick (ti_now i) (xs_cfg (fw_xs (sy_fw s))) (fw_tps (sy_fw s)) (fw_pm (sy_fw s))
             (fw_mg (sy_fw s), fw_hv (sy_fw s))
      else (fw_mg (sy_fw s), fw_hv (sy_fw s)))"
  shows "\<exists>s' t'. system_exec powf hz (EV_DMX i) s = Some s' \<and> sy_dmx s' = Some t'
     \<and> sy_fw s' = (sy_fw s)\<lparr>fw_mg := fst r, fw_hv := snd r\<rparr>"
proof -
  let ?t = "t\<lparr>tk_node := node_of (sy_fw s)\<rparr>"
  have "\<not> xs_cfg_changed (dn_xs (tk_node ?t))" using assms(2) by (simp add: node_of_def)
  note it = silent_iteration [OF assms(1) this, of "fw_tps (sy_fw s)" "fw_pm (sy_fw s)" "fw_hv (sy_fw s)"]
  show ?thesis
    using assms(3) it
    by (simp add: dmx_iteration_def Let_def split_def node_of_def with_node_def r_def)
qed

text \<open>A layer that has released control stays off the driver until a frame arrives.\<close>

definition layer_released :: "dmx_merge \<Rightarrow> bool" where
  "layer_released m \<longleftrightarrow> list_all (\<lambda>s. \<not> sr_in_use s) (mg_sources m) \<and> mg_loss_applied m"

lemma released_tick:
  assumes "layer_released m"
  shows "snd (merge_tick now cfg tps pm (m, hv)) = hv" and "layer_released (fst (merge_tick now cfg tps pm (m, hv)))"
proof -
  have "live_sources now cfg m = []" "pruned now cfg m = mg_sources m"
    using assms map_idle by (auto simp: layer_released_def live_sources_def filter_empty_conv list_all_iff)
  then show "snd (merge_tick now cfg tps pm (m, hv)) = hv" "layer_released (fst (merge_tick now cfg tps pm (m, hv)))"
    using assms by (simp_all add: layer_released_def tick_driver tick_engine del: of_nat_unat)
qed

lemma released_run:
  assumes "layer_released (fw_mg (sy_fw s))" and "\<not> xs_cfg_changed (fw_xs (sy_fw s))" and "sy_dmx s = Some t"
    and "list_all silent later"
  shows "\<exists>s'. system_run powf hz (map EV_DMX later) s = Some s' \<and> fw_hv (sy_fw s') = fw_hv (sy_fw s)"
  using assms
proof (induction later arbitrary: s t)
  case (Cons i later)
  then obtain s1 t1 where s1: "system_exec powf hz (EV_DMX i) s = Some s1" "sy_dmx s1 = Some t1"
      "fw_hv (sy_fw s1) = fw_hv (sy_fw s)" "layer_released (fw_mg (sy_fw s1))" "fw_xs (sy_fw s1) = fw_xs (sy_fw s)"
    using silent_event [of i s t powf hz] released_tick by (auto split: if_splits)
  then show ?case using Cons.IH [OF s1(4) _ s1(2)] Cons.prems(2,4) by (simp del: system_exec.simps)
qed simp

section \<open>From the loss to the light\<close>

text \<open>
  What the configuration promises when the last source is gone: the light as it was, dark, or at
  the configured level.
\<close>

definition fallback_shown :: "(rat \<Rightarrow> rat \<Rightarrow> rat) \<Rightarrow> dmx_input_config \<Rightarrow> hv_state \<Rightarrow> hv_state \<Rightarrow> bool" where
  "fallback_shown powf cfg before after \<longleftrightarrow>
     (if xc_loss_behavior cfg = DMX_LOSS_TO_BLACK then hv_dark after
      else if xc_loss_behavior cfg = DMX_LOSS_TO_LEVEL
      then (if xc_loss_level cfg = 0 then hv_dark after else shows_level powf (pct_to_q (xc_loss_level cfg)) after)
      else after = before)"

lemma loss_command_shows:
  assumes "hv_inv hv" and "driver_idle hv" and "xc_loss_level cfg \<le> 100"
  shows "fallback_shown powf cfg hv (hv9910_task_step powf hz now (apply_loss cfg hv))"
proof -
  have off: "hv_dark (hv9910_task_step powf hz now (hv9910_disable hv))"
    using assms(2)
    by (simp add: driver_idle_def hv9910_disable_def post_then_step hv_do_disable_def hv_dark_def apply_level_output)
  have same: "hv9910_task_step powf hz now hv = hv"
    using assms(2) by (simp add: driver_idle_def hv9910_task_step_def xQueueReceive_def)
  show ?thesis
    using off same level_command_shows [OF assms(1) _ _ _ assms(3), where powf = powf and hz = hz and now = now]
      assms(2)
    by (auto simp: fallback_shown_def apply_loss_def driver_idle_def word_gt_0 fw_const)
qed

text \<open>
  C14: losing the signal does what the configuration says, once. When every source has been silent
  for longer than the timeout, the next tick of the DMX task and the next iteration of the driver
  leave the light as it was (HOLD), dark (BLACK) or at the configured level (LEVEL), and however
  many iterations without a frame follow, the DMX task does not touch the driver again,
  whatever state other clients have brought it to by then. The layer has applied a level since it
  was last silent, the policy allows light, no configuration change is pending and the driver has nothing
  queued or scheduled.
\<close>

theorem signal_loss_falls_back:
  fixes s i t
  defines "fw \<equiv> sy_fw s"
  defines "cfg \<equiv> xs_cfg (fw_xs fw)"
  assumes "system_ok powf hz s" and "sy_dmx s = Some t" and "list_all silent (i # later)"
    and "\<not> xs_cfg_changed (fw_xs fw)" and "tk_next_tick_us t \<le> ti_now i"
    and "list_all (\<lambda>x. sr_in_use x \<longrightarrow> int (unat (xc_loss_timeout_ms cfg)) * 1000 < ti_now i - sr_last_seen_us x)
           (mg_sources (fw_mg fw))"
    and "\<not> mg_loss_applied (fw_mg fw)" and "0 \<le> mg_last_applied_pct (fw_mg fw)"
    and "power_manager_output_allowed (fw_pm fw)" and "driver_idle (fw_hv fw)"
  shows "\<exists>s1. system_run powf hz [EV_DMX i, EV_DRIVER now] s = Some s1
     \<and> fallback_shown powf cfg (fw_hv fw) (fw_hv (sy_fw s1))
     \<and> (\<forall>hv. \<exists>s2. system_run powf hz (map EV_DMX later) (s1\<lparr>sy_fw := (sy_fw s1)\<lparr>fw_hv := hv\<rparr>\<rparr>) = Some s2
          \<and> fw_hv (sy_fw s2) = hv)"
proof -
  have inv: "hv_inv (fw_hv fw)" using assms(3) reachable_inv by (auto simp: system_ok_def firmware_ok_def fw_def)
  have level: "xc_loss_level cfg \<le> 100"
    using assms(3,4) by (simp add: system_ok_def firmware_ok_def xs_good_def dmx_config_valid_def cfg_def fw_def)
  have lost: "live_sources (ti_now i) cfg (fw_mg fw) = []"
    using assms(8) by (auto simp: live_sources_def prune_sources_def filter_empty_conv list_all_iff)
  let ?r = "merge_tick (ti_now i) cfg (fw_tps fw) (fw_pm fw) (fw_mg fw, fw_hv fw)"
  have hv: "snd ?r = apply_loss cfg (fw_hv fw)" using lost assms(9-11) by (simp add: tick_driver)
  have released: "layer_released (fst ?r)"
    using lost by (auto simp: layer_released_def tick_engine list_all_iff live_sources_def filter_empty_conv
        simp del: of_nat_unat)
  obtain sa ta where sa: "system_exec powf hz (EV_DMX i) s = Some sa" "sy_dmx sa = Some ta"
      "sy_fw sa = fw\<lparr>fw_mg := fst ?r, fw_hv := apply_loss cfg (fw_hv fw)\<rparr>"
    using silent_event [of i s t powf hz] assms(4-7) hv unfolding cfg_def fw_def by auto
  let ?hv1 = "hv9910_task_step powf hz now (apply_loss cfg (fw_hv fw))"
  define s1 where "s1 = sa\<lparr>sy_fw := (sy_fw sa)\<lparr>fw_hv := ?hv1\<rparr>\<rparr>"
  have "hv_task_ready (apply_loss cfg (fw_hv fw))"
    using assms(12)
    by (simp add: driver_idle_def apply_loss_def hv9910_disable_def hv9910_set_dim_def hv9910_enable_at_def)
  then have run: "system_run powf hz [EV_DMX i, EV_DRIVER now] s = Some s1"
    using sa by (simp add: s1_def Let_def del: system_exec.simps) (simp add: Let_def)
  have "\<exists>s2. system_run powf hz (map EV_DMX later) (s1\<lparr>sy_fw := (sy_fw s1)\<lparr>fw_hv := hv\<rparr>\<rparr>) = Some s2 \<and> fw_hv (sy_fw s2) = hv" for hv
    using released_run [of "s1\<lparr>sy_fw := (sy_fw s1)\<lparr>fw_hv := hv\<rparr>\<rparr>" ta later powf hz] released assms(5,6) sa
    by (simp add: s1_def)
  then show ?thesis using run loss_command_shows [OF inv assms(12) level] by (auto simp: s1_def sa(3))
qed

definition silent_input :: "int \<Rightarrow> task_input" where
  "silent_input now = (example_input now)\<lparr>ti_artnet := None\<rparr>"

definition lost_device :: system where
  "lost_device = stage_device\<lparr>sy_fw := (sy_fw stage_device)\<lparr>fw_mg := lost_merge,
     fw_xs := (fw_xs (sy_fw stage_device))\<lparr>xs_cfg := loss_config\<rparr>\<rparr>\<rparr>"

lemma lost_device_ok: "system_ok (\<lambda>p e. p) 100 lost_device"
proof -
  have "dmx_config_valid loss_config"
    by (simp add: loss_config_def dmx_config_defaults_def dmx_config_valid_def dmx_channels_def fw_const)
  moreover have "table_ok lost_merge"
    by (simp add: table_ok_def lost_merge_def example_merge_def example_source_def dmx_source_zero_def fw_const)
  ultimately show ?thesis
    using stage_device_ok
    by (simp add: system_ok_def firmware_ok_def lost_device_def stage_device_def fw_secret_def xs_good_def)
qed

theorem signal_loss_falls_back_witness:
  "\<exists>s1 s2. system_run (\<lambda>p e. p) 100 [EV_DMX (silent_input 9000000), EV_DRIVER 20] lost_device = Some s1
     \<and> shows_level (\<lambda>p e. p) (pct_to_q 30) (fw_hv (sy_fw s1))
     \<and> system_run (\<lambda>p e. p) 100 [EV_DMX (silent_input 9022000), EV_DMX (silent_input 9044000)]
         (s1\<lparr>sy_fw := (sy_fw s1)\<lparr>fw_hv := cut_example\<rparr>\<rparr>) = Some s2 \<and> fw_hv (sy_fw s2) = cut_example"
proof -
  have dev: "sy_dmx lost_device = Some example_task" "xs_cfg (fw_xs (sy_fw lost_device)) = loss_config"
      "fw_mg (sy_fw lost_device) = lost_merge" "fw_hv (sy_fw lost_device) = lit_example"
      "\<not> xs_cfg_changed (fw_xs (sy_fw lost_device))" "power_manager_output_allowed (fw_pm (sy_fw lost_device))"
    by (simp_all add: lost_device_def stage_device_def power_manager_output_allowed_def example_pm_def pm_statics_init_def)
  have "list_all silent [silent_input 9000000, silent_input 9022000, silent_input 9044000]"
    by (simp add: silent_def silent_input_def example_input_def)
  moreover have "tk_next_tick_us example_task \<le> ti_now (silent_input 9000000)"
    by (simp add: example_task_def silent_input_def example_input_def)
  moreover have "list_all (\<lambda>x. sr_in_use x \<longrightarrow> int (unat (xc_loss_timeout_ms loss_config)) * 1000
      < ti_now (silent_input 9000000) - sr_last_seen_us x) (mg_sources lost_merge)"
    by (simp add: lost_merge_def loss_config_def example_merge_def example_source_def dmx_source_zero_def
        dmx_config_defaults_def silent_input_def example_input_def)
  moreover have "\<not> mg_loss_applied lost_merge" "0 \<le> mg_last_applied_pct lost_merge"
    by (simp_all add: lost_merge_def example_merge_def dmx_merge_statics_def)
  moreover have "fallback_shown powf loss_config hv hv' = shows_level powf (pct_to_q 30) hv'" for powf hv hv'
    by (simp add: fallback_shown_def loss_config_def fw_const)
  ultimately show ?thesis
    using signal_loss_falls_back [OF lost_device_ok, where t = example_task and i = "silent_input 9000000"
        and later = "[silent_input 9022000, silent_input 9044000]" and now = 20] lit_example_idle
    by (simp add: dev del: system_run.simps) blast
qed

end
