(* ===== verification/Config_Roundtrip.thy ===== *)
theory Config_Roundtrip
  imports System_Example
begin

text \<open>
  Setting a configuration over the admin channel and reading it back: what the client sent is
  what it gets, whatever the other tasks and other commands do in between. The two
  configurations share the argument, as locale \<open>client_setting\<close>.
\<close>

section \<open>The commands of a run\<close>

text \<open>The types of the commands carried out along a run, in order.\<close>

fun commands_of :: "(rat \<Rightarrow> rat \<Rightarrow> rat) \<Rightarrow> u32 \<Rightarrow> event list \<Rightarrow> system \<Rightarrow> u8 list" where
  "commands_of powf hz [] s = []"
| "commands_of powf hz (ev # evs) s =
     (case admin_command ev s of Some (e, src, hdr) \<Rightarrow> [ph_type hdr] | None \<Rightarrow> [])
     @ (case system_exec powf hz ev s of Some s' \<Rightarrow> commands_of powf hz evs s' | None \<Rightarrow> [])"

text \<open>The datagram that answers a command, as the client's parser takes it apart.\<close>

definition answered_with :: "u8 \<Rightarrow> bytes \<Rightarrow> bytes \<Rightarrow> sockaddr_in \<Rightarrow> datagram list \<Rightarrow> firmware \<Rightarrow> bool" where
  "answered_with t n payload src sent r \<longleftrightarrow>
     (\<exists>data hdr. fw_sent r = sent @ [\<lparr>dg_dst = src, dg_data = data\<rparr>] \<and> well_formed data = Some hdr
        \<and> ph_type hdr = t \<and> ph_nonce hdr = n \<and> payload_part hdr data = payload)"

lemma send_answers:
  assumes "hmac_is_32 (ae_crypto e)" and "length n = 16" and "length payload \<le> ADMIN_MAX_PAYLOAD"
  shows "answered_with t n payload src (fw_sent fw) (send_packet e src t (Some n) payload key fw)"
proof -
  let ?serial = "fst (devid_get_serial (ae_efuse e) (fw_dv fw))"
  note p = packet_parts [OF assms, where ok = "ae_compute_ok e" and serial = ?serial and type = t and key = key]
  show ?thesis
    unfolding answered_with_def
    by (intro exI [of _ "packet_bytes (ae_crypto e) (ae_compute_ok e) ?serial t (Some n) payload key"]
          exI [of _ "header_of ?serial t n payload"]) (simp add: send_packet_sent p)
qed

text \<open>What an event of the admin task does, by the command it carries out.\<close>

lemma admin_event:
  assumes "system_exec powf hz (EV_ADMIN e (Some (datagram, src))) s = Some s'"
    and "admin_command (EV_ADMIN e (Some (datagram, src))) s = Some (e, src, hdr)"
  shows "sy_fw s' = dispatch_packet e hdr (take ADMIN_MAX_PACKET datagram)
      (payload_part hdr (take ADMIN_MAX_PACKET datagram)) src (admitted e hdr src (sy_fw s))"
proof -
  have x: "executed e (take ADMIN_MAX_PACKET datagram) src (sy_fw s) = Some hdr" using assms(2) by simp
  have "take ADMIN_MAX_PACKET datagram \<noteq> []"
    using well_formed_fields(3) [of "take ADMIN_MAX_PACKET datagram" hdr] x by (auto simp: executed_Some)
  then show ?thesis
    using assms(1) handle_packet_executed [OF x]
    by (auto simp: admin_channel_iterate_def Let_def split: if_splits)
qed

section \<open>A setting of the client\<close>

text \<open>
  \<open>current\<close> is the value in force, \<open>stable\<close> what only the client itself can change. A SET puts
  the normalised value in force, no other event touches it, and a GET answers with its format.
\<close>

locale client_setting =
  fixes current :: "firmware \<Rightarrow> 'c option"
    and stable :: "'c \<Rightarrow> bool"
    and set_cmd get_cmd get_resp :: u8
    and pack :: "'c \<Rightarrow> bytes" and unpack :: "bytes \<Rightarrow> 'c option" and normalise :: "'c \<Rightarrow> 'c"
    and wire_size :: nat
  assumes set_takes: "ph_type hdr = set_cmd \<Longrightarrow> length payload = wire_size \<Longrightarrow> unpack payload = Some c \<Longrightarrow>
      current fw \<noteq> None \<Longrightarrow> current (dispatch_packet e hdr buf payload src fw) = Some (normalise c)"
    and get_answers: "ph_type hdr = get_cmd \<Longrightarrow> current fw = Some c \<Longrightarrow>
      dispatch_packet e hdr buf payload src fw =
        send_packet e src get_resp (Some (ph_nonce hdr)) (pack c) (Some (fw_secret fw)) fw"
    and kept: "current (sy_fw s) = Some c \<Longrightarrow> stable c \<Longrightarrow> system_exec powf hz ev s = Some s' \<Longrightarrow>
      (\<And>e src hdr. admin_command ev s = Some (e, src, hdr) \<Longrightarrow> ph_type hdr \<noteq> set_cmd) \<Longrightarrow>
      current (sy_fw s') = Some c"
    and admitted_keeps: "current (admitted e hdr src fw) = current fw"
    and pack_small: "length (pack c) \<le> ADMIN_MAX_PAYLOAD"
begin

lemma run_keeps:
  "current (sy_fw s) = Some c \<Longrightarrow> stable c \<Longrightarrow> system_run powf hz evs s = Some s' \<Longrightarrow>
   set_cmd \<notin> set (commands_of powf hz evs s) \<Longrightarrow> current (sy_fw s') = Some c"
proof (induction evs arbitrary: s)
  case (Cons ev evs)
  then obtain s1 where s1: "system_exec powf hz ev s = Some s1" "system_run powf hz evs s1 = Some s'"
    by (auto split: option.splits)
  have "current (sy_fw s1) = Some c" using Cons.prems(1,2,4) by (intro kept [OF _ _ s1(1)]) auto
  then show ?case using Cons.IH Cons.prems(2,4) s1 by simp
qed simp

lemma set_get:
  assumes "current (sy_fw s) \<noteq> None" and "hmac_is_32 (ae_crypto e2)"
    and "admin_command (EV_ADMIN e1 (Some (d1, src1))) s = Some (e1, src1, h1)" and "ph_type h1 = set_cmd"
    and "length (payload_part h1 (take ADMIN_MAX_PACKET d1)) = wire_size"
    and "unpack (payload_part h1 (take ADMIN_MAX_PACKET d1)) = Some c" and "stable (normalise c)"
    and "system_exec powf hz (EV_ADMIN e1 (Some (d1, src1))) s = Some s1"
    and "system_run powf hz evs s1 = Some s2" and "set_cmd \<notin> set (commands_of powf hz evs s1)"
    and "admin_command (EV_ADMIN e2 (Some (d2, src2))) s2 = Some (e2, src2, h2)" and "ph_type h2 = get_cmd"
    and "system_exec powf hz (EV_ADMIN e2 (Some (d2, src2))) s2 = Some s3"
  shows "answered_with get_resp (ph_nonce h2) (pack (normalise c)) src2 (fw_sent (sy_fw s2)) (sy_fw s3)"
proof -
  have "current (sy_fw s1) = Some (normalise c)"
    unfolding admin_event [OF assms(8,3)] using assms(1,4-6) by (intro set_takes) (simp_all add: admitted_keeps)
  then have "current (sy_fw s2) = Some (normalise c)" by (rule run_keeps) (use assms(7,9,10) in auto)
  then have "sy_fw s3 = send_packet e2 src2 get_resp (Some (ph_nonce h2)) (pack (normalise c))
      (Some (fw_secret (admitted e2 h2 src2 (sy_fw s2)))) (admitted e2 h2 src2 (sy_fw s2))"
    unfolding admin_event [OF assms(13,11)] by (intro get_answers assms(12)) (simp add: admitted_keeps)
  moreover have "length (ph_nonce h2) = 16" using assms(11) well_formed_fields(2) by (auto simp: executed_Some)
  moreover have "fw_sent (admitted e2 h2 src2 (sy_fw s2)) = fw_sent (sy_fw s2)" by (simp add: admitted_def)
  ultimately show ?thesis using send_answers [OF assms(2) _ pack_small] by metis
qed

end

section \<open>What leaves a setting alone\<close>

text \<open>A reading of the state that no packet but \<open>cmd\<close> changes.\<close>

lemma packet_keeps:
  fixes f :: "firmware \<Rightarrow> 'a"
  assumes "\<And>hdr buf payload fw. ph_type hdr \<noteq> cmd \<Longrightarrow> f (dispatch_packet e hdr buf payload src fw) = f fw"
    and "\<And>fw r. fw_drv r = fw_drv fw \<Longrightarrow> fw_xs r = fw_xs fw \<Longrightarrow> f r = f fw"
    and "\<And>hdr. executed e buf src fw = Some hdr \<Longrightarrow> ph_type hdr \<noteq> cmd"
  shows "f (handle_packet e buf src fw) = f fw"
proof -
  have adm: "f (admitted e hdr src fw) = f fw" "f (counted e src fw) = f fw" for hdr
    by (rule assms(2); simp)+
  have info: "f (handle_info e hdr src (counted e src fw)) = f fw" for hdr
    by (rule assms(2); simp add: handle_info_def Let_def split_def)
  show ?thesis
    by (rule handle_packet_by) (simp_all only: adm info, (rule assms(2); simp), simp only: assms(1) [OF assms(3)] adm)
qed

lemma admin_event_keeps:
  fixes f :: "firmware \<Rightarrow> 'a"
  assumes "\<And>e src hdr buf payload fw. ph_type hdr \<noteq> cmd \<Longrightarrow> f (dispatch_packet e hdr buf payload src fw) = f fw"
    and "\<And>fw r. fw_drv r = fw_drv fw \<Longrightarrow> fw_xs r = fw_xs fw \<Longrightarrow> f r = f fw"
    and "system_exec powf hz (EV_ADMIN e received) s = Some s'"
    and "\<And>e' src hdr. admin_command (EV_ADMIN e received) s = Some (e', src, hdr) \<Longrightarrow> ph_type hdr \<noteq> cmd"
  shows "f (sy_fw s') = f (sy_fw s)"
proof (cases received)
  case None
  then show ?thesis using assms(3) by (auto simp: admin_channel_iterate_def split: if_splits)
next
  case (Some d)
  obtain datagram src where d: "d = (datagram, src)" by (cases d)
  have "f (handle_packet e (take ADMIN_MAX_PACKET datagram) src (sy_fw s)) = f (sy_fw s)"
    by (rule packet_keeps [where cmd = cmd, OF assms(1,2)]) (use assms(4) Some d in auto)
  then show ?thesis
    using assms(3) Some d by (auto simp: admin_channel_iterate_def Let_def split: if_splits)
qed

section \<open>The driver configuration\<close>

definition driver_setting :: "firmware \<Rightarrow> driver_config option" where
  "driver_setting fw = driver_config_get (fw_drv fw)"

lemma driver_setting_dispatch:
  assumes "ph_type hdr \<noteq> ADMIN_TYPE_DRIVER_SET_CONFIG"
  shows "driver_setting (dispatch_packet e hdr buf payload src fw) = driver_setting fw"
  by (rule dispatch_by_handler)
     (use assms in \<open>simp_all add: handler_defs driver_setting_def driver_config_get_def Let_def split_def split: option.split\<close>)

lemma driver_setting_event:
  assumes "system_exec powf hz ev s = Some s'"
    and "\<And>e src hdr. admin_command ev s = Some (e, src, hdr) \<Longrightarrow> ph_type hdr \<noteq> ADMIN_TYPE_DRIVER_SET_CONFIG"
  shows "driver_setting (sy_fw s') = driver_setting (sy_fw s)"
proof (cases ev)
  case (EV_ADMIN e received)
  show ?thesis
    by (rule admin_event_keeps [where cmd = ADMIN_TYPE_DRIVER_SET_CONFIG and powf = powf and hz = hz and e = e and received = received])
       (use assms EV_ADMIN in \<open>auto simp: driver_setting_dispatch, auto simp: driver_setting_def\<close>)
qed (use assms in \<open>auto simp: driver_setting_def driver_config_get_def dmx_iteration_def app_main_power_def with_node_def
       Let_def split_def split: if_splits option.splits\<close>)

interpretation drvcmd: client_setting driver_setting "\<lambda>_. True" ADMIN_TYPE_DRIVER_SET_CONFIG
  ADMIN_TYPE_DRIVER_GET_CONFIG ADMIN_TYPE_DRIVER_GET_CONFIG_RESP driver_config_pack driver_config_unpack
  "\<lambda>c. fst (drv_config_sanitize c)" DRV_CFG_WIRE_SIZE
proof
  show "driver_setting (sy_fw s') = Some c"
    if "driver_setting (sy_fw s) = Some c" "system_exec powf hz ev s = Some s'"
      "\<And>e src hdr. admin_command ev s = Some (e, src, hdr) \<Longrightarrow> ph_type hdr \<noteq> ADMIN_TYPE_DRIVER_SET_CONFIG"
    for s c powf hz ev s'
    using driver_setting_event [OF that(2,3)] that(1) by simp
qed (auto simp: dispatch_packet_def handle_driver_set_config_def handle_driver_get_config_def driver_setting_def
       driver_config_get_def driver_config_set_def Let_def split_def drv_pack_length ADMIN_MAX_PAYLOAD_def
       ADMIN_TYPE_CHALLENGE_def ADMIN_TYPE_DRIVER_SET_CONFIG_def fw_const split: if_splits)

section \<open>The DMX configuration\<close>

definition dmx_setting :: "firmware \<Rightarrow> dmx_input_config option" where
  "dmx_setting fw = dmx_input_get_config (fw_xs fw)"

lemma dmx_setting_dispatch:
  assumes "ph_type hdr \<noteq> ADMIN_TYPE_DMX_SET_CONFIG"
  shows "dmx_setting (dispatch_packet e hdr buf payload src fw) = dmx_setting fw"
  by (rule dispatch_by_handler)
     (use assms in \<open>simp_all add: handler_defs dmx_setting_def dmx_input_get_config_def dmx_cfg_snapshot_def Let_def
        split_def split: option.split\<close>)

text \<open>Without permission for ArtAddress the DMX task does not change its configuration.\<close>

lemma artnet_keeps_config:
  "xc_allow_artaddress (xs_cfg (dn_xs n)) = 0 \<Longrightarrow> dn_xs (dmx_artnet_handle e buf ip port n) = dn_xs n"
  by (simp add: dmx_artnet_handle_def handle_address_def send_poll_reply_def dmx_cfg_snapshot_def Let_def split_def
      split: option.split)

lemma iterate_keeps_config:
  assumes "xc_allow_artaddress (xs_cfg (dn_xs (tk_node t))) = 0"
  shows "dmx_input_get_config (dn_xs (tk_node (fst (dmx_input_iterate i tps pm (t, hv))))) = dmx_input_get_config (dn_xs (tk_node t))"
proof -
  let ?t = "task_rejoin i (task_config_change i t)"
  have t: "xs_cfg (dn_xs (tk_node ?t)) = xs_cfg (dn_xs (tk_node t))" "xs_started (dn_xs (tk_node ?t)) = xs_started (dn_xs (tk_node t))"
    by (simp_all add: task_rejoin_def task_config_change_def Let_def)
  have "dn_xs (tk_node (task_receive i ?t)) = dn_xs (tk_node ?t)"
    using assms t(1)
    by (auto simp: task_receive_def Let_def artnet_keeps_config sacn_handle_receive split: option.split prod.split)
  then show ?thesis
    using t by (simp add: dmx_input_iterate_def task_actuate_def Let_def split_def dmx_input_get_config_def dmx_cfg_snapshot_def)
qed

lemma dmx_setting_event:
  assumes "dmx_setting (sy_fw s) = Some c" and "xc_allow_artaddress c = 0" and "system_exec powf hz ev s = Some s'"
    and "\<And>e src hdr. admin_command ev s = Some (e, src, hdr) \<Longrightarrow> ph_type hdr \<noteq> ADMIN_TYPE_DMX_SET_CONFIG"
  shows "dmx_setting (sy_fw s') = Some c"
proof (cases ev)
  case (EV_ADMIN e received)
  have "dmx_setting (sy_fw s') = dmx_setting (sy_fw s)"
    by (rule admin_event_keeps [where cmd = ADMIN_TYPE_DMX_SET_CONFIG and powf = powf and hz = hz and e = e and received = received])
       (use assms(3,4) EV_ADMIN in \<open>auto simp: dmx_setting_dispatch, auto simp: dmx_setting_def\<close>)
  then show ?thesis using assms(1) by simp
next
  case (EV_DMX i)
  obtain t where t: "sy_dmx s = Some t" using assms(3) EV_DMX by (auto split: option.splits)
  have c: "xs_cfg (fw_xs (sy_fw s)) = c"
    using assms(1) by (simp add: dmx_setting_def dmx_input_get_config_def dmx_cfg_snapshot_def split: if_splits)
  let ?t = "t\<lparr>tk_node := node_of (sy_fw s)\<rparr>"
  have "xc_allow_artaddress (xs_cfg (dn_xs (tk_node ?t))) = 0" using assms(2) c by (simp add: node_of_def)
  from iterate_keeps_config [OF this, of i "fw_tps (sy_fw s)" "fw_pm (sy_fw s)" "fw_hv (sy_fw s)"] show ?thesis
    using assms(1,3) EV_DMX t
    by (auto simp: dmx_iteration_def dmx_setting_def with_node_def node_of_def Let_def split_def)
next
  case (EV_MAIN b)
  have "xs_started (fw_xs (sy_fw s))"
    using assms(1) by (simp add: dmx_setting_def dmx_input_get_config_def split: if_splits)
  then have "fw_xs (sy_fw (app_main_power b s)) = fw_xs (sy_fw s)"
    by (simp add: app_main_power_def with_node_def node_of_def dmx_input_start_def Let_def split_def)
  moreover have "s' = app_main_power b s" using assms(3) EV_MAIN by (simp split: if_splits)
  ultimately show ?thesis using assms(1) by (simp add: dmx_setting_def)
qed (use assms(1,3) in \<open>auto simp: dmx_setting_def Let_def split_def split: if_splits\<close>)

interpretation dmxcmd: client_setting dmx_setting "\<lambda>c. xc_allow_artaddress c = 0" ADMIN_TYPE_DMX_SET_CONFIG
  ADMIN_TYPE_DMX_GET_CONFIG ADMIN_TYPE_DMX_GET_CONFIG_RESP dmx_config_pack dmx_config_unpack
  "\<lambda>c. fst (dmx_config_sanitize c)" DMX_CFG_WIRE_SIZE
proof
  show "dmx_setting (sy_fw s') = Some c"
    if "dmx_setting (sy_fw s) = Some c" "xc_allow_artaddress c = 0" "system_exec powf hz ev s = Some s'"
      "\<And>e src hdr. admin_command ev s = Some (e, src, hdr) \<Longrightarrow> ph_type hdr \<noteq> ADMIN_TYPE_DMX_SET_CONFIG"
    for s c powf hz ev s'
    by (rule dmx_setting_event [OF that])
  show "dmx_setting (dispatch_packet e hdr buf payload src fw) = Some (fst (dmx_config_sanitize c))"
    if "ph_type hdr = ADMIN_TYPE_DMX_SET_CONFIG" "length payload = DMX_CFG_WIRE_SIZE" "dmx_config_unpack payload = Some c"
      "dmx_setting fw \<noteq> None" for hdr payload c fw e buf src
  proof -
    have "dispatch_packet e hdr buf payload src fw = handle_dmx_set_config e hdr payload src fw"
      by (simp add: dispatch_packet_def that(1) Let_def fw_const)
    then show ?thesis
      using that(2-4)
      by (simp add: handle_dmx_set_config_def dmx_setting_def dmx_input_get_config_def dmx_input_set_config_def
            dmx_cfg_snapshot_def Let_def split: if_splits)
  qed
  show "dispatch_packet e hdr buf payload src fw = send_packet e src ADMIN_TYPE_DMX_GET_CONFIG_RESP (Some (ph_nonce hdr))
      (dmx_config_pack c) (Some (fw_secret fw)) fw"
    if "ph_type hdr = ADMIN_TYPE_DMX_GET_CONFIG" "dmx_setting fw = Some c" for hdr fw c e buf payload src
    using that(2) by (simp add: dispatch_packet_def that(1) handle_dmx_get_config_def dmx_setting_def Let_def fw_const)
qed (simp_all add: dmx_setting_def dmx_pack_length fw_const)

section \<open>An exchange on the example device\<close>

text \<open>Login, a SET with its nonce, a second login, and a GET.\<close>

lemma session_set_get:
  fixes powf hz set get P
  defines "hset \<equiv> header_of session_serial set session_nonce P" and "hget \<equiv> header_of session_serial get session_nonce []"
  assumes "set \<notin> {ADMIN_TYPE_INFO, ADMIN_TYPE_CHANGE_SECRET, ADMIN_TYPE_REBOOT, ADMIN_TYPE_FACTORY_RESET}"
    and "get \<notin> {ADMIN_TYPE_INFO, ADMIN_TYPE_CHANGE_SECRET, ADMIN_TYPE_REBOOT, ADMIN_TYPE_FACTORY_RESET}"
    and "length P \<le> ADMIN_MAX_PAYLOAD"
  shows "\<exists>s1 s2 s3 s4. system_exec powf hz session_login system_powered = Some s1
     \<and> admin_command session_login system_powered
         = Some (example_env, example_client, header_of session_serial ADMIN_TYPE_CHALLENGE (replicate 16 0) [])
     \<and> admin_command (session_event set session_nonce P) s1 = Some (example_env, example_client, hset)
     \<and> system_exec powf hz (session_event set session_nonce P) s1 = Some s2
     \<and> system_run powf hz [session_login] s2 = Some s3 \<and> commands_of powf hz [session_login] s2 = [ADMIN_TYPE_CHALLENGE]
     \<and> admin_command (session_event get session_nonce []) s3 = Some (example_env, example_client, hget)
     \<and> system_exec powf hz (session_event get session_nonce []) s3 = Some s4"
proof -
  have k: "0 < (40 :: nat)" "1 < (40 :: nat)" "2 < (40 :: nat)" "3 < (40 :: nat)" "Suc 0 = 1" "Suc 1 = 2" "Suc 2 = 3"
    by simp_all
  have e: "length ([] :: bytes) \<le> ADMIN_MAX_PAYLOAD" by (simp add: fw_const)
  obtain s1 where s1: "system_exec powf hz session_login system_powered = Some s1" "in_session 1 s1" "holds_ticket s1"
      "admin_command session_login system_powered
         = Some (example_env, example_client, header_of session_serial ADMIN_TYPE_CHALLENGE (replicate 16 0) [])"
    using session_login_ok [OF session_start k(1), of powf hz] unfolding k by blast
  obtain s2 where s2: "system_exec powf hz (session_event set session_nonce P) s1 = Some s2" "in_session 2 s2"
      "admin_command (session_event set session_nonce P) s1 = Some (example_env, example_client, hset)"
    using session_command_ok [OF s1(2) k(2) s1(3) assms(5,3), of powf hz] unfolding k hset_def by blast
  obtain s3 where s3: "system_exec powf hz session_login s2 = Some s3" "in_session 3 s3" "holds_ticket s3"
      "admin_command session_login s2
         = Some (example_env, example_client, header_of session_serial ADMIN_TYPE_CHALLENGE (replicate 16 0) [])"
    using session_login_ok [OF s2(2) k(3), of powf hz] unfolding k by blast
  obtain s4 where "system_exec powf hz (session_event get session_nonce []) s3 = Some s4"
      "admin_command (session_event get session_nonce []) s3 = Some (example_env, example_client, hget)"
    using session_command_ok [OF s3(2) k(4) s3(3) e assms(4), of powf hz] unfolding hget_def by blast
  moreover have "system_run powf hz [session_login] s2 = Some s3" "commands_of powf hz [session_login] s2 = [ADMIN_TYPE_CHALLENGE]"
    using s3(1,4) by (simp_all del: system_exec.simps admin_command.simps)
  ultimately show ?thesis using s1(1,4) s2(1,3) by blast
qed

section \<open>Properties\<close>

text \<open>
  C15: a driver configuration set over the admin channel is the one read back in the same run of
  the device. Whatever the other tasks do and whatever other commands are carried out between the two,
  short of another SET, the answer to a later GET parses, carries the nonce of the GET and holds the configuration in
  the format the client sent, in its sanitised form, which for a valid one is the one sent.
  A REBOOT or FACTORY_RESET ends the run: the admin task answers nothing after it, so neither lies between
  the two, and what the next run answers is the subject of the restart properties.
\<close>

theorem driver_config_set_then_get:
  assumes "system_ok powf hz s" and "hmac_is_32 (ae_crypto e2)"
    and "admin_command (EV_ADMIN e1 (Some (d1, src1))) s = Some (e1, src1, h1)"
    and "ph_type h1 = ADMIN_TYPE_DRIVER_SET_CONFIG" and "payload_part h1 (take ADMIN_MAX_PACKET d1) = payload"
    and "length payload = DRV_CFG_WIRE_SIZE" and "driver_config_unpack payload = Some c"
    and "system_exec powf hz (EV_ADMIN e1 (Some (d1, src1))) s = Some s1"
    and "system_run powf hz evs s1 = Some s2"
    and "ADMIN_TYPE_DRIVER_SET_CONFIG \<notin> set (commands_of powf hz evs s1)"
    and "admin_command (EV_ADMIN e2 (Some (d2, src2))) s2 = Some (e2, src2, h2)"
    and "ph_type h2 = ADMIN_TYPE_DRIVER_GET_CONFIG"
    and "system_exec powf hz (EV_ADMIN e2 (Some (d2, src2))) s2 = Some s3"
  shows "let c' = fst (drv_config_sanitize c)
     in answered_with ADMIN_TYPE_DRIVER_GET_CONFIG_RESP (ph_nonce h2) (driver_config_pack c') src2
          (fw_sent (sy_fw s2)) (sy_fw s3)
        \<and> driver_config_unpack (driver_config_pack c') = Some c' \<and> (drv_config_valid c \<longrightarrow> c' = c)"
proof -
  have "driver_setting (sy_fw s) \<noteq> None"
    using assms(1) by (simp add: driver_setting_def driver_config_get_def system_ok_def firmware_ok_def drv_good_def)
  from drvcmd.set_get [OF this assms(2-4)] show ?thesis
    using assms(5-13) by (simp add: Let_def drv_unpack_pack drv_sanitize_id del: system_run.simps system_exec.simps admin_command.simps)
qed

definition driver_example :: driver_config where
  "driver_example = drv_config_defaults\<lparr>dc_mode := 1, dc_crossover_pct := 40\<rparr>"

theorem driver_config_set_then_get_witness:
  "\<exists>s1 s2 s3 s4. system_exec (\<lambda>p e. p) 100 session_login system_powered = Some s1
     \<and> system_exec (\<lambda>p e. p) 100 (session_event ADMIN_TYPE_DRIVER_SET_CONFIG session_nonce (driver_config_pack driver_example)) s1 = Some s2
     \<and> system_run (\<lambda>p e. p) 100 [session_login] s2 = Some s3
     \<and> system_exec (\<lambda>p e. p) 100 (session_event ADMIN_TYPE_DRIVER_GET_CONFIG session_nonce []) s3 = Some s4
     \<and> answered_with ADMIN_TYPE_DRIVER_GET_CONFIG_RESP session_nonce (driver_config_pack driver_example) example_client
         (fw_sent (sy_fw s3)) (sy_fw s4)"
proof -
  let ?P = "driver_config_pack driver_example"
  have P: "length ?P \<le> ADMIN_MAX_PAYLOAD" "length session_nonce = 16"
    by (simp_all add: drv_pack_length fw_const session_nonce_def)
  have hm: "hmac_is_32 (ae_crypto example_env)" by (simp add: example_hmac)
  obtain s1 s2 s3 s4 where s: "system_exec (\<lambda>p e. p) 100 session_login system_powered = Some s1"
      "admin_command (session_event ADMIN_TYPE_DRIVER_SET_CONFIG session_nonce ?P) s1
         = Some (example_env, example_client, header_of session_serial ADMIN_TYPE_DRIVER_SET_CONFIG session_nonce ?P)"
      "system_exec (\<lambda>p e. p) 100 (session_event ADMIN_TYPE_DRIVER_SET_CONFIG session_nonce ?P) s1 = Some s2"
      "system_run (\<lambda>p e. p) 100 [session_login] s2 = Some s3" "commands_of (\<lambda>p e. p) 100 [session_login] s2 = [ADMIN_TYPE_CHALLENGE]"
      "admin_command (session_event ADMIN_TYPE_DRIVER_GET_CONFIG session_nonce []) s3
         = Some (example_env, example_client, header_of session_serial ADMIN_TYPE_DRIVER_GET_CONFIG session_nonce [])"
      "system_exec (\<lambda>p e. p) 100 (session_event ADMIN_TYPE_DRIVER_GET_CONFIG session_nonce []) s3 = Some s4"
    using session_set_get [of ADMIN_TYPE_DRIVER_SET_CONFIG ADMIN_TYPE_DRIVER_GET_CONFIG ?P "\<lambda>p e. p" 100] P(1)
    by (auto simp: fw_const simp del: system_exec.simps admin_command.simps system_run.simps commands_of.simps)
  have ok: "system_ok (\<lambda>p e. p) 100 s1" by (rule reachable_ok [OF system_reachable.event [OF powered_reachable s(1)]])
  have "drv_config_valid driver_example"
    by (simp add: driver_example_def drv_config_valid_def dim_ok_def drv_dimming_def drv_config_defaults_def fw_const)
  then have "answered_with ADMIN_TYPE_DRIVER_GET_CONFIG_RESP session_nonce ?P example_client (fw_sent (sy_fw s3)) (sy_fw s4)"
    using driver_config_set_then_get [OF ok hm s(2) [unfolded session_event_def] _ session_payload [OF P(2,1)]
        drv_pack_length drv_unpack_pack s(3) [unfolded session_event_def] s(4) _ s(6) [unfolded session_event_def] _
        s(7) [unfolded session_event_def]] s(5)
    by (simp add: Let_def fw_const del: commands_of.simps) (elim conjE, simp)
  then show ?thesis using s by blast
qed

text \<open>
  C16: the same for the DMX configuration, again within one run of the device, provided it does
  not permit ArtAddress, with which the lighting network may change the port address.
\<close>

theorem dmx_config_set_then_get:
  assumes "xs_started (fw_xs (sy_fw s))" and "hmac_is_32 (ae_crypto e2)"
    and "admin_command (EV_ADMIN e1 (Some (d1, src1))) s = Some (e1, src1, h1)"
    and "ph_type h1 = ADMIN_TYPE_DMX_SET_CONFIG" and "payload_part h1 (take ADMIN_MAX_PACKET d1) = payload"
    and "dmx_config_unpack payload = Some c" and "xc_allow_artaddress c = 0"
    and "system_exec powf hz (EV_ADMIN e1 (Some (d1, src1))) s = Some s1"
    and "system_run powf hz evs s1 = Some s2"
    and "ADMIN_TYPE_DMX_SET_CONFIG \<notin> set (commands_of powf hz evs s1)"
    and "admin_command (EV_ADMIN e2 (Some (d2, src2))) s2 = Some (e2, src2, h2)"
    and "ph_type h2 = ADMIN_TYPE_DMX_GET_CONFIG"
    and "system_exec powf hz (EV_ADMIN e2 (Some (d2, src2))) s2 = Some s3"
  shows "let c' = fst (dmx_config_sanitize c)
     in answered_with ADMIN_TYPE_DMX_GET_CONFIG_RESP (ph_nonce h2) (dmx_config_pack c') src2
          (fw_sent (sy_fw s2)) (sy_fw s3)
        \<and> dmx_config_unpack (dmx_config_pack c') = Some c' \<and> (dmx_config_valid c \<longrightarrow> c' = c)"
proof -
  have cur: "dmx_setting (sy_fw s) \<noteq> None" using assms(1) by (simp add: dmx_setting_def dmx_input_get_config_def)
  have len: "length payload = DMX_CFG_WIRE_SIZE" using assms(6) by (simp add: dmx_config_unpack_def split: if_splits)
  have "dmx_config_unpack (dmx_config_pack (fst (dmx_config_sanitize c))) = Some (fst (dmx_config_sanitize c))"
    using dmx_unpack_normal [OF assms(6)] by (intro dmx_unpack_pack dmx_sanitize_normal)
  with dmxcmd.set_get [OF cur assms(2-4)] show ?thesis
    using assms(5-13) len
    by (simp add: Let_def dmx_sanitize_fields(2) dmx_sanitize_id del: system_run.simps system_exec.simps admin_command.simps)
qed

definition dmx_example :: dmx_input_config where
  "dmx_example = dmx_config_defaults\<lparr>xc_layer_enabled := 1, xc_dmx_address := 40, xc_allow_artaddress := 0\<rparr>"

lemma powered_layer: "xs_started (fw_xs (sy_fw system_powered))"
proof -
  have "fst (eth_bringup 0 0 0 0 (be_eth_attempts boot_example)) = ESP_OK"
    by (simp add: eth_bringup_def eth_attempts.simps boot_example_def try_create_eth_def Let_def fw_const)
  then show ?thesis
    by (simp add: system_powered_def app_main_power_def Let_def split_def with_node_def dmx_input_start_def)
       (simp add: boot_example_def)
qed

theorem dmx_config_set_then_get_witness:
  "\<exists>s1 s2 s3 s4. system_exec (\<lambda>p e. p) 100 session_login system_powered = Some s1
     \<and> system_exec (\<lambda>p e. p) 100 (session_event ADMIN_TYPE_DMX_SET_CONFIG session_nonce (dmx_config_pack dmx_example)) s1 = Some s2
     \<and> system_run (\<lambda>p e. p) 100 [session_login] s2 = Some s3
     \<and> system_exec (\<lambda>p e. p) 100 (session_event ADMIN_TYPE_DMX_GET_CONFIG session_nonce []) s3 = Some s4
     \<and> answered_with ADMIN_TYPE_DMX_GET_CONFIG_RESP session_nonce (dmx_config_pack dmx_example) example_client
         (fw_sent (sy_fw s3)) (sy_fw s4)"
proof -
  let ?P = "dmx_config_pack dmx_example"
  have P: "length ?P \<le> ADMIN_MAX_PAYLOAD" "length session_nonce = 16"
    by (simp_all add: dmx_pack_length fw_const session_nonce_def)
  have hm: "hmac_is_32 (ae_crypto example_env)" by (simp add: example_hmac)
  obtain s1 s2 s3 s4 where s: "system_exec (\<lambda>p e. p) 100 session_login system_powered = Some s1"
      "admin_command session_login system_powered
         = Some (example_env, example_client, header_of session_serial ADMIN_TYPE_CHALLENGE (replicate 16 0) [])"
      "admin_command (session_event ADMIN_TYPE_DMX_SET_CONFIG session_nonce ?P) s1
         = Some (example_env, example_client, header_of session_serial ADMIN_TYPE_DMX_SET_CONFIG session_nonce ?P)"
      "system_exec (\<lambda>p e. p) 100 (session_event ADMIN_TYPE_DMX_SET_CONFIG session_nonce ?P) s1 = Some s2"
      "system_run (\<lambda>p e. p) 100 [session_login] s2 = Some s3" "commands_of (\<lambda>p e. p) 100 [session_login] s2 = [ADMIN_TYPE_CHALLENGE]"
      "admin_command (session_event ADMIN_TYPE_DMX_GET_CONFIG session_nonce []) s3
         = Some (example_env, example_client, header_of session_serial ADMIN_TYPE_DMX_GET_CONFIG session_nonce [])"
      "system_exec (\<lambda>p e. p) 100 (session_event ADMIN_TYPE_DMX_GET_CONFIG session_nonce []) s3 = Some s4"
    using session_set_get [of ADMIN_TYPE_DMX_SET_CONFIG ADMIN_TYPE_DMX_GET_CONFIG ?P "\<lambda>p e. p" 100] P(1)
    by (auto simp: fw_const simp del: system_exec.simps admin_command.simps system_run.simps commands_of.simps)
  have "fw_xs (sy_fw s1) = fw_xs (sy_fw system_powered)"
    unfolding admin_event [OF s(1,2) [unfolded session_event_def]]
    by (simp add: dispatch_packet_def handle_challenge_def Let_def split: option.split prod.split)
  then have started: "xs_started (fw_xs (sy_fw s1))" using powered_layer by simp
  have ok: "dmx_config_valid dmx_example" "dmx_config_normal dmx_example" "xc_allow_artaddress dmx_example = 0"
    by (simp_all add: dmx_example_def dmx_config_valid_def dmx_config_normal_def dmx_config_defaults_def fw_const dmx_channels_def)
  have "answered_with ADMIN_TYPE_DMX_GET_CONFIG_RESP session_nonce ?P example_client (fw_sent (sy_fw s3)) (sy_fw s4)"
    using dmx_config_set_then_get [OF started hm s(3) [unfolded session_event_def] _ session_payload [OF P(2,1)]
        dmx_unpack_pack [OF ok(2)] ok(3) s(4) [unfolded session_event_def] s(5) _ s(7) [unfolded session_event_def] _
        s(8) [unfolded session_event_def]] s(6) ok(1)
    by (simp add: Let_def fw_const del: commands_of.simps) (elim conjE, simp)
  then show ?thesis using s by blast
qed

end
