(* ===== verification/Spec2Isabelle.thy ===== *)
theory Spec2Isabelle
  imports HV9910_Properties DMX_Task_Properties System_Properties
    Driver_Limits Power_Path System_Restart Signal_Loss Config_Roundtrip
begin

text \<open>
  Verification of the DriverPoE firmware (\<open>firmware/\<close>): an ESP32 luminaire powered over
  Ethernet, dimmed over Art-Net and sACN, and administered over an authenticated UDP channel.

  Parts and how they interact. \<open>main/poe_luminaire_main.c\<close> boots the modules and starts their
  tasks. The PoE monitor (\<open>components/tps2378\<close>) debounces two pins and the bus voltage and calls
  the power policy (\<open>power_manager\<close>), which caps, allows or cuts the LED driver. The LED driver
  (\<open>hv9910\<close>, \<open>hv9910_curve\<close>) owns the light: its API posts commands to a queue that one task
  drains. Three clients post commands: the policy, the DMX task (\<open>dmx_input\<close>, \<open>dmx_artnet\<close>,
  \<open>dmx_sacn\<close>) and the admin channel (\<open>admin_channel\<close>), which also reads and writes the
  configurations (\<open>driver_config\<close>, \<open>dmx_input\<close>), the secret (\<open>devid\<close>) and the boot image.
  \<open>eth_init\<close> brings up the network, \<open>voltage_sense\<close> and \<open>status_leds\<close> measure and show.

  Theories, in the order of their imports (C file: what corresponds).
    Firmware_Prelude: C integers as words, byte buffers, the collection \<open>fw_const\<close>.
    Float32_Model: the C type \<open>float\<close>, rounded to binary32 after every operation.
    Command_Queue: FreeRTOS queue; locale \<open>bounded_queue\<close>. Config_Store: NVS blobs; locale
      \<open>config_format\<close>, interpreted by both configuration modules. Network_Wire: socket
      addresses, datagrams, byte order.
    HV9910_Curve (hv9910_curve.c), HV9910_Driver (hv9910.c: record \<open>hv_state\<close> is its statics, one
      function per API call and command, \<open>hv9910_task_step\<close> one round of the task).
      HV9910_Facts and HV9910_Invariant: frames, the driver invariant \<open>hv_inv\<close>, the power-cut
      latch, the IDENTIFY blink. HV9910_Properties: reachability \<open>hv_reachable\<close> and properties.
    Driver_Limits: the output under the cap and behind a power cut, with the dimming floors.
    Driver_Config (driver_config.c), DMX_Config (configuration half of dmx_input.c),
      Device_Identity (devid.c), Voltage_Sense (voltage_sense.c), Status_Leds (status_leds.c).
      Persistent_Settings: what the three stored settings share, as locale \<open>persistent_setting\<close>
      (the value in force is the one a boot would load), interpreted for each of them.
    TPS2378_Monitor (tps2378.c: \<open>poe_monitor_step\<close> is one iteration of \<open>poe_monitor_task\<close>),
      Power_Manager (power_manager.c: \<open>evaluate\<close>, the settle timer, the event callbacks).
    DMX_Merge (merge half of dmx_input.c: source table, HTP and LTP, \<open>merge_tick\<close>),
      DMX_Merge_Facts, DMX_Merge_Properties. DMX_Receiver: the contract between the parsers and
      the merge engine as locale \<open>dmx_receiver\<close>, interpreted in DMX_Artnet (dmx_artnet.c) and
      DMX_Sacn (dmx_sacn.c). DMX_Task (\<open>dmx_input_task\<close>), DMX_Task_Properties.
    Eth_Bringup (eth_init.c): the attempts with their objects, the retries with their delays.
    Admin_Wire (admin_protocol.h and the packet primitives of admin_channel.c), Admin_Security
      (nonce pool, as an instance of locale \<open>single_use\<close>, and rate limit, with the limiter on a
      map it refines), Firmware_State (the
      statics of all modules as one record, \<open>send_packet\<close>), Admin_Ota (the OTA session),
      Admin_Channel (every handler, \<open>dispatch_packet\<close>, \<open>handle_packet\<close>, the task's loop).
      Admin_Facts: the checks of a packet as one predicate \<open>executed\<close>. Admin_Handlers: what each
      handler may change. Admin_Responses: every answer is a packet the parser accepts.
      Admin_Properties: properties of single packets, against the command set as the protocol
      numbers it (\<open>documented_command\<close>). Admin_Upload: an upload over a network
      that repeats and reorders its chunks.
    Firmware_System (poe_luminaire_main.c: \<open>app_main_init\<close>, \<open>app_main_power\<close>; an event is one
      activation of a task; \<open>system_reachable\<close>). Driver_Clients: clients of the LED driver only
      take driver steps, and without power queue nothing that lights; locales \<open>driver_client\<close> and
      \<open>guarded_client\<close>, interpreted for every client. System_Invariant: the invariant of all
      modules, event by event. System_Example: a concrete device and sessions on it, for
      witnesses. System_Properties: properties of runs. Light_Path: from a received frame or
      command to the LED. Signal_Loss: from the last frame to the configured fallback. Config_Roundtrip:
      a configuration set and read back over the admin channel, for both configurations through
      locale \<open>client_setting\<close>. Driver_Traffic: what every task but the driver's does to policy and
      queue, as locale \<open>driver_traffic\<close>, interpreted in the next two. Policy_In_Force: the power
      policy and its cap over whole runs. Power_Path: loss and return of power, from the
      monitor's readings to the LED. System_Restart: what the next boot finds after a run.

  Conventions. Machine integers are words where they can wrap and int or nat where a bound is
  proved or the type is wide enough for the life of the device (64-bit microsecond clocks).
  Errors and early returns are branches of option or status values. External calls
  (ESP-IDF, FreeRTOS, lwIP, PSA crypto, NVS, the C library's \<open>powf\<close>) are arguments: their outcomes
  arrive in records such as \<open>admin_env\<close>, \<open>nvs_outcome\<close>, \<open>task_input\<close> and \<open>boot_env\<close>, over
  which the theorems quantify. The crypto algorithms are functions in record \<open>crypto\<close>; the only law
  used of them is that an HMAC-SHA-256 has 32 bytes (\<open>hmac_is_32\<close>).

  Atomicity. An event is one activation of a task, timer callback or event-loop handler. The
  modules' mutexes and the queue order their effects; a preemption inside an activation
  that reads two modules in sequence is not modelled, nor is the sub-step interleaving of \<open>hv9910\<close>
  setters with the task.

  What the lemmas show. Per component: an invariant and its preservation by every operation
  (\<open>hv_inv\<close>, \<open>tps_coherent\<close>, \<open>drv_config_valid\<close>, \<open>dmx_config_valid\<close>, \<open>table_ok\<close>, \<open>ota_ok\<close>), the
  function each operation computes, and the round trips of its wire formats. Between components:
  refinement of the policy table by \<open>evaluate\<close>, of the limiter on a map by the rate table, and the
  contracts of the locales. Over the system: the invariant of all reachable states, darkness before and
  without power, authenticity, single use of nonces, what may be staged for boot, that the
  published policy is always the current one and its cap the one the driver ends up with, that
  settings survive a power cut, that an Art-Net or sACN frame or a command received is the level the LED
  shows, that a lost signal leaves what the configuration says, that a configuration set is the one
  read back, and that the loss of power darkens the light and its return relights it.

  Loops. Source loops are structural recursions on the table they scan, or have a measure: the
  LEDC resolution counts down from 14 bits, the Ethernet bring-up makes at most five attempts.
  Endless task loops are step functions; no fuel is used anywhere.

  Not modelled, and why. Log output (also \<open>format_src_ip\<close>), GPIO, ADC and LEDC register set-up
  beyond frequencies, resolutions and duties, delays that only pace a response, and task
  stacks and priorities: no effect on the state. The failure of \<open>sendto\<close>: a datagram counts as
  sent. The bootloader is external: \<open>fw_boot\<close> is the content of the update partition once it is
  selected for the next boot, counted from its last erase. OTA_END selects it; the OTA_BEGIN and
  OTA_CHUNKs of a further update go to the same partition and erase and overwrite it (\<open>boot_slot\<close>);
  what a failing flash call leaves there is an argument, \<open>ae_flash_left\<close>. A restart sets
  \<open>fw_restart\<close> and ends the admin task, whose call of \<open>esp_restart\<close> does not return
  (\<open>admin_iteration\<close>); tasks that still run until the reset are covered. The run after it, as after
  a power cut, is a new \<open>app_main_init\<close> from the blobs the storage then holds (\<open>next_boot\<close>), with
  any outcome of its other calls. A write to NVS that reports a failure may have reached the flash or
  not (\<open>nv_lands\<close>); a power cut in the middle of a successful one is not modelled.
  \<open>tools/\<close> and \<open>tests/\<close> are Python host programs, \<open>hardware/\<close> and \<open>manual/\<close> are no code.
\<close>

end
